(* ===== verification/Prelude.thy ===== *)
theory Prelude
  imports Main "HOL-Library.Char_ord" "HOL-Library.List_Lexorder" "HOL-Library.Product_Lexorder"
begin

text \<open>
  Shared vocabulary of the development: the values every component uses (uuids, instants,
  errors), the parts of the Python language the sources call (\<open>str.strip\<close>, \<open>str.lower\<close>,
  \<open>str.split\<close>, decimal formatting and parsing), the SQL idioms of the repositories
  (\<open>UPDATE .. WHERE\<close>, \<open>scalar_one_or_none\<close>) as list functions, and the lemma collections the
  component theories extend.

  Strings are lists of characters; the models read a Python \<open>str\<close> as its ASCII characters.
  Instants are integers counting microseconds, so a \<open>timedelta\<close> is a plain integer.
\<close>

named_theorems repo_simps "rewrite rules of the repository operations"
named_theorems frame_simps "what an operation leaves unchanged"

section \<open>Values\<close>

type_synonym uuid = nat
type_synonym instant = int

definition seconds :: "int \<Rightarrow> int" where
  "seconds n = n * 1000000"

definition minutes :: "int \<Rightarrow> int" where
  "minutes n = seconds (60 * n)"

definition hours :: "int \<Rightarrow> int" where
  "hours n = minutes (60 * n)"

definition days :: "int \<Rightarrow> int" where
  "days n = hours (24 * n)"

lemmas time_defs = seconds_def minutes_def hours_def days_def

text \<open>
  The exceptions that leave a modelled operation. \<open>HTTPException\<close> carries the status code
  and the detail text; the others end in a 500 response unless a handler catches them.
\<close>

datatype err =
    HTTPException nat string
  | IntegrityError
  | MultipleResultsFound
  | ProgrammingError
  | DataError
  | InvalidRequestError
  | TimeoutError
  | RuntimeError
  | ValueError
  | OverflowError
  | KeyError
  | LLMError
  | TypeError
  | AttributeError
  | IndexError

type_synonym 'a res = "err + 'a"

fun status_of :: "'a res \<Rightarrow> nat option" where
  "status_of (Inl (HTTPException c _)) = Some c"
| "status_of _ = None"

definition is_ok :: "'e + 'a \<Rightarrow> bool" where
  "is_ok r = (case r of Inl _ \<Rightarrow> False | Inr _ \<Rightarrow> True)"

lemma is_ok_simps [simp]: "is_ok (Inr x)" "\<not> is_ok (Inl e)"
  by (simp_all add: is_ok_def)

lemma is_okE: "is_ok r \<Longrightarrow> (\<And>x. r = Inr x \<Longrightarrow> P) \<Longrightarrow> P"
  by (cases r) auto

lemma map_sum_eq_Inr: "map_sum f g r = Inr y \<longleftrightarrow> (\<exists>x. r = Inr x \<and> y = g x)"
  by (cases r) auto

text \<open>A step that may raise, followed by the rest of the handler.\<close>

definition andthen :: "('e + 'a) \<times> 's \<Rightarrow> ('a \<Rightarrow> 's \<Rightarrow> ('e + 'b) \<times> 's) \<Rightarrow> ('e + 'b) \<times> 's" where
  "andthen m k = (case m of (Inl e, s) \<Rightarrow> (Inl e, s) | (Inr x, s) \<Rightarrow> k x s)"

lemma andthen_simps [simp]:
  "andthen (Inl e, s) k = (Inl e, s)"
  "andthen (Inr x, s) k = k x s"
  by (simp_all add: andthen_def)

lemma andthen_InrE:
  assumes "andthen m k = (Inr y, t)"
  obtains x s where "m = (Inr x, s)" and "k x s = (Inr y, t)"
  using assms by (auto simp: andthen_def split: prod.splits sum.splits)

lemma andthen_split:
  "P (andthen m k) \<longleftrightarrow>
     (\<forall>e s. m = (Inl e, s) \<longrightarrow> P (Inl e, s)) \<and> (\<forall>x s. m = (Inr x, s) \<longrightarrow> P (k x s))"
  by (auto simp: andthen_def split: prod.splits sum.splits)

section \<open>Python strings\<close>

definition py_space :: "char \<Rightarrow> bool" where
  "py_space c = (let n = of_char c :: nat in n \<in> {9, 10, 11, 12, 13, 28, 29, 30, 31, 32})"

definition lstrip :: "string \<Rightarrow> string" where
  "lstrip s = dropWhile py_space s"

definition strip :: "string \<Rightarrow> string" where
  "strip s = rev (lstrip (rev (lstrip s)))"

definition lower_char :: "char \<Rightarrow> char" where
  "lower_char c = (let n = of_char c :: nat in if 65 \<le> n \<and> n \<le> 90 then char_of (n + 32) else c)"

definition upper_char :: "char \<Rightarrow> char" where
  "upper_char c = (let n = of_char c :: nat in if 97 \<le> n \<and> n \<le> 122 then char_of (n - 32) else c)"

definition lower :: "string \<Rightarrow> string" where
  "lower s = map lower_char s"

definition is_letter :: "char \<Rightarrow> bool" where
  "is_letter c = (let n = of_char c :: nat in (65 \<le> n \<and> n \<le> 90) \<or> (97 \<le> n \<and> n \<le> 122))"

text \<open>\<open>str.title\<close>: a letter is upper case after a non-letter and lower case after a letter.\<close>

fun title_from :: "bool \<Rightarrow> string \<Rightarrow> string" where
  "title_from after [] = []"
| "title_from after (c # cs) =
     (if is_letter c then (if after then lower_char c else upper_char c) else c)
       # title_from (is_letter c) cs"

definition title :: "string \<Rightarrow> string" where
  "title s = title_from False s"

lemma lower_char_idem [simp]: "lower_char (lower_char c) = lower_char c"
proof (cases "65 \<le> (of_char c :: nat) \<and> (of_char c :: nat) \<le> 90")
  case True
  then have "of_char (char_of (of_char c + 32 :: nat) :: char) = (of_char c + 32 :: nat)"
    by simp
  with True show ?thesis by (simp add: lower_char_def Let_def)
next
  case False
  then show ?thesis by (auto simp: lower_char_def Let_def)
qed

lemma lower_idem [simp]: "lower (lower s) = lower s"
  by (simp add: lower_def)

lemma lower_Nil_iff [simp]: "lower s = [] \<longleftrightarrow> s = []"
  by (simp add: lower_def)

lemma length_lower [simp]: "length (lower s) = length s"
  by (simp add: lower_def)

lemma dropWhile_length: "length (dropWhile P xs) \<le> length xs"
  by (induction xs) auto

lemma strip_hd_not_space: "strip s \<noteq> [] \<Longrightarrow> \<not> py_space (last (strip s))"
  unfolding strip_def lstrip_def by (simp add: last_rev hd_dropWhile)

lemma length_strip: "length (strip s) \<le> length s"
  unfolding strip_def lstrip_def
  by (metis dropWhile_length le_trans length_rev)

section \<open>Decimal numbers\<close>

definition is_digit :: "char \<Rightarrow> bool" where
  "is_digit c = (let n = of_char c :: nat in 48 \<le> n \<and> n \<le> 57)"

definition digit_char :: "nat \<Rightarrow> char" where
  "digit_char d = char_of (48 + d)"

definition digit_val :: "char \<Rightarrow> nat" where
  "digit_val c = of_char c - 48"

fun nat_str :: "nat \<Rightarrow> string" where
  "nat_str n = (if n < 10 then [digit_char n] else nat_str (n div 10) @ [digit_char (n mod 10)])"

declare nat_str.simps [simp del]

definition str_nat :: "string \<Rightarrow> nat" where
  "str_nat s = foldl (\<lambda>n c. 10 * n + digit_val c) 0 s"

definition int_str :: "int \<Rightarrow> string" where
  "int_str i = (if i < 0 then CHR ''-'' # nat_str (nat (- i)) else nat_str (nat i))"

text \<open>\<open>f"{n:0wd}"\<close>: the decimal numeral, padded with zeros on the left to width \<open>w\<close>.\<close>

definition pad0 :: "nat \<Rightarrow> nat \<Rightarrow> string" where
  "pad0 w n = replicate (w - length (nat_str n)) CHR ''0'' @ nat_str n"

lemma digit_val_char [simp]: "d < 10 \<Longrightarrow> digit_val (digit_char d) = d"
  by (simp add: digit_val_def digit_char_def)

lemma is_digit_char [simp]: "d < 10 \<Longrightarrow> is_digit (digit_char d)"
  by (simp add: is_digit_def digit_char_def Let_def)

lemma is_digit_0 [simp]: "is_digit CHR ''0''"
  by (simp add: is_digit_def)

lemma str_nat_append: "str_nat (xs @ ys) = foldl (\<lambda>n c. 10 * n + digit_val c) (str_nat xs) ys"
  by (simp add: str_nat_def)

lemma str_nat_nat_str [simp]: "str_nat (nat_str n) = n"
proof (induction n rule: nat_str.induct)
  case (1 n)
  show ?case
  proof (cases "n < 10")
    case True
    then show ?thesis by (simp add: nat_str.simps [of n] str_nat_def)
  next
    case False
    with "1" have "str_nat (nat_str (n div 10)) = n div 10" by simp
    with False show ?thesis
      by (simp add: nat_str.simps [of n] str_nat_append)
  qed
qed

lemma nat_str_digits [simp]: "list_all is_digit (nat_str n)"
proof (induction n rule: nat_str.induct)
  case (1 n)
  then show ?case by (cases "n < 10") (simp_all add: nat_str.simps [of n])
qed

lemma nat_str_nonempty [simp]: "nat_str n \<noteq> []"
  by (subst nat_str.simps) simp

lemma nat_str_inj [simp]: "nat_str m = nat_str n \<longleftrightarrow> m = n"
  by (metis str_nat_nat_str)

lemma str_nat_zeros: "str_nat (replicate k CHR ''0'' @ s) = str_nat s"
  by (induction k) (simp_all add: str_nat_def digit_val_def)

lemma str_nat_pad0 [simp]: "str_nat (pad0 w n) = n"
  by (simp add: pad0_def str_nat_zeros)

lemma pad0_digits [simp]: "list_all is_digit (pad0 w n)"
  using nat_str_digits [of n] by (auto simp: pad0_def list_all_iff)

lemma pad0_nonempty [simp]: "pad0 w n \<noteq> []"
  by (simp add: pad0_def)

lemma pad0_inj [simp]: "pad0 w m = pad0 w n \<longleftrightarrow> m = n"
  by (metis str_nat_pad0)

section \<open>Tables as lists of rows\<close>

text \<open>\<open>UPDATE t SET .. WHERE p\<close>: every row that satisfies the predicate is rewritten.\<close>

definition update_where :: "('a \<Rightarrow> bool) \<Rightarrow> ('a \<Rightarrow> 'a) \<Rightarrow> 'a list \<Rightarrow> 'a list" where
  "update_where p f xs = map (\<lambda>x. if p x then f x else x) xs"

text \<open>\<open>Result.scalar_one_or_none\<close>: more than one row raises.\<close>

fun scalar_one_or_none :: "'a list \<Rightarrow> 'a option res" where
  "scalar_one_or_none [] = Inr None"
| "scalar_one_or_none [x] = Inr (Some x)"
| "scalar_one_or_none (x # y # zs) = Inl MultipleResultsFound"

definition count_where :: "('a \<Rightarrow> bool) \<Rightarrow> 'a list \<Rightarrow> nat" where
  "count_where p xs = length (filter p xs)"

lemma set_update_where: "set (update_where p f xs) = (\<lambda>x. if p x then f x else x) ` set xs"
  by (auto simp: update_where_def)

lemma length_update_where [simp]: "length (update_where p f xs) = length xs"
  by (simp add: update_where_def)

lemma map_update_where [simp]:
  "(\<And>x. p x \<Longrightarrow> g (f x) = g x) \<Longrightarrow> map g (update_where p f xs) = map g xs"
  by (simp add: update_where_def)

lemma update_where_Nil [simp]: "update_where p f [] = []"
  by (simp add: update_where_def)

lemma update_where_Cons [simp]:
  "update_where p f (x # xs) = (if p x then f x else x) # update_where p f xs"
  by (simp add: update_where_def)

lemma update_where_none: "(\<And>x. x \<in> set xs \<Longrightarrow> \<not> p x) \<Longrightarrow> update_where p f xs = xs"
  by (induction xs) auto

lemma filter_update_where:
  "(\<And>x. p x \<Longrightarrow> q (f x) \<longleftrightarrow> q x) \<Longrightarrow>
     filter q (update_where p f xs) = update_where p f (filter q xs)"
  by (induction xs) auto

lemma count_update_where:
  "(\<And>x. x \<in> set xs \<Longrightarrow> p x \<Longrightarrow> q (f x) \<longleftrightarrow> q x) \<Longrightarrow>
     count_where q (update_where p f xs) = count_where q xs"
  by (induction xs) (auto simp: count_where_def)

lemma count_where_simps [simp]:
  "count_where p [] = 0"
  "count_where p (x # xs) = (if p x then Suc (count_where p xs) else count_where p xs)"
  "count_where p (xs @ ys) = count_where p xs + count_where p ys"
  by (simp_all add: count_where_def)

lemma count_where_pos: "0 < count_where p xs \<longleftrightarrow> (\<exists>x \<in> set xs. p x)"
  by (auto simp: count_where_def filter_empty_conv)

lemma count_where_filter: "count_where p (filter q xs) = count_where (\<lambda>x. p x \<and> q x) xs"
  by (induction xs) auto

lemma count_where_filter_le: "count_where p (filter q xs) \<le> count_where p xs"
  by (induction xs) auto

lemma count_where_mono: "(\<And>x. p x \<Longrightarrow> q x) \<Longrightarrow> count_where p xs \<le> count_where q xs"
  by (induction xs) (auto intro: le_SucI)

lemma set_map_filter: "set (List.map_filter f xs) = {y. \<exists>x \<in> set xs. f x = Some y}"
  by (induction xs) (auto simp: List.map_filter_simps split: option.splits)

lemma find_Some_in: "find p xs = Some x \<Longrightarrow> x \<in> set xs \<and> p x"
  by (auto simp: find_Some_iff)

lemma find_None_all: "find p xs = None \<longleftrightarrow> (\<forall>x \<in> set xs. \<not> p x)"
  by (auto simp: find_None_iff)

lemma find_append: "find p (xs @ ys) = (case find p xs of None \<Rightarrow> find p ys | Some x \<Rightarrow> Some x)"
  by (induction xs) auto

lemma find_cong_set: "(\<And>x. x \<in> set xs \<Longrightarrow> p x = q x) \<Longrightarrow> find p xs = find q xs"
  by (induction xs) auto

lemma find_update_where:
  "(\<And>x. p x \<Longrightarrow> q (f x) \<longleftrightarrow> q x) \<Longrightarrow>
     find q (update_where p f xs) = map_option (\<lambda>x. if p x then f x else x) (find q xs)"
  by (induction xs) auto

lemma find_filter: "find p (filter q xs) = find (\<lambda>x. q x \<and> p x) xs"
  by (induction xs) auto

text \<open>A row is determined by a key with distinct values, so a lookup by key finds it.\<close>

lemma find_by_key:
  assumes "distinct (map k xs)" "x \<in> set xs"
  shows "find (\<lambda>y. k y = k x) xs = Some x"
  using assms
proof (induction xs)
  case (Cons y ys)
  then show ?case by (cases "x = y") (auto simp: image_iff)
qed simp

lemma key_unique: "distinct (map k xs) \<Longrightarrow> x \<in> set xs \<Longrightarrow> y \<in> set xs \<Longrightarrow> k x = k y \<Longrightarrow> x = y"
  by (metis distinct_map inj_onD)

lemma scalar_SomeD: "scalar_one_or_none xs = Inr (Some x) \<Longrightarrow> xs = [x]"
  by (cases xs rule: scalar_one_or_none.cases) auto

lemma scalar_NoneD: "scalar_one_or_none xs = Inr None \<Longrightarrow> xs = []"
  by (cases xs rule: scalar_one_or_none.cases) auto

end
