(* ===== verification/ImportState.thy ===== *)
theory ImportState
  imports Prelude
begin

text \<open>
  The data of an import (\<^verbatim>\<open>app/services/importer.py\<close>): the rows of the uploaded sections as Python dicts,
  the rows of the preview, and the state of the wizard, which the table of import sessions keeps.
\<close>

text \<open>
  A value of \<open>csv.DictReader\<close>: a text, \<open>None\<close> for a missing field, or the list of surplus fields,
  which stands under the key \<open>None\<close>.
\<close>

datatype cell = CText string | CNone | CRest "string list"

type_synonym row = "(string option \<times> cell) list"
type_synonym sections = "(string \<times> row list) list"

type_synonym out_row = "(string \<times> cell) list"
type_synonym column_mapping = "(string \<times> string option) list"

record import_state =
  st_sections :: sections
  st_column_mappings :: "(string \<times> column_mapping) list"
  st_enum_divergences :: "(string \<times> string list) list"
  st_confirmed :: "(string \<times> (string \<times> string) list) list"
  st_preview :: "(string \<times> out_row list) list"

end
