(* ===== verification/Models.thy ===== *)
theory Models
  imports ImportState
begin

text \<open>
  The data model: one record per ORM class of \<^verbatim>\<open>app/models/\<close> with its columns, the
  database as a record of tables, and the database session a request works in.

  A session holds the committed database, the database as the open transaction sees it, and
  the transaction-local setting \<open>app.current_household_id\<close>. \<open>commit\<close> publishes the working
  copy, \<open>rollback\<close> discards it; both end the transaction and with it the setting, because
  \<open>set_config(.., true)\<close> is local to the transaction. The row-level security predicate is the
  one of migration 0014: a tenant row is visible only under its own household's setting.
  Constraints of the schema that an operation can violate (unique columns, foreign keys) are
  checked by the insert operations and answered with \<open>IntegrityError\<close>.
\<close>

section \<open>Rows\<close>

datatype household_role = Admin | Member

datatype invitation_status = Pending | Accepted | Declined | Revoked

record user =
  u_id :: uuid
  u_username :: "string option"
  u_password_hash :: "string option"
  u_google_sub :: "string option"
  u_email :: "string option"
  u_display_name :: string
  u_picture_url :: "string option"
  u_active_household_id :: "uuid option"
  u_created_at :: instant
  u_last_seen_at :: instant
  u_login_attempts :: nat
  u_locked_until :: "instant option"

record household =
  h_id :: uuid
  h_name :: string
  h_created_at :: instant
  h_created_by :: uuid
  h_is_guest_accessible :: bool
  h_deleted_at :: "instant option"

record household_member =
  m_id :: uuid
  m_household_id :: uuid
  m_user_id :: uuid
  m_role :: household_role
  m_invited_by :: "uuid option"
  m_invited_at :: "instant option"
  m_accepted_at :: "instant option"
  m_joined_at :: instant

record pending_invitation =
  i_id :: uuid
  i_household_id :: uuid
  i_invited_email :: "string option"
  i_invited_role :: household_role
  i_status :: invitation_status
  i_token_hash :: string
  i_display_token_ciphertext :: "string option"
  i_invited_by_user_id :: uuid
  i_invited_at :: instant
  i_expires_at :: instant
  i_accepted_at :: "instant option"
  i_revoked_at :: "instant option"

record guest_token =
  g_id :: uuid
  g_household_id :: uuid
  g_token_hash :: string
  g_display_token_ciphertext :: "string option"
  g_created_by_user_id :: uuid
  g_created_at :: instant
  g_expires_at :: "instant option"
  g_revoked_at :: "instant option"

record refresh_token =
  r_id :: uuid
  r_user_id :: uuid
  r_token_hash :: string
  r_expires_at :: instant
  r_revoked :: bool
  r_rotated_at :: "instant option"
  r_created_at :: instant

text \<open>
  The tenant tables. A \<open>float\<close> column is kept as the text Python prints for it, a timestamp
  the rows are stamped with as its date part and the instant it orders by.
\<close>

record brew_log_row =
  b_id :: uuid
  b_household_id :: "uuid option"
  b_catalog_id :: "uuid option"
  b_brew_method :: "string option"
  b_dose_g :: "string option"
  b_yield_g :: "string option"
  b_time_sec :: "int option"
  b_rating :: "int option"
  b_notes :: "string option"
  b_sheets_id :: "string option"
  b_bag_id :: "string option"
  b_machine_id :: "string option"
  b_grinder_id :: "string option"
  b_basket_id :: "string option"
  b_grind_setting :: "string option"
  b_shot_eligibility :: "string option"
  b_taste_summary :: "string option"
  b_ai_feedback :: "string option"
  b_storage_method :: "string option"
  b_idempotency_key :: "string option"
  b_idempotency_request_hash :: "string option"
  b_brewed_at :: instant

record catalog_row =
  c_id :: uuid
  c_household_id :: "uuid option"
  c_roaster :: string
  c_bean_name :: string
  c_origin :: "string option"
  c_process :: "string option"
  c_roast_level :: "string option"
  c_notes :: "string option"
  c_sheets_id :: "string option"
  c_product_url :: "string option"
  c_local_image_path :: "string option"

record inventory_row =
  v_id :: uuid
  v_household_id :: "uuid option"
  v_catalog_id :: "uuid option"
  v_roast_date :: "string option"
  v_notes :: "string option"
  v_sheets_id :: "string option"
  v_sheets_catalog_id :: "string option"
  v_beans :: "string option"
  v_display_name :: "string option"
  v_roast_level :: "string option"
  v_status :: "string option"
  v_storage_method :: "string option"

record hardware_row =
  w_id :: uuid
  w_household_id :: "uuid option"
  w_name :: string
  w_category :: string
  w_notes :: "string option"
  w_sheets_id :: "string option"
  w_product_url :: "string option"
  w_local_image_path :: "string option"

record maintenance_row =
  n_id :: uuid
  n_household_id :: "uuid option"
  n_hardware_id :: "uuid option"
  n_action :: string
  n_performed_at :: instant
  n_notes :: "string option"
  n_sheets_id :: "string option"
  n_sheets_hardware_id :: "string option"

record import_session =
  is_id :: uuid
  is_household_id :: uuid
  is_created_by :: uuid
  is_state :: "import_state option"
  is_expires_at :: instant

record database =
  users :: "user list"
  households :: "household list"
  members :: "household_member list"
  invitations :: "pending_invitation list"
  guest_tokens :: "guest_token list"
  refresh_tokens :: "refresh_token list"
  brew_log :: "brew_log_row list"
  catalog :: "catalog_row list"
  inventory_bags :: "inventory_row list"
  hardware :: "hardware_row list"
  maintenance_log :: "maintenance_row list"
  import_sessions :: "import_session list"

section \<open>Sessions and transactions\<close>

record session =
  committed :: database
  work :: database
  guc :: "uuid option"

definition commit :: "session \<Rightarrow> session" where
  "commit s = s\<lparr>committed := work s, guc := None\<rparr>"

definition rollback :: "session \<Rightarrow> session" where
  "rollback s = s\<lparr>work := committed s, guc := None\<rparr>"

text \<open>The end of \<open>async with get_session_factory()() as session\<close>: open work is rolled back.\<close>

definition open_session :: "database \<Rightarrow> session" where
  "open_session d = \<lparr>committed = d, work = d, guc = None\<rparr>"

definition close_session :: "session \<Rightarrow> database" where
  "close_session s = committed (rollback s)"

definition set_household_context :: "uuid \<Rightarrow> session \<Rightarrow> session" where
  "set_household_context hid s = s\<lparr>guc := Some hid\<rparr>"

definition current_household_id :: "session \<Rightarrow> uuid option" where
  "current_household_id s = guc s"

text \<open>
  The policy \<open>household_id = NULLIF(current_setting(..), '')::uuid\<close>: a comparison with NULL is
  not true, so without a setting no row passes.
\<close>

definition rls_pass :: "session \<Rightarrow> uuid option \<Rightarrow> bool" where
  "rls_pass s row_household =
     (case (guc s, row_household) of (Some h, Some h') \<Rightarrow> h = h' | _ \<Rightarrow> False)"

text \<open>The five tenant tables as a transaction under the policy sees them.\<close>

definition visible_brew_log :: "session \<Rightarrow> brew_log_row list" where
  "visible_brew_log s = filter (\<lambda>r. rls_pass s (b_household_id r)) (brew_log (work s))"

definition visible_catalog :: "session \<Rightarrow> catalog_row list" where
  "visible_catalog s = filter (\<lambda>r. rls_pass s (c_household_id r)) (catalog (work s))"

definition visible_inventory :: "session \<Rightarrow> inventory_row list" where
  "visible_inventory s = filter (\<lambda>r. rls_pass s (v_household_id r)) (inventory_bags (work s))"

definition visible_hardware :: "session \<Rightarrow> hardware_row list" where
  "visible_hardware s = filter (\<lambda>r. rls_pass s (w_household_id r)) (hardware (work s))"

definition visible_maintenance :: "session \<Rightarrow> maintenance_row list" where
  "visible_maintenance s = filter (\<lambda>r. rls_pass s (n_household_id r)) (maintenance_log (work s))"

definition upd_work :: "(database \<Rightarrow> database) \<Rightarrow> session \<Rightarrow> session" where
  "upd_work f s = s\<lparr>work := f (work s)\<rparr>"

text \<open>A request that ran to a result leaves behind what was committed.\<close>

definition after_request :: "'a \<times> session \<Rightarrow> database" where
  "after_request out = close_session (snd out)"

lemma session_simps [simp]:
  "committed (commit s) = work s" "work (commit s) = work s" "guc (commit s) = None"
  "committed (rollback s) = committed s" "work (rollback s) = committed s"
  "guc (rollback s) = None"
  "committed (set_household_context h s) = committed s"
  "work (set_household_context h s) = work s"
  "guc (set_household_context h s) = Some h"
  "close_session s = committed s"
  "committed (upd_work f s) = committed s" "work (upd_work f s) = f (work s)"
  "guc (upd_work f s) = guc s"
  "work (open_session d) = d" "committed (open_session d) = d" "guc (open_session d) = None"
  by (simp_all add: commit_def rollback_def set_household_context_def close_session_def
      open_session_def upd_work_def)

lemma rls_pass_simps [simp]:
  "guc s = None \<Longrightarrow> \<not> rls_pass s h"
  "guc s = Some k \<Longrightarrow> rls_pass s h \<longleftrightarrow> h = Some k"
  by (auto simp: rls_pass_def split: option.splits)

section \<open>Well-formed databases\<close>

text \<open>
  The schema's constraints: distinct primary keys, the unique columns, one active guest token
  per household (the partial index of migration 0015), and the foreign keys of the membership,
  invitation and guest-token tables.
\<close>

definition live_household :: "database \<Rightarrow> uuid \<Rightarrow> bool" where
  "live_household d hid =
     list_ex (\<lambda>h. h_id h = hid \<and> h_deleted_at h = None) (households d)"

definition active_guest :: "guest_token \<Rightarrow> bool" where
  "active_guest g = (g_revoked_at g = None)"

definition wf_db :: "database \<Rightarrow> bool" where
  "wf_db d \<longleftrightarrow>
     distinct (map u_id (users d))
   \<and> distinct (map h_id (households d))
   \<and> distinct (map m_id (members d))
   \<and> distinct (map (\<lambda>m. (m_household_id m, m_user_id m)) (members d))
   \<and> distinct (map i_id (invitations d))
   \<and> distinct (map i_token_hash (invitations d))
   \<and> distinct (map g_id (guest_tokens d))
   \<and> distinct (map g_token_hash (guest_tokens d))
   \<and> distinct (map g_household_id (filter active_guest (guest_tokens d)))
   \<and> distinct (map r_id (refresh_tokens d))
   \<and> distinct (map r_token_hash (refresh_tokens d))
   \<and> (\<forall>m \<in> set (members d). m_household_id m \<in> h_id ` set (households d)
        \<and> m_user_id m \<in> u_id ` set (users d))
   \<and> (\<forall>i \<in> set (invitations d). i_household_id i \<in> h_id ` set (households d))
   \<and> (\<forall>g \<in> set (guest_tokens d). g_household_id g \<in> h_id ` set (households d))
   \<and> (\<forall>r \<in> set (refresh_tokens d). r_user_id r \<in> u_id ` set (users d))"

lemma wf_dbD:
  assumes "wf_db d"
  shows "distinct (map u_id (users d))"
    and "distinct (map h_id (households d))"
    and "distinct (map m_id (members d))"
    and "distinct (map (\<lambda>m. (m_household_id m, m_user_id m)) (members d))"
    and "distinct (map i_id (invitations d))"
    and "distinct (map i_token_hash (invitations d))"
    and "distinct (map g_id (guest_tokens d))"
    and "distinct (map g_token_hash (guest_tokens d))"
    and "distinct (map g_household_id (filter active_guest (guest_tokens d)))"
    and "distinct (map r_id (refresh_tokens d))"
    and "distinct (map r_token_hash (refresh_tokens d))"
    and "\<And>m. m \<in> set (members d) \<Longrightarrow> m_household_id m \<in> h_id ` set (households d)"
    and "\<And>m. m \<in> set (members d) \<Longrightarrow> m_user_id m \<in> u_id ` set (users d)"
    and "\<And>i. i \<in> set (invitations d) \<Longrightarrow> i_household_id i \<in> h_id ` set (households d)"
    and "\<And>g. g \<in> set (guest_tokens d) \<Longrightarrow> g_household_id g \<in> h_id ` set (households d)"
    and "\<And>r. r \<in> set (refresh_tokens d) \<Longrightarrow> r_user_id r \<in> u_id ` set (users d)"
  using assms unfolding wf_db_def by blast+

end
