(* ===== verification/UserRepo.thy ===== *)
theory UserRepo
  imports Models
begin

text \<open>
  \<^verbatim>\<open>app/repos/sql/user.py\<close>: lookups, creation and the login state of the \<open>users\<close> table,
  and the persisted active household. \<open>set_active_household\<close> and \<open>clear_active_household\<close>
  commit; every other write is left to the caller's transaction.
\<close>

section \<open>Lookups\<close>

definition get_user_by_id :: "session \<Rightarrow> uuid \<Rightarrow> user option" where
  "get_user_by_id s uid = find (\<lambda>u. u_id u = uid) (users (work s))"

definition username_is :: "string \<Rightarrow> user \<Rightarrow> bool" where
  "username_is username u = (map_option lower (u_username u) = Some (lower username))"

definition get_by_username :: "session \<Rightarrow> string \<Rightarrow> user option res" where
  "get_by_username s username =
     scalar_one_or_none (filter (username_is username) (users (work s)))"

definition get_by_google_sub :: "session \<Rightarrow> string \<Rightarrow> user option" where
  "get_by_google_sub s sub = find (\<lambda>u. u_google_sub u = Some sub) (users (work s))"

section \<open>Writes\<close>

text \<open>
  \<open>INSERT INTO users\<close>: primary key, the unique columns \<open>username\<close> and \<open>google_sub\<close>, and
  the check \<open>users_has_identity\<close>.
\<close>

definition create_user ::
  "uuid \<Rightarrow> instant \<Rightarrow> string option \<Rightarrow> string option \<Rightarrow> string option \<Rightarrow> string option \<Rightarrow> string
     \<Rightarrow> string option \<Rightarrow> session \<Rightarrow> user res \<times> session" where
  "create_user nid db_now username password_hash google_sub email display_name picture_url s =
     (let u = \<lparr>u_id = nid, u_username = username, u_password_hash = password_hash,
               u_google_sub = google_sub, u_email = email, u_display_name = display_name,
               u_picture_url = picture_url, u_active_household_id = None, u_created_at = db_now,
               u_last_seen_at = db_now, u_login_attempts = 0, u_locked_until = None\<rparr>
      in if list_ex (\<lambda>v. u_id v = nid
              \<or> (username \<noteq> None \<and> u_username v = username)
              \<or> (google_sub \<noteq> None \<and> u_google_sub v = google_sub)) (users (work s))
            \<or> (username = None \<and> google_sub = None)
         then (Inl IntegrityError, s)
         else (Inr u, upd_work (\<lambda>d. d\<lparr>users := users d @ [u]\<rparr>) s))"

definition map_user :: "uuid \<Rightarrow> (user \<Rightarrow> user) \<Rightarrow> session \<Rightarrow> session" where
  "map_user uid f = upd_work (\<lambda>d. d\<lparr>users := update_where (\<lambda>u. u_id u = uid) f (users d)\<rparr>)"

text \<open>
  First the counter is incremented, then the row is locked for fifteen minutes if the counter
  is at least ten and no lock is set.
\<close>

definition increment_login_attempts :: "instant \<Rightarrow> uuid \<Rightarrow> session \<Rightarrow> session" where
  "increment_login_attempts db_now uid s =
     (let s1 = map_user uid (\<lambda>u. u\<lparr>u_login_attempts := u_login_attempts u + 1\<rparr>) s
      in upd_work (\<lambda>d. d\<lparr>users := update_where
           (\<lambda>u. u_id u = uid \<and> 10 \<le> u_login_attempts u \<and> u_locked_until u = None)
           (\<lambda>u. u\<lparr>u_locked_until := Some (db_now + minutes 15)\<rparr>) (users d)\<rparr>) s1)"

definition reset_login_state :: "uuid \<Rightarrow> session \<Rightarrow> session" where
  "reset_login_state uid = map_user uid (\<lambda>u. u\<lparr>u_login_attempts := 0, u_locked_until := None\<rparr>)"

definition update_password_hash :: "uuid \<Rightarrow> string \<Rightarrow> session \<Rightarrow> session" where
  "update_password_hash uid h = map_user uid (\<lambda>u. u\<lparr>u_password_hash := Some h\<rparr>)"

definition update_last_seen :: "instant \<Rightarrow> uuid \<Rightarrow> session \<Rightarrow> session" where
  "update_last_seen db_now uid = map_user uid (\<lambda>u. u\<lparr>u_last_seen_at := db_now\<rparr>)"

text \<open>The foreign key to \<open>households\<close> is checked by the statement.\<close>

definition set_active_household :: "uuid \<Rightarrow> uuid \<Rightarrow> session \<Rightarrow> unit res \<times> session" where
  "set_active_household uid hid s =
     (if list_ex (\<lambda>h. h_id h = hid) (households (work s))
      then (Inr (), commit (map_user uid (\<lambda>u. u\<lparr>u_active_household_id := Some hid\<rparr>) s))
      else (Inl IntegrityError, s))"

definition clear_active_household :: "uuid \<Rightarrow> session \<Rightarrow> session" where
  "clear_active_household uid s =
     commit (map_user uid (\<lambda>u. u\<lparr>u_active_household_id := None\<rparr>) s)"

section \<open>Lemmas\<close>

lemma map_user_frame [simp, frame_simps]:
  "households (work (map_user uid f s)) = households (work s)"
  "members (work (map_user uid f s)) = members (work s)"
  "invitations (work (map_user uid f s)) = invitations (work s)"
  "guest_tokens (work (map_user uid f s)) = guest_tokens (work s)"
  "refresh_tokens (work (map_user uid f s)) = refresh_tokens (work s)"
  "brew_log (work (map_user uid f s)) = brew_log (work s)"
  "catalog (work (map_user uid f s)) = catalog (work s)"
  "inventory_bags (work (map_user uid f s)) = inventory_bags (work s)"
  "hardware (work (map_user uid f s)) = hardware (work s)"
  "maintenance_log (work (map_user uid f s)) = maintenance_log (work s)"
  "import_sessions (work (map_user uid f s)) = import_sessions (work s)"
  "committed (map_user uid f s) = committed s"
  "guc (map_user uid f s) = guc s"
  by (simp_all add: map_user_def)

lemma users_map_user [repo_simps]:
  "users (work (map_user uid f s)) = update_where (\<lambda>u. u_id u = uid) f (users (work s))"
  by (simp add: map_user_def)

lemma user_ids_map_user:
  "(\<And>u. u_id (f u) = u_id u) \<Longrightarrow>
     map u_id (users (work (map_user uid f s))) = map u_id (users (work s))"
  by (simp add: users_map_user)

lemma user_id_set_map_user:
  "(\<And>u. u_id (f u) = u_id u) \<Longrightarrow>
     u_id ` set (users (work (map_user uid f s))) = u_id ` set (users (work s))"
  using user_ids_map_user [of f uid s] by (metis set_map)

lemma get_user_map_user:
  "(\<And>u. u_id (f u) = u_id u) \<Longrightarrow>
     get_user_by_id (map_user uid f s) v
       = map_option (\<lambda>u. if v = uid then f u else u) (get_user_by_id s v)"
proof -
  assume id: "\<And>u. u_id (f u) = u_id u"
  have "find (\<lambda>u. u_id u = v) (update_where (\<lambda>u. u_id u = uid) f xs)
      = map_option (\<lambda>u. if v = uid then f u else u) (find (\<lambda>u. u_id u = v) xs)" for xs
    by (induction xs) (auto simp: id)
  then show ?thesis by (simp add: get_user_by_id_def users_map_user)
qed

lemma get_user_by_id_id: "get_user_by_id s uid = Some u \<Longrightarrow> u_id u = uid"
  by (auto simp: get_user_by_id_def dest: find_Some_in)

lemma get_user_by_id_mem: "get_user_by_id s uid = Some u \<Longrightarrow> u \<in> set (users (work s))"
  by (auto simp: get_user_by_id_def dest: find_Some_in)

lemma get_user_commit [simp]: "get_user_by_id (commit s) v = get_user_by_id s v"
  by (simp add: get_user_by_id_def)

lemma wf_db_map_user:
  assumes "wf_db (work s)" and id: "\<And>u. u_id (f u) = u_id u"
  shows "wf_db (work (map_user uid f s))"
proof -
  have "u_id ` set (users (work (map_user uid f s))) = u_id ` set (users (work s))"
    using user_ids_map_user [OF id, of uid s] by (metis set_map)
  with assms(1) user_ids_map_user [OF id, of uid s] show ?thesis
    unfolding wf_db_def by simp
qed

lemma set_active_household_ok:
  assumes "hid \<in> h_id ` set (households (work s))"
  shows "set_active_household uid hid s =
    (Inr (), commit (map_user uid (\<lambda>u. u\<lparr>u_active_household_id := Some hid\<rparr>) s))"
proof -
  from assms have "list_ex (\<lambda>h. h_id h = hid) (households (work s))"
    by (auto simp: list_ex_iff)
  then show ?thesis by (simp add: set_active_household_def)
qed

lemma increment_login_user:
  "get_user_by_id (increment_login_attempts t uid s) uid =
     map_option (\<lambda>u. if 10 \<le> u_login_attempts u + 1 \<and> u_locked_until u = None
       then u\<lparr>u_login_attempts := u_login_attempts u + 1, u_locked_until := Some (t + minutes 15)\<rparr>
       else u\<lparr>u_login_attempts := u_login_attempts u + 1\<rparr>) (get_user_by_id s uid)"
proof -
  have "find (\<lambda>u. u_id u = uid)
      (update_where (\<lambda>u. u_id u = uid \<and> 10 \<le> u_login_attempts u \<and> u_locked_until u = None)
         (\<lambda>u. u\<lparr>u_locked_until := Some (t + minutes 15)\<rparr>)
         (update_where (\<lambda>u. u_id u = uid)
            (\<lambda>u. u\<lparr>u_login_attempts := u_login_attempts u + 1\<rparr>) xs))
    = map_option (\<lambda>u. if 10 \<le> u_login_attempts u + 1 \<and> u_locked_until u = None
       then u\<lparr>u_login_attempts := u_login_attempts u + 1, u_locked_until := Some (t + minutes 15)\<rparr>
       else u\<lparr>u_login_attempts := u_login_attempts u + 1\<rparr>) (find (\<lambda>u. u_id u = uid) xs)" for xs
    by (induction xs) auto
  then show ?thesis
    by (simp add: increment_login_attempts_def get_user_by_id_def users_map_user Let_def)
qed

lemma wf_db_increment:
  assumes "wf_db (work s)" shows "wf_db (work (increment_login_attempts t uid s))"
proof -
  have ids: "map u_id (users (work (increment_login_attempts t uid s))) = map u_id (users (work s))"
    by (simp add: increment_login_attempts_def Let_def users_map_user)
  then have "u_id ` set (users (work (increment_login_attempts t uid s)))
      = u_id ` set (users (work s))"
    by (metis set_map)
  with ids assms show ?thesis
    unfolding wf_db_def by (simp add: increment_login_attempts_def Let_def)
qed

lemma wf_db_create_user:
  assumes "wf_db (work s)" "create_user nid t un ph gs em dn pu s = (Inr u, s')"
  shows "wf_db (work s')"
  using assms unfolding wf_db_def create_user_def
  by (auto simp: Let_def list_ex_iff split: if_splits)

end
