(* ===== verification/HouseholdRepo.thy ===== *)
theory HouseholdRepo
  imports UserRepo
begin

text \<open>
  \<^verbatim>\<open>app/repos/sql/household.py\<close>: households, memberships, invitations and guest tokens.
  Queries are functions of the session, writes are functions to a session (with a result when
  they can raise). Uuids the database generates and the two clocks, Python's and the
  database's, are arguments. \<open>ORDER BY lower(name), id\<close> compares names bytewise.
\<close>

section \<open>Households\<close>

definition get_household :: "session \<Rightarrow> uuid \<Rightarrow> household option" where
  "get_household s hid = find (\<lambda>h. h_id h = hid \<and> h_deleted_at h = None) (households (work s))"

definition insert_household :: "household \<Rightarrow> session \<Rightarrow> unit res \<times> session" where
  "insert_household h s =
     (if list_ex (\<lambda>k. h_id k = h_id h) (households (work s))
         \<or> \<not> list_ex (\<lambda>u. u_id u = h_created_by h) (users (work s))
      then (Inl IntegrityError, s)
      else (Inr (), upd_work (\<lambda>d. d\<lparr>households := households d @ [h]\<rparr>) s))"

definition insert_member :: "household_member \<Rightarrow> session \<Rightarrow> unit res \<times> session" where
  "insert_member m s =
     (if list_ex (\<lambda>k. m_id k = m_id m
           \<or> (m_household_id k = m_household_id m \<and> m_user_id k = m_user_id m)) (members (work s))
         \<or> \<not> list_ex (\<lambda>h. h_id h = m_household_id m) (households (work s))
         \<or> \<not> list_ex (\<lambda>u. u_id u = m_user_id m) (users (work s))
      then (Inl IntegrityError, s)
      else (Inr (), upd_work (\<lambda>d. d\<lparr>members := members d @ [m]\<rparr>) s))"

definition repo_create_household ::
  "uuid \<Rightarrow> uuid \<Rightarrow> instant \<Rightarrow> string \<Rightarrow> uuid \<Rightarrow> session \<Rightarrow> household res \<times> session" where
  "repo_create_household hid mid db_now name created_by s =
     (let h = \<lparr>h_id = hid, h_name = name, h_created_at = db_now, h_created_by = created_by,
               h_is_guest_accessible = False, h_deleted_at = None\<rparr>;
          m = \<lparr>m_id = mid, m_household_id = hid, m_user_id = created_by, m_role = Admin,
               m_invited_by = None, m_invited_at = None, m_accepted_at = None,
               m_joined_at = db_now\<rparr>
      in andthen (insert_household h s) (\<lambda>_ s.
         andthen (insert_member m s) (\<lambda>_ s. (Inr h, s))))"

definition repo_rename :: "uuid \<Rightarrow> string \<Rightarrow> session \<Rightarrow> household res \<times> session" where
  "repo_rename hid name s =
     (case get_household s hid of
        None \<Rightarrow> (Inl (HTTPException 404 ''Household not found''), s)
      | Some h \<Rightarrow> (Inr (h\<lparr>h_name := name\<rparr>),
          upd_work (\<lambda>d. d\<lparr>households := update_where
            (\<lambda>k. h_id k = hid \<and> h_deleted_at k = None) (\<lambda>k. k\<lparr>h_name := name\<rparr>)
            (households d)\<rparr>) s))"

section \<open>Members\<close>

definition get_member :: "session \<Rightarrow> uuid \<Rightarrow> uuid \<Rightarrow> household_member option" where
  "get_member s hid uid =
     find (\<lambda>m. m_household_id m = hid \<and> m_user_id m = uid) (members (work s))"

definition get_by_user_and_household :: "session \<Rightarrow> uuid \<Rightarrow> uuid \<Rightarrow> household_member option" where
  "get_by_user_and_household s uid hid =
     find (\<lambda>m. m_user_id m = uid \<and> m_household_id m = hid
              \<and> get_household s (m_household_id m) \<noteq> None) (members (work s))"

text \<open>
  The join with the households that are not deleted, on the primary key, ordered by
  \<open>lower(name), id\<close>.
\<close>

definition memberships_joined :: "session \<Rightarrow> uuid \<Rightarrow> (household_member \<times> household) list" where
  "memberships_joined s uid =
     sort_key (\<lambda>(m, h). (lower (h_name h), h_id h))
       (List.map_filter (\<lambda>m. map_option (Pair m) (get_household s (m_household_id m)))
          (filter (\<lambda>m. m_user_id m = uid) (members (work s))))"

definition get_memberships_for_user :: "session \<Rightarrow> uuid \<Rightarrow> household_member list" where
  "get_memberships_for_user s uid = map fst (memberships_joined s uid)"

definition count_for_user :: "session \<Rightarrow> uuid \<Rightarrow> nat" where
  "count_for_user s uid =
     count_where (\<lambda>m. m_user_id m = uid \<and> get_household s (m_household_id m) \<noteq> None)
       (members (work s))"

definition count_members :: "session \<Rightarrow> uuid \<Rightarrow> nat" where
  "count_members s hid = count_where (\<lambda>m. m_household_id m = hid) (members (work s))"

definition count_admins :: "session \<Rightarrow> uuid \<Rightarrow> nat" where
  "count_admins s hid =
     count_where (\<lambda>m. m_household_id m = hid \<and> m_role m = Admin) (members (work s))"

definition get_members :: "session \<Rightarrow> uuid \<Rightarrow> household_member list" where
  "get_members s hid = filter (\<lambda>m. m_household_id m = hid) (members (work s))"

record membership_with_name =
  mw_membership :: household_member
  mw_household_name :: string
  mw_member_count :: nat

definition get_memberships_with_households :: "session \<Rightarrow> uuid \<Rightarrow> membership_with_name list" where
  "get_memberships_with_households s uid =
     map (\<lambda>(m, h). \<lparr>mw_membership = m, mw_household_name = h_name h,
                    mw_member_count = count_members s (m_household_id m)\<rparr>)
       (memberships_joined s uid)"

definition add_member ::
  "uuid \<Rightarrow> instant \<Rightarrow> uuid \<Rightarrow> uuid \<Rightarrow> household_role \<Rightarrow> uuid \<Rightarrow> instant option \<Rightarrow> instant option
     \<Rightarrow> session \<Rightarrow> household_member res \<times> session" where
  "add_member mid db_now hid uid role invited_by invited_at accepted_at s =
     (let m = \<lparr>m_id = mid, m_household_id = hid, m_user_id = uid, m_role = role,
               m_invited_by = Some invited_by, m_invited_at = invited_at,
               m_accepted_at = accepted_at, m_joined_at = db_now\<rparr>
      in andthen (insert_member m s) (\<lambda>_ s. (Inr m, s)))"

definition delete_members :: "(household_member \<Rightarrow> bool) \<Rightarrow> session \<Rightarrow> session" where
  "delete_members p = upd_work (\<lambda>d. d\<lparr>members := filter (\<lambda>m. \<not> p m) (members d)\<rparr>)"

definition repo_remove_member :: "uuid \<Rightarrow> uuid \<Rightarrow> session \<Rightarrow> unit res \<times> session" where
  "repo_remove_member hid uid s =
     (case get_member s hid uid of
        None \<Rightarrow> (Inr (), s)
      | Some m \<Rightarrow>
          if m_role m = Admin \<and> count_admins s hid \<le> 1
          then (Inl (HTTPException 409 ''Cannot remove the sole admin''), s)
          else (Inr (), delete_members (\<lambda>k. m_household_id k = hid \<and> m_user_id k = uid) s))"

definition repo_update_member_role ::
  "uuid \<Rightarrow> uuid \<Rightarrow> household_role \<Rightarrow> session \<Rightarrow> household_member res \<times> session" where
  "repo_update_member_role hid uid new_role s =
     (case get_member s hid uid of
        None \<Rightarrow> (Inl (HTTPException 404 ''Member not found''), s)
      | Some m \<Rightarrow>
          if m_role m = Admin \<and> new_role \<noteq> Admin \<and> count_admins s hid \<le> 1
          then (Inl (HTTPException 409 ''Cannot remove sole admin role''), s)
          else (Inr (m\<lparr>m_role := new_role\<rparr>),
            upd_work (\<lambda>d. d\<lparr>members := update_where
              (\<lambda>k. m_household_id k = hid \<and> m_user_id k = uid) (\<lambda>k. k\<lparr>m_role := new_role\<rparr>)
              (members d)\<rparr>) s))"

text \<open>Each user in turn gets the first of the remaining households, or none.\<close>

fun repair_active_households :: "uuid list \<Rightarrow> session \<Rightarrow> session" where
  "repair_active_households [] s = s"
| "repair_active_households (uid # uids) s =
     (let fallback = (case memberships_joined s uid of
                        [] \<Rightarrow> None | (m, h) # _ \<Rightarrow> Some (m_household_id m))
      in repair_active_households uids
           (map_user uid (\<lambda>u. u\<lparr>u_active_household_id := fallback\<rparr>) s))"

definition repo_soft_delete :: "instant \<Rightarrow> uuid \<Rightarrow> session \<Rightarrow> unit res \<times> session" where
  "repo_soft_delete db_now hid s =
     (if 2 \<le> count_members s hid
      then (Inl (HTTPException 409
        ''Cannot delete a household with active members. Remove all members first.''), s)
      else (case get_household s hid of
              None \<Rightarrow> (Inl (HTTPException 404 ''Household not found''), s)
            | Some h \<Rightarrow> (Inr (), upd_work (\<lambda>d. d\<lparr>households := update_where
                (\<lambda>k. h_id k = hid \<and> h_deleted_at k = None)
                (\<lambda>k. k\<lparr>h_deleted_at := Some db_now\<rparr>) (households d)\<rparr>) s)))"

text \<open>
  \<open>DELETE FROM households\<close> with the referential actions of the schema: \<open>CASCADE\<close> on every
  table that references the household, \<open>SET NULL\<close> on the users' active household.
\<close>

definition cascade_household :: "uuid \<Rightarrow> database \<Rightarrow> database" where
  "cascade_household hid d = d\<lparr>
     households := filter (\<lambda>h. h_id h \<noteq> hid) (households d),
     members := filter (\<lambda>m. m_household_id m \<noteq> hid) (members d),
     invitations := filter (\<lambda>i. i_household_id i \<noteq> hid) (invitations d),
     guest_tokens := filter (\<lambda>g. g_household_id g \<noteq> hid) (guest_tokens d),
     users := update_where (\<lambda>u. u_active_household_id u = Some hid)
                (\<lambda>u. u\<lparr>u_active_household_id := None\<rparr>) (users d),
     brew_log := filter (\<lambda>r. b_household_id r \<noteq> Some hid) (brew_log d),
     catalog := filter (\<lambda>r. c_household_id r \<noteq> Some hid) (catalog d),
     inventory_bags := filter (\<lambda>r. v_household_id r \<noteq> Some hid) (inventory_bags d),
     hardware := filter (\<lambda>r. w_household_id r \<noteq> Some hid) (hardware d),
     maintenance_log := filter (\<lambda>r. n_household_id r \<noteq> Some hid) (maintenance_log d),
     import_sessions := filter (\<lambda>k. is_household_id k \<noteq> hid) (import_sessions d)\<rparr>"

text \<open>
  The keys on \<open>catalog_id\<close> and \<open>hardware_id\<close> have no action: the deletion is refused when a row that
  would stay refers to one that would go.
\<close>

definition stranded :: "uuid list \<Rightarrow> database \<Rightarrow> bool" where
  "stranded gone d =
     (let goes = (\<lambda>h. h \<in> Some ` set gone)
      in list_ex (\<lambda>k. goes (c_household_id k)
             \<and> (list_ex (\<lambda>r. \<not> goes (b_household_id r) \<and> b_catalog_id r = Some (c_id k)) (brew_log d)
                \<or> list_ex (\<lambda>r. \<not> goes (v_household_id r) \<and> v_catalog_id r = Some (c_id k)) (inventory_bags d)))
           (catalog d)
       \<or> list_ex (\<lambda>k. goes (w_household_id k)
             \<and> list_ex (\<lambda>r. \<not> goes (n_household_id r) \<and> n_hardware_id r = Some (w_id k)) (maintenance_log d))
           (hardware d))"

definition repo_hard_delete :: "uuid \<Rightarrow> session \<Rightarrow> uuid list res \<times> session" where
  "repo_hard_delete hid s =
     (let affected = map m_user_id (get_members s hid)
      in case get_household s hid of
           None \<Rightarrow> (Inl (HTTPException 404 ''Household not found''), s)
         | Some _ \<Rightarrow>
             if stranded [hid] (work s) then (Inl IntegrityError, s)
             else (Inr affected, repair_active_households affected (upd_work (cascade_household hid) s)))"

section \<open>Invitations\<close>

definition insert_invitation :: "pending_invitation \<Rightarrow> session \<Rightarrow> unit res \<times> session" where
  "insert_invitation i s =
     (if list_ex (\<lambda>k. i_id k = i_id i \<or> i_token_hash k = i_token_hash i) (invitations (work s))
         \<or> \<not> list_ex (\<lambda>h. h_id h = i_household_id i) (households (work s))
      then (Inl IntegrityError, s)
      else (Inr (), upd_work (\<lambda>d. d\<lparr>invitations := invitations d @ [i]\<rparr>) s))"

definition recent_invitation_count :: "instant \<Rightarrow> uuid \<Rightarrow> uuid \<Rightarrow> session \<Rightarrow> nat" where
  "recent_invitation_count now hid inviter s =
     count_where (\<lambda>i. i_household_id i = hid \<and> i_invited_by_user_id i = inviter
         \<and> now - hours 24 \<le> i_invited_at i \<and> i_status i \<in> {Pending, Accepted})
       (invitations (work s))"

definition pending_duplicates ::
  "instant \<Rightarrow> uuid \<Rightarrow> string \<Rightarrow> session \<Rightarrow> pending_invitation list" where
  "pending_duplicates now hid email s =
     filter (\<lambda>i. i_household_id i = hid \<and> map_option lower (i_invited_email i) = Some email
         \<and> i_status i = Pending \<and> now < i_expires_at i) (invitations (work s))"

definition members_with_email :: "uuid \<Rightarrow> string \<Rightarrow> session \<Rightarrow> household_member list" where
  "members_with_email hid email s =
     filter (\<lambda>m. m_household_id m = hid
         \<and> (case get_user_by_id s (m_user_id m) of
              None \<Rightarrow> False
            | Some u \<Rightarrow> map_option lower (u_email u) = Some email)) (members (work s))"

definition normalize_email :: "string option \<Rightarrow> string option" where
  "normalize_email e =
     (case e of None \<Rightarrow> None | Some v \<Rightarrow> if v = [] then None else Some (lower (strip v)))"

text \<open>The duplicate checks run only for an invitation that names an address.\<close>

definition check_email_free :: "instant \<Rightarrow> uuid \<Rightarrow> string option \<Rightarrow> session \<Rightarrow> unit res" where
  "check_email_free now hid email s =
     (case email of
        None \<Rightarrow> Inr ()
      | Some e \<Rightarrow>
          (case scalar_one_or_none (pending_duplicates now hid e s) of
             Inl x \<Rightarrow> Inl x
           | Inr (Some _) \<Rightarrow>
               Inl (HTTPException 409 ''An invitation to this address is already pending.'')
           | Inr None \<Rightarrow>
               (case scalar_one_or_none (members_with_email hid e s) of
                  Inl x \<Rightarrow> Inl x
                | Inr (Some _) \<Rightarrow>
                    Inl (HTTPException 409 ''User is already a member of this household.'')
                | Inr None \<Rightarrow> Inr ())))"

definition repo_create_invitation ::
  "uuid \<Rightarrow> instant \<Rightarrow> instant \<Rightarrow> uuid \<Rightarrow> uuid \<Rightarrow> string \<Rightarrow> string option \<Rightarrow> household_role
     \<Rightarrow> string option \<Rightarrow> session \<Rightarrow> pending_invitation res \<times> session" where
  "repo_create_invitation iid now db_now hid inviter token_hash invited_email role ciphertext s =
     (if 10 \<le> count_members s hid
      then (Inl (HTTPException 409 ''Household has reached the maximum of 10 members.''), s)
      else if 10 \<le> recent_invitation_count now hid inviter s
      then (Inl (HTTPException 429 ''Invitation rate limit exceeded for this household.''), s)
      else
        (let email = normalize_email invited_email;
             i = \<lparr>i_id = iid, i_household_id = hid, i_invited_email = email,
                  i_invited_role = role, i_status = Pending, i_token_hash = token_hash,
                  i_display_token_ciphertext = ciphertext, i_invited_by_user_id = inviter,
                  i_invited_at = db_now, i_expires_at = now + hours 72,
                  i_accepted_at = None, i_revoked_at = None\<rparr>
         in case check_email_free now hid email s of
              Inl e \<Rightarrow> (Inl e, s)
            | Inr _ \<Rightarrow> andthen (insert_invitation i s) (\<lambda>_ s. (Inr i, s))))"

definition get_invitation_by_token_hash :: "session \<Rightarrow> string \<Rightarrow> pending_invitation option" where
  "get_invitation_by_token_hash s th = find (\<lambda>i. i_token_hash i = th) (invitations (work s))"

definition get_invitation_by_id :: "session \<Rightarrow> uuid \<Rightarrow> pending_invitation option" where
  "get_invitation_by_id s iid = find (\<lambda>i. i_id i = iid) (invitations (work s))"

definition map_invitation ::
  "uuid \<Rightarrow> (pending_invitation \<Rightarrow> pending_invitation) \<Rightarrow> session \<Rightarrow> session" where
  "map_invitation iid f =
     upd_work (\<lambda>d. d\<lparr>invitations := update_where (\<lambda>i. i_id i = iid) f (invitations d)\<rparr>)"

definition repo_accept_invitation :: "instant \<Rightarrow> uuid \<Rightarrow> session \<Rightarrow> unit res \<times> session" where
  "repo_accept_invitation db_now iid s =
     (if list_ex (\<lambda>i. i_id i = iid \<and> i_status i \<in> {Pending, Declined}) (invitations (work s))
      then (Inr (), upd_work (\<lambda>d. d\<lparr>invitations := update_where
              (\<lambda>i. i_id i = iid \<and> i_status i \<in> {Pending, Declined})
              (\<lambda>i. i\<lparr>i_status := Accepted, i_accepted_at := Some db_now\<rparr>) (invitations d)\<rparr>) s)
      else (Inl (HTTPException 410 ''Invitation is no longer pending''), s))"

definition repo_decline_invitation :: "uuid \<Rightarrow> session \<Rightarrow> unit res \<times> session" where
  "repo_decline_invitation iid s =
     (case get_invitation_by_id s iid of
        None \<Rightarrow> (Inl (HTTPException 404 ''Invitation not found''), s)
      | Some _ \<Rightarrow> (Inr (), s))"

definition repo_revoke_invitation :: "instant \<Rightarrow> uuid \<Rightarrow> session \<Rightarrow> unit res \<times> session" where
  "repo_revoke_invitation db_now iid s =
     (case get_invitation_by_id s iid of
        None \<Rightarrow> (Inl (HTTPException 404 ''Invitation not found''), s)
      | Some i \<Rightarrow>
          if i_status i = Accepted
          then (Inl (HTTPException 409 ''Accepted invitations cannot be revoked''), s)
          else (Inr (), map_invitation iid
                  (\<lambda>i. i\<lparr>i_status := Revoked, i_revoked_at := Some db_now\<rparr>) s))"

definition repo_resend_invitation ::
  "instant \<Rightarrow> uuid \<Rightarrow> string \<Rightarrow> string option \<Rightarrow> session \<Rightarrow> pending_invitation res \<times> session" where
  "repo_resend_invitation now iid token_hash ciphertext s =
     (case get_invitation_by_id s iid of
        None \<Rightarrow> (Inl (HTTPException 404 ''Invitation not found''), s)
      | Some i \<Rightarrow>
          if i_status i = Accepted
          then (Inl (HTTPException 409 ''Accepted invitations cannot be resent''), s)
          else
            (let f = (\<lambda>i. i\<lparr>i_expires_at := now + hours 72, i_status := Pending,
                          i_token_hash := token_hash, i_display_token_ciphertext := ciphertext,
                          i_accepted_at := None, i_revoked_at := None\<rparr>)
             in if list_ex (\<lambda>k. i_id k \<noteq> iid \<and> i_token_hash k = token_hash) (invitations (work s))
                then (Inl IntegrityError, s)
                else (Inr (f i), map_invitation iid f s)))"

definition get_invitations_for_household :: "session \<Rightarrow> uuid \<Rightarrow> pending_invitation list" where
  "get_invitations_for_household s hid =
     sort_key (\<lambda>i. - i_invited_at i)
       (filter (\<lambda>i. i_household_id i = hid \<and> i_status i \<in> {Pending, Revoked})
          (invitations (work s)))"

section \<open>Guest tokens\<close>

definition set_guest_accessible :: "uuid \<Rightarrow> bool \<Rightarrow> session \<Rightarrow> session" where
  "set_guest_accessible hid b =
     upd_work (\<lambda>d. d\<lparr>households := update_where (\<lambda>h. h_id h = hid)
       (\<lambda>h. h\<lparr>h_is_guest_accessible := b\<rparr>) (households d)\<rparr>)"

text \<open>
  The insert is refused by the unique token hash and by the partial unique index on the
  household of the tokens that are not revoked.
\<close>

definition repo_create_guest_token ::
  "uuid \<Rightarrow> instant \<Rightarrow> uuid \<Rightarrow> uuid \<Rightarrow> string \<Rightarrow> string option \<Rightarrow> session
     \<Rightarrow> guest_token res \<times> session" where
  "repo_create_guest_token gid db_now hid created_by token_hash ciphertext s =
     (let g = \<lparr>g_id = gid, g_household_id = hid, g_token_hash = token_hash,
               g_display_token_ciphertext = ciphertext, g_created_by_user_id = created_by,
               g_created_at = db_now, g_expires_at = None, g_revoked_at = None\<rparr>
      in if list_ex (\<lambda>k. g_id k = gid \<or> g_token_hash k = token_hash
              \<or> (g_household_id k = hid \<and> active_guest k)) (guest_tokens (work s))
            \<or> \<not> list_ex (\<lambda>h. h_id h = hid) (households (work s))
         then (Inl IntegrityError, s)
         else (Inr g, set_guest_accessible hid True
                 (upd_work (\<lambda>d. d\<lparr>guest_tokens := guest_tokens d @ [g]\<rparr>) s)))"

definition guest_unexpired :: "instant \<Rightarrow> guest_token \<Rightarrow> bool" where
  "guest_unexpired now g = (case g_expires_at g of None \<Rightarrow> True | Some t \<Rightarrow> now < t)"

definition get_guest_token_by_hash :: "instant \<Rightarrow> session \<Rightarrow> string \<Rightarrow> guest_token option" where
  "get_guest_token_by_hash now s th =
     find (\<lambda>g. g_token_hash g = th \<and> active_guest g \<and> guest_unexpired now g)
       (guest_tokens (work s))"

definition get_guest_token_include_expired :: "session \<Rightarrow> string \<Rightarrow> guest_token option" where
  "get_guest_token_include_expired s th =
     find (\<lambda>g. g_token_hash g = th \<and> active_guest g) (guest_tokens (work s))"

definition get_active_guest_token :: "instant \<Rightarrow> session \<Rightarrow> uuid \<Rightarrow> guest_token option" where
  "get_active_guest_token now s hid =
     (case sort_key (\<lambda>g. - g_created_at g)
        (filter (\<lambda>g. g_household_id g = hid \<and> active_guest g \<and> guest_unexpired now g)
           (guest_tokens (work s))) of [] \<Rightarrow> None | g # _ \<Rightarrow> Some g)"

definition revoke_previous_guest_tokens :: "instant \<Rightarrow> uuid \<Rightarrow> session \<Rightarrow> session" where
  "revoke_previous_guest_tokens db_now hid =
     upd_work (\<lambda>d. d\<lparr>guest_tokens := update_where (\<lambda>g. g_household_id g = hid \<and> active_guest g)
       (\<lambda>g. g\<lparr>g_revoked_at := Some db_now\<rparr>) (guest_tokens d)\<rparr>)"

definition repo_revoke_guest_tokens :: "instant \<Rightarrow> uuid \<Rightarrow> session \<Rightarrow> session" where
  "repo_revoke_guest_tokens db_now hid s =
     set_guest_accessible hid False (revoke_previous_guest_tokens db_now hid s)"

section \<open>Seeding\<close>

text \<open>
  The five \<open>UPDATE .. WHERE household_id IS NULL\<close> statements of the seeding run under the
  row-level security policy: only rows the policy passes are candidates.
\<close>

definition adopt_orphans :: "uuid \<Rightarrow> session \<Rightarrow> session" where
  "adopt_orphans hid s = upd_work (\<lambda>d. d\<lparr>
     brew_log := update_where (\<lambda>r. rls_pass s (b_household_id r) \<and> b_household_id r = None)
                   (\<lambda>r. r\<lparr>b_household_id := Some hid\<rparr>) (brew_log d),
     catalog := update_where (\<lambda>r. rls_pass s (c_household_id r) \<and> c_household_id r = None)
                  (\<lambda>r. r\<lparr>c_household_id := Some hid\<rparr>) (catalog d),
     inventory_bags := update_where (\<lambda>r. rls_pass s (v_household_id r) \<and> v_household_id r = None)
                         (\<lambda>r. r\<lparr>v_household_id := Some hid\<rparr>) (inventory_bags d),
     hardware := update_where (\<lambda>r. rls_pass s (w_household_id r) \<and> w_household_id r = None)
                   (\<lambda>r. r\<lparr>w_household_id := Some hid\<rparr>) (hardware d),
     maintenance_log := update_where
                          (\<lambda>r. rls_pass s (n_household_id r) \<and> n_household_id r = None)
                          (\<lambda>r. r\<lparr>n_household_id := Some hid\<rparr>) (maintenance_log d)\<rparr>) s"

definition seed_default_household ::
  "uuid \<Rightarrow> uuid \<Rightarrow> instant \<Rightarrow> uuid \<Rightarrow> session \<Rightarrow> household res \<times> session" where
  "seed_default_household hid mid db_now uid s =
     andthen (repo_create_household hid mid db_now ''Home'' uid s) (\<lambda>h s.
       (Inr h, adopt_orphans (h_id h) s))"

end
