(* ===== verification/RefreshTokens.thy ===== *)
theory RefreshTokens
  imports UserRepo
begin

text \<open>
  \<^verbatim>\<open>app/repos/sql/refresh_tokens.py\<close>: insertion, lookup by hash, the atomic rotation and the
  revocations of refresh tokens.
\<close>

definition create_refresh_token ::
  "uuid \<Rightarrow> instant \<Rightarrow> uuid \<Rightarrow> string \<Rightarrow> instant \<Rightarrow> session \<Rightarrow> refresh_token res \<times> session" where
  "create_refresh_token nid db_now uid token_hash expires_at s =
     (let r = \<lparr>r_id = nid, r_user_id = uid, r_token_hash = token_hash,
               r_expires_at = expires_at, r_revoked = False, r_rotated_at = None,
               r_created_at = db_now\<rparr>
      in if list_ex (\<lambda>k. r_id k = nid \<or> r_token_hash k = token_hash) (refresh_tokens (work s))
            \<or> \<not> list_ex (\<lambda>u. u_id u = uid) (users (work s))
         then (Inl IntegrityError, s)
         else (Inr r, upd_work (\<lambda>d. d\<lparr>refresh_tokens := refresh_tokens d @ [r]\<rparr>) s))"

definition get_refresh_by_hash :: "session \<Rightarrow> string \<Rightarrow> refresh_token option" where
  "get_refresh_by_hash s th = find (\<lambda>r. r_token_hash r = th) (refresh_tokens (work s))"

definition map_refresh ::
  "(refresh_token \<Rightarrow> bool) \<Rightarrow> (refresh_token \<Rightarrow> refresh_token) \<Rightarrow> session \<Rightarrow> session" where
  "map_refresh p f =
     upd_work (\<lambda>d. d\<lparr>refresh_tokens := update_where p f (refresh_tokens d)\<rparr>)"

text \<open>\<open>UPDATE .. WHERE token_hash = .. AND NOT revoked AND expires_at > now() RETURNING ..\<close>.\<close>

definition rotatable :: "instant \<Rightarrow> string \<Rightarrow> refresh_token \<Rightarrow> bool" where
  "rotatable db_now th r = (r_token_hash r = th \<and> \<not> r_revoked r \<and> db_now < r_expires_at r)"

definition rotate :: "instant \<Rightarrow> string \<Rightarrow> session \<Rightarrow> refresh_token option \<times> session" where
  "rotate db_now th s =
     (let f = (\<lambda>r. r\<lparr>r_revoked := True, r_rotated_at := Some db_now\<rparr>)
      in (map_option f (find (rotatable db_now th) (refresh_tokens (work s))),
          map_refresh (rotatable db_now th) f s))"

definition revoke_refresh :: "uuid \<Rightarrow> session \<Rightarrow> session" where
  "revoke_refresh rid = map_refresh (\<lambda>r. r_id r = rid) (\<lambda>r. r\<lparr>r_revoked := True\<rparr>)"

definition revoke_all_for_user :: "uuid \<Rightarrow> session \<Rightarrow> session" where
  "revoke_all_for_user uid =
     map_refresh (\<lambda>r. r_user_id r = uid \<and> \<not> r_revoked r) (\<lambda>r. r\<lparr>r_revoked := True\<rparr>)"

section \<open>Lemmas\<close>

lemma map_refresh_frame [simp, frame_simps]:
  "users (work (map_refresh p f s)) = users (work s)"
  "households (work (map_refresh p f s)) = households (work s)"
  "members (work (map_refresh p f s)) = members (work s)"
  "invitations (work (map_refresh p f s)) = invitations (work s)"
  "guest_tokens (work (map_refresh p f s)) = guest_tokens (work s)"
  "committed (map_refresh p f s) = committed s"
  "guc (map_refresh p f s) = guc s"
  by (simp_all add: map_refresh_def)

lemma refresh_map_refresh [repo_simps]:
  "refresh_tokens (work (map_refresh p f s)) = update_where p f (refresh_tokens (work s))"
  by (simp add: map_refresh_def)

lemma wf_db_map_refresh:
  assumes wf: "wf_db (work s)"
    and id: "\<And>r. r_id (f r) = r_id r" "\<And>r. r_token_hash (f r) = r_token_hash r"
      "\<And>r. r_user_id (f r) = r_user_id r"
  shows "wf_db (work (map_refresh p f s))"
proof -
  have fk: "\<forall>r \<in> set (update_where p f (refresh_tokens (work s))).
      r_user_id r \<in> u_id ` set (users (work s))"
    using wf_dbD(16) [OF wf] id(3) by (auto simp: set_update_where)
  have keys: "map r_id (update_where p f (refresh_tokens (work s))) = map r_id (refresh_tokens (work s))"
    "map r_token_hash (update_where p f (refresh_tokens (work s)))
       = map r_token_hash (refresh_tokens (work s))"
    using id by simp_all
  show ?thesis
    using wf fk unfolding wf_db_def refresh_map_refresh map_refresh_frame keys by blast
qed

lemma wf_db_rotate: "wf_db (work s) \<Longrightarrow> wf_db (work (snd (rotate t th s)))"
  by (simp add: rotate_def Let_def wf_db_map_refresh)

lemma wf_db_revoke: "wf_db (work s) \<Longrightarrow> wf_db (work (revoke_refresh rid s))"
  by (simp add: revoke_refresh_def wf_db_map_refresh)

lemma wf_db_revoke_all: "wf_db (work s) \<Longrightarrow> wf_db (work (revoke_all_for_user uid s))"
  by (simp add: revoke_all_for_user_def wf_db_map_refresh)

lemma wf_db_create_refresh:
  assumes "wf_db (work s)" "create_refresh_token nid t uid th ex s = (Inr r, s')"
  shows "wf_db (work s')"
  using assms unfolding wf_db_def create_refresh_token_def
  by (auto simp: Let_def list_ex_iff split: if_splits)

lemma create_refresh_frame:
  assumes "create_refresh_token nid t uid th ex s = (x, s')"
  shows "committed s' = committed s" "users (work s') = users (work s)"
    "households (work s') = households (work s)" "members (work s') = members (work s)"
  using assms by (auto simp: create_refresh_token_def Let_def split: if_splits)

lemma get_refresh_hash: "get_refresh_by_hash s th = Some r \<Longrightarrow> r_token_hash r = th"
  by (auto simp: get_refresh_by_hash_def dest: find_Some_in)

text \<open>A rotation yields a token exactly when a valid one is stored, and leaves it revoked.\<close>

lemma rotate_SomeD:
  assumes "rotate t th s = (Some r, s')"
  shows "r_token_hash r = th" "r_revoked r" "r_rotated_at r = Some t"
    "\<exists>r0 \<in> set (refresh_tokens (work s)). rotatable t th r0 \<and> r_user_id r0 = r_user_id r"
  using assms by (auto simp: rotate_def Let_def rotatable_def dest!: find_Some_in)

lemma rotate_kills:
  assumes "wf_db (work s)" "rotate t th s = (Some r, s')"
  shows "get_refresh_by_hash s' th = Some r"
proof -
  let ?f = "\<lambda>r. r\<lparr>r_revoked := True, r_rotated_at := Some t\<rparr>"
  from assms(2) obtain r0 where r0: "find (rotatable t th) (refresh_tokens (work s)) = Some r0"
    and r: "r = ?f r0" and s': "s' = map_refresh (rotatable t th) ?f s"
    by (auto simp: rotate_def Let_def)
  have in0: "r0 \<in> set (refresh_tokens (work s))" and rot: "rotatable t th r0"
    using find_Some_in [OF r0] by simp_all
  have "find (\<lambda>x. r_token_hash x = th) (refresh_tokens (work s)) = Some r0"
    using find_by_key [OF wf_dbD(11) [OF assms(1)] in0] rot by (simp add: rotatable_def)
  then have "find (\<lambda>x. r_token_hash x = th) (update_where (rotatable t th) ?f (refresh_tokens (work s)))
      = Some (?f r0)"
    by (subst find_update_where) (simp_all add: rot)
  with r s' show ?thesis by (simp add: get_refresh_by_hash_def refresh_map_refresh)
qed

lemma rotate_dead:
  assumes "\<And>r. r \<in> set (refresh_tokens (work s)) \<Longrightarrow> r_token_hash r = th \<Longrightarrow> r_revoked r"
  shows "rotate t th s = (None, s)"
proof -
  have "find (rotatable t th) (refresh_tokens (work s)) = None"
    using assms by (auto simp: find_None_all rotatable_def)
  moreover have "map_refresh (rotatable t th) f s = s" for f
    using assms by (simp add: map_refresh_def upd_work_def rotatable_def update_where_none)
  ultimately show ?thesis by (simp add: rotate_def)
qed

end
