(* ===== verification/AuthService.thy ===== *)
theory AuthService
  imports Models
begin

text \<open>
  \<^verbatim>\<open>app/services/auth.py\<close>, \<^verbatim>\<open>app/core/link_tokens.py\<close> and the settings they read
  (\<^verbatim>\<open>app/config.py\<close>): password and token helpers, access tokens with the bounded rotation
  window of the previous signing key, the refresh cookie, and the encryption of link tokens
  for display.

  The cryptographic libraries (jose, passlib, hashlib, cryptography) are the functions of the
  record \<open>externals\<close>, an argument of every definition that calls them. Random bytes are
  arguments.
\<close>

section \<open>Settings and external functions\<close>

record settings =
  use_postgres :: bool
  app_env :: string
  session_secret :: string
  jwt_secret :: string
  jwt_secret_previous :: "string option"
  link_token_fernet_keys :: "string option"
  access_token_expire_seconds :: int
  brew_log_sync_alert :: bool

definition is_production :: "settings \<Rightarrow> bool" where
  "is_production st = (app_env st = ''production'')"

record jwt_payload =
  jwt_sub :: string
  jwt_iat :: int
  jwt_exp :: int

text \<open>
  \<open>x_jwt_decode token secret now\<close> is \<open>None\<close> for a \<open>JWTError\<close> and otherwise the \<open>sub\<close> claim,
  if the payload has one; \<open>x_pwd_verify\<close> is \<open>None\<close> when the hash is not recognised, which
  raises; \<open>x_fernet_decrypt\<close> is \<open>None\<close> for \<open>InvalidToken\<close>.
\<close>

record externals =
  x_jwt_encode :: "jwt_payload \<Rightarrow> string \<Rightarrow> string"
  x_jwt_decode :: "string \<Rightarrow> string \<Rightarrow> instant \<Rightarrow> string option option"
  x_uuid_of_str :: "string \<Rightarrow> uuid option"
  x_str_of_uuid :: "uuid \<Rightarrow> string"
  x_sha256hex :: "string \<Rightarrow> string"
  x_pwd_hash :: "string \<Rightarrow> string"
  x_pwd_verify :: "string \<Rightarrow> string \<Rightarrow> bool option"
  x_fernet_valid :: "string \<Rightarrow> bool"
  x_fernet_encrypt :: "string \<Rightarrow> string \<Rightarrow> string"
  x_fernet_decrypt :: "string \<Rightarrow> string \<Rightarrow> string option"
  x_derive_key :: "string \<Rightarrow> string"

section \<open>Passwords\<close>

definition hash_password :: "externals \<Rightarrow> string \<Rightarrow> string res" where
  "hash_password X password =
     (if 1024 < length password then Inl ValueError else Inr (x_pwd_hash X password))"

definition verify_password :: "externals \<Rightarrow> string \<Rightarrow> string \<Rightarrow> bool res" where
  "verify_password X plain hashed =
     (case x_pwd_verify X plain hashed of None \<Rightarrow> Inl ValueError | Some b \<Rightarrow> Inr b)"

section \<open>Access tokens\<close>

definition create_access_token ::
  "externals \<Rightarrow> settings \<Rightarrow> instant \<Rightarrow> uuid \<Rightarrow> string res" where
  "create_access_token X st now uid =
     (if length (jwt_secret st) < 32 then Inl RuntimeError
      else Inr (x_jwt_encode X
             \<lparr>jwt_sub = x_str_of_uuid X uid, jwt_iat = now div seconds 1,
              jwt_exp = (now + seconds (access_token_expire_seconds st)) div seconds 1\<rparr>
             (jwt_secret st)))"

definition invalid_token :: err where
  "invalid_token = HTTPException 401 ''Invalid or expired token''"

definition rotation_window :: int where
  "rotation_window = minutes 15"

text \<open>Truthiness of an optional string setting.\<close>

definition truthy :: "string option \<Rightarrow> bool" where
  "truthy v = (case v of None \<Rightarrow> False | Some s \<Rightarrow> s \<noteq> [])"

text \<open>
  \<open>_rotation_window_opened_at\<close>: the load time of the module when a previous key is configured.
\<close>

definition rotation_window_opened_at :: "settings \<Rightarrow> instant \<Rightarrow> instant option" where
  "rotation_window_opened_at st load_time =
     (if truthy (jwt_secret_previous st) then Some load_time else None)"

definition uuid_of_sub :: "externals \<Rightarrow> string option \<Rightarrow> uuid res" where
  "uuid_of_sub X sub =
     (case sub of
        None \<Rightarrow> Inl invalid_token
      | Some v \<Rightarrow>
          if v = [] then Inl invalid_token
          else (case x_uuid_of_str X v of None \<Rightarrow> Inl invalid_token | Some u \<Rightarrow> Inr u))"

definition decode_access_token ::
  "externals \<Rightarrow> settings \<Rightarrow> instant option \<Rightarrow> instant \<Rightarrow> string \<Rightarrow> uuid res" where
  "decode_access_token X st opened now token =
     (case x_jwt_decode X token (jwt_secret st) now of
        Some sub \<Rightarrow> uuid_of_sub X sub
      | None \<Rightarrow>
          (case (opened, jwt_secret_previous st) of
             (Some t, Some previous) \<Rightarrow>
               if previous = [] then Inl invalid_token
               else if now - t \<le> rotation_window then
                 (case x_jwt_decode X token previous now of
                    Some sub \<Rightarrow> uuid_of_sub X sub
                  | None \<Rightarrow> Inl invalid_token)
               else Inl invalid_token
           | _ \<Rightarrow> Inl invalid_token))"

section \<open>Refresh tokens and the cookie\<close>

text \<open>The raw token is the base64 text of 32 random bytes, an argument.\<close>

definition generate_refresh_token :: "externals \<Rightarrow> string \<Rightarrow> string \<times> string" where
  "generate_refresh_token X raw = (raw, x_sha256hex X raw)"

definition hash_token :: "externals \<Rightarrow> string \<Rightarrow> string" where
  "hash_token X raw = x_sha256hex X raw"

record cookie =
  ck_value :: string
  ck_httponly :: bool
  ck_samesite :: string
  ck_secure :: bool
  ck_path :: string
  ck_max_age :: nat

definition set_refresh_cookie :: "settings \<Rightarrow> string \<Rightarrow> cookie" where
  "set_refresh_cookie st raw =
     \<lparr>ck_value = raw, ck_httponly = True, ck_samesite = ''lax'', ck_secure = is_production st,
      ck_path = ''/auth'', ck_max_age = 2592000\<rparr>"

definition clear_refresh_cookie :: "settings \<Rightarrow> cookie" where
  "clear_refresh_cookie st =
     \<lparr>ck_value = '''', ck_httponly = True, ck_samesite = ''lax'', ck_secure = is_production st,
      ck_path = ''/auth'', ck_max_age = 0\<rparr>"

section \<open>Link tokens\<close>

fun split_on :: "char \<Rightarrow> string \<Rightarrow> string list" where
  "split_on sep [] = [[]]"
| "split_on sep (c # cs) =
     (if c = sep then [] # split_on sep cs
      else (case split_on sep cs of w # ws \<Rightarrow> (c # w) # ws | [] \<Rightarrow> [[c]]))"

definition fernet_key_material :: "externals \<Rightarrow> settings \<Rightarrow> string list res" where
  "fernet_key_material X st =
     (if truthy (link_token_fernet_keys st) then
        (let keys = filter (\<lambda>k. k \<noteq> [])
                      (map strip (split_on CHR '','' (the (link_token_fernet_keys st))))
         in if keys = [] then Inl RuntimeError
            else if list_all (x_fernet_valid X) keys then Inr keys
            else Inl ValueError)
      else if is_production st then Inl RuntimeError
      else
        (let seed = (if jwt_secret st \<noteq> [] then jwt_secret st else session_secret st)
         in if seed = [] then Inl RuntimeError else Inr [x_derive_key X seed]))"

definition encrypt_display_token :: "externals \<Rightarrow> settings \<Rightarrow> string \<Rightarrow> string res" where
  "encrypt_display_token X st raw =
     (case fernet_key_material X st of
        Inl e \<Rightarrow> Inl e
      | Inr keys \<Rightarrow> Inr (x_fernet_encrypt X (hd keys) raw))"

fun try_keys :: "externals \<Rightarrow> string list \<Rightarrow> string \<Rightarrow> string option" where
  "try_keys X [] ct = None"
| "try_keys X (k # ks) ct =
     (case x_fernet_decrypt X k ct of Some raw \<Rightarrow> Some raw | None \<Rightarrow> try_keys X ks ct)"

definition decrypt_display_token ::
  "externals \<Rightarrow> settings \<Rightarrow> string option \<Rightarrow> string option res" where
  "decrypt_display_token X st ciphertext =
     (if \<not> truthy ciphertext then Inr None
      else (case fernet_key_material X st of
              Inl RuntimeError \<Rightarrow> Inr None
            | Inl e \<Rightarrow> Inl e
            | Inr keys \<Rightarrow> Inr (try_keys X keys (the ciphertext))))"

section \<open>Lemmas\<close>

lemma fernet_keys_nonempty: "fernet_key_material X st = Inr keys \<Longrightarrow> keys \<noteq> []"
  by (auto simp: fernet_key_material_def Let_def split: if_splits)

lemma try_keys_rotated:
  assumes "k \<in> set keys" "x_fernet_decrypt X k ct = Some raw"
    and "\<And>k'. k' \<in> set keys \<Longrightarrow> k' \<noteq> k \<Longrightarrow> x_fernet_decrypt X k' ct = None"
  shows "try_keys X keys ct = Some raw"
  using assms
proof (induction keys)
  case (Cons a ks)
  then show ?case by (cases "a = k") auto
qed simp

lemma decode_errors: "decode_access_token X st opened now token = Inl e \<Longrightarrow> e = invalid_token"
  by (auto simp: decode_access_token_def uuid_of_sub_def split: option.splits if_splits)

section \<open>Properties\<close>

text \<open>
  The previous signing key is accepted only inside the rotation window. A token that the
  current key does not verify is refused with 401 once fifteen minutes have passed since the
  module was loaded, and always when no previous key is configured.
\<close>

theorem previous_key_expires:
  assumes "x_jwt_decode X token (jwt_secret st) now = None"
    and "\<not> truthy (jwt_secret_previous st) \<or> load_time + minutes 15 < now"
  shows "decode_access_token X st (rotation_window_opened_at st load_time) now token
           = Inl (HTTPException 401 ''Invalid or expired token'')"
  using assms
  by (auto simp: decode_access_token_def rotation_window_opened_at_def truthy_def
      invalid_token_def rotation_window_def split: option.splits if_splits)

definition demo_settings :: settings where
  "demo_settings =
     \<lparr>use_postgres = True, app_env = ''test'', session_secret = '''',
      jwt_secret = replicate 32 CHR ''k'', jwt_secret_previous = Some (replicate 32 CHR ''p''),
      link_token_fernet_keys = Some ''new, old'', access_token_expire_seconds = 900,
      brew_log_sync_alert = False\<rparr>"

text \<open>
  A concrete instance of the external functions for the witnesses: a token is the decimal text
  of the user id behind one character that names the key, hashing prepends a mark, and a
  ciphertext is the key, a colon and the text.
\<close>

definition demo_externals :: externals where
  "demo_externals =
     \<lparr>x_jwt_encode = (\<lambda>p k. hd k # jwt_sub p),
      x_jwt_decode = (\<lambda>t k now. if t \<noteq> [] \<and> k \<noteq> [] \<and> hd t = hd k then Some (Some (tl t)) else None),
      x_uuid_of_str = (\<lambda>v. if v \<noteq> [] \<and> list_all is_digit v then Some (str_nat v) else None),
      x_str_of_uuid = nat_str,
      x_sha256hex = (\<lambda>r. CHR ''#'' # r),
      x_pwd_hash = (\<lambda>p. CHR ''$'' # p),
      x_pwd_verify = (\<lambda>p h. if h = [] then None else Some (h = CHR ''$'' # p)),
      x_fernet_valid = (\<lambda>k. True),
      x_fernet_encrypt = (\<lambda>k t. k @ '':'' @ t),
      x_fernet_decrypt = (\<lambda>k c. if take (length k + 1) c = k @ '':''
                                then Some (drop (length k + 1) c) else None),
      x_derive_key = id\<rparr>"

theorem previous_key_expires_witness:
  "decode_access_token demo_externals demo_settings
     (rotation_window_opened_at demo_settings 0) (minutes 15 + 1) ''p7''
     = Inl (HTTPException 401 ''Invalid or expired token'')"
  by (rule previous_key_expires)
    (simp_all add: demo_externals_def demo_settings_def time_defs)

text \<open>
  C39. A link token that was encrypted for display can be read back after the key list has been
  changed, as long as the key it was encrypted with is still in the list and the other keys
  reject it: the current key list encrypts with its first key and decrypts with any of them.
\<close>

theorem display_token_roundtrip:
  assumes "fernet_key_material X old = Inr oldkeys" "fernet_key_material X st = Inr keys"
    and "hd oldkeys \<in> set keys"
    and "\<And>k. k \<in> set keys \<Longrightarrow>
           x_fernet_decrypt X k (x_fernet_encrypt X (hd oldkeys) raw)
             = (if k = hd oldkeys then Some raw else None)"
    and "x_fernet_encrypt X (hd oldkeys) raw \<noteq> []"
  shows "\<exists>ct. encrypt_display_token X old raw = Inr ct
           \<and> decrypt_display_token X st (Some ct) = Inr (Some raw)"
  using assms try_keys_rotated [OF assms(3), of X "x_fernet_encrypt X (hd oldkeys) raw" raw]
  by (simp add: encrypt_display_token_def decrypt_display_token_def truthy_def)

theorem display_token_roundtrip_witness:
  "\<exists>ct. encrypt_display_token demo_externals
          (demo_settings\<lparr>link_token_fernet_keys := Some ''old''\<rparr>) ''tok'' = Inr ct
      \<and> decrypt_display_token demo_externals demo_settings (Some ct) = Inr (Some ''tok'')"
proof (rule display_token_roundtrip)
  show "fernet_key_material demo_externals
          (demo_settings\<lparr>link_token_fernet_keys := Some ''old''\<rparr>) = Inr [''old'']"
    by code_simp
  show "fernet_key_material demo_externals demo_settings = Inr [''new'', ''old'']"
    by code_simp
qed (auto simp: demo_externals_def)

end
