(* ===== verification/Deps.thy ===== *)
theory Deps
  imports HouseholdRepo RefreshTokens AuthService
begin

text \<open>
  The authentication dependencies of \<^verbatim>\<open>app/deps.py\<close>: the user behind a bearer token, the
  resolution of the active household membership with its repair of a stale preference, the
  admin requirement, and the guest-or-member resolution of read-only views. Each dependency
  that yields a membership leaves the transaction under that household's row-level setting.
\<close>

text \<open>
  What a request runs under: the external functions, the settings, the start of the key
  rotation window, and the readings of the two clocks.
\<close>

record env =
  e_ext :: externals
  e_st :: settings
  e_opened :: "instant option"
  e_now :: instant
  e_db_now :: instant

definition current_user :: "env \<Rightarrow> string option \<Rightarrow> session \<Rightarrow> user res" where
  "current_user E token s =
     (case token of
        None \<Rightarrow> Inl (HTTPException 401 ''Not authenticated'')
      | Some t \<Rightarrow>
          (case decode_access_token (e_ext E) (e_st E) (e_opened E) (e_now E) t of
             Inl e \<Rightarrow> Inl e
           | Inr uid \<Rightarrow>
               if \<not> use_postgres (e_st E) then Inl (HTTPException 401 ''Database unavailable'')
               else (case get_user_by_id s uid of
                       None \<Rightarrow> Inl (HTTPException 401 ''User not found'')
                     | Some u \<Rightarrow> Inr u)))"

definition fallback_membership :: "user \<Rightarrow> session \<Rightarrow> household_member res \<times> session" where
  "fallback_membership user s =
     (case get_memberships_for_user s (u_id user) of
        [] \<Rightarrow> (Inl (HTTPException 403 ''User has no household memberships''), s)
      | m # _ \<Rightarrow> andthen (set_active_household (u_id user) (m_household_id m) s)
                   (\<lambda>_ s. (Inr m, s)))"

definition resolve_membership_for_user ::
  "user \<Rightarrow> session \<Rightarrow> household_member res \<times> session" where
  "resolve_membership_for_user user s =
     (case u_active_household_id user of
        None \<Rightarrow> fallback_membership user s
      | Some active \<Rightarrow>
          (case (get_member s active (u_id user), get_household s active) of
             (Some m, Some _) \<Rightarrow> (Inr m, s)
           | _ \<Rightarrow> fallback_membership user (clear_active_household (u_id user) s)))"

definition current_household_membership ::
  "env \<Rightarrow> string option \<Rightarrow> session \<Rightarrow> household_member res \<times> session" where
  "current_household_membership E token s =
     (case current_user E token s of
        Inl e \<Rightarrow> (Inl e, s)
      | Inr user \<Rightarrow>
          if \<not> use_postgres (e_st E) then (Inl (HTTPException 403 ''Database unavailable''), s)
          else andthen (resolve_membership_for_user user s) (\<lambda>m s.
                 (Inr m, set_household_context (m_household_id m) s)))"

definition require_admin ::
  "env \<Rightarrow> string option \<Rightarrow> session \<Rightarrow> household_member res \<times> session" where
  "require_admin E token s =
     andthen (current_household_membership E token s) (\<lambda>m s.
       if m_role m \<noteq> Admin then (Inl (HTTPException 403 ''Admin role required''), s)
       else (Inr m, s))"

datatype caller = AsMember household_member | AsGuest guest_token

definition resolve_guest_or_member ::
  "env \<Rightarrow> string option \<Rightarrow> string option \<Rightarrow> string option \<Rightarrow> session \<Rightarrow> caller res \<times> session"
where
  "resolve_guest_or_member E guest key token s =
     (case (if truthy guest then guest else key) of
        Some raw \<Rightarrow>
          if \<not> use_postgres (e_st E) then (Inl (HTTPException 401 ''Database unavailable''), s)
          else (case get_guest_token_by_hash (e_now E) s (hash_token (e_ext E) raw) of
                  None \<Rightarrow> (Inl (HTTPException 401 ''Invalid or expired guest token''), s)
                | Some g \<Rightarrow> (Inr (AsGuest g), set_household_context (g_household_id g) s))
      | None \<Rightarrow>
          (case current_user E token s of
             Inl e \<Rightarrow> (Inl e, s)
           | Inr user \<Rightarrow> andthen (resolve_membership_for_user user s) (\<lambda>m s.
               (Inr (AsMember m), set_household_context (m_household_id m) s))))"

section \<open>Lemmas\<close>

lemma get_member_SomeD:
  "get_member s hid uid = Some m \<Longrightarrow>
     m \<in> set (members (work s)) \<and> m_household_id m = hid \<and> m_user_id m = uid"
  by (auto simp: get_member_def dest!: find_Some_in)

lemma get_member_None: "get_member s hid uid = None \<longleftrightarrow>
    (\<forall>m \<in> set (members (work s)). \<not> (m_household_id m = hid \<and> m_user_id m = uid))"
  by (auto simp: get_member_def find_None_all)

lemma get_member_iff:
  assumes "wf_db (work s)"
  shows "get_member s hid uid = Some m \<longleftrightarrow>
    m \<in> set (members (work s)) \<and> m_household_id m = hid \<and> m_user_id m = uid"
  using find_by_key [OF wf_dbD(4) [OF assms], of m] get_member_SomeD [of s hid uid m]
  by (auto simp: get_member_def)

lemma get_household_SomeD:
  "get_household s hid = Some h \<Longrightarrow>
     h \<in> set (households (work s)) \<and> h_id h = hid \<and> h_deleted_at h = None"
  by (auto simp: get_household_def dest!: find_Some_in)

lemma get_household_live: "get_household s hid \<noteq> None \<longleftrightarrow> live_household (work s) hid"
  by (auto simp: get_household_def live_household_def find_None_iff list_ex_iff)

lemma get_household_cong: "households (work s) = households (work t) \<Longrightarrow>
    get_household s hid = get_household t hid"
  by (simp add: get_household_def)

lemma set_memberships_joined:
  "set (memberships_joined s uid) =
     {(m, h). m \<in> set (members (work s)) \<and> m_user_id m = uid
        \<and> get_household s (m_household_id m) = Some h}"
  by (auto simp: memberships_joined_def set_map_filter)

lemma set_memberships_for_user:
  "set (get_memberships_for_user s uid) =
     {m \<in> set (members (work s)). m_user_id m = uid \<and> live_household (work s) (m_household_id m)}"
  unfolding get_memberships_for_user_def
  by (force simp: set_memberships_joined get_household_live [symmetric])

lemma live_household_commit_map_user [simp]:
  "live_household (work (commit (map_user uid f s))) = live_household (work s)"
  by (rule ext) (simp add: live_household_def)

lemma live_in_ids: "live_household d hid \<Longrightarrow> hid \<in> h_id ` set (households d)"
  by (auto simp: live_household_def list_ex_iff)

lemma fallback_membership_spec:
  "fallback_membership user s =
     (case get_memberships_for_user s (u_id user) of
        [] \<Rightarrow> (Inl (HTTPException 403 ''User has no household memberships''), s)
      | m # _ \<Rightarrow> (Inr m, commit (map_user (u_id user)
                    (\<lambda>u. u\<lparr>u_active_household_id := Some (m_household_id m)\<rparr>) s)))"
proof (cases "get_memberships_for_user s (u_id user)")
  case (Cons m ms)
  then have "m \<in> set (get_memberships_for_user s (u_id user))" by simp
  then have "m_household_id m \<in> h_id ` set (households (work s))"
    by (simp add: set_memberships_for_user live_in_ids)
  with Cons show ?thesis
    by (simp add: fallback_membership_def set_active_household_ok)
qed (simp add: fallback_membership_def)

text \<open>
  The resolution changes at most the active household of the user, in committed steps; every
  other table is as before.
\<close>

definition forget_active :: "user \<Rightarrow> user" where
  "forget_active u = u\<lparr>u_active_household_id := None\<rparr>"

definition same_but_active :: "session \<Rightarrow> session \<Rightarrow> bool" where
  "same_but_active s t \<longleftrightarrow>
     t = s \<or> (committed t = work t \<and> (\<exists>us. work t = (work s)\<lparr>users := us\<rparr>
        \<and> map forget_active us = map forget_active (users (work s))))"

lemma same_but_active_frame:
  assumes "same_but_active s t"
  shows "households (work t) = households (work s)" "members (work t) = members (work s)"
    "invitations (work t) = invitations (work s)" "guest_tokens (work t) = guest_tokens (work s)"
    "refresh_tokens (work t) = refresh_tokens (work s)" "brew_log (work t) = brew_log (work s)"
    "catalog (work t) = catalog (work s)" "inventory_bags (work t) = inventory_bags (work s)"
    "hardware (work t) = hardware (work s)" "maintenance_log (work t) = maintenance_log (work s)"
    "map u_id (users (work t)) = map u_id (users (work s))"
    "committed s = work s \<Longrightarrow> committed t = work t"
proof -
  have ids: "map u_id us = map u_id vs" if "map forget_active us = map forget_active vs" for us vs
  proof -
    have "map (u_id \<circ> forget_active) us = map (u_id \<circ> forget_active) vs"
      using arg_cong [OF that, of "map u_id"] by simp
    then show ?thesis by (simp add: forget_active_def comp_def)
  qed
  show "map u_id (users (work t)) = map u_id (users (work s))"
    using assms by (auto simp: same_but_active_def intro!: ids)
qed (use assms in \<open>auto simp: same_but_active_def\<close>)

lemma same_but_active_trans:
  "same_but_active s t \<Longrightarrow> same_but_active t u \<Longrightarrow> same_but_active s u"
  by (auto simp: same_but_active_def)

lemma same_but_active_set:
  "same_but_active s (commit (map_user uid (\<lambda>u. u\<lparr>u_active_household_id := v\<rparr>) s))"
  by (auto simp: same_but_active_def map_user_def upd_work_def commit_def update_where_def
      forget_active_def)

lemma same_but_active_wf:
  assumes "same_but_active s t" "wf_db (work s)" shows "wf_db (work t)"
proof -
  note fr = same_but_active_frame [OF assms(1)]
  have "u_id ` set (users (work t)) = u_id ` set (users (work s))"
    using fr(11) by (metis set_map)
  with assms(2) show ?thesis unfolding wf_db_def fr by simp
qed

lemma resolve_same_but_active:
  "same_but_active s (snd (resolve_membership_for_user user s))"
proof -
  have once: "same_but_active t (snd (fallback_membership user t))" for t
    unfolding fallback_membership_spec
    by (auto simp: same_but_active_set same_but_active_def [of t t] split: list.split)
  have "same_but_active s (snd (fallback_membership user (clear_active_household (u_id user) s)))"
    using same_but_active_trans [OF _ once] same_but_active_set
    by (simp add: clear_active_household_def)
  with once show ?thesis
    by (auto simp: resolve_membership_for_user_def same_but_active_def [of s s]
        split: option.splits)
qed

lemma resolve_keeps: "resolve_membership_for_user user s = (r, t) \<Longrightarrow> same_but_active s t"
  using resolve_same_but_active by (metis snd_conv)

lemma memberships_cong:
  assumes "households (work s) = households (work t)" "members (work s) = members (work t)"
  shows "memberships_joined s uid = memberships_joined t uid"
  using assms by (simp add: memberships_joined_def get_household_def)

lemma get_memberships_clear:
  "get_memberships_for_user (clear_active_household v s) uid = get_memberships_for_user s uid"
  unfolding get_memberships_for_user_def
  by (rule arg_cong [OF memberships_cong]) (simp_all add: clear_active_household_def)

lemma resolve_InrD:
  assumes "resolve_membership_for_user user s = (Inr m, t)"
  shows "m \<in> set (members (work t)) \<and> m_user_id m = u_id user
     \<and> live_household (work t) (m_household_id m)"
proof -
  have mem: "m \<in> set (get_memberships_for_user s (u_id user))"
  proof -
    have "fallback_membership user v = (Inr m, t) \<Longrightarrow> m \<in> set (get_memberships_for_user v (u_id user))"
      for v by (auto simp: fallback_membership_spec split: list.splits)
    moreover have "get_member s a (u_id user) = Some m \<Longrightarrow> get_household s a = Some h \<Longrightarrow>
        m \<in> set (get_memberships_for_user s (u_id user))" for a h
      using get_member_SomeD [of s a "u_id user" m] get_household_live [of s a]
      by (simp add: set_memberships_for_user)
    ultimately show ?thesis
      using assms get_memberships_clear
      by (fastforce simp: resolve_membership_for_user_def split: option.splits)
  qed
  have fr: "members (work t) = members (work s)" "households (work t) = households (work s)"
    using same_but_active_frame [OF resolve_keeps [OF assms]] by auto
  have "live_household (work t) (m_household_id m) = live_household (work s) (m_household_id m)"
    by (simp add: live_household_def fr)
  with mem fr show ?thesis by (simp add: set_memberships_for_user)
qed

lemma resolve_InlD:
  assumes "resolve_membership_for_user user s = (Inl e, t)"
  shows "e = HTTPException 403 ''User has no household memberships''"
    and "get_memberships_for_user s (u_id user) = []"
  using assms
  by (auto simp: resolve_membership_for_user_def fallback_membership_spec get_memberships_clear
      split: option.splits list.splits)

lemma resolve_active:
  assumes "resolve_membership_for_user user s = (Inr m, t)"
    and "get_user_by_id s (u_id user) = Some user"
  shows "\<exists>u'. get_user_by_id t (u_id user) = Some u'
           \<and> u_active_household_id u' = Some (m_household_id m)"
  using assms
  by (auto simp: resolve_membership_for_user_def fallback_membership_spec get_user_map_user
      clear_active_household_def dest: get_member_SomeD split: option.splits list.splits)

section \<open>Properties\<close>

text \<open>
  Resolving the membership of a user yields a membership of that very user in a household
  that is not deleted, and leaves that household as the user's active household; the only
  way to fail is the 403 of a user without any membership in a live household. Nothing but
  the active household of the user is changed.
\<close>

theorem resolve_membership_sound:
  assumes "get_user_by_id s (u_id user) = Some user"
  shows "case resolve_membership_for_user user s of
      (Inr m, t) \<Rightarrow>
        m \<in> set (members (work t)) \<and> m_user_id m = u_id user
        \<and> live_household (work t) (m_household_id m)
        \<and> map_option u_active_household_id (get_user_by_id t (u_id user))
            = Some (Some (m_household_id m))
        \<and> members (work t) = members (work s) \<and> households (work t) = households (work s)
    | (Inl e, t) \<Rightarrow>
        e = HTTPException 403 ''User has no household memberships''
        \<and> (\<forall>m \<in> set (members (work s)). m_user_id m = u_id user \<longrightarrow>
              \<not> live_household (work s) (m_household_id m))
        \<and> members (work t) = members (work s) \<and> households (work t) = households (work s)"
proof -
  obtain r t where eq: "resolve_membership_for_user user s = (r, t)" by fastforce
  have fr: "members (work t) = members (work s)" "households (work t) = households (work s)"
    using same_but_active_frame [OF resolve_keeps [OF eq]] by auto
  show ?thesis
  proof (cases r)
    case (Inl e)
    have "set (get_memberships_for_user s (u_id user)) = {}"
      using resolve_InlD(2) eq Inl by simp
    with eq Inl fr resolve_InlD(1) show ?thesis by (auto simp: set_memberships_for_user)
  next
    case (Inr m)
    with eq fr resolve_InrD resolve_active [OF _ assms] show ?thesis by fastforce
  qed
qed

definition demo_user :: "uuid \<Rightarrow> user" where
  "demo_user uid = \<lparr>u_id = uid, u_username = Some (''user'' @ nat_str uid),
     u_password_hash = Some ''$secret'', u_google_sub = None, u_email = None,
     u_display_name = ''U'', u_picture_url = None, u_active_household_id = Some 9,
     u_created_at = 0, u_last_seen_at = 0, u_login_attempts = 0, u_locked_until = None\<rparr>"

definition demo_household :: "uuid \<Rightarrow> uuid \<Rightarrow> household" where
  "demo_household hid creator = \<lparr>h_id = hid, h_name = ''Home'', h_created_at = 0,
     h_created_by = creator, h_is_guest_accessible = False, h_deleted_at = None\<rparr>"

definition demo_member :: "uuid \<Rightarrow> uuid \<Rightarrow> uuid \<Rightarrow> household_role \<Rightarrow> household_member" where
  "demo_member mid hid uid role = \<lparr>m_id = mid, m_household_id = hid, m_user_id = uid,
     m_role = role, m_invited_by = None, m_invited_at = None, m_accepted_at = None,
     m_joined_at = 0\<rparr>"

text \<open>User 1 prefers household 9, which is gone, and is an admin of household 5.\<close>

definition demo_db :: database where
  "demo_db = \<lparr>users = [demo_user 1, demo_user 2], households = [demo_household 5 1],
     members = [demo_member 11 5 1 Admin, demo_member 12 5 2 Member],
     invitations = [], guest_tokens = [], refresh_tokens = [], brew_log = [], catalog = [],
     inventory_bags = [], hardware = [], maintenance_log = [], import_sessions = []\<rparr>"

definition demo_env :: env where
  "demo_env = \<lparr>e_ext = demo_externals, e_st = demo_settings, e_opened = Some 0, e_now = 1000,
     e_db_now = 1000\<rparr>"

theorem resolve_membership_sound_witness:
  "\<exists>m t. resolve_membership_for_user (demo_user 1) (open_session demo_db) = (Inr m, t)
     \<and> m_household_id m = 5 \<and> live_household (work t) 5"
proof -
  have h: "get_user_by_id (open_session demo_db) (u_id (demo_user 1)) = Some (demo_user 1)"
    by code_simp
  have "fst (resolve_membership_for_user (demo_user 1) (open_session demo_db))
      = Inr (demo_member 11 5 1 Admin)"
    by code_simp
  with resolve_membership_sound [OF h] show ?thesis
    by (cases "resolve_membership_for_user (demo_user 1) (open_session demo_db)")
      (auto simp: demo_member_def)
qed

end
