(* ===== verification/HouseholdLemmas.thy ===== *)
theory HouseholdLemmas
  imports Deps
begin

text \<open>
  Lemmas on the operations of the household repository: what each leaves in the committed
  database, that each keeps the schema's constraints, and that each keeps the two rules of a
  household, at least one admin and at most ten members.
\<close>

section \<open>Frames\<close>

lemma repair_committed [simp]: "committed (repair_active_households us s) = committed s"
  by (induction us arbitrary: s) (simp_all add: Let_def)

lemma repair_tables [simp]:
  "households (work (repair_active_households us s)) = households (work s)"
  "members (work (repair_active_households us s)) = members (work s)"
  "invitations (work (repair_active_households us s)) = invitations (work s)"
  "guest_tokens (work (repair_active_households us s)) = guest_tokens (work s)"
  "refresh_tokens (work (repair_active_households us s)) = refresh_tokens (work s)"
  "brew_log (work (repair_active_households us s)) = brew_log (work s)"
  "catalog (work (repair_active_households us s)) = catalog (work s)"
  "inventory_bags (work (repair_active_households us s)) = inventory_bags (work s)"
  "hardware (work (repair_active_households us s)) = hardware (work s)"
  "maintenance_log (work (repair_active_households us s)) = maintenance_log (work s)"
  "import_sessions (work (repair_active_households us s)) = import_sessions (work s)"
  by (induction us arbitrary: s) (simp_all add: Let_def)

lemma insert_committed [simp]:
  "committed (snd (insert_household h s)) = committed s"
  "committed (snd (insert_member m s)) = committed s"
  "committed (snd (insert_invitation i s)) = committed s"
  by (simp_all add: insert_household_def insert_member_def insert_invitation_def)

lemma andthen_committed:
  "committed (snd m) = c \<Longrightarrow> (\<And>x s. committed s = c \<Longrightarrow> committed (snd (k x s)) = c) \<Longrightarrow>
     committed (snd (andthen m k)) = c"
  by (cases m) (auto simp: andthen_def split: sum.split)

lemma repo_committed [simp]:
  "committed (snd (repo_create_household hid mid t n uid s)) = committed s"
  "committed (snd (repo_rename hid n s)) = committed s"
  "committed (snd (add_member mid t hid uid role ib ia aa s)) = committed s"
  "committed (snd (repo_remove_member hid uid s)) = committed s"
  "committed (snd (repo_update_member_role hid uid role s)) = committed s"
  "committed (snd (repo_hard_delete hid s)) = committed s"
  "committed (snd (repo_create_invitation iid now t hid uid th em role ct s)) = committed s"
  "committed (snd (repo_accept_invitation t iid s)) = committed s"
  "committed (snd (repo_revoke_invitation t iid s)) = committed s"
  "committed (snd (repo_resend_invitation now iid th ct s)) = committed s"
  "committed (snd (repo_create_guest_token gid t hid uid th ct s)) = committed s"
  "committed (revoke_previous_guest_tokens t hid s) = committed s"
  "committed (repo_revoke_guest_tokens t hid s) = committed s"
proof -
  show "committed (snd (repo_create_household hid mid t n uid s)) = committed s"
    unfolding repo_create_household_def Let_def
    by (intro andthen_committed) (auto simp: insert_committed)
  show "committed (snd (add_member mid t hid uid role ib ia aa s)) = committed s"
    unfolding add_member_def Let_def by (intro andthen_committed) simp_all
  show "committed (snd (repo_create_invitation iid now t hid uid th em role ct s)) = committed s"
    unfolding repo_create_invitation_def Let_def
    by (auto intro!: andthen_committed split: sum.split)
qed (auto simp: repo_rename_def repo_remove_member_def delete_members_def
    repo_update_member_role_def repo_hard_delete_def repo_accept_invitation_def
    repo_revoke_invitation_def repo_resend_invitation_def map_invitation_def
    repo_create_guest_token_def set_guest_accessible_def revoke_previous_guest_tokens_def
    repo_revoke_guest_tokens_def Let_def split: option.split)

section \<open>Well-formedness\<close>

lemma wf_set_members:
  assumes "wf_db d" "distinct (map m_id ms)"
    and "distinct (map (\<lambda>m. (m_household_id m, m_user_id m)) ms)"
    and "\<And>m. m \<in> set ms \<Longrightarrow> m_household_id m \<in> h_id ` set (households d)
            \<and> m_user_id m \<in> u_id ` set (users d)"
  shows "wf_db (d\<lparr>members := ms\<rparr>)"
  using assms unfolding wf_db_def by simp

lemma wf_set_invitations:
  assumes "wf_db d" "distinct (map i_id is)" "distinct (map i_token_hash is)"
    and "\<And>i. i \<in> set is \<Longrightarrow> i_household_id i \<in> h_id ` set (households d)"
  shows "wf_db (d\<lparr>invitations := is\<rparr>)"
  using assms unfolding wf_db_def by simp

lemma wf_set_guests:
  assumes "wf_db d" "distinct (map g_id gs)" "distinct (map g_token_hash gs)"
    and "distinct (map g_household_id (filter active_guest gs))"
    and "\<And>g. g \<in> set gs \<Longrightarrow> g_household_id g \<in> h_id ` set (households d)"
  shows "wf_db (d\<lparr>guest_tokens := gs\<rparr>)"
  using assms unfolding wf_db_def by simp

lemma wf_set_households:
  assumes "wf_db d" "distinct (map h_id hs)" "h_id ` set (households d) \<subseteq> h_id ` set hs"
  shows "wf_db (d\<lparr>households := hs\<rparr>)"
  using assms unfolding wf_db_def by (simp add: subset_iff)

lemma image_update_where:
  "(\<And>x. p x \<Longrightarrow> g (f x) = g x) \<Longrightarrow> g ` set (update_where p f xs) = g ` set xs"
  by (metis map_update_where set_map)

lemma wf_update_households:
  "wf_db d \<Longrightarrow> (\<And>h. h_id (f h) = h_id h) \<Longrightarrow>
     wf_db (d\<lparr>households := update_where p f (households d)\<rparr>)"
  by (intro wf_set_households) (simp_all add: wf_dbD image_update_where)

lemma wf_insert_household:
  assumes "wf_db (work s)" "insert_household h s = (Inr u, s')" shows "wf_db (work s')"
proof -
  have "h_id h \<notin> h_id ` set (households (work s))"
    and "work s' = (work s)\<lparr>households := households (work s) @ [h]\<rparr>"
    using assms(2) by (auto simp: insert_household_def list_ex_iff split: if_splits)
  then show ?thesis using assms(1) by (auto intro!: wf_set_households simp: wf_dbD)
qed

lemma wf_insert_member:
  assumes "wf_db (work s)" "insert_member m s = (Inr u, s')" shows "wf_db (work s')"
proof -
  let ?k = "\<lambda>m. (m_household_id m, m_user_id m)"
  have fresh: "m_id m \<notin> m_id ` set (members (work s))" "?k m \<notin> ?k ` set (members (work s))"
    and fk: "m_household_id m \<in> h_id ` set (households (work s))"
      "m_user_id m \<in> u_id ` set (users (work s))"
    and w: "work s' = (work s)\<lparr>members := members (work s) @ [m]\<rparr>"
    using assms(2) by (auto simp: insert_member_def list_ex_iff intro: rev_image_eqI split: if_splits)
  show ?thesis
    unfolding w using fresh fk wf_dbD(3,4,12,13) [OF assms(1)]
    by (intro wf_set_members assms(1)) auto
qed

lemma wf_insert_invitation:
  assumes "wf_db (work s)" "insert_invitation i s = (Inr u, s')" shows "wf_db (work s')"
proof -
  have fresh: "i_id i \<notin> i_id ` set (invitations (work s))"
      "i_token_hash i \<notin> i_token_hash ` set (invitations (work s))"
    and fk: "i_household_id i \<in> h_id ` set (households (work s))"
    and w: "work s' = (work s)\<lparr>invitations := invitations (work s) @ [i]\<rparr>"
    using assms(2) by (auto simp: insert_invitation_def list_ex_iff intro: rev_image_eqI split: if_splits)
  show ?thesis
    unfolding w using fresh fk wf_dbD(5,6,14) [OF assms(1)]
    by (intro wf_set_invitations assms(1)) auto
qed

lemma wf_filter_members: "wf_db d \<Longrightarrow> wf_db (d\<lparr>members := filter p (members d)\<rparr>)"
  by (intro wf_set_members) (auto simp: wf_dbD distinct_map_filter)

lemma wf_update_members:
  assumes "wf_db d" "\<And>m. m_id (f m) = m_id m" "\<And>m. m_household_id (f m) = m_household_id m"
    "\<And>m. m_user_id (f m) = m_user_id m"
  shows "wf_db (d\<lparr>members := update_where p f (members d)\<rparr>)"
  using assms by (intro wf_set_members) (auto simp: wf_dbD set_update_where)

lemma wf_update_invitations:
  assumes "wf_db d" "\<And>i. i_id (f i) = i_id i" "\<And>i. i_household_id (f i) = i_household_id i"
    "\<And>i. i_token_hash (f i) = i_token_hash i"
  shows "wf_db (d\<lparr>invitations := update_where p f (invitations d)\<rparr>)"
  using assms by (intro wf_set_invitations) (auto simp: wf_dbD set_update_where)

lemma distinct_update_key:
  assumes "distinct (map k xs)" "distinct (map key xs)" "\<And>x. key (f x) = key x"
    and "\<And>x. k (f x) = v" "\<And>x. x \<in> set xs \<Longrightarrow> key x \<noteq> a \<Longrightarrow> k x \<noteq> v"
  shows "distinct (map k (update_where (\<lambda>x. key x = a) f xs))"
  using assms
proof (induction xs)
  case (Cons x xs)
  then have IH: "distinct (map k (update_where (\<lambda>x. key x = a) f xs))" by simp
  have "k (if key x = a then f x else x) \<notin> k ` set (update_where (\<lambda>x. key x = a) f xs)"
    using Cons.prems by (auto simp: set_update_where image_iff split: if_splits)
  with IH show ?case by simp
qed simp

lemma wf_rehash_invitation:
  assumes "wf_db d" "\<And>i. i_id (f i) = i_id i" "\<And>i. i_household_id (f i) = i_household_id i"
    "\<And>i. i_token_hash (f i) = th"
    and new: "\<And>k. k \<in> set (invitations d) \<Longrightarrow> i_id k \<noteq> iid \<Longrightarrow> i_token_hash k \<noteq> th"
  shows "wf_db (d\<lparr>invitations := update_where (\<lambda>i. i_id i = iid) f (invitations d)\<rparr>)"
proof (rule wf_set_invitations [OF assms(1)])
  show "distinct (map i_token_hash (update_where (\<lambda>i. i_id i = iid) f (invitations d)))"
    by (rule distinct_update_key [OF wf_dbD(6,5) [OF assms(1)] assms(2,4) new])
qed (use assms in \<open>auto simp: wf_dbD set_update_where\<close>)

lemma wf_revoke_guests: "wf_db (work s) \<Longrightarrow> wf_db (work (revoke_previous_guest_tokens t hid s))"
proof -
  assume wf: "wf_db (work s)"
  let ?p = "\<lambda>g. g_household_id g = hid \<and> active_guest g"
  let ?f = "\<lambda>g :: guest_token. g\<lparr>g_revoked_at := Some t\<rparr>"
  have "distinct (map g_household_id (filter active_guest xs)) \<Longrightarrow>
      distinct (map g_household_id (filter active_guest (update_where ?p ?f xs)))" for xs
    by (induction xs) (auto simp: active_guest_def set_update_where)
  with wf show ?thesis
    unfolding revoke_previous_guest_tokens_def session_simps
    by (intro wf_set_guests) (auto simp: wf_dbD set_update_where)
qed

lemma no_active_after_revoke:
  "\<forall>g \<in> set (guest_tokens (work (revoke_previous_guest_tokens t hid s))).
     g_household_id g = hid \<longrightarrow> \<not> active_guest g"
proof -
  have "\<forall>g \<in> set (update_where (\<lambda>g. g_household_id g = hid \<and> active_guest g)
      (\<lambda>g. g\<lparr>g_revoked_at := Some t\<rparr>) xs). g_household_id g = hid \<longrightarrow> \<not> active_guest g" for xs
    by (induction xs) (simp_all add: active_guest_def)
  then show ?thesis by (simp add: revoke_previous_guest_tokens_def)
qed

lemma wf_set_guest_accessible: "wf_db (work s) \<Longrightarrow> wf_db (work (set_guest_accessible hid b s))"
  by (simp add: set_guest_accessible_def wf_update_households)

lemma wf_create_guest:
  assumes "wf_db (work s)" shows "wf_db (work (snd (repo_create_guest_token gid t hid uid th ct s)))"
proof (cases "fst (repo_create_guest_token gid t hid uid th ct s)")
  case (Inl e)
  then show ?thesis using assms by (auto simp: repo_create_guest_token_def Let_def split: if_splits)
next
  case (Inr g)
  let ?g = "\<lparr>g_id = gid, g_household_id = hid, g_token_hash = th, g_display_token_ciphertext = ct,
    g_created_by_user_id = uid, g_created_at = t, g_expires_at = None, g_revoked_at = None\<rparr>"
  have fresh: "gid \<notin> g_id ` set (guest_tokens (work s))"
      "th \<notin> g_token_hash ` set (guest_tokens (work s))"
      "hid \<notin> g_household_id ` set (filter active_guest (guest_tokens (work s)))"
    and fk: "hid \<in> h_id ` set (households (work s))"
    and w: "snd (repo_create_guest_token gid t hid uid th ct s) = set_guest_accessible hid True
        (upd_work (\<lambda>d. d\<lparr>guest_tokens := guest_tokens d @ [?g]\<rparr>) s)"
    using Inr by (auto simp: repo_create_guest_token_def Let_def list_ex_iff intro: rev_image_eqI split: if_splits)
  have "wf_db ((work s)\<lparr>guest_tokens := guest_tokens (work s) @ [?g]\<rparr>)"
    using fresh fk wf_dbD(7,8,9,15) [OF assms] by (intro wf_set_guests assms) auto
  then show ?thesis by (simp add: w wf_set_guest_accessible)
qed

lemma keep_key: "v \<in> k ` set ys \<Longrightarrow> v \<noteq> a \<Longrightarrow> v \<in> k ` {y \<in> set ys. k y \<noteq> a}"
  by auto

lemma wf_cascade: "wf_db d \<Longrightarrow> wf_db (cascade_household hid d)"
proof -
  assume wf: "wf_db d"
  let ?us = "update_where (\<lambda>u. u_active_household_id u = Some hid)
      (\<lambda>u. u\<lparr>u_active_household_id := None\<rparr>) (users d)"
  have us: "map u_id ?us = map u_id (users d)" "u_id ` set ?us = u_id ` set (users d)"
    by (simp_all add: image_update_where)
  have guests: "filter active_guest (filter (\<lambda>g. g_household_id g \<noteq> hid) (guest_tokens d))
      = filter (\<lambda>g. g_household_id g \<noteq> hid) (filter active_guest (guest_tokens d))"
    by (simp add: conj_commute)
  show ?thesis
    using wf_dbD [OF wf] unfolding wf_db_def cascade_household_def
    by (simp add: us distinct_map_filter guests del: filter_filter) (auto intro!: keep_key)
qed

lemma wf_repair: "wf_db (work s) \<Longrightarrow> wf_db (work (repair_active_households us s))"
  by (induction us arbitrary: s) (simp_all add: Let_def wf_db_map_user)

section \<open>The rules of a household\<close>

definition has_admin :: "database \<Rightarrow> uuid \<Rightarrow> bool" where
  "has_admin d hid = list_ex (\<lambda>m. m_household_id m = hid \<and> m_role m = Admin) (members d)"

definition household_rules :: "database \<Rightarrow> bool" where
  "household_rules d \<longleftrightarrow> wf_db d
     \<and> (\<forall>h \<in> set (households d). has_admin d (h_id h))
     \<and> (\<forall>hid. count_where (\<lambda>m. m_household_id m = hid) (members d) \<le> 10)"

lemma household_rules_same:
  assumes "household_rules d" "wf_db d'" "members d' = members d"
    and "h_id ` set (households d') \<subseteq> h_id ` set (households d)"
  shows "household_rules d'"
  using assms unfolding household_rules_def has_admin_def by (force simp: subset_iff)

lemma other_admin:
  assumes "distinct (map (\<lambda>m. (m_household_id m, m_user_id m)) ms)"
    and "1 < count_where (\<lambda>m. m_household_id m = hid \<and> m_role m = Admin) ms"
  shows "\<exists>m \<in> set ms. m_household_id m = hid \<and> m_role m = Admin \<and> m_user_id m \<noteq> uid"
proof (rule ccontr)
  assume all: "\<not> ?thesis"
  let ?fs = "filter (\<lambda>m. m_household_id m = hid \<and> m_role m = Admin) ms"
  have "distinct (map (\<lambda>m. (m_household_id m, m_user_id m)) ?fs)"
    using assms(1) by (simp add: distinct_map_filter)
  moreover have "set (map (\<lambda>m. (m_household_id m, m_user_id m)) ?fs) \<subseteq> {(hid, uid)}"
    using all by auto
  then have "card (set (map (\<lambda>m. (m_household_id m, m_user_id m)) ?fs)) \<le> card {(hid, uid)}"
    by (intro card_mono) simp_all
  ultimately have "length (map (\<lambda>m. (m_household_id m, m_user_id m)) ?fs) \<le> 1"
    by (simp only: distinct_card) simp
  with assms(2) show False by (simp add: count_where_def)
qed

end
