(* ===== verification/ApiHouseholds.thy ===== *)
theory ApiHouseholds
  imports Deps
begin

text \<open>
  The household endpoints of \<^verbatim>\<open>app/routers/api_households.py\<close>: creation, listing,
  invitations and their lifecycle, member administration, guest links, the detail view, rename
  and deletion. The \<open>_endpoint\<close> definitions put the FastAPI dependencies (the authenticated
  user, the membership, the admin requirement) in front of the handler bodies. Raw link tokens
  are random, so they are arguments, as are generated uuids.
\<close>

section \<open>Validation and links\<close>

definition validate_household_name :: "string \<Rightarrow> string option" where
  "validate_household_name v =
     (let w = strip v in if 1 \<le> length w \<and> length w \<le> 64 then Some w else None)"

definition normalise_email :: "string option \<Rightarrow> string option" where
  "normalise_email e =
     (case e of None \<Rightarrow> None
      | Some v \<Rightarrow> (let w = lower (strip v) in if w = [] then None else Some w))"

definition household_name_error :: err where
  "household_name_error = HTTPException 422 ''Household name must be 1-64 characters''"

definition member_limit :: nat where
  "member_limit = 10"

definition app_base_url :: "string \<Rightarrow> string" where
  "app_base_url base = rev (dropWhile (\<lambda>c. c = CHR ''/'') (rev base))"

definition invite_url :: "string \<Rightarrow> string \<Rightarrow> string" where
  "invite_url base raw = app_base_url base @ ''/invite/accept?token='' @ raw"

definition guest_url :: "externals \<Rightarrow> string \<Rightarrow> uuid \<Rightarrow> string \<Rightarrow> string" where
  "guest_url X base hid raw =
     app_base_url base @ ''/households/'' @ x_str_of_uuid X hid @ ''/view?key='' @ raw"

definition accept_available :: "pending_invitation \<Rightarrow> bool" where
  "accept_available i = (i_status i \<in> {Pending, Declined})"

definition invitation_not_found :: err where
  "invitation_not_found = HTTPException 404 ''Invitation not found''"

text \<open>
  \<open>_ensure_invitation_not_expired\<close> followed by the status guard of the three token endpoints.
\<close>

definition check_invitation :: "instant \<Rightarrow> pending_invitation \<Rightarrow> unit res" where
  "check_invitation now i =
     (if i_expires_at i < now then Inl (HTTPException 410 ''Invitation expired'')
      else if \<not> accept_available i then
        (case i_status i of
           Accepted \<Rightarrow> Inl (HTTPException 409 ''Invitation has already been accepted'')
         | Revoked \<Rightarrow> Inl (HTTPException 410 ''Invitation is no longer pending'')
         | _ \<Rightarrow> Inr ())
      else Inr ())"

section \<open>Results\<close>

record household_out =
  ho_id :: uuid
  ho_name :: string
  ho_created_at :: instant
  ho_role :: household_role

record membership_listing =
  ml_household_id :: uuid
  ml_household_name :: string
  ml_role :: household_role
  ml_joined_at :: instant
  ml_member_count :: nat
  ml_is_active :: bool
  ml_can_manage :: bool

record invite_out =
  io_invitation_id :: uuid
  io_invite_url :: string
  io_expires_at :: instant
  io_invited_email :: "string option"
  io_invited_role :: household_role

record preview_out =
  po_household_name :: string
  po_inviter_display_name :: string
  po_invited_role :: household_role
  po_expires_at :: instant

record accept_out =
  ao_household_id :: uuid
  ao_household_name :: string
  ao_role :: household_role
  ao_active_household_id :: uuid

record guest_token_out =
  go_guest_url :: string
  go_created_at :: instant

record member_out =
  me_member_id :: uuid
  me_username :: "string option"
  me_display_name :: string
  me_email :: "string option"
  me_picture_url :: "string option"
  me_member_role :: household_role
  me_joined_at :: instant
  me_is_self :: bool

record pending_out =
  pi_invitation_id :: uuid
  pi_label :: string
  pi_invited_email :: "string option"
  pi_role :: household_role
  pi_expired :: bool
  pi_invited_at :: instant
  pi_expires_at :: instant
  pi_invite_url :: "string option"
  pi_can_copy :: bool
  pi_can_revoke :: bool
  pi_can_resend :: bool

record permissions_out =
  pe_can_rename :: bool
  pe_can_delete :: bool
  pe_can_manage_members :: bool
  pe_can_manage_invites :: bool
  pe_can_manage_guest_access :: bool

record admin_detail =
  ad_guest_active :: bool
  ad_guest_url :: "string option"
  ad_guest_created_at :: "instant option"
  ad_guest_revoked_at :: "instant option"
  ad_guest_can_copy :: bool
  ad_limit_current :: nat
  ad_limit_max :: nat
  ad_can_invite :: bool
  ad_pending :: "pending_out list"
  ad_permissions :: permissions_out

record household_detail =
  hd_id :: uuid
  hd_name :: string
  hd_created_at :: instant
  hd_role :: household_role
  hd_member_count :: nat
  hd_members :: "member_out list"
  hd_admin :: "admin_detail option"

section \<open>Creating and listing\<close>

definition create_household ::
  "env \<Rightarrow> uuid \<Rightarrow> uuid \<Rightarrow> string \<Rightarrow> user \<Rightarrow> session \<Rightarrow> household_out res \<times> session" where
  "create_household E hid mid name user s =
     (case validate_household_name name of
        None \<Rightarrow> (Inl household_name_error, s)
      | Some w \<Rightarrow>
          andthen (repo_create_household hid mid (e_db_now E) w (u_id user) s) (\<lambda>h s.
          andthen (set_active_household (u_id user) (h_id h) s) (\<lambda>_ s.
            (Inr \<lparr>ho_id = h_id h, ho_name = h_name h, ho_created_at = h_created_at h,
                  ho_role = Admin\<rparr>, commit s))))"

definition membership_listing_of :: "uuid option \<Rightarrow> membership_with_name \<Rightarrow> membership_listing" where
  "membership_listing_of active mw =
     (let m = mw_membership mw in
      \<lparr>ml_household_id = m_household_id m, ml_household_name = mw_household_name mw,
       ml_role = m_role m, ml_joined_at = m_joined_at m, ml_member_count = mw_member_count mw,
       ml_is_active = (Some (m_household_id m) = active), ml_can_manage = (m_role m = Admin)\<rparr>)"

definition membership_outputs :: "user \<Rightarrow> session \<Rightarrow> membership_listing list res \<times> session" where
  "membership_outputs user s =
     (let ms = get_memberships_with_households s (u_id user)
      in if ms = [] then
           (Inr [], if u_active_household_id user \<noteq> None
                    then clear_active_household (u_id user) s else s)
         else if list_all (\<lambda>mw. Some (m_household_id (mw_membership mw))
                                  \<noteq> u_active_household_id user) ms then
           (let hid = m_household_id (mw_membership (hd ms))
            in andthen (set_active_household (u_id user) hid s) (\<lambda>_ s.
                 (Inr (map (membership_listing_of (Some hid)) ms), s)))
         else (Inr (map (membership_listing_of (u_active_household_id user)) ms), s))"

section \<open>Invitations\<close>

definition create_invite ::
  "env \<Rightarrow> string \<Rightarrow> uuid \<Rightarrow> string \<Rightarrow> string option \<Rightarrow> household_role \<Rightarrow> household_member \<Rightarrow> session
     \<Rightarrow> invite_out res \<times> session" where
  "create_invite E base iid raw email role membership s =
     (case encrypt_display_token (e_ext E) (e_st E) raw of
        Inl e \<Rightarrow> (Inl e, s)
      | Inr ct \<Rightarrow>
          andthen (repo_create_invitation iid (e_now E) (e_db_now E) (m_household_id membership)
                     (m_user_id membership) (hash_token (e_ext E) raw) (normalise_email email)
                     role (Some ct) s)
            (\<lambda>i s. (Inr \<lparr>io_invitation_id = i_id i, io_invite_url = invite_url base raw,
                         io_expires_at = i_expires_at i, io_invited_email = i_invited_email i,
                         io_invited_role = i_invited_role i\<rparr>, commit s)))"

definition preview_invitation :: "env \<Rightarrow> string \<Rightarrow> session \<Rightarrow> preview_out res" where
  "preview_invitation E token s =
     (case get_invitation_by_token_hash s (hash_token (e_ext E) token) of
        None \<Rightarrow> Inl invitation_not_found
      | Some i \<Rightarrow>
          (case check_invitation (e_now E) i of
             Inl e \<Rightarrow> Inl e
           | Inr _ \<Rightarrow>
               (case get_household s (i_household_id i) of
                  None \<Rightarrow> Inl (HTTPException 410 ''Household is no longer available'')
                | Some h \<Rightarrow>
                    Inr \<lparr>po_household_name = h_name h,
                         po_inviter_display_name =
                           (case get_user_by_id s (i_invited_by_user_id i) of
                              Some u \<Rightarrow> u_display_name u | None \<Rightarrow> ''Household admin''),
                         po_invited_role = i_invited_role i, po_expires_at = i_expires_at i\<rparr>)))"

definition accept_invite ::
  "env \<Rightarrow> uuid \<Rightarrow> string \<Rightarrow> user \<Rightarrow> session \<Rightarrow> accept_out res \<times> session" where
  "accept_invite E mid token user s =
     (case get_invitation_by_token_hash s (hash_token (e_ext E) token) of
        None \<Rightarrow> (Inl invitation_not_found, s)
      | Some i \<Rightarrow>
          (case check_invitation (e_now E) i of
             Inl e \<Rightarrow> (Inl e, s)
           | Inr _ \<Rightarrow>
               (case get_household s (i_household_id i) of
                  None \<Rightarrow> (Inl (HTTPException 410 ''Household is no longer available''), s)
                | Some h \<Rightarrow>
                    if get_member s (i_household_id i) (u_id user) \<noteq> None
                    then (Inl (HTTPException 409 ''Already a member of this household''), s)
                    else if member_limit \<le> count_members s (i_household_id i)
                    then (Inl (HTTPException 409
                            ''Household has reached the maximum of 10 members.''), s)
                    else
                      andthen (add_member mid (e_db_now E) (i_household_id i) (u_id user)
                                 (i_invited_role i) (i_invited_by_user_id i)
                                 (Some (i_invited_at i)) (Some (e_now E)) s) (\<lambda>_ s.
                      andthen (repo_accept_invitation (e_db_now E) (i_id i) s) (\<lambda>_ s.
                        (Inr \<lparr>ao_household_id = i_household_id i, ao_household_name = h_name h,
                              ao_role = i_invited_role i,
                              ao_active_household_id = i_household_id i\<rparr>,
                         commit (map_user (u_id user)
                           (\<lambda>u. u\<lparr>u_active_household_id := Some (i_household_id i)\<rparr>) s)))))))"

definition decline_invite :: "env \<Rightarrow> string \<Rightarrow> session \<Rightarrow> unit res" where
  "decline_invite E token s =
     (case get_invitation_by_token_hash s (hash_token (e_ext E) token) of
        None \<Rightarrow> Inl invitation_not_found
      | Some i \<Rightarrow> check_invitation (e_now E) i)"

text \<open>The two endpoints that name an invitation by id belong to the household's admins.\<close>

definition own_invitation :: "household_member \<Rightarrow> uuid \<Rightarrow> session \<Rightarrow> bool" where
  "own_invitation membership iid s =
     (case get_invitation_by_id s iid of
        None \<Rightarrow> False
      | Some i \<Rightarrow> i_household_id i = m_household_id membership)"

definition revoke_invite :: "env \<Rightarrow> uuid \<Rightarrow> household_member \<Rightarrow> session \<Rightarrow> unit res \<times> session" where
  "revoke_invite E iid membership s =
     (if \<not> own_invitation membership iid s then (Inl invitation_not_found, s)
      else andthen (repo_revoke_invitation (e_db_now E) iid s) (\<lambda>_ s. (Inr (), commit s)))"

definition resend_invite ::
  "env \<Rightarrow> string \<Rightarrow> uuid \<Rightarrow> string \<Rightarrow> household_member \<Rightarrow> session \<Rightarrow> invite_out res \<times> session" where
  "resend_invite E base iid raw membership s =
     (if \<not> own_invitation membership iid s then (Inl invitation_not_found, s)
      else
        (case encrypt_display_token (e_ext E) (e_st E) raw of
           Inl e \<Rightarrow> (Inl e, s)
         | Inr ct \<Rightarrow>
             andthen (repo_resend_invitation (e_now E) iid (hash_token (e_ext E) raw) (Some ct) s)
               (\<lambda>i s. (Inr \<lparr>io_invitation_id = i_id i, io_invite_url = invite_url base raw,
                            io_expires_at = i_expires_at i, io_invited_email = i_invited_email i,
                            io_invited_role = i_invited_role i\<rparr>, commit s))))"

section \<open>Members\<close>

definition remove_member :: "uuid \<Rightarrow> household_member \<Rightarrow> session \<Rightarrow> unit res \<times> session" where
  "remove_member uid membership s =
     (if m_user_id membership = uid
      then (Inl (HTTPException 403 ''You cannot remove yourself from the household.''), s)
      else andthen (repo_remove_member (m_household_id membership) uid s) (\<lambda>_ s.
             (Inr (), commit (repair_active_households [uid] s))))"

definition update_member_role ::
  "uuid \<Rightarrow> household_role \<Rightarrow> household_member \<Rightarrow> session \<Rightarrow> household_member res \<times> session" where
  "update_member_role uid role membership s =
     (if m_user_id membership = uid \<and> role \<noteq> Admin
      then (Inl (HTTPException 409 ''Every household needs at least one admin.''), s)
      else andthen (repo_update_member_role (m_household_id membership) uid role s) (\<lambda>m s.
             (Inr m, commit s)))"

section \<open>Guest links\<close>

definition not_an_admin :: err where
  "not_an_admin = HTTPException 403 ''Not an admin of this household''"

definition generate_guest_token ::
  "env \<Rightarrow> string \<Rightarrow> uuid \<Rightarrow> uuid \<Rightarrow> string \<Rightarrow> household_member \<Rightarrow> session
     \<Rightarrow> guest_token_out res \<times> session" where
  "generate_guest_token E base hid gid raw membership s =
     (if m_household_id membership \<noteq> hid then (Inl not_an_admin, s)
      else
        (let s = revoke_previous_guest_tokens (e_db_now E) hid s
         in case encrypt_display_token (e_ext E) (e_st E) raw of
              Inl e \<Rightarrow> (Inl e, s)
            | Inr ct \<Rightarrow>
                andthen (repo_create_guest_token gid (e_db_now E) hid (m_user_id membership)
                           (hash_token (e_ext E) raw) (Some ct) s)
                  (\<lambda>g s. (Inr \<lparr>go_guest_url = guest_url (e_ext E) base hid raw,
                               go_created_at = g_created_at g\<rparr>, commit s))))"

definition revoke_guest_token ::
  "env \<Rightarrow> uuid \<Rightarrow> household_member \<Rightarrow> session \<Rightarrow> unit res \<times> session" where
  "revoke_guest_token E hid membership s =
     (if m_household_id membership \<noteq> hid then (Inl not_an_admin, s)
      else (Inr (), commit (repo_revoke_guest_tokens (e_db_now E) hid s)))"

section \<open>The detail view\<close>

definition member_out_of :: "session \<Rightarrow> uuid \<Rightarrow> household_member \<Rightarrow> member_out" where
  "member_out_of s self m =
     (let user = get_user_by_id s (m_user_id m) in
      \<lparr>me_member_id = m_user_id m, me_username = Option.bind user u_username,
       me_display_name = (case user of Some u \<Rightarrow> u_display_name u | None \<Rightarrow> ''Household member''),
       me_email = Option.bind user u_email, me_picture_url = Option.bind user u_picture_url,
       me_member_role = m_role m, me_joined_at = m_joined_at m,
       me_is_self = (m_user_id m = self)\<rparr>)"

definition display_link ::
  "env \<Rightarrow> (string \<Rightarrow> string) \<Rightarrow> string option \<Rightarrow> string option res" where
  "display_link E link ciphertext =
     (case decrypt_display_token (e_ext E) (e_st E) ciphertext of
        Inl e \<Rightarrow> Inl e
      | Inr raw \<Rightarrow> Inr (if truthy raw then Some (link (the raw)) else None))"

definition pending_out_of :: "env \<Rightarrow> pending_invitation \<Rightarrow> string option \<Rightarrow> pending_out" where
  "pending_out_of E i url =
     (let expired = (i_expires_at i \<le> e_now E)
      in \<lparr>pi_invitation_id = i_id i,
          pi_label = (if truthy (i_invited_email i) then the (i_invited_email i)
                      else ''Link-only invitation''),
          pi_invited_email = i_invited_email i,
          pi_role = i_invited_role i, pi_expired = expired, pi_invited_at = i_invited_at i,
          pi_expires_at = i_expires_at i, pi_invite_url = url, pi_can_copy = (url \<noteq> None),
          pi_can_revoke = (\<not> expired), pi_can_resend = True\<rparr>)"

fun pending_outs ::
  "env \<Rightarrow> string \<Rightarrow> pending_invitation list \<Rightarrow> pending_out list res" where
  "pending_outs E base [] = Inr []"
| "pending_outs E base (i # is) =
     (if i_status i \<in> {Accepted, Revoked} then pending_outs E base is
      else
        (let expired = (i_expires_at i \<le> e_now E)
         in case (if expired then Inr None
                  else display_link E (invite_url base) (i_display_token_ciphertext i)) of
              Inl e \<Rightarrow> Inl e
            | Inr url \<Rightarrow>
                (case pending_outs E base is of
                   Inl e \<Rightarrow> Inl e
                 | Inr rest \<Rightarrow> Inr (pending_out_of E i url # rest))))"

definition all_permissions :: permissions_out where
  "all_permissions = \<lparr>pe_can_rename = True, pe_can_delete = True, pe_can_manage_members = True,
     pe_can_manage_invites = True, pe_can_manage_guest_access = True\<rparr>"

definition get_household_detail ::
  "env \<Rightarrow> string \<Rightarrow> uuid \<Rightarrow> household_member \<Rightarrow> session \<Rightarrow> household_detail res" where
  "get_household_detail E base hid membership s =
     (case get_household s hid of
        None \<Rightarrow> Inl (HTTPException 404 ''Household not found'')
      | Some h \<Rightarrow>
          if m_household_id membership \<noteq> hid
          then Inl (HTTPException 403 ''Not a member of this household'')
          else
            (let count = count_members s hid;
                 detail = \<lparr>hd_id = h_id h, hd_name = h_name h, hd_created_at = h_created_at h,
                           hd_role = m_role membership, hd_member_count = count,
                           hd_members = map (member_out_of s (m_user_id membership))
                                          (get_members s hid),
                           hd_admin = None\<rparr>
             in if m_role membership \<noteq> Admin then Inr detail
                else
                  (let guest = get_active_guest_token (e_now E) s hid
                   in case (case guest of
                              None \<Rightarrow> Inr None
                            | Some g \<Rightarrow> display_link E (guest_url (e_ext E) base hid)
                                          (g_display_token_ciphertext g)) of
                        Inl e \<Rightarrow> Inl e
                      | Inr url \<Rightarrow>
                          (case pending_outs E base (get_invitations_for_household s hid) of
                             Inl e \<Rightarrow> Inl e
                           | Inr pend \<Rightarrow>
                               Inr (detail\<lparr>hd_admin := Some
                                 \<lparr>ad_guest_active = (guest \<noteq> None), ad_guest_url = url,
                                  ad_guest_created_at = map_option g_created_at guest,
                                  ad_guest_revoked_at = Option.bind guest g_revoked_at,
                                  ad_guest_can_copy = (url \<noteq> None),
                                  ad_limit_current = count, ad_limit_max = member_limit,
                                  ad_can_invite = (count < member_limit),
                                  ad_pending = pend, ad_permissions = all_permissions\<rparr>\<rparr>)))))"

section \<open>Rename and deletion\<close>

definition rename_household ::
  "uuid \<Rightarrow> string \<Rightarrow> household_member \<Rightarrow> session \<Rightarrow> household_out res \<times> session" where
  "rename_household hid name membership s =
     (case validate_household_name name of
        None \<Rightarrow> (Inl household_name_error, s)
      | Some w \<Rightarrow>
          if m_household_id membership \<noteq> hid then (Inl not_an_admin, s)
          else andthen (repo_rename hid w s) (\<lambda>h s.
                 (Inr \<lparr>ho_id = h_id h, ho_name = h_name h, ho_created_at = h_created_at h,
                       ho_role = m_role membership\<rparr>, commit s)))"

definition delete_household ::
  "uuid \<Rightarrow> string \<Rightarrow> household_member \<Rightarrow> session \<Rightarrow> unit res \<times> session" where
  "delete_household hid confirm_name membership s =
     (if m_household_id membership \<noteq> hid then (Inl not_an_admin, s)
      else
        (case get_household s hid of
           None \<Rightarrow> (Inl (HTTPException 404 ''Household not found''), s)
         | Some h \<Rightarrow>
             if confirm_name \<noteq> h_name h
             then (Inl (HTTPException 409 ''Household name confirmation does not match''), s)
             else andthen (repo_hard_delete hid s) (\<lambda>_ s. (Inr (), commit s))))"

section \<open>Requests\<close>

text \<open>
  One constructor per endpoint that changes state; the bearer token decides who asks.
\<close>

datatype household_request =
    CreateHousehold uuid uuid string
  | ListMyHouseholds
  | CreateInvite string uuid string "string option" household_role
  | AcceptInvite uuid string
  | RevokeInvite uuid
  | ResendInvite string uuid string
  | RemoveMember uuid
  | UpdateMemberRole uuid household_role
  | GenerateGuestToken string uuid uuid string
  | RevokeGuestToken uuid
  | RenameHousehold uuid string
  | DeleteHousehold uuid string

definition with_user ::
  "env \<Rightarrow> string option \<Rightarrow> (user \<Rightarrow> session \<Rightarrow> 'a res \<times> session) \<Rightarrow> session \<Rightarrow> unit res \<times> session" where
  "with_user E token body s =
     (case current_user E token s of
        Inl e \<Rightarrow> (Inl e, s)
      | Inr u \<Rightarrow> andthen (body u s) (\<lambda>_ s. (Inr (), s)))"

definition as_admin ::
  "env \<Rightarrow> string option \<Rightarrow> (household_member \<Rightarrow> session \<Rightarrow> 'a res \<times> session) \<Rightarrow> session
     \<Rightarrow> unit res \<times> session" where
  "as_admin E token body s =
     andthen (require_admin E token s) (\<lambda>m s. andthen (body m s) (\<lambda>_ s. (Inr (), s)))"

fun household_endpoint ::
  "env \<Rightarrow> string option \<Rightarrow> household_request \<Rightarrow> session \<Rightarrow> unit res \<times> session" where
  "household_endpoint E t (CreateHousehold hid mid name) =
     with_user E t (create_household E hid mid name)"
| "household_endpoint E t ListMyHouseholds = with_user E t membership_outputs"
| "household_endpoint E t (AcceptInvite mid raw) = with_user E t (accept_invite E mid raw)"
| "household_endpoint E t (CreateInvite base iid raw email role) =
     as_admin E t (create_invite E base iid raw email role)"
| "household_endpoint E t (RevokeInvite iid) = as_admin E t (revoke_invite E iid)"
| "household_endpoint E t (ResendInvite base iid raw) = as_admin E t (resend_invite E base iid raw)"
| "household_endpoint E t (RemoveMember uid) = as_admin E t (remove_member uid)"
| "household_endpoint E t (UpdateMemberRole uid role) = as_admin E t (update_member_role uid role)"
| "household_endpoint E t (GenerateGuestToken base hid gid raw) =
     as_admin E t (generate_guest_token E base hid gid raw)"
| "household_endpoint E t (RevokeGuestToken hid) = as_admin E t (revoke_guest_token E hid)"
| "household_endpoint E t (RenameHousehold hid name) = as_admin E t (rename_household hid name)"
| "household_endpoint E t (DeleteHousehold hid name) = as_admin E t (delete_household hid name)"

definition household_step :: "database \<Rightarrow> env \<times> string option \<times> household_request \<Rightarrow> database" where
  "household_step d q =
     (case q of (E, token, r) \<Rightarrow> after_request (household_endpoint E token r (open_session d)))"

end
