(* ===== verification/ApiAuth.thy ===== *)
theory ApiAuth
  imports Deps
begin

text \<open>
  The JSON auth endpoints of \<^verbatim>\<open>app/routers/api_auth.py\<close>: registration, login with lockout,
  refresh-token rotation with replay detection, logout, the profile, the household switch and
  the admin password reset. Random tokens and generated uuids are arguments; the rate limiter
  in front of the endpoints and the first-run flag of the setup guard are not part of the model.
\<close>

section \<open>Request validation\<close>

definition username_char :: "char \<Rightarrow> bool" where
  "username_char c = (is_letter c \<or> is_digit c \<or> c = CHR ''_'')"

text \<open>
  \<open>re.match("^[A-Za-z0-9_]+$", v)\<close>: the dollar sign also matches before a newline that ends
  the string.
\<close>

definition username_re :: "string \<Rightarrow> bool" where
  "username_re v =
     (let w = (if v \<noteq> [] \<and> last v = CHR 0x0A then butlast v else v)
      in w \<noteq> [] \<and> list_all username_char w)"

definition validate_username :: "string \<Rightarrow> bool" where
  "validate_username v = (3 \<le> length v \<and> length v \<le> 30 \<and> username_re v)"

definition validate_password :: "string \<Rightarrow> bool" where
  "validate_password v = (12 \<le> length v \<and> length v \<le> 1024)"

definition unprocessable :: err where
  "unprocessable = HTTPException 422 ''Unprocessable Entity''"

section \<open>Results\<close>

record token_out =
  t_access_token :: string
  t_cookie :: cookie

record membership_out =
  mo_household_id :: uuid
  mo_household_name :: string
  mo_role :: household_role
  mo_joined_at :: instant
  mo_member_count :: nat
  mo_is_active :: bool
  mo_can_manage :: bool

record me_out =
  me_user_id :: uuid
  me_active_household_id :: "uuid option"
  me_role :: "household_role option"
  me_memberships :: "membership_out list"

record switch_out =
  sw_household_id :: uuid
  sw_role :: household_role
  sw_household_name :: string

text \<open>Issuing a session: the new refresh token is stored and committed, then both tokens go out.\<close>

definition issue_tokens ::
  "env \<Rightarrow> uuid \<Rightarrow> string \<Rightarrow> uuid \<Rightarrow> session \<Rightarrow> token_out res \<times> session" where
  "issue_tokens E rid raw uid s =
     (let (raw_rt, rt_hash) = generate_refresh_token (e_ext E) raw
      in andthen (create_refresh_token rid (e_db_now E) uid rt_hash (e_now E + days 30) s)
           (\<lambda>_ s. case create_access_token (e_ext E) (e_st E) (e_now E) uid of
               Inl e \<Rightarrow> (Inl e, commit s)
             | Inr at \<Rightarrow> (Inr \<lparr>t_access_token = at,
                            t_cookie = set_refresh_cookie (e_st E) raw_rt\<rparr>, commit s)))"

section \<open>Endpoints\<close>

definition register ::
  "env \<Rightarrow> uuid \<Rightarrow> uuid \<Rightarrow> string \<Rightarrow> string \<Rightarrow> string \<Rightarrow> string option \<Rightarrow> session
     \<Rightarrow> (user \<times> token_out) res \<times> session" where
  "register E nid rid raw username password display_name s =
     (if \<not> (validate_username username \<and> validate_password password) then (Inl unprocessable, s)
      else
        (let name = (if truthy display_name then the display_name else username)
         in case get_by_username s username of
              Inl e \<Rightarrow> (Inl e, s)
            | Inr (Some _) \<Rightarrow> (Inl (HTTPException 409 ''Username already taken''), s)
            | Inr None \<Rightarrow>
                (case hash_password (e_ext E) password of
                   Inl e \<Rightarrow> (Inl e, s)
                 | Inr h \<Rightarrow>
                     andthen (create_user nid (e_db_now E) (Some username) (Some h) None None
                                name None s)
                       (\<lambda>u s. andthen (issue_tokens E rid raw (u_id u) s)
                          (\<lambda>t s. (Inr (u, t), s))))))"

definition locked_now :: "instant \<Rightarrow> user \<Rightarrow> bool" where
  "locked_now now u = (case u_locked_until u of None \<Rightarrow> False | Some t \<Rightarrow> now < t)"

definition invalid_credentials :: err where
  "invalid_credentials = HTTPException 401 ''Invalid credentials''"

definition login ::
  "env \<Rightarrow> uuid \<Rightarrow> string \<Rightarrow> string \<Rightarrow> string \<Rightarrow> session \<Rightarrow> token_out res \<times> session" where
  "login E rid raw username password s =
     (case get_by_username s username of
        Inl e \<Rightarrow> (Inl e, s)
      | Inr None \<Rightarrow> (Inl invalid_credentials, s)
      | Inr (Some u) \<Rightarrow>
          if locked_now (e_now E) u
          then (Inl (HTTPException 429 ''Too many failed attempts. Account locked temporarily.''), s)
          else
            (case verify_password (e_ext E) password
                    (case u_password_hash u of None \<Rightarrow> '''' | Some h \<Rightarrow> h) of
               Inl e \<Rightarrow> (Inl e, s)
             | Inr False \<Rightarrow>
                 (Inl invalid_credentials,
                  commit (increment_login_attempts (e_db_now E) (u_id u) s))
             | Inr True \<Rightarrow> issue_tokens E rid raw (u_id u) (reset_login_state (u_id u) s)))"

definition invalid_refresh :: err where
  "invalid_refresh = HTTPException 401 ''Invalid refresh token''"

text \<open>\<open>_REFRESH_REPLAY_GRACE_SECONDS\<close>: a replay this soon after the rotation is not punished.\<close>

definition within_grace :: "instant \<Rightarrow> refresh_token \<Rightarrow> bool" where
  "within_grace now r =
     (case r_rotated_at r of None \<Rightarrow> False | Some t \<Rightarrow> now - t \<le> seconds 5)"

definition refused_refresh :: "env \<Rightarrow> string \<Rightarrow> session \<Rightarrow> token_out res \<times> session" where
  "refused_refresh E th s =
     (case get_refresh_by_hash s th of
        None \<Rightarrow> (Inl invalid_refresh, s)
      | Some existing \<Rightarrow>
          if r_revoked existing \<and> \<not> within_grace (e_now E) existing
          then (Inl invalid_refresh, commit (revoke_all_for_user (r_user_id existing) s))
          else (Inl invalid_refresh, s))"

definition refresh ::
  "env \<Rightarrow> uuid \<Rightarrow> string \<Rightarrow> string option \<Rightarrow> string option \<Rightarrow> session \<Rightarrow> token_out res \<times> session"
where
  "refresh E rid new_raw body_token rt s =
     (let raw = (if truthy rt then rt else body_token)
      in if \<not> truthy raw then (Inl (HTTPException 401 ''Refresh token missing''), s)
         else
           (let th = hash_token (e_ext E) (the raw)
            in case rotate (e_db_now E) th s of
                 (None, s) \<Rightarrow> refused_refresh E th s
               | (Some stored, s) \<Rightarrow> issue_tokens E rid new_raw (r_user_id stored) s))"

text \<open>Best effort: the cookie is cleared whatever happens to the stored token.\<close>

definition logout :: "env \<Rightarrow> string option \<Rightarrow> session \<Rightarrow> cookie \<times> session" where
  "logout E rt s =
     (clear_refresh_cookie (e_st E),
      if truthy rt \<and> use_postgres (e_st E) then
        (case get_refresh_by_hash s (hash_token (e_ext E) (the rt)) of
           Some stored \<Rightarrow> if \<not> r_revoked stored then commit (revoke_refresh (r_id stored) s) else s
         | None \<Rightarrow> s)
      else s)"

definition membership_schema :: "uuid option \<Rightarrow> membership_with_name \<Rightarrow> membership_out" where
  "membership_schema active mw =
     (let m = mw_membership mw in
      \<lparr>mo_household_id = m_household_id m, mo_household_name = mw_household_name mw,
       mo_role = m_role m, mo_joined_at = m_joined_at m, mo_member_count = mw_member_count mw,
       mo_is_active = (Some (m_household_id m) = active), mo_can_manage = (m_role m = Admin)\<rparr>)"

definition get_me :: "user \<Rightarrow> session \<Rightarrow> me_out res \<times> session" where
  "get_me user s =
     (let ms = get_memberships_with_households s (u_id user)
      in if ms = [] then
           (Inr \<lparr>me_user_id = u_id user, me_active_household_id = None, me_role = None,
                 me_memberships = []\<rparr>,
            if u_active_household_id user \<noteq> None then clear_active_household (u_id user) s else s)
         else
           (case filter (\<lambda>mw. Some (m_household_id (mw_membership mw)) = u_active_household_id user) ms of
              [] \<Rightarrow>
                (let m = mw_membership (hd ms); hid = m_household_id m
                 in andthen (set_active_household (u_id user) hid s) (\<lambda>_ s.
                      (Inr \<lparr>me_user_id = u_id user, me_active_household_id = Some hid,
                            me_role = Some (m_role m),
                            me_memberships = map (membership_schema (Some hid)) ms\<rparr>, s)))
            | actives \<Rightarrow>
                (let m = mw_membership (last actives)
                 in (Inr \<lparr>me_user_id = u_id user, me_active_household_id = Some (m_household_id m),
                          me_role = Some (m_role m),
                          me_memberships = map (membership_schema (u_active_household_id user)) ms\<rparr>,
                     s))))"

definition switch_household :: "user \<Rightarrow> uuid \<Rightarrow> session \<Rightarrow> switch_out res \<times> session" where
  "switch_household user hid s =
     (case (get_member s hid (u_id user), get_household s hid) of
        (Some m, Some h) \<Rightarrow>
          andthen (set_active_household (u_id user) hid s) (\<lambda>_ s.
            (Inr \<lparr>sw_household_id = hid, sw_role = m_role m, sw_household_name = h_name h\<rparr>,
             commit s))
      | _ \<Rightarrow> (Inl (HTTPException 403 ''Not a member of this household''), s))"

definition admin_reset_password ::
  "env \<Rightarrow> household_member \<Rightarrow> string \<Rightarrow> string \<Rightarrow> session \<Rightarrow> unit res \<times> session" where
  "admin_reset_password E caller username new_password s =
     (if length new_password < 12
      then (Inl (HTTPException 422 ''Password must be at least 12 characters''), s)
      else if 1024 < length new_password
      then (Inl (HTTPException 422 ''Password must not exceed 1024 bytes''), s)
      else
        (case get_by_username s username of
           Inl e \<Rightarrow> (Inl e, s)
         | Inr None \<Rightarrow> (Inl (HTTPException 404 ''User not found''), s)
         | Inr (Some target) \<Rightarrow>
             (case get_member s (m_household_id caller) (u_id target) of
                None \<Rightarrow> (Inl (HTTPException 404 ''User not found''), s)
              | Some _ \<Rightarrow>
                  (case hash_password (e_ext E) new_password of
                     Inl e \<Rightarrow> (Inl e, s)
                   | Inr h \<Rightarrow> (Inr (), commit (update_password_hash (u_id target) h s))))))"

text \<open>The endpoints that depend on the authenticated user, with their dependencies.\<close>

definition me_endpoint :: "env \<Rightarrow> string option \<Rightarrow> session \<Rightarrow> me_out res \<times> session" where
  "me_endpoint E token s =
     (case current_user E token s of Inl e \<Rightarrow> (Inl e, s) | Inr user \<Rightarrow> get_me user s)"

definition switch_endpoint ::
  "env \<Rightarrow> string option \<Rightarrow> uuid \<Rightarrow> session \<Rightarrow> switch_out res \<times> session" where
  "switch_endpoint E token hid s =
     (case current_user E token s of Inl e \<Rightarrow> (Inl e, s) | Inr user \<Rightarrow> switch_household user hid s)"

definition reset_password_endpoint ::
  "env \<Rightarrow> string option \<Rightarrow> string \<Rightarrow> string \<Rightarrow> session \<Rightarrow> unit res \<times> session" where
  "reset_password_endpoint E token username new_password s =
     andthen (require_admin E token s) (\<lambda>m s. admin_reset_password E m username new_password s)"

end
