(* ===== verification/AuthProps.thy ===== *)
theory AuthProps
  imports ApiAuth
begin

text \<open>
  Password logins: the lockout counts and locks, an expired lock is never renewed, and
  registration and login fit together. What holds across whole request sequences is in
  \<^verbatim>\<open>AuthInv\<close>.
\<close>

section \<open>Lookup by username\<close>

lemma get_by_username_single:
  "get_by_username s n = Inr (Some u) \<Longrightarrow> filter (username_is n) (users (work s)) = [u]"
  using scalar_SomeD by (simp add: get_by_username_def)

lemma get_by_username_SomeD:
  assumes "get_by_username s n = Inr (Some u)"
  shows "u \<in> set (users (work s))" "username_is n u"
proof -
  have "u \<in> set (filter (username_is n) (users (work s)))"
    using get_by_username_single [OF assms] by simp
  then show "u \<in> set (users (work s))" "username_is n u" by simp_all
qed

lemma get_by_username_user:
  assumes "wf_db (work s)" "get_by_username s n = Inr (Some u)"
  shows "get_user_by_id s (u_id u) = Some u"
  using find_by_key [OF wf_dbD(1) [OF assms(1)] get_by_username_SomeD(1) [OF assms(2)]]
  by (simp add: get_user_by_id_def)

lemma get_by_username_commit [simp]: "get_by_username (commit s) n = get_by_username s n"
  by (simp add: get_by_username_def)

text \<open>Updates that keep the usernames and the identifiers move the lookup result along.\<close>

lemma filter_username_update:
  assumes "\<And>u. u_username (f u) = u_username u"
  shows "filter (username_is n) (update_where p f us) = update_where p f (filter (username_is n) us)"
  by (rule filter_update_where) (simp add: assms username_is_def)

lemma get_by_username_map_user:
  assumes "get_by_username s n = Inr (Some u)" "\<And>u. u_username (f u) = u_username u"
  shows "get_by_username (map_user uid f s) n = Inr (Some (if u_id u = uid then f u else u))"
  using get_by_username_single [OF assms(1)]
  by (simp add: get_by_username_def users_map_user filter_username_update [OF assms(2)])

lemma get_by_username_increment:
  assumes "get_by_username s n = Inr (Some u)"
  shows "get_by_username (increment_login_attempts t (u_id u) s) n =
     Inr (Some (if 10 \<le> u_login_attempts u + 1 \<and> u_locked_until u = None
       then u\<lparr>u_login_attempts := u_login_attempts u + 1, u_locked_until := Some (t + minutes 15)\<rparr>
       else u\<lparr>u_login_attempts := u_login_attempts u + 1\<rparr>))"
  using get_by_username_single [OF assms]
  by (simp add: get_by_username_def increment_login_attempts_def Let_def users_map_user
      filter_username_update)

section \<open>Lockout\<close>

text \<open>A run of login attempts of one account, each at its own time and with its own password.\<close>

fun login_run :: "string \<Rightarrow> (env \<times> string) list \<Rightarrow> session \<Rightarrow> token_out res list \<times> session" where
  "login_run n [] s = ([], s)"
| "login_run n ((E, pw) # as) s =
     (let (r, s1) = login E 0 '''' n pw s; (rs, s2) = login_run n as s1 in (r # rs, s2))"

lemma login_wrong:
  assumes "get_by_username s n = Inr (Some u)" "\<not> locked_now (e_now E) u"
    and "verify_password (e_ext E) pw (case u_password_hash u of None \<Rightarrow> '''' | Some h \<Rightarrow> h)
           = Inr False"
  shows "login E rid raw n pw s
    = (Inl invalid_credentials, commit (increment_login_attempts (e_db_now E) (u_id u) s))"
  using assms by (simp add: login_def)

text \<open>
  While an account is locked no password is accepted, the right one included, and the
  attempt changes nothing.
\<close>

theorem locked_account_refused:
  assumes "get_by_username s n = Inr (Some u)" "u_locked_until u = Some t" "e_now E < t"
  shows "login E rid raw n pw s
    = (Inl (HTTPException 429 ''Too many failed attempts. Account locked temporarily.''), s)"
  using assms by (simp add: login_def locked_now_def)

definition locked_demo :: session where
  "locked_demo = open_session (demo_db\<lparr>users := [(demo_user 1)\<lparr>u_locked_until := Some 2000\<rparr>]\<rparr>)"

theorem locked_account_refused_witness:
  "login demo_env 7 ''r'' ''USER1'' ''secret'' locked_demo
    = (Inl (HTTPException 429 ''Too many failed attempts. Account locked temporarily.''), locked_demo)"
proof -
  have h: "get_by_username locked_demo ''USER1'' = Inr (Some ((demo_user 1)\<lparr>u_locked_until := Some 2000\<rparr>))"
    by code_simp
  show ?thesis
    by (rule locked_account_refused [OF h, of 2000]) (simp_all add: demo_env_def)
qed

text \<open>
  C35. Ten wrong passwords in a row lock an account whose row holds no lock time, that is, one
  that has not been locked since its last successful login: starting with a counter below ten, every wrong password before the tenth is answered with 401 and counted, and after the one
  that brings the counter to ten the lock is set to fifteen minutes after the database time of
  that attempt. The condition matters: an account whose lock has expired keeps the lock time in
  its row, and is not locked again (\<open>expired_lock_never_renewed\<close>).
\<close>

theorem wrong_passwords_lock:
  assumes "get_by_username s n = Inr (Some u)" "u_locked_until u = None"
    and "u_login_attempts u + length as = 10" "as \<noteq> []"
    and "\<And>E pw. (E, pw) \<in> set as \<Longrightarrow> verify_password (e_ext E) pw
           (case u_password_hash u of None \<Rightarrow> '''' | Some h \<Rightarrow> h) = Inr False"
  shows "set (fst (login_run n as s)) = {Inl invalid_credentials}
     \<and> (\<exists>u'. get_by_username (snd (login_run n as s)) n = Inr (Some u')
           \<and> u_login_attempts u' = 10
           \<and> u_locked_until u' = Some (e_db_now (fst (last as)) + minutes 15))"
  using assms
proof (induction as arbitrary: s u)
  case (Cons a as)
  obtain E pw where a: "a = (E, pw)" by fastforce
  let ?u = "if 10 \<le> u_login_attempts u + 1 \<and> u_locked_until u = None
       then u\<lparr>u_login_attempts := u_login_attempts u + 1, u_locked_until := Some (e_db_now E + minutes 15)\<rparr>
       else u\<lparr>u_login_attempts := u_login_attempts u + 1\<rparr>"
  let ?s = "commit (increment_login_attempts (e_db_now E) (u_id u) s)"
  have log: "login E 0 '''' n pw s = (Inl invalid_credentials, ?s)"
    using Cons.prems a by (intro login_wrong) (auto simp: locked_now_def)
  have found: "get_by_username ?s n = Inr (Some ?u)"
    using get_by_username_increment [OF Cons.prems(1)] by simp
  show ?case
  proof (cases "as = []")
    case True
    with Cons.prems a log found show ?thesis by simp
  next
    case False
    then have less: "u_login_attempts u + 1 < 10" using Cons.prems(3) by (cases as) auto
    have "set (fst (login_run n as ?s)) = {Inl invalid_credentials}
     \<and> (\<exists>u'. get_by_username (snd (login_run n as ?s)) n = Inr (Some u')
           \<and> u_login_attempts u' = 10
           \<and> u_locked_until u' = Some (e_db_now (fst (last as)) + minutes 15))"
      using less Cons.prems False by (intro Cons.IH [OF found]) auto
    with a log False show ?thesis by (auto simp: case_prod_beta Let_def)
  qed
qed simp

theorem wrong_passwords_lock_witness:
  "\<exists>u'. get_by_username (snd (login_run ''user1'' (replicate 10 (demo_env, ''x''))
          (open_session demo_db))) ''user1'' = Inr (Some u')
      \<and> u_locked_until u' = Some (1000 + minutes 15)"
proof -
  have h: "get_by_username (open_session demo_db) ''user1'' = Inr (Some (demo_user 1))"
    by code_simp
  show ?thesis
    using wrong_passwords_lock [OF h, of "replicate 10 (demo_env, ''x'')"]
    by (auto simp: demo_user_def demo_env_def demo_externals_def verify_password_def)
qed

text \<open>
  A lock that has expired is never renewed. Once the stored lock time has passed, any
  number of wrong passwords is answered with 401 and none of them locks the account again,
  although the counter stays at ten or more: the statement that locks a row asks for
  \<open>locked_until IS NULL\<close>, and only a successful login clears the column.
\<close>

theorem expired_lock_never_renewed:
  assumes "get_by_username s n = Inr (Some u)" "u_locked_until u = Some t"
    and "\<And>E pw. (E, pw) \<in> set as \<Longrightarrow> t \<le> e_now E \<and> verify_password (e_ext E) pw
           (case u_password_hash u of None \<Rightarrow> '''' | Some h \<Rightarrow> h) = Inr False"
  shows "list_all (\<lambda>r. r = Inl invalid_credentials) (fst (login_run n as s))
     \<and> get_by_username (snd (login_run n as s)) n
         = Inr (Some (u\<lparr>u_login_attempts := u_login_attempts u + length as\<rparr>))"
  using assms
proof (induction as arbitrary: s u)
  case (Cons a as)
  obtain E pw where a: "a = (E, pw)" by fastforce
  let ?s = "commit (increment_login_attempts (e_db_now E) (u_id u) s)"
  have "t \<le> e_now E" "verify_password (e_ext E) pw
      (case u_password_hash u of None \<Rightarrow> '''' | Some h \<Rightarrow> h) = Inr False"
    using Cons.prems(3) [of E pw] a by simp_all
  with Cons.prems(2) have log: "login E 0 '''' n pw s = (Inl invalid_credentials, ?s)"
    by (intro login_wrong [OF Cons.prems(1)]) (simp_all add: locked_now_def)
  have found: "get_by_username ?s n = Inr (Some (u\<lparr>u_login_attempts := u_login_attempts u + 1\<rparr>))"
    using get_by_username_increment [OF Cons.prems(1)] Cons.prems(2) by simp
  have later: "t \<le> e_now E' \<and> verify_password (e_ext E') pw'
      (case u_password_hash u of None \<Rightarrow> '''' | Some h \<Rightarrow> h) = Inr False"
    if "(E', pw') \<in> set as" for E' pw'
    using Cons.prems(3) [of E' pw'] that by simp
  show ?case
    using Cons.IH [OF found] later Cons.prems(2) a log by (simp add: case_prod_beta Let_def)
qed simp

theorem expired_lock_never_renewed_witness:
  "list_all (\<lambda>r. r = Inl invalid_credentials)
     (fst (login_run ''user1'' (replicate 1000 (demo_env\<lparr>e_now := 3000\<rparr>, ''x'')) locked_demo))"
proof -
  have h: "get_by_username locked_demo ''user1'' = Inr (Some ((demo_user 1)\<lparr>u_locked_until := Some 2000\<rparr>))"
    by code_simp
  show ?thesis
    using expired_lock_never_renewed [OF h, of 2000 "replicate 1000 (demo_env\<lparr>e_now := 3000\<rparr>, ''x'')"]
    by (simp add: demo_user_def demo_env_def demo_externals_def verify_password_def)
qed

section \<open>Registration and login\<close>

lemma create_access_ok: "32 \<le> length (jwt_secret st) \<Longrightarrow> \<exists>at. create_access_token X st now uid = Inr at"
  by (simp add: create_access_token_def)

lemma issue_tokens_ok:
  assumes "32 \<le> length (jwt_secret (e_st E))" "uid \<in> u_id ` set (users (work s))"
    and "rid \<notin> r_id ` set (refresh_tokens (work s))"
    and "x_sha256hex (e_ext E) raw \<notin> r_token_hash ` set (refresh_tokens (work s))"
  obtains at s1 where "issue_tokens E rid raw uid s
      = (Inr \<lparr>t_access_token = at, t_cookie = set_refresh_cookie (e_st E) raw\<rparr>, commit s1)"
    and "create_access_token (e_ext E) (e_st E) (e_now E) uid = Inr at"
    and "users (work s1) = users (work s)"
    and "refresh_tokens (work s1) = refresh_tokens (work s) @
       [\<lparr>r_id = rid, r_user_id = uid, r_token_hash = x_sha256hex (e_ext E) raw,
         r_expires_at = e_now E + days 30, r_revoked = False, r_rotated_at = None,
         r_created_at = e_db_now E\<rparr>]"
proof -
  let ?r = "\<lparr>r_id = rid, r_user_id = uid, r_token_hash = x_sha256hex (e_ext E) raw,
         r_expires_at = e_now E + days 30, r_revoked = False, r_rotated_at = None,
         r_created_at = e_db_now E\<rparr>"
  let ?s1 = "upd_work (\<lambda>d. d\<lparr>refresh_tokens := refresh_tokens d @ [?r]\<rparr>) s"
  obtain at where at: "create_access_token (e_ext E) (e_st E) (e_now E) uid = Inr at"
    using create_access_ok assms(1) by blast
  have "list_ex (\<lambda>u. u_id u = uid) (users (work s))"
    using assms(2) by (auto simp: list_ex_iff)
  moreover have "\<not> list_ex (\<lambda>k. r_id k = rid \<or> r_token_hash k = x_sha256hex (e_ext E) raw)
      (refresh_tokens (work s))"
    using assms(3,4) by (auto simp: list_ex_iff) (metis imageI)+
  ultimately have "create_refresh_token rid (e_db_now E) uid (x_sha256hex (e_ext E) raw)
      (e_now E + days 30) s = (Inr ?r, ?s1)"
    by (simp add: create_refresh_token_def Let_def)
  then show thesis
    using at by (intro that [of at ?s1]) (simp_all add: issue_tokens_def generate_refresh_token_def)
qed

lemma registered_user:
  assumes "register E nid rid raw un pw dn s = (Inr (u, t), s')"
  shows "get_by_username s' un = Inr (Some u)" "committed s' = work s'"
    "u_password_hash u = Some (x_pwd_hash (e_ext E) pw)" "u_locked_until u = None"
    "get_by_username s un = Inr None" "u_username u = Some un"
proof -
  have free: "get_by_username s un = Inr None"
    using assms by (auto simp: register_def Let_def split: sum.splits option.splits if_splits)
  from assms obtain h s1 where h: "hash_password (e_ext E) pw = Inr h"
    and c: "create_user nid (e_db_now E) (Some un) (Some h) None None
        (if truthy dn then the dn else un) None s = (Inr u, s1)"
    and i: "issue_tokens E rid raw (u_id u) s1 = (Inr t, s')"
    by (auto simp: register_def Let_def elim!: andthen_InrE
        split: sum.splits option.splits if_splits)
  have users1: "users (work s1) = users (work s) @ [u]" "u_username u = Some un"
      "u_password_hash u = Some h" "u_locked_until u = None"
    using c by (auto simp: create_user_def Let_def split: if_splits)
  have users': "users (work s') = users (work s1)" "committed s' = work s'"
    using i by (auto simp: issue_tokens_def generate_refresh_token_def create_refresh_token_def
        Let_def split: sum.splits if_splits)
  have "filter (username_is un) (users (work s)) = []"
    using free scalar_NoneD by (simp add: get_by_username_def)
  with users1 users' show "get_by_username s' un = Inr (Some u)"
    by (simp add: get_by_username_def username_is_def)
  show "committed s' = work s'" "u_locked_until u = None" "u_username u = Some un"
    "get_by_username s un = Inr None"
    by (fact users' users1 free)+
  show "u_password_hash u = Some (x_pwd_hash (e_ext E) pw)"
    using users1 h by (simp add: hash_password_def split: if_splits)
qed

text \<open>
  Registration and login fit together. After a successful registration the account is
  committed, the same username in any capitalisation is refused for a second registration,
  and a login with the registered password succeeds, given a signing secret of 32 characters,
  a password hash the library verifies, and a refresh token that is new.
\<close>

theorem register_then_login:
  assumes "register E nid rid raw un pw dn s = (Inr (u, t), s')"
    and "lower un' = lower un"
    and "x_pwd_verify (e_ext E') pw (x_pwd_hash (e_ext E) pw) = Some True"
    and "32 \<le> length (jwt_secret (e_st E'))"
    and "rid' \<notin> r_id ` set (refresh_tokens (work s'))"
    and "x_sha256hex (e_ext E') raw' \<notin> r_token_hash ` set (refresh_tokens (work s'))"
  shows "committed s' = work s'
     \<and> (validate_username un' \<and> validate_password pw' \<longrightarrow>
          fst (register E' nid' rid' raw' un' pw' dn' s')
            = Inl (HTTPException 409 ''Username already taken''))
     \<and> is_ok (fst (login E' rid' raw' un' pw s'))"
proof -
  note reg = registered_user [OF assms(1)]
  have "username_is un' = username_is un"
    by (rule ext) (simp add: username_is_def assms(2))
  then have found: "get_by_username s' un' = Inr (Some u)"
    using reg(1) by (simp add: get_by_username_def)
  let ?s = "reset_login_state (u_id u) s'"
  have "u_id u \<in> u_id ` set (users (work ?s))"
    using get_by_username_SomeD(1) [OF found]
    by (simp add: reset_login_state_def user_id_set_map_user)
  then have "is_ok (fst (issue_tokens E' rid' raw' (u_id u) ?s))"
    by (rule issue_tokens_ok [OF assms(4), where rid = rid' and raw = raw'])
      (simp_all add: reset_login_state_def assms(5,6))
  then show ?thesis
    using found reg assms(3)
    by (simp add: login_def locked_now_def verify_password_def register_def Let_def)
qed

theorem register_then_login_witness:
  "is_ok (fst (login demo_env 8 ''rb'' ''ALICE'' ''correct horse battery''
     (snd (register demo_env 3 7 ''ra'' ''Alice'' ''correct horse battery'' None
            (open_session demo_db)))))"
proof -
  let ?out = "register demo_env 3 7 ''ra'' ''Alice'' ''correct horse battery'' None
            (open_session demo_db)"
  have ok: "is_ok (fst ?out)"
    by (simp add: register_def validate_username_def validate_password_def username_re_def
        username_char_def is_letter_def Let_def truthy_def get_by_username_def username_is_def
        lower_def lower_char_def hash_password_def create_user_def issue_tokens_def
        generate_refresh_token_def create_refresh_token_def create_access_token_def
        demo_db_def demo_user_def demo_env_def demo_externals_def demo_settings_def nat_str.simps
        digit_char_def)
  then obtain u t s' where out: "?out = (Inr (u, t), s')"
    by (cases ?out) (auto elim: is_okE)
  have fresh: "list_all (\<lambda>r. r_id r \<noteq> 8 \<and> r_token_hash r \<noteq> ''#rb'') (refresh_tokens (work (snd ?out)))"
    by (simp add: register_def validate_username_def validate_password_def username_re_def
        username_char_def is_letter_def Let_def truthy_def get_by_username_def username_is_def
        lower_def lower_char_def hash_password_def create_user_def issue_tokens_def
        generate_refresh_token_def create_refresh_token_def create_access_token_def
        demo_db_def demo_user_def demo_env_def demo_externals_def demo_settings_def nat_str.simps
        digit_char_def)
  have "committed s' = work s' \<and> (validate_username ''ALICE'' \<and> validate_password ''x'' \<longrightarrow>
          fst (register demo_env 4 8 ''rb'' ''ALICE'' ''x'' None s')
            = Inl (HTTPException 409 ''Username already taken''))
     \<and> is_ok (fst (login demo_env 8 ''rb'' ''ALICE'' ''correct horse battery'' s'))"
  proof (rule register_then_login [OF out])
    show "lower ''ALICE'' = lower ''Alice''" by code_simp
    show "8 \<notin> r_id ` set (refresh_tokens (work s'))"
      "x_sha256hex (e_ext demo_env) ''rb'' \<notin> r_token_hash ` set (refresh_tokens (work s'))"
      using fresh out by (auto simp: list_all_iff demo_env_def demo_externals_def)
  qed (simp_all add: demo_env_def demo_externals_def demo_settings_def)
  with out show ?thesis by simp
qed

text \<open>
  The username rule lets one character through that it means to refuse: a name of
  letters, digits and underscores that ends in a newline passes the validation.
\<close>

theorem username_newline_accepted: "validate_username (''alice'' @ [CHR 0x0A])"
  by (simp add: validate_username_def username_re_def username_char_def is_letter_def Let_def)

end
