(* ===== verification/Interfaces.thy ===== *)
theory Interfaces
  imports Prelude
begin

text \<open>
  Interfaces several components share: a request handler system that keeps an invariant, and
  a generator of fresh identifiers. Each is a locale whose lemmas the components obtain by
  interpretation on their own definitions.
\<close>

section \<open>Systems that keep an invariant\<close>

text \<open>
  \<open>step\<close> handles one request, \<open>inv\<close> is kept by every request that \<open>admissible\<close> allows.
\<close>

locale request_system =
  fixes step :: "'d \<Rightarrow> 'r \<Rightarrow> 'd"
    and admissible :: "'r \<Rightarrow> bool"
    and inv :: "'d \<Rightarrow> bool"
  assumes step_keeps: "inv d \<Longrightarrow> admissible r \<Longrightarrow> inv (step d r)"
begin

lemma run_keeps: "inv d \<Longrightarrow> list_all admissible rs \<Longrightarrow> inv (foldl step d rs)"
  by (induction rs arbitrary: d) (simp_all add: step_keeps)

lemma prefix_keeps: "inv d \<Longrightarrow> list_all admissible (rs @ qs) \<Longrightarrow> inv (foldl step d rs)"
  by (simp add: run_keeps)

end

section \<open>Generators of fresh identifiers\<close>

text \<open>Drawing identifiers one after the other, each from all that exist by then.\<close>

primrec draw :: "('i list \<Rightarrow> 'i) \<Rightarrow> nat \<Rightarrow> 'i list \<Rightarrow> 'i list" where
  "draw gen 0 ids = ids"
| "draw gen (Suc n) ids = draw gen n (ids @ [gen ids])"

text \<open>\<open>gen ids\<close> is an identifier that is not among \<open>ids\<close>.\<close>

locale fresh_generator =
  fixes gen :: "'i list \<Rightarrow> 'i"
  assumes gen_fresh: "gen ids \<notin> set ids"
begin

lemma draw_extends: "\<exists>new. draw gen n ids = ids @ new \<and> length new = n"
proof (induction n arbitrary: ids)
  case (Suc n)
  obtain new where "draw gen n (ids @ [gen ids]) = (ids @ [gen ids]) @ new" "length new = n"
    using Suc by blast
  then show ?case by (intro exI [of _ "gen ids # new"]) simp
qed simp

lemma draw_distinct: "distinct ids \<Longrightarrow> distinct (draw gen n ids)"
  by (induction n arbitrary: ids) (simp_all add: gen_fresh)

end

section \<open>Simulations\<close>

text \<open>A run of steps, with the outcome of each step.\<close>

primrec run_steps :: "('s \<Rightarrow> 'c \<Rightarrow> 's \<times> 'o) \<Rightarrow> 's \<Rightarrow> 'c list \<Rightarrow> 's \<times> ('c \<times> 'o) list" where
  "run_steps step s [] = (s, [])"
| "run_steps step s (c # cs) =
     (let (t, log) = run_steps step (fst (step s c)) cs in (t, (c, snd (step s c)) # log))"

lemma run_steps_commands: "run_steps step s cs = (t, log) \<Longrightarrow> log = zip cs (map snd log)"
  by (induction cs arbitrary: s t log) (auto simp: Let_def split: prod.splits)

text \<open>
  \<open>view\<close> abstracts from the state of a component. A step from a good state leads to a good
  state, and the abstraction of it is what \<open>spec\<close> says for the command and its outcome.
\<close>

locale simulation =
  fixes step :: "'s \<Rightarrow> 'c \<Rightarrow> 's \<times> 'o"
    and inv :: "'s \<Rightarrow> bool"
    and view :: "'s \<Rightarrow> 'a"
    and spec :: "'a \<Rightarrow> 'c \<Rightarrow> 'o \<Rightarrow> 'a"
  assumes inv_step: "inv s \<Longrightarrow> inv (fst (step s c))"
    and sim_step: "inv s \<Longrightarrow> view (fst (step s c)) = spec (view s) c (snd (step s c))"
begin

lemma run_sim:
  "inv s \<Longrightarrow> run_steps step s cs = (t, log) \<Longrightarrow>
     inv t \<and> view t = foldl (\<lambda>a (c, o1). spec a c o1) (view s) log"
proof (induction cs arbitrary: s t log)
  case (Cons c cs)
  obtain log' where run: "run_steps step (fst (step s c)) cs = (t, log')"
    and log: "log = (c, snd (step s c)) # log'"
    using Cons.prems(2) by (auto simp: Let_def split: prod.splits)
  from Cons.IH [OF inv_step [OF Cons.prems(1)] run] show ?case
    by (simp add: log sim_step [OF Cons.prems(1)])
qed simp

lemma run_inv: "inv s \<Longrightarrow> inv (fst (run_steps step s cs))"
  using run_sim [of s cs "fst (run_steps step s cs)" "snd (run_steps step s cs)"] by simp

end

end
