(* ===== verification/AuthInv.thy ===== *)
theory AuthInv
  imports AuthProps Interfaces
begin

text \<open>
  Invariants of the auth endpoints over arbitrary request sequences. The locale states what a
  property of the database has to satisfy for the primitive writes of the repositories; inside
  it every endpoint is shown to keep the property, in the working copy and in what is
  committed. It is interpreted for well-formedness and for "this refresh token is spent".
\<close>

section \<open>Requests\<close>

datatype auth_request =
    Register env uuid uuid string string string "string option"
  | Login env uuid string string string
  | Refresh env uuid string "string option" "string option"
  | Logout env "string option"
  | Me env "string option"
  | SwitchHousehold env "string option" uuid
  | ResetPassword env "string option" string string

text \<open>One request against the committed database: a new session, the endpoint, the close.\<close>

fun auth_step :: "database \<Rightarrow> auth_request \<Rightarrow> database" where
  "auth_step d (Register E nid rid raw un pw dn) =
     after_request (register E nid rid raw un pw dn (open_session d))"
| "auth_step d (Login E rid raw un pw) = after_request (login E rid raw un pw (open_session d))"
| "auth_step d (Refresh E rid new bt rt) =
     after_request (refresh E rid new bt rt (open_session d))"
| "auth_step d (Logout E rt) = after_request (logout E rt (open_session d))"
| "auth_step d (Me E token) = after_request (me_endpoint E token (open_session d))"
| "auth_step d (SwitchHousehold E token hid) =
     after_request (switch_endpoint E token hid (open_session d))"
| "auth_step d (ResetPassword E token un pw) =
     after_request (reset_password_endpoint E token un pw (open_session d))"

section \<open>What a property has to satisfy\<close>

locale auth_invariant =
  fixes P :: "database \<Rightarrow> bool"
  assumes P_map_user:
      "P (work s) \<Longrightarrow> (\<And>u. u_id (f u) = u_id u) \<Longrightarrow> P (work (map_user uid f s))"
    and P_increment: "P (work s) \<Longrightarrow> P (work (increment_login_attempts t uid s))"
    and P_create_user:
      "P (work s) \<Longrightarrow> create_user nid t un ph gs em dn pu s = (Inr u, s') \<Longrightarrow> P (work s')"
    and P_rotate: "P (work s) \<Longrightarrow> P (work (snd (rotate t th s)))"
    and P_revoke: "P (work s) \<Longrightarrow> P (work (revoke_refresh rid s))"
    and P_revoke_all: "P (work s) \<Longrightarrow> P (work (revoke_all_for_user uid s))"
    and P_create_refresh:
      "P (work s) \<Longrightarrow> create_refresh_token rid t uid th ex s = (Inr r, s') \<Longrightarrow> P (work s')"
begin

definition ok :: "session \<Rightarrow> bool" where
  "ok s = (P (work s) \<and> P (committed s))"

lemma ok_open: "P d \<Longrightarrow> ok (open_session d)"
  by (simp add: ok_def)

lemma ok_commit: "P (work s) \<Longrightarrow> ok (commit s)"
  by (simp add: ok_def)

lemma ok_issue: "ok s \<Longrightarrow> ok (snd (issue_tokens E rid raw uid s))"
proof (cases "create_refresh_token rid (e_db_now E) uid (x_sha256hex (e_ext E) raw)
      (e_now E + days 30) s")
  case (Pair r s1)
  assume ok: "ok s"
  show ?thesis
  proof (cases r)
    case (Inl e)
    with Pair have "s1 = s"
      by (auto simp: create_refresh_token_def Let_def split: if_splits)
    with Pair Inl ok show ?thesis
      by (simp add: issue_tokens_def generate_refresh_token_def)
  next
    case (Inr x)
    with Pair ok have "P (work s1)" by (auto simp: ok_def intro: P_create_refresh)
    with Pair Inr show ?thesis
      by (simp add: issue_tokens_def generate_refresh_token_def ok_commit split: sum.split)
  qed
qed

lemma ok_set_active: "ok s \<Longrightarrow> ok (snd (set_active_household uid hid s))"
  by (simp add: set_active_household_def ok_def P_map_user)

lemma ok_clear_active: "ok s \<Longrightarrow> ok (clear_active_household uid s)"
  by (simp add: clear_active_household_def ok_def P_map_user)

lemma ok_login: "ok s \<Longrightarrow> ok (snd (login E rid raw un pw s))"
  unfolding login_def
  by (auto simp: reset_login_state_def P_map_user ok_def [of "map_user _ _ _"] ok_def [of s]
      intro!: ok_issue ok_commit P_increment split: sum.split option.split bool.split)

lemma ok_refresh:
  assumes "ok s" shows "ok (snd (refresh E rid new bt rt s))"
proof -
  let ?th = "hash_token (e_ext E) (the (if truthy rt then rt else bt))"
  obtain r s1 where rot: "rotate (e_db_now E) ?th s = (r, s1)" by fastforce
  have s1: "ok s1"
    using assms P_rotate [of s "e_db_now E" ?th] rot
    by (auto simp: ok_def rotate_def Let_def)
  then have "ok (snd (refused_refresh E th s1))" for th
    by (auto simp: refused_refresh_def ok_def P_revoke_all split: option.split)
  with assms s1 rot show ?thesis
    by (simp add: refresh_def Let_def ok_issue split: option.split)
qed

lemma ok_logout: "ok s \<Longrightarrow> ok (snd (logout E rt s))"
  by (auto simp: logout_def ok_def P_revoke split: option.split)

lemma ok_register: "ok s \<Longrightarrow> ok (snd (register E nid rid raw un pw dn s))"
proof -
  assume ok: "ok s"
  have "ok (snd (andthen (create_user nid t a b c d e f s)
      (\<lambda>u s. andthen (issue_tokens E rid raw (u_id u) s) (\<lambda>t s. (Inr (u, t), s)))))" for t a b c d e f
  proof (cases "create_user nid t a b c d e f s")
    case (Pair r s1)
    show ?thesis
    proof (cases r)
      case (Inl x)
      with Pair ok show ?thesis by (auto simp: create_user_def Let_def split: if_splits)
    next
      case (Inr u)
      have "committed s1 = committed s"
        using Pair by (auto simp: create_user_def Let_def split: if_splits)
      with Pair Inr ok have "ok s1" by (auto simp: ok_def intro: P_create_user)
      then have "ok (snd (issue_tokens E rid raw (u_id u) s1))" by (rule ok_issue)
      with Pair Inr show ?thesis
        by (cases "issue_tokens E rid raw (u_id u) s1") (auto simp: andthen_def split: sum.split)
    qed
  qed
  with ok show ?thesis
    by (simp add: register_def Let_def split: sum.split option.split)
qed

lemma ok_andthen:
  "ok (snd m) \<Longrightarrow> (\<And>x s. m = (Inr x, s) \<Longrightarrow> ok s \<Longrightarrow> ok (snd (k x s))) \<Longrightarrow> ok (snd (andthen m k))"
  by (cases m) (auto simp: andthen_def split: sum.split)

lemma ok_get_me: "ok s \<Longrightarrow> ok (snd (get_me user s))"
  by (auto simp: get_me_def Let_def ok_clear_active intro!: ok_andthen ok_set_active
      split: list.split)

lemma ok_switch: "ok s \<Longrightarrow> ok (snd (switch_household user hid s))"
  by (auto simp: switch_household_def intro!: ok_andthen ok_set_active split: option.split)
    (simp add: ok_def)

lemma ok_resolve: "ok s \<Longrightarrow> ok (snd (resolve_membership_for_user user s))"
proof -
  have "ok t \<Longrightarrow> ok (snd (fallback_membership user t))" for t
    by (auto simp: fallback_membership_def intro!: ok_andthen ok_set_active split: list.split)
  then show "ok s \<Longrightarrow> ok (snd (resolve_membership_for_user user s))"
    by (auto simp: resolve_membership_for_user_def ok_clear_active split: option.split)
qed

lemma ok_set_context: "ok s \<Longrightarrow> ok (set_household_context h s)"
  by (simp add: ok_def)

lemma ok_membership: "ok s \<Longrightarrow> ok (snd (current_household_membership E token s))"
  unfolding current_household_membership_def
  by (auto intro!: ok_andthen ok_resolve ok_set_context split: sum.split)

lemma ok_require_admin: "ok s \<Longrightarrow> ok (snd (require_admin E token s))"
  unfolding require_admin_def by (auto intro!: ok_andthen ok_membership)

lemma ok_reset: "ok s \<Longrightarrow> ok (snd (admin_reset_password E m un pw s))"
  by (auto simp: admin_reset_password_def update_password_hash_def ok_def P_map_user
      split: sum.split option.split)

lemma ok_reset_endpoint: "ok s \<Longrightarrow> ok (snd (reset_password_endpoint E token un pw s))"
  unfolding reset_password_endpoint_def
  by (auto intro!: ok_andthen ok_require_admin ok_reset)

lemma auth_step_P: "P d \<Longrightarrow> P (auth_step d r)"
proof -
  assume "P d"
  then have ok: "ok (open_session d)" by (rule ok_open)
  have closes: "ok t \<Longrightarrow> P (close_session t)" for t
    by (simp add: ok_def)
  show ?thesis
    using ok \<open>P d\<close> by (cases r) (auto simp: after_request_def me_endpoint_def switch_endpoint_def
        intro!: closes [unfolded session_simps] ok_register ok_login ok_refresh ok_logout
        ok_get_me ok_switch ok_reset_endpoint split: sum.split)
qed

end

section \<open>Well-formedness\<close>

interpretation wf: auth_invariant wf_db
  by unfold_locales
    (auto simp: wf_db_map_user wf_db_increment wf_db_rotate wf_db_revoke wf_db_revoke_all
      intro: wf_db_create_user wf_db_create_refresh)

interpretation auth_wf: request_system auth_step "\<lambda>_. True" wf_db
  by unfold_locales (rule wf.auth_step_P)

section \<open>Spent refresh tokens\<close>

text \<open>The token with this hash is stored and revoked; the hash is unique in the table.\<close>

definition spent :: "string \<Rightarrow> database \<Rightarrow> bool" where
  "spent th d \<longleftrightarrow> wf_db d \<and> (\<exists>r \<in> set (refresh_tokens d). r_token_hash r = th \<and> r_revoked r)"

lemma spent_map_refresh:
  assumes "spent th (work s)" "wf_db (work (map_refresh p f s))"
    and "\<And>r. r_token_hash (f r) = r_token_hash r" "\<And>r. r_revoked r \<Longrightarrow> r_revoked (f r)"
  shows "spent th (work (map_refresh p f s))"
proof -
  from assms(1) obtain r where r: "r \<in> set (refresh_tokens (work s))" "r_token_hash r = th"
    "r_revoked r" by (auto simp: spent_def)
  let ?r = "if p r then f r else r"
  have "?r \<in> set (update_where p f (refresh_tokens (work s)))"
    using r(1) by (auto simp: set_update_where)
  moreover have "r_token_hash ?r = th" "r_revoked ?r"
    using r assms(3,4) by auto
  ultimately show ?thesis
    using assms(2) unfolding spent_def refresh_map_refresh by blast
qed

lemma spent_same_tokens:
  "spent th d \<Longrightarrow> wf_db d' \<Longrightarrow> refresh_tokens d' = refresh_tokens d \<Longrightarrow> spent th d'"
  by (simp add: spent_def)

interpretation spent: auth_invariant "spent th"
proof
  fix s :: session and f :: "user \<Rightarrow> user" and uid
  assume "spent th (work s)" "\<And>u. u_id (f u) = u_id u"
  then show "spent th (work (map_user uid f s))"
    by (auto intro: spent_same_tokens wf_db_map_user simp: spent_def)
next
  fix s :: session and t uid assume a: "spent th (work s)"
  then have "wf_db (work (increment_login_attempts t uid s))"
    by (simp add: spent_def wf_db_increment)
  with a show "spent th (work (increment_login_attempts t uid s))"
    by (rule spent_same_tokens) (simp add: increment_login_attempts_def Let_def)
next
  fix s :: session and nid t un ph gs em dn pu u s'
  assume a: "spent th (work s)" "create_user nid t un ph gs em dn pu s = (Inr u, s')"
  have "refresh_tokens (work s') = refresh_tokens (work s)"
    using a(2) by (auto simp: create_user_def Let_def split: if_splits)
  with a show "spent th (work s')"
    by (auto simp: spent_def intro: wf_db_create_user)
next
  fix s :: session and t th' assume a: "spent th (work s)"
  then have "wf_db (work (snd (rotate t th' s)))" by (simp add: spent_def wf_db_rotate)
  with a show "spent th (work (snd (rotate t th' s)))"
    by (auto simp: rotate_def Let_def intro: spent_map_refresh)
next
  fix s :: session and rid assume a: "spent th (work s)"
  then have "wf_db (work (revoke_refresh rid s))" by (simp add: spent_def wf_db_revoke)
  with a show "spent th (work (revoke_refresh rid s))"
    by (auto simp: revoke_refresh_def intro: spent_map_refresh)
next
  fix s :: session and uid assume a: "spent th (work s)"
  then have "wf_db (work (revoke_all_for_user uid s))" by (simp add: spent_def wf_db_revoke_all)
  with a show "spent th (work (revoke_all_for_user uid s))"
    by (auto simp: revoke_all_for_user_def intro: spent_map_refresh)
next
  fix s :: session and rid t uid th' ex r s'
  assume a: "spent th (work s)" "create_refresh_token rid t uid th' ex s = (Inr r, s')"
  have "set (refresh_tokens (work s)) \<subseteq> set (refresh_tokens (work s'))"
    using a(2) by (auto simp: create_refresh_token_def Let_def split: if_splits)
  moreover have "wf_db (work s')"
    using a by (auto simp: spent_def intro: wf_db_create_refresh)
  ultimately show "spent th (work s')" using a(1) by (auto simp: spent_def)
qed

interpretation auth_spent: request_system auth_step "\<lambda>_. True" "spent th"
  by unfold_locales (rule spent.auth_step_P)

lemma spent_refused:
  assumes "spent th (work s)" "x_sha256hex (e_ext E) raw = th" "raw \<noteq> []"
  shows "fst (refresh E rid new bt (Some raw) s) = Inl invalid_refresh"
proof -
  from assms(1) obtain r where r: "r \<in> set (refresh_tokens (work s))" "r_token_hash r = th"
    "r_revoked r" and wf: "wf_db (work s)" by (auto simp: spent_def)
  have "rotate (e_db_now E) th s = (None, s)"
    using key_unique [OF wf_dbD(11) [OF wf] _ r(1)] r by (intro rotate_dead) auto
  then show ?thesis
    using assms(2,3) by (simp add: refresh_def truthy_def hash_token_def Let_def
        refused_refresh_def split: option.split)
qed

lemma issue_InrD:
  assumes "issue_tokens E rid raw uid s = (Inr t, s')"
  shows "committed s' = work s'" "x_sha256hex (e_ext E) raw \<notin> r_token_hash ` set (refresh_tokens (work s))"
    "\<exists>r. refresh_tokens (work s') = refresh_tokens (work s) @ [r] \<and> r_user_id r = uid
       \<and> r_token_hash r = x_sha256hex (e_ext E) raw"
  using assms
  by (auto simp: issue_tokens_def generate_refresh_token_def create_refresh_token_def Let_def
      list_ex_iff split: sum.splits if_splits)

lemma refresh_InrD:
  assumes "refresh E rid new bt (Some raw) s = (Inr t, s')" "raw \<noteq> []"
  obtains r s1 where "rotate (e_db_now E) (x_sha256hex (e_ext E) raw) s = (Some r, s1)"
    and "issue_tokens E rid new (r_user_id r) s1 = (Inr t, s')"
  using assms
  by (auto simp: refresh_def truthy_def hash_token_def Let_def refused_refresh_def
      split: prod.splits option.splits if_splits)

lemma refresh_spends:
  assumes "wf_db (work s)" "wf_db (committed s)" "raw \<noteq> []"
    and "refresh E rid new bt (Some raw) s = (Inr t, s')"
  shows "spent (x_sha256hex (e_ext E) raw) (committed s')"
proof -
  obtain r s1 where rot: "rotate (e_db_now E) (x_sha256hex (e_ext E) raw) s = (Some r, s1)"
    and iss: "issue_tokens E rid new (r_user_id r) s1 = (Inr t, s')"
    by (rule refresh_InrD [OF assms(4,3)])
  have "get_refresh_by_hash s1 (x_sha256hex (e_ext E) raw) = Some r"
    by (rule rotate_kills [OF assms(1) rot])
  then have "r \<in> set (refresh_tokens (work s1))" "r_token_hash r = x_sha256hex (e_ext E) raw"
    by (auto simp: get_refresh_by_hash_def dest: find_Some_in)
  moreover have "r_revoked r" by (rule rotate_SomeD(2) [OF rot])
  moreover have "wf_db (work s')"
    using wf.ok_refresh [of s E rid new bt "Some raw"] assms by (simp add: wf.ok_def)
  ultimately show ?thesis
    using issue_InrD(1,3) [OF iss] by (auto simp: spent_def)
qed

section \<open>Properties\<close>

definition token_db :: database where
  "token_db = demo_db\<lparr>refresh_tokens :=
     [\<lparr>r_id = 1, r_user_id = 1, r_token_hash = ''#old'', r_expires_at = 5000, r_revoked = False,
       r_rotated_at = None, r_created_at = 0\<rparr>]\<rparr>"

lemma demo_db_wf: "wf_db demo_db"
  by (simp add: wf_db_def demo_db_def demo_user_def demo_household_def demo_member_def)

lemma token_db_wf: "wf_db token_db"
  using demo_db_wf unfolding wf_db_def by (simp add: token_db_def demo_db_def demo_user_def)

lemma token_db_refresh:
  "is_ok (fst (refresh demo_env 2 ''fresh'' None (Some ''old'') (open_session token_db)))"
  by (simp add: refresh_def truthy_def hash_token_def rotate_def rotatable_def Let_def
      map_refresh_def issue_tokens_def generate_refresh_token_def create_refresh_token_def
      create_access_token_def token_db_def demo_db_def demo_user_def demo_env_def
      demo_externals_def demo_settings_def)

text \<open>
  Replay detection. Presenting a refresh token again after it was rotated is answered with
  401. Up to five seconds after the rotation nothing else happens; later, every refresh token
  of the user is revoked and that is committed, including the one the rotation had issued.
\<close>

theorem refresh_replay:
  assumes "wf_db (work s)" "raw \<noteq> []"
    and "refresh E rid new bt (Some raw) s = (Inr t, s')"
    and "x_sha256hex (e_ext E') raw = x_sha256hex (e_ext E) raw"
  shows "if e_now E' - e_db_now E \<le> seconds 5
    then refresh E' rid' new' bt' (Some raw) s' = (Inl invalid_refresh, s')
    else (\<exists>r s''. refresh E' rid' new' bt' (Some raw) s' = (Inl invalid_refresh, s'')
            \<and> r \<in> set (refresh_tokens (work s'))
            \<and> r_token_hash r = x_sha256hex (e_ext E) new
            \<and> (\<forall>r' \<in> set (refresh_tokens (committed s'')).
                  r_user_id r' = r_user_id r \<longrightarrow> r_revoked r'))"
proof -
  let ?th = "x_sha256hex (e_ext E) raw"
  obtain r s1 where rot: "rotate (e_db_now E) ?th s = (Some r, s1)"
    and iss: "issue_tokens E rid new (r_user_id r) s1 = (Inr t, s')"
    by (rule refresh_InrD [OF assms(3,2)])
  obtain n where n: "refresh_tokens (work s') = refresh_tokens (work s1) @ [n]"
    "r_user_id n = r_user_id r" "r_token_hash n = x_sha256hex (e_ext E) new"
    using issue_InrD(3) [OF iss] by blast
  have got: "get_refresh_by_hash s' ?th = Some r"
    using rotate_kills [OF assms(1) rot] n(1)
    by (simp add: get_refresh_by_hash_def find_append)
  have wf': "wf_db (work s1)" using wf_db_rotate [OF assms(1)] rot by (metis snd_conv)
  have dead: "rotate t ?th s' = (None, s')" for t
  proof (rule rotate_dead)
    fix x assume x: "x \<in> set (refresh_tokens (work s'))" "r_token_hash x = ?th"
    have r_in: "r \<in> set (refresh_tokens (work s1))" "r_token_hash r = ?th"
      using rotate_kills [OF assms(1) rot] by (auto simp: get_refresh_by_hash_def dest: find_Some_in)
    then have "x \<noteq> n" using issue_InrD(2) [OF iss] n(3) x(2) by (metis imageI)
    then have "x = r"
      using x n(1) key_unique [OF wf_dbD(11) [OF wf'] _ r_in(1)] r_in(2) by auto
    then show "r_revoked x" using rotate_SomeD(2) [OF rot] by simp
  qed
  have out: "refresh E' rid' new' bt' (Some raw) s' =
      (if within_grace (e_now E') r then (Inl invalid_refresh, s')
       else (Inl invalid_refresh, commit (revoke_all_for_user (r_user_id r) s')))"
    using assms(2,4) dead got rotate_SomeD(2) [OF rot]
    by (simp add: refresh_def truthy_def hash_token_def Let_def refused_refresh_def)
  have grace: "within_grace (e_now E') r \<longleftrightarrow> e_now E' - e_db_now E \<le> seconds 5"
    using rotate_SomeD(3) [OF rot] by (simp add: within_grace_def)
  have "\<forall>r' \<in> set (refresh_tokens (committed (commit (revoke_all_for_user (r_user_id r) s')))).
      r_user_id r' = r_user_id n \<longrightarrow> r_revoked r'"
    by (auto simp: revoke_all_for_user_def refresh_map_refresh set_update_where n(2))
  with out grace n show ?thesis by auto
qed

theorem refresh_replay_witness:
  "\<exists>(r :: refresh_token) s''. refresh (demo_env\<lparr>e_now := 6001000\<rparr>) 3 ''again'' None (Some ''old'')
      (snd (refresh demo_env 2 ''fresh'' None (Some ''old'') (open_session token_db)))
      = (Inl invalid_refresh, s'')
    \<and> (\<forall>r' \<in> set (refresh_tokens (committed s'')). r_user_id r' = r_user_id r \<longrightarrow> r_revoked r')"
proof -
  obtain t s' where out: "refresh demo_env 2 ''fresh'' None (Some ''old'') (open_session token_db)
      = (Inr t, s')"
    using token_db_refresh
    by (cases "refresh demo_env 2 ''fresh'' None (Some ''old'') (open_session token_db)")
      (auto elim: is_okE)
  have late: "\<not> e_now (demo_env\<lparr>e_now := 6001000\<rparr>) - e_db_now demo_env \<le> seconds 5"
    by (simp add: demo_env_def seconds_def)
  have wf: "wf_db (work (open_session token_db))"
    by (simp add: token_db_wf)
  show ?thesis
    using refresh_replay [OF wf _ out, of "demo_env\<lparr>e_now := 6001000\<rparr>" 3 "''again''" None] late
    unfolding out snd_conv by auto
qed

end
