(* ===== verification/HouseholdInv.thy ===== *)
theory HouseholdInv
  imports HouseholdLemmas ApiHouseholds AuthInv
begin

text \<open>
  Invariants over arbitrary sequences of household and auth requests. The locale extends the
  one of the auth endpoints by what a database property has to satisfy for the writes of the
  household repository; a predicate on token hashes says which newly drawn link tokens the
  property tolerates. Inside it every household endpoint keeps the property in what is
  committed. It is interpreted for the rules of a household and for a spent invitation.
\<close>

section \<open>What a property has to satisfy\<close>

locale household_invariant = auth_invariant P for P :: "database \<Rightarrow> bool" +
  fixes new_ok :: "string \<Rightarrow> bool"
  assumes P_create_household:
      "P (work s) \<Longrightarrow> repo_create_household hid mid t n uid s = (Inr h, s') \<Longrightarrow> P (work s')"
    and P_rename: "P (work s) \<Longrightarrow> P (work (snd (repo_rename hid n s)))"
    and P_accept:
      "P (work s) \<Longrightarrow> count_members s hid < member_limit \<Longrightarrow>
         add_member mid t hid uid role ib ia aa s = (Inr m, s1) \<Longrightarrow>
         repo_accept_invitation t iid s1 = (Inr (), s2) \<Longrightarrow> P (work s2)"
    and P_remove: "P (work s) \<Longrightarrow> P (work (snd (repo_remove_member hid uid s)))"
    and P_role: "P (work s) \<Longrightarrow> P (work (snd (repo_update_member_role hid uid role s)))"
    and P_hard_delete: "P (work s) \<Longrightarrow> P (work (snd (repo_hard_delete hid s)))"
    and P_create_invitation:
      "P (work s) \<Longrightarrow> new_ok th \<Longrightarrow>
         P (work (snd (repo_create_invitation iid now t hid uid th em role ct s)))"
    and P_revoke_invitation: "P (work s) \<Longrightarrow> P (work (snd (repo_revoke_invitation t iid s)))"
    and P_resend: "P (work s) \<Longrightarrow> new_ok th \<Longrightarrow>
         P (work (snd (repo_resend_invitation now iid th ct s)))"
    and P_create_guest: "P (work s) \<Longrightarrow> P (work (snd (repo_create_guest_token gid t hid uid th ct s)))"
    and P_revoke_guests: "P (work s) \<Longrightarrow> P (work (revoke_previous_guest_tokens t hid s))"
    and P_guest_accessible: "P (work s) \<Longrightarrow> P (work (set_guest_accessible hid b s))"
begin

abbreviation com :: "'a \<times> session \<Rightarrow> bool" where
  "com out \<equiv> P (committed (snd out))"

lemma com_andthen:
  "com m \<Longrightarrow> (\<And>x s. m = (Inr x, s) \<Longrightarrow> com (k x s)) \<Longrightarrow> com (andthen m k)"
  by (cases m) (auto simp: andthen_def split: sum.split)

lemma okD: "ok s \<Longrightarrow> P (work s)" "ok s \<Longrightarrow> P (committed s)"
  by (simp_all add: ok_def)

lemma work_repair: "P (work s) \<Longrightarrow> P (work (repair_active_households us s))"
  by (induction us arbitrary: s) (simp_all add: Let_def P_map_user)

lemma ok_repo:
  assumes "ok s"
  shows "ok (snd (repo_rename hid n s))" "ok (snd (repo_remove_member hid uid s))"
    "ok (snd (repo_update_member_role hid uid role s))" "ok (snd (repo_hard_delete hid s))"
    "ok (snd (repo_revoke_invitation t iid s))"
    "ok (snd (repo_create_guest_token gid t hid uid th ct s))"
    "ok (revoke_previous_guest_tokens t hid s)" "ok (repo_revoke_guest_tokens t hid s)"
    "ok (repair_active_households us s)"
  using assms
  by (simp_all add: ok_def P_rename P_remove P_role P_hard_delete P_revoke_invitation
      P_create_guest P_revoke_guests work_repair)
    (simp add: P_guest_accessible P_revoke_guests repo_revoke_guest_tokens_def)

lemma ok_repo_new:
  assumes "ok s" "new_ok th"
  shows "ok (snd (repo_create_invitation iid now t hid uid th em role ct s))"
    "ok (snd (repo_resend_invitation now iid th ct s))"
  using assms by (simp_all add: ok_def P_create_invitation P_resend)

lemma ok_committing: "ok s \<Longrightarrow> ok (commit s)"
  by (simp add: ok_def)

lemma com_create_household:
  assumes "ok s" shows "com (create_household E hid mid n u s)"
proof (cases "validate_household_name n")
  case None
  with assms show ?thesis by (simp add: create_household_def okD)
next
  case (Some w)
  show ?thesis
    unfolding create_household_def Some option.case
  proof (rule com_andthen)
    fix h t
    assume r: "repo_create_household hid mid (e_db_now E) w (u_id u) s = (Inr h, t)"
    then have "committed t = committed s"
      by (metis repo_committed(1) snd_conv)
    with r assms have "ok t" by (auto simp: ok_def intro: P_create_household)
    then show "com (andthen (set_active_household (u_id u) (h_id h) t)
        (\<lambda>_ s. (Inr \<lparr>ho_id = h_id h, ho_name = h_name h, ho_created_at = h_created_at h,
                     ho_role = Admin\<rparr>, commit s)))"
      by (intro okD ok_andthen ok_set_active) (auto intro: ok_committing)
  qed (simp add: assms okD)
qed

lemma ok_listing: "ok s \<Longrightarrow> ok (snd (membership_outputs u s))"
  by (auto simp: membership_outputs_def Let_def ok_clear_active intro!: ok_andthen ok_set_active)

lemma ok_create_invite:
  "ok s \<Longrightarrow> new_ok (hash_token (e_ext E) raw) \<Longrightarrow> ok (snd (create_invite E base iid raw em role m s))"
  by (auto simp: create_invite_def intro!: ok_andthen ok_repo_new ok_committing split: sum.split)

lemma com_accept:
  assumes "ok s" shows "com (accept_invite E mid raw u s)"
proof -
  have "com (andthen (add_member mid (e_db_now E) hid (u_id u) role ib ia aa s) (\<lambda>_ s.
          andthen (repo_accept_invitation (e_db_now E) iid s) (\<lambda>_ s.
            (Inr x, commit (map_user (u_id u) (\<lambda>u. u\<lparr>u_active_household_id := Some hid\<rparr>) s)))))"
    if "count_members s hid < member_limit" for hid role ib ia aa iid and x :: accept_out
  proof (rule com_andthen)
    fix m t assume a: "add_member mid (e_db_now E) hid (u_id u) role ib ia aa s = (Inr m, t)"
    then have c: "committed t = committed s" by (metis repo_committed(3) snd_conv)
    show "com (andthen (repo_accept_invitation (e_db_now E) iid t) (\<lambda>_ s.
            (Inr x, commit (map_user (u_id u) (\<lambda>u. u\<lparr>u_active_household_id := Some hid\<rparr>) s))))"
    proof (rule com_andthen)
      fix y v assume "repo_accept_invitation (e_db_now E) iid t = (Inr y, v)"
      then have "P (work v)"
        using P_accept [OF okD(1) [OF assms] that a] by (cases y) simp
      then show "com (Inr x, commit (map_user (u_id u)
          (\<lambda>u. u\<lparr>u_active_household_id := Some hid\<rparr>) v))"
        by (simp add: P_map_user)
    qed (simp add: c assms okD)
  qed (simp add: assms okD)
  with assms show ?thesis
    by (simp add: accept_invite_def okD not_le split: option.split sum.split)
qed

lemma ok_revoke_invite: "ok s \<Longrightarrow> ok (snd (revoke_invite E iid m s))"
  by (auto simp: revoke_invite_def intro!: ok_andthen ok_repo ok_committing)

lemma ok_resend:
  "ok s \<Longrightarrow> new_ok (hash_token (e_ext E) raw) \<Longrightarrow> ok (snd (resend_invite E base iid raw m s))"
  by (auto simp: resend_invite_def intro!: ok_andthen ok_repo_new ok_committing split: sum.split)

lemma ok_remove: "ok s \<Longrightarrow> ok (snd (remove_member uid m s))"
  by (auto simp: remove_member_def simp del: repair_active_households.simps
      intro!: ok_andthen ok_repo ok_committing)

lemma ok_role: "ok s \<Longrightarrow> ok (snd (update_member_role uid role m s))"
  by (auto simp: update_member_role_def intro!: ok_andthen ok_repo ok_committing)

lemma ok_guest: "ok s \<Longrightarrow> ok (snd (generate_guest_token E base hid gid raw m s))"
  by (auto simp: generate_guest_token_def Let_def intro!: ok_andthen ok_repo ok_committing
      split: sum.split)

lemma ok_revoke_guest: "ok s \<Longrightarrow> ok (snd (revoke_guest_token E hid m s))"
  by (simp add: revoke_guest_token_def ok_repo ok_committing)

lemma ok_rename: "ok s \<Longrightarrow> ok (snd (rename_household hid n m s))"
  by (auto simp: rename_household_def intro!: ok_andthen ok_repo ok_committing split: option.split)

lemma ok_delete: "ok s \<Longrightarrow> ok (snd (delete_household hid n m s))"
  by (auto simp: delete_household_def intro!: ok_andthen ok_repo ok_committing split: option.split)

lemma com_with_user:
  assumes "ok s" "\<And>u. com (body u s)" shows "com (with_user E token body s)"
proof -
  have "com (andthen (body u s) (\<lambda>_ s. (Inr (), s)))" for u
  proof (rule com_andthen)
    fix x t assume "body u s = (Inr x, t)"
    with assms(2) [of u] show "com (Inr (), t)" by simp
  qed (rule assms)
  with assms(1) show ?thesis by (simp add: with_user_def okD split: sum.split)
qed

lemma ok_as_admin:
  assumes "ok s" "\<And>m t. ok t \<Longrightarrow> ok (snd (body m t))" shows "ok (snd (as_admin E token body s))"
  unfolding as_admin_def using assms by (auto intro!: ok_andthen ok_require_admin)

text \<open>The link tokens a request draws.\<close>

fun tolerated :: "env \<Rightarrow> household_request \<Rightarrow> bool" where
  "tolerated E (CreateInvite base iid raw em role) = new_ok (hash_token (e_ext E) raw)"
| "tolerated E (ResendInvite base iid raw) = new_ok (hash_token (e_ext E) raw)"
| "tolerated E _ = True"

lemma household_step_P:
  assumes "P d" "tolerated E r" shows "P (household_step d (E, token, r))"
proof -
  note ok = ok_open [OF assms(1)]
  have "com (household_endpoint E token r (open_session d))"
    using assms(2)
    by (cases r)
      (auto intro!: com_with_user ok_as_admin [THEN okD(2)] ok com_create_household
        ok_listing [THEN okD(2)] com_accept ok_create_invite ok_revoke_invite ok_resend ok_remove
        ok_role ok_guest ok_revoke_guest ok_rename ok_delete simp del: session_simps)
  then show ?thesis by (simp add: household_step_def after_request_def)
qed

end

section \<open>All requests\<close>

datatype app_request =
    AuthRequest auth_request
  | HouseholdRequest env "string option" household_request

fun app_step :: "database \<Rightarrow> app_request \<Rightarrow> database" where
  "app_step d (AuthRequest r) = auth_step d r"
| "app_step d (HouseholdRequest E token r) = household_step d (E, token, r)"

section \<open>Well-formedness\<close>

lemma wf_andthen:
  "wf_db (work (snd m)) \<Longrightarrow> (\<And>x s. m = (Inr x, s) \<Longrightarrow> wf_db (work (snd (k x s)))) \<Longrightarrow>
     wf_db (work (snd (andthen m k)))"
  by (cases m) (auto simp: andthen_def split: sum.split)

lemma wf_inserts:
  assumes wf: "wf_db (work s)"
  shows "wf_db (work (snd (insert_household h s)))" "wf_db (work (snd (insert_member m s)))"
    "wf_db (work (snd (insert_invitation i s)))"
proof -
  have "snd (insert_household h s) = s
      \<or> insert_household h s = (Inr (), snd (insert_household h s))"
    by (simp add: insert_household_def)
  with wf wf_insert_household [OF wf] show "wf_db (work (snd (insert_household h s)))" by metis
  have "snd (insert_member m s) = s \<or> insert_member m s = (Inr (), snd (insert_member m s))"
    by (simp add: insert_member_def)
  with wf wf_insert_member [OF wf] show "wf_db (work (snd (insert_member m s)))" by metis
  have "snd (insert_invitation i s) = s
      \<or> insert_invitation i s = (Inr (), snd (insert_invitation i s))"
    by (simp add: insert_invitation_def)
  with wf wf_insert_invitation [OF wf] show "wf_db (work (snd (insert_invitation i s)))" by metis
qed

lemma wf_repo_create_household:
  assumes "wf_db (work s)"
  shows "wf_db (work (snd (repo_create_household hid mid t n uid s)))"
  unfolding repo_create_household_def Let_def
proof (intro wf_andthen)
  fix x s1 assume "insert_household \<lparr>h_id = hid, h_name = n, h_created_at = t, h_created_by = uid,
    h_is_guest_accessible = False, h_deleted_at = None\<rparr> s = (Inr x, s1)"
  from wf_insert_household [OF assms this] show "wf_db (work (snd (insert_member
      \<lparr>m_id = mid, m_household_id = hid, m_user_id = uid, m_role = Admin, m_invited_by = None,
       m_invited_at = None, m_accepted_at = None, m_joined_at = t\<rparr> s1)))"
    by (rule wf_inserts)
  fix y s2 assume "insert_member
      \<lparr>m_id = mid, m_household_id = hid, m_user_id = uid, m_role = Admin, m_invited_by = None,
       m_invited_at = None, m_accepted_at = None, m_joined_at = t\<rparr> s1 = (Inr y, s2)"
  from wf_insert_member [OF \<open>wf_db (work s1)\<close> this] show "wf_db (work (snd (Inr h, s2)))" for h
    by simp
qed (rule wf_inserts [OF assms])

lemma wf_add_member:
  assumes "wf_db (work s)"
  shows "wf_db (work (snd (add_member mid t hid uid role ib ia aa s)))"
proof -
  have "snd (add_member mid t hid uid role ib ia aa s) = snd (insert_member
      \<lparr>m_id = mid, m_household_id = hid, m_user_id = uid, m_role = role, m_invited_by = Some ib,
       m_invited_at = ia, m_accepted_at = aa, m_joined_at = t\<rparr> s)"
    by (simp add: add_member_def Let_def insert_member_def)
  then show ?thesis using wf_inserts(2) [OF assms] by simp
qed

lemma wf_rename: "wf_db (work s) \<Longrightarrow> wf_db (work (snd (repo_rename hid n s)))"
  by (auto simp: repo_rename_def wf_update_households split: option.split)

lemma wf_accept: "wf_db (work s) \<Longrightarrow> wf_db (work (snd (repo_accept_invitation t iid s)))"
  by (auto simp: repo_accept_invitation_def intro!: wf_update_invitations)

lemma wf_remove: "wf_db (work s) \<Longrightarrow> wf_db (work (snd (repo_remove_member hid uid s)))"
  by (auto simp: repo_remove_member_def delete_members_def wf_filter_members split: option.split)

lemma wf_role: "wf_db (work s) \<Longrightarrow> wf_db (work (snd (repo_update_member_role hid uid role s)))"
  by (auto simp: repo_update_member_role_def intro!: wf_update_members split: option.split)

lemma wf_hard_delete: "wf_db (work s) \<Longrightarrow> wf_db (work (snd (repo_hard_delete hid s)))"
  by (auto simp: repo_hard_delete_def Let_def intro!: wf_repair wf_cascade split: option.split)

lemma wf_revoke_invitation:
  "wf_db (work s) \<Longrightarrow> wf_db (work (snd (repo_revoke_invitation t iid s)))"
  by (auto simp: repo_revoke_invitation_def map_invitation_def intro!: wf_update_invitations
      split: option.split)

lemma insert_invitation_result [simp]:
  "snd (andthen (insert_invitation i s) (\<lambda>_ s. (Inr j, s))) = snd (insert_invitation i s)"
  by (simp add: insert_invitation_def)

lemma wf_create_invitation:
  "wf_db (work s) \<Longrightarrow>
     wf_db (work (snd (repo_create_invitation iid now t hid uid th em role ct s)))"
  by (simp add: repo_create_invitation_def Let_def wf_inserts split: sum.split)

lemma wf_resend:
  "wf_db (work s) \<Longrightarrow> wf_db (work (snd (repo_resend_invitation now iid th ct s)))"
  by (auto simp: repo_resend_invitation_def Let_def map_invitation_def list_ex_iff
      intro!: wf_rehash_invitation [where th = th] split: option.split)

interpretation wf_household: household_invariant wf_db "\<lambda>_. True"
proof
  fix s s' :: session and hid mid t n uid h
  assume "wf_db (work s)" "repo_create_household hid mid t n uid s = (Inr h, s')"
  then show "wf_db (work s')" by (metis wf_repo_create_household snd_conv)
next
  fix s s1 s2 :: session and mid t hid uid role ib ia aa m iid
  assume "wf_db (work s)" "add_member mid t hid uid role ib ia aa s = (Inr m, s1)"
    "repo_accept_invitation t iid s1 = (Inr (), s2)"
  then show "wf_db (work s2)" by (metis wf_add_member wf_accept snd_conv)
qed (simp_all add: wf_rename wf_remove wf_role wf_hard_delete wf_revoke_invitation wf_resend
    wf_create_invitation wf_create_guest wf_revoke_guests wf_set_guest_accessible)

section \<open>At least one admin, at most ten members\<close>

lemma rules_wf: "household_rules d \<Longrightarrow> wf_db d"
  by (simp add: household_rules_def)

lemma rules_create_household:
  assumes rules: "household_rules (work s)"
    and "repo_create_household hid mid t n uid s = (Inr h, s')"
  shows "household_rules (work s')"
proof -
  have w: "members (work s') = members (work s) @ [\<lparr>m_id = mid, m_household_id = hid,
        m_user_id = uid, m_role = Admin, m_invited_by = None, m_invited_at = None,
        m_accepted_at = None, m_joined_at = t\<rparr>]"
      "h_id ` set (households (work s')) = insert hid (h_id ` set (households (work s)))"
    and fresh: "hid \<notin> h_id ` set (households (work s))"
    using assms(2)
    by (auto simp: repo_create_household_def insert_household_def insert_member_def Let_def
        list_ex_iff split: if_splits)
  have "\<not> 0 < count_where (\<lambda>m. m_household_id m = hid) (members (work s))"
    unfolding count_where_pos using fresh wf_dbD(12) [OF rules_wf [OF rules]] by blast
  moreover have "wf_db (work s')"
    using wf_repo_create_household [OF rules_wf [OF rules]] assms(2) by (metis snd_conv)
  moreover have "\<forall>k \<in> h_id ` set (households (work s')). has_admin (work s') k"
    unfolding w(2) using rules by (auto simp: w(1) household_rules_def has_admin_def)
  ultimately show ?thesis
    using rules by (auto simp: household_rules_def w(1))
qed

lemma rules_accept:
  assumes rules: "household_rules (work s)" and room: "count_members s hid < member_limit"
    and a: "add_member mid t hid uid role ib ia aa s = (Inr m, s1)"
    and b: "repo_accept_invitation t iid s1 = (Inr (), s2)"
  shows "household_rules (work s2)"
proof -
  have w: "members (work s2) = members (work s) @ [m]" "households (work s2) = households (work s)"
    and m: "m_household_id m = hid"
    using a b by (auto simp: add_member_def insert_member_def repo_accept_invitation_def Let_def
        split: if_splits)
  have "wf_db (work s2)"
    using wf_accept [OF wf_add_member [OF rules_wf [OF rules]]] a b by (metis snd_conv)
  moreover have "count_where (\<lambda>k. m_household_id k = x) (members (work s2)) \<le> 10" for x
    using room rules
    by (cases "x = hid") (auto simp: w m count_members_def member_limit_def household_rules_def)
  moreover have "\<forall>h \<in> set (households (work s2)). has_admin (work s2) (h_id h)"
    using rules by (auto simp: household_rules_def has_admin_def w)
  ultimately show ?thesis by (simp add: household_rules_def)
qed

lemma rules_set_members:
  assumes "household_rules d" "wf_db (d\<lparr>members := ms\<rparr>)"
    and "\<And>k. has_admin d k \<Longrightarrow> has_admin (d\<lparr>members := ms\<rparr>) k"
    and "\<And>k. count_where (\<lambda>m. m_household_id m = k) ms
            \<le> count_where (\<lambda>m. m_household_id m = k) (members d)"
  shows "household_rules (d\<lparr>members := ms\<rparr>)"
  using assms unfolding household_rules_def by (simp, meson le_trans)

lemma rules_remove:
  assumes rules: "household_rules (work s)"
  shows "household_rules (work (snd (repo_remove_member hid uid s)))"
proof (cases "get_member s hid uid")
  case None
  with rules show ?thesis by (simp add: repo_remove_member_def)
next
  case (Some m)
  show ?thesis
  proof (cases "m_role m = Admin \<and> count_admins s hid \<le> 1")
    case True
    with Some rules show ?thesis by (simp add: repo_remove_member_def)
  next
    case False
    let ?ms = "filter (\<lambda>k. \<not> (m_household_id k = hid \<and> m_user_id k = uid)) (members (work s))"
    have m: "m \<in> set (members (work s))" "m_household_id m = hid" "m_user_id m = uid"
      using Some by (auto simp: get_member_def dest!: find_Some_in)
    have "has_admin ((work s)\<lparr>members := ?ms\<rparr>) k" if k: "has_admin (work s) k" for k
    proof (cases "k = hid \<and> m_role m = Admin")
      case True
      with False have "1 < count_where (\<lambda>k. m_household_id k = hid \<and> m_role k = Admin)
          (members (work s))" by (simp add: count_admins_def)
      from other_admin [OF wf_dbD(4) [OF rules_wf [OF rules]] this, of uid] True show ?thesis
        by (auto simp: has_admin_def list_ex_iff)
    next
      case other: False
      obtain a where a: "a \<in> set (members (work s))" "m_household_id a = k" "m_role a = Admin"
        using k by (auto simp: has_admin_def list_ex_iff)
      have "a = m" if "k = hid" "m_user_id a = uid"
        using key_unique [OF wf_dbD(4) [OF rules_wf [OF rules]] a(1) m(1)] a m that by simp
      with other a show ?thesis by (auto simp: has_admin_def list_ex_iff)
    qed
    then have "household_rules ((work s)\<lparr>members := ?ms\<rparr>)"
      by (intro rules_set_members [OF rules] wf_filter_members rules_wf [OF rules]
          count_where_filter_le)
    with Some False show ?thesis
      by (auto simp: repo_remove_member_def delete_members_def)
  qed
qed

lemma rules_role:
  assumes rules: "household_rules (work s)"
  shows "household_rules (work (snd (repo_update_member_role hid uid role s)))"
proof (cases "get_member s hid uid")
  case None
  with rules show ?thesis by (simp add: repo_update_member_role_def)
next
  case (Some m)
  show ?thesis
  proof (cases "m_role m = Admin \<and> role \<noteq> Admin \<and> count_admins s hid \<le> 1")
    case True
    with Some rules show ?thesis by (simp add: repo_update_member_role_def)
  next
    case False
    let ?p = "\<lambda>k. m_household_id k = hid \<and> m_user_id k = uid"
    let ?ms = "update_where ?p (\<lambda>k. k\<lparr>m_role := role\<rparr>) (members (work s))"
    have m: "m \<in> set (members (work s))" "m_household_id m = hid" "m_user_id m = uid"
      using Some by (auto simp: get_member_def dest!: find_Some_in)
    have stays: "a \<in> set ?ms" if "a \<in> set (members (work s))" "\<not> ?p a" for a
      using that by (auto simp: set_update_where intro: rev_image_eqI)
    have "has_admin ((work s)\<lparr>members := ?ms\<rparr>) k" if k: "has_admin (work s) k" for k
    proof (cases "k = hid \<and> m_role m = Admin \<and> role \<noteq> Admin")
      case True
      with False have "1 < count_where (\<lambda>k. m_household_id k = hid \<and> m_role k = Admin)
          (members (work s))" by (simp add: count_admins_def)
      from other_admin [OF wf_dbD(4) [OF rules_wf [OF rules]] this, of uid] stays True show ?thesis
        by (auto simp: has_admin_def list_ex_iff)
    next
      case other: False
      obtain a where a: "a \<in> set (members (work s))" "m_household_id a = k" "m_role a = Admin"
        using k by (auto simp: has_admin_def list_ex_iff)
      show ?thesis
      proof (cases "?p a")
        case True
        have "a = m"
          using key_unique [OF wf_dbD(4) [OF rules_wf [OF rules]] a(1) m(1)] True m by simp
        with other a True have "role = Admin" by simp
        moreover have "a\<lparr>m_role := role\<rparr> \<in> set ?ms"
          using a(1) True by (auto simp: set_update_where intro: rev_image_eqI)
        ultimately show ?thesis
          using a(2) by (auto simp: has_admin_def list_ex_iff intro!: bexI [of _ "a\<lparr>m_role := Admin\<rparr>"])
      next
        case False
        with a stays show ?thesis by (auto simp: has_admin_def list_ex_iff)
      qed
    qed
    then have "household_rules ((work s)\<lparr>members := ?ms\<rparr>)"
      using rules_wf [OF rules]
      by (intro rules_set_members [OF rules] wf_update_members) (simp_all add: count_update_where)
    with Some False show ?thesis
      by (auto simp: repo_update_member_role_def)
  qed
qed

lemma rules_cascade:
  assumes rules: "household_rules d" shows "household_rules (cascade_household hid d)"
proof -
  have "has_admin (cascade_household hid d) k" if k: "has_admin d k" "k \<noteq> hid" for k
    using k by (auto simp: has_admin_def cascade_household_def list_ex_iff)
  then have "\<forall>h \<in> set (households (cascade_household hid d)).
      has_admin (cascade_household hid d) (h_id h)"
    using rules by (auto simp: household_rules_def cascade_household_def)
  moreover have "count_where (\<lambda>m. m_household_id m = k) (members (cascade_household hid d)) \<le> 10" for k
  proof -
    have "count_where (\<lambda>m. m_household_id m = k) (members d) \<le> 10"
      using rules by (simp add: household_rules_def)
    then show ?thesis
      by (simp add: cascade_household_def order.trans [OF count_where_filter_le])
  qed
  ultimately show ?thesis
    using wf_cascade [OF rules_wf [OF rules]] by (simp add: household_rules_def)
qed

lemma rules_hard_delete:
  assumes rules: "household_rules (work s)"
  shows "household_rules (work (snd (repo_hard_delete hid s)))"
proof -
  let ?d = "cascade_household hid (work s)"
  have "household_rules (work (repair_active_households us (upd_work (\<lambda>_. ?d) s)))" for us
    by (rule household_rules_same [OF rules_cascade [OF rules, of hid]])
      (simp_all add: wf_repair wf_cascade rules_wf [OF rules])
  then show ?thesis
    using rules by (simp add: repo_hard_delete_def Let_def upd_work_def split: option.split)
qed

lemma other_tables_frame:
  fixes s :: session
  shows "members (work (increment_login_attempts t uid s)) = members (work s)"
    and "households (work (increment_login_attempts t uid s)) = households (work s)"
    and "members (work (snd (rotate t th s))) = members (work s)"
    and "households (work (snd (rotate t th s))) = households (work s)"
    and "members (work (revoke_refresh rid s)) = members (work s)"
    and "households (work (revoke_refresh rid s)) = households (work s)"
    and "members (work (revoke_all_for_user uid s)) = members (work s)"
    and "households (work (revoke_all_for_user uid s)) = households (work s)"
    and "members (work (snd (repo_rename hid n s))) = members (work s)"
    and "h_id ` set (households (work (snd (repo_rename hid n s)))) = h_id ` set (households (work s))"
    and "members (work (snd (repo_revoke_invitation t iid s))) = members (work s)"
    and "households (work (snd (repo_revoke_invitation t iid s))) = households (work s)"
    and "members (work (snd (repo_resend_invitation t iid th ct s))) = members (work s)"
    and "households (work (snd (repo_resend_invitation t iid th ct s))) = households (work s)"
    and "members (work (snd (repo_create_guest_token gid t hid uid th ct s))) = members (work s)"
    and "h_id ` set (households (work (snd (repo_create_guest_token gid t hid uid th ct s))))
       = h_id ` set (households (work s))"
    and "members (work (revoke_previous_guest_tokens t hid s)) = members (work s)"
    and "households (work (revoke_previous_guest_tokens t hid s)) = households (work s)"
    and "members (work (set_guest_accessible hid b s)) = members (work s)"
    and "h_id ` set (households (work (set_guest_accessible hid b s))) = h_id ` set (households (work s))"
  by (auto simp: increment_login_attempts_def rotate_def revoke_refresh_def
      revoke_all_for_user_def map_refresh_def repo_rename_def repo_revoke_invitation_def
      repo_resend_invitation_def map_invitation_def repo_create_guest_token_def
      revoke_previous_guest_tokens_def set_guest_accessible_def image_update_where Let_def
      split: option.split)

lemma creation_frame:
  "create_user nid t un ph gs em dn pu s = (Inr u, s') \<Longrightarrow>
     members (work s') = members (work s) \<and> households (work s') = households (work s)"
  "create_refresh_token rid t uid th ex s = (Inr r, s') \<Longrightarrow>
     members (work s') = members (work s) \<and> households (work s') = households (work s)"
  by (auto simp: create_user_def create_refresh_token_def Let_def split: if_splits)

lemma invitation_frame:
  "members (work (snd (repo_create_invitation iid now t hid uid th em role ct s))) = members (work s)"
  "households (work (snd (repo_create_invitation iid now t hid uid th em role ct s)))
     = households (work s)"
  by (auto simp: repo_create_invitation_def insert_invitation_def Let_def split: sum.split)

lemma rules_others:
  fixes s :: session
  assumes "household_rules (work s)"
  shows "household_rules (work (increment_login_attempts t uid s))"
    and "household_rules (work (snd (rotate t th s)))"
    and "household_rules (work (revoke_refresh rid s))"
    and "household_rules (work (revoke_all_for_user uid s))"
    and "household_rules (work (snd (repo_rename hid n s)))"
    and "household_rules (work (snd (repo_create_invitation iid now t hid uid th em role ct s)))"
    and "household_rules (work (snd (repo_revoke_invitation t iid s)))"
    and "household_rules (work (snd (repo_resend_invitation t iid th ct s)))"
    and "household_rules (work (snd (repo_create_guest_token gid t hid uid th ct s)))"
    and "household_rules (work (revoke_previous_guest_tokens t hid s))"
    and "household_rules (work (set_guest_accessible hid b s))"
  by (rule household_rules_same [OF assms]; simp add: rules_wf [OF assms] wf_db_increment
      wf_db_rotate wf_db_revoke wf_db_revoke_all wf_rename wf_create_invitation
      wf_revoke_invitation wf_resend wf_create_guest wf_revoke_guests wf_set_guest_accessible
      other_tables_frame invitation_frame)+

interpretation rules: household_invariant household_rules "\<lambda>_. True"
proof
  fix s s' :: session and nid t un ph gs em dn pu u
  assume a: "household_rules (work s)" "create_user nid t un ph gs em dn pu s = (Inr u, s')"
  show "household_rules (work s')"
    using creation_frame(1) [OF a(2)]
    by (intro household_rules_same [OF a(1)] wf_db_create_user [OF rules_wf [OF a(1)] a(2)]) auto
next
  fix s s' :: session and rid t uid th ex r
  assume a: "household_rules (work s)" "create_refresh_token rid t uid th ex s = (Inr r, s')"
  show "household_rules (work s')"
    using creation_frame(2) [OF a(2)]
    by (intro household_rules_same [OF a(1)] wf_db_create_refresh [OF rules_wf [OF a(1)] a(2)]) auto
next
  fix s s' :: session and hid mid t n uid h
  assume "household_rules (work s)" "repo_create_household hid mid t n uid s = (Inr h, s')"
  then show "household_rules (work s')" by (rule rules_create_household)
next
  fix s s1 s2 :: session and mid t hid uid role ib ia aa m iid
  assume "household_rules (work s)" "count_members s hid < member_limit"
    "add_member mid t hid uid role ib ia aa s = (Inr m, s1)"
    "repo_accept_invitation t iid s1 = (Inr (), s2)"
  then show "household_rules (work s2)" by (rule rules_accept)
next
  fix s :: session and f :: "user \<Rightarrow> user" and uid
  assume a: "household_rules (work s)" "\<And>u. u_id (f u) = u_id u"
  show "household_rules (work (map_user uid f s))"
    by (rule household_rules_same [OF a(1) wf_db_map_user [OF rules_wf [OF a(1)] a(2)]]) simp_all
qed (simp_all add: rules_remove rules_role rules_hard_delete rules_others)

section \<open>Spent refresh tokens\<close>

lemma refresh_tokens_frame:
  fixes s :: session
  shows "refresh_tokens (work (snd (repo_rename hid n s))) = refresh_tokens (work s)"
    and "refresh_tokens (work (snd (repo_remove_member hid uid s))) = refresh_tokens (work s)"
    and "refresh_tokens (work (snd (repo_update_member_role hid uid role s))) = refresh_tokens (work s)"
    and "refresh_tokens (work (snd (repo_hard_delete hid s))) = refresh_tokens (work s)"
    and "refresh_tokens (work (snd (repo_create_invitation iid now t hid uid th em role ct s)))
       = refresh_tokens (work s)"
    and "refresh_tokens (work (snd (repo_revoke_invitation t iid s))) = refresh_tokens (work s)"
    and "refresh_tokens (work (snd (repo_resend_invitation t iid th ct s))) = refresh_tokens (work s)"
    and "refresh_tokens (work (snd (repo_create_guest_token gid t hid uid th ct s)))
       = refresh_tokens (work s)"
    and "refresh_tokens (work (revoke_previous_guest_tokens t hid s)) = refresh_tokens (work s)"
    and "refresh_tokens (work (set_guest_accessible hid b s)) = refresh_tokens (work s)"
    and "refresh_tokens (work (snd (repo_create_household hid mid t n uid s))) = refresh_tokens (work s)"
    and "refresh_tokens (work (snd (add_member mid t hid uid role ib ia aa s))) = refresh_tokens (work s)"
    and "refresh_tokens (work (snd (repo_accept_invitation t iid s))) = refresh_tokens (work s)"
  by (auto simp: repo_rename_def repo_remove_member_def delete_members_def
      repo_update_member_role_def repo_hard_delete_def cascade_household_def
      repo_create_invitation_def insert_invitation_def repo_revoke_invitation_def
      repo_resend_invitation_def map_invitation_def repo_create_guest_token_def
      revoke_previous_guest_tokens_def set_guest_accessible_def repo_create_household_def
      insert_household_def insert_member_def add_member_def repo_accept_invitation_def Let_def
      split: option.split sum.split)

lemma spent_wf: "spent th d \<Longrightarrow> wf_db d"
  by (simp add: spent_def)

interpretation spent_household: household_invariant "spent th" "\<lambda>_. True"
proof
  fix s s' :: session and hid mid t n uid h
  assume a: "spent th (work s)" "repo_create_household hid mid t n uid s = (Inr h, s')"
  then have "spent th (work (snd (repo_create_household hid mid t n uid s)))"
    by (intro spent_same_tokens [OF a(1)] wf_repo_create_household spent_wf refresh_tokens_frame)
  with a(2) show "spent th (work s')" by simp
next
  fix s s1 s2 :: session and mid t hid uid role ib ia aa m iid
  assume a: "spent th (work s)" "add_member mid t hid uid role ib ia aa s = (Inr m, s1)"
    "repo_accept_invitation t iid s1 = (Inr (), s2)"
  have "spent th (work (snd (add_member mid t hid uid role ib ia aa s)))"
    by (intro spent_same_tokens [OF a(1)] wf_add_member spent_wf [OF a(1)] refresh_tokens_frame)
  then have s1: "spent th (work s1)" using a(2) by simp
  have "spent th (work (snd (repo_accept_invitation t iid s1)))"
    by (intro spent_same_tokens [OF s1] wf_accept spent_wf [OF s1] refresh_tokens_frame)
  with a(3) show "spent th (work s2)" by simp
qed (rule spent_same_tokens, assumption; simp add: spent_wf wf_rename wf_remove wf_role wf_hard_delete
    wf_revoke_invitation wf_resend wf_create_invitation wf_create_guest wf_revoke_guests
    wf_set_guest_accessible refresh_tokens_frame)+

section \<open>Dead invitation links\<close>

text \<open>No stored invitation with this token hash can be accepted.\<close>

definition dead_link :: "string \<Rightarrow> database \<Rightarrow> bool" where
  "dead_link th d = list_all (\<lambda>i. i_token_hash i = th \<longrightarrow> i_status i \<in> {Accepted, Revoked})
     (invitations d)"

lemma dead_link_same: "dead_link th d \<Longrightarrow> invitations d' = invitations d \<Longrightarrow> dead_link th d'"
  by (simp add: dead_link_def)

lemma invitations_frame:
  fixes s :: session
  shows "invitations (work (increment_login_attempts t uid s)) = invitations (work s)"
    and "invitations (work (snd (rotate t th s))) = invitations (work s)"
    and "invitations (work (revoke_refresh rid s)) = invitations (work s)"
    and "invitations (work (revoke_all_for_user uid s)) = invitations (work s)"
    and "invitations (work (snd (repo_rename hid n s))) = invitations (work s)"
    and "invitations (work (snd (repo_remove_member hid uid s))) = invitations (work s)"
    and "invitations (work (snd (repo_update_member_role hid uid role s))) = invitations (work s)"
    and "invitations (work (snd (repo_create_guest_token gid t hid uid th ct s)))
       = invitations (work s)"
    and "invitations (work (revoke_previous_guest_tokens t hid s)) = invitations (work s)"
    and "invitations (work (set_guest_accessible hid b s)) = invitations (work s)"
  by (auto simp: increment_login_attempts_def rotate_def revoke_refresh_def
      revoke_all_for_user_def map_refresh_def repo_rename_def repo_remove_member_def
      delete_members_def repo_update_member_role_def repo_create_guest_token_def
      revoke_previous_guest_tokens_def set_guest_accessible_def Let_def split: option.split)

lemma invitations_created:
  "create_user nid t un ph gs em dn pu s = (Inr u, s') \<Longrightarrow> invitations (work s') = invitations (work s)"
  "create_refresh_token rid t uid th ex s = (Inr r, s') \<Longrightarrow>
     invitations (work s') = invitations (work s)"
  "repo_create_household hid mid t n uid s = (Inr h, s') \<Longrightarrow>
     invitations (work s') = invitations (work s)"
  "add_member mid t hid uid role ib ia aa s = (Inr m, s') \<Longrightarrow>
     invitations (work s') = invitations (work s)"
  by (auto simp: create_user_def create_refresh_token_def repo_create_household_def add_member_def
      insert_household_def insert_member_def Let_def split: if_splits)

lemma dead_link_update:
  "list_all (\<lambda>i. i_token_hash i = th \<longrightarrow> i_status i = Accepted \<or> i_status i = Revoked) is \<Longrightarrow>
   (\<And>i. i_token_hash (f i) = th \<Longrightarrow> i_status (f i) = Accepted \<or> i_status (f i) = Revoked) \<Longrightarrow>
   list_all (\<lambda>i. i_token_hash i = th \<longrightarrow> i_status i = Accepted \<or> i_status i = Revoked) (update_where p f is)"
  by (induction "is") auto

interpretation dead: household_invariant "dead_link th" "\<lambda>th'. th' \<noteq> th"
proof
  fix s s1 s2 :: session and mid t hid uid role ib ia aa m iid
  assume a: "dead_link th (work s)" "add_member mid t hid uid role ib ia aa s = (Inr m, s1)"
    "repo_accept_invitation t iid s1 = (Inr (), s2)"
  have "dead_link th (work s1)" by (rule dead_link_same [OF a(1) invitations_created(4) [OF a(2)]])
  with a(3) show "dead_link th (work s2)"
    by (auto simp: repo_accept_invitation_def dead_link_def intro!: dead_link_update split: if_splits)
next
  fix s :: session and th' iid now t hid uid em role ct
  assume "dead_link th (work s)" "th' \<noteq> th"
  then show "dead_link th (work (snd (repo_create_invitation iid now t hid uid th' em role ct s)))"
    by (auto simp: repo_create_invitation_def insert_invitation_def dead_link_def Let_def
        split: sum.split)
next
  fix s :: session and t iid assume "dead_link th (work s)"
  then show "dead_link th (work (snd (repo_revoke_invitation t iid s)))"
    by (auto simp: repo_revoke_invitation_def map_invitation_def dead_link_def
        intro!: dead_link_update split: option.split)
next
  fix s :: session and th' iid now ct assume "dead_link th (work s)" "th' \<noteq> th"
  then show "dead_link th (work (snd (repo_resend_invitation now iid th' ct s)))"
    by (auto simp: repo_resend_invitation_def map_invitation_def dead_link_def Let_def
        intro!: dead_link_update split: option.split)
next
  fix s :: session and hid assume "dead_link th (work s)"
  then show "dead_link th (work (snd (repo_hard_delete hid s)))"
    by (auto simp: repo_hard_delete_def cascade_household_def dead_link_def list_all_iff Let_def
        split: option.split)
qed (erule dead_link_same; auto simp: invitations_frame dest: invitations_created)+

section \<open>Sequences of requests\<close>

text \<open>Every newly drawn link token has a hash other than the given one.\<close>

fun other_link :: "string \<Rightarrow> app_request \<Rightarrow> bool" where
  "other_link th (HouseholdRequest E token (CreateInvite base iid raw email role)) =
     (hash_token (e_ext E) raw \<noteq> th)"
| "other_link th (HouseholdRequest E token (ResendInvite base iid raw)) =
     (hash_token (e_ext E) raw \<noteq> th)"
| "other_link th _ = True"

interpretation app_rules: request_system app_step "\<lambda>_. True" household_rules
proof
  fix d r assume d: "household_rules d"
  have t: "rules.tolerated E q" for E q by (cases q) simp_all
  from d show "household_rules (app_step d r)"
    by (cases r) (simp_all add: rules.auth_step_P rules.household_step_P t)
qed

interpretation app_spent: request_system app_step "\<lambda>_. True" "spent th"
proof
  fix d r assume d: "spent th d"
  have t: "spent_household.tolerated E q" for E q by (cases q) simp_all
  from d show "spent th (app_step d r)"
    by (cases r) (simp_all add: spent.auth_step_P spent_household.household_step_P t)
qed

interpretation app_dead: request_system app_step "other_link th" "dead_link th"
proof
  fix d r assume d: "dead_link th d" "other_link th r"
  then show "dead_link th (app_step d r)"
  proof (cases r)
    case (HouseholdRequest E token q)
    with d have "dead.tolerated th E q" by (cases q) simp_all
    with d HouseholdRequest show ?thesis by (simp add: dead.household_step_P)
  qed (simp add: dead.auth_step_P)
qed

end
