(* ===== verification/HouseholdProps.thy ===== *)
theory HouseholdProps
  imports HouseholdInv
begin

text \<open>
  Properties of the household endpoints: the rules of a household over all request sequences,
  what accepting an invitation does and that its link dies with it, the lifecycle of guest
  links, removal and deletion, and what the detail view shows.
\<close>

section \<open>Invitations\<close>

lemma invitation_by_hash:
  "get_invitation_by_token_hash s th = Some i \<Longrightarrow> i \<in> set (invitations (work s)) \<and> i_token_hash i = th"
  by (auto simp: get_invitation_by_token_hash_def dest!: find_Some_in)

lemma check_invitation_InrD:
  "check_invitation now i = Inr u \<Longrightarrow> now \<le> i_expires_at i \<and> i_status i \<in> {Pending, Declined}"
  by (cases "i_status i") (auto simp: check_invitation_def accept_available_def split: if_splits)

lemma check_invitation_dead:
  "i_status i \<in> {Accepted, Revoked} \<Longrightarrow> \<exists>e. check_invitation now i = Inl e"
  by (auto simp: check_invitation_def accept_available_def)

lemma add_member_InrD:
  assumes "add_member mid t hid uid role ib ia aa s = (Inr m, s')"
  shows "m_household_id m = hid" "m_user_id m = uid" "m_role m = role"
    "s' = upd_work (\<lambda>d. d\<lparr>members := members d @ [m]\<rparr>) s"
  using assms by (auto simp: add_member_def insert_member_def Let_def split: if_splits)

lemma dead_link_refused:
  assumes "dead_link (hash_token (e_ext E) raw) (work s)"
  shows "\<exists>e. accept_invite E mid raw u s = (Inl e, s)"
proof (cases "get_invitation_by_token_hash s (hash_token (e_ext E) raw)")
  case None
  then show ?thesis by (simp add: accept_invite_def)
next
  case (Some i)
  with invitation_by_hash assms have "i_status i \<in> {Accepted, Revoked}"
    by (auto simp: dead_link_def list_all_iff)
  from check_invitation_dead [OF this, of "e_now E"] Some show ?thesis
    by (auto simp: accept_invite_def)
qed

text \<open>The successful run of the acceptance, step by step.\<close>

lemma accept_invite_InrD:
  assumes "accept_invite E mid raw u s = (Inr out, s')"
  obtains i m h s2 where "get_invitation_by_token_hash s (hash_token (e_ext E) raw) = Some i"
    "check_invitation (e_now E) i = Inr ()" "get_household s (i_household_id i) = Some h"
    "get_member s (i_household_id i) (u_id u) = None"
    "count_members s (i_household_id i) < member_limit"
    "m_household_id m = i_household_id i" "m_user_id m = u_id u" "m_role m = i_invited_role i"
    "repo_accept_invitation (e_db_now E) (i_id i)
       (upd_work (\<lambda>d. d\<lparr>members := members d @ [m]\<rparr>) s) = (Inr (), s2)"
    "s' = commit (map_user (u_id u)
       (\<lambda>u. u\<lparr>u_active_household_id := Some (i_household_id i)\<rparr>) s2)"
    "ao_household_id out = i_household_id i"
proof -
  obtain i where i: "get_invitation_by_token_hash s (hash_token (e_ext E) raw) = Some i"
    "check_invitation (e_now E) i = Inr ()"
    using assms by (auto simp: accept_invite_def split: option.splits sum.splits)
  then obtain h where h: "get_household s (i_household_id i) = Some h"
    "get_member s (i_household_id i) (u_id u) = None"
    "count_members s (i_household_id i) < member_limit"
    using assms by (auto simp: accept_invite_def split: option.splits if_splits)
  note run = assms [unfolded accept_invite_def i h option.case sum.case, simplified h(2) h(3) [folded not_le]
      if_False simp_thms]
  from run obtain m s1 where m: "add_member mid (e_db_now E) (i_household_id i) (u_id u)
      (i_invited_role i) (i_invited_by_user_id i) (Some (i_invited_at i)) (Some (e_now E)) s
      = (Inr m, s1)"
    by (auto elim!: andthen_InrE)
  with run obtain s2 where "repo_accept_invitation (e_db_now E) (i_id i) s1 = (Inr (), s2)"
    "s' = commit (map_user (u_id u)
       (\<lambda>u. u\<lparr>u_active_household_id := Some (i_household_id i)\<rparr>) s2)"
    "ao_household_id out = i_household_id i"
    by (auto elim!: andthen_InrE)
  with that [OF i h add_member_InrD(1-3) [OF m]] show thesis
    using add_member_InrD(4) [OF m] by simp
qed

definition accepted_row :: "instant \<Rightarrow> pending_invitation \<Rightarrow> pending_invitation" where
  "accepted_row t i = i\<lparr>i_status := Accepted, i_accepted_at := Some t\<rparr>"

text \<open>
  C10. Accepting an invitation. A success means that the link belongs to a stored invitation
  that was pending (or declined earlier) and not expired, that its household is live, had a
  free place and did not have the user yet; what is committed is the database with one more
  member, the caller, in the role of the invitation, with that invitation accepted and the
  user's active household switched, and with nothing else changed. A refusal commits nothing.
\<close>

theorem accept_invite_result:
  assumes "wf_db (work s)"
  shows "case accept_invite E mid raw u s of
      (Inl e, s') \<Rightarrow> committed s' = committed s
    | (Inr out, s') \<Rightarrow> (\<exists>i \<in> set (invitations (work s)). \<exists>m.
        i_token_hash i = hash_token (e_ext E) raw
      \<and> i_status i \<in> {Pending, Declined} \<and> e_now E \<le> i_expires_at i
      \<and> live_household (work s) (i_household_id i)
      \<and> get_member s (i_household_id i) (u_id u) = None
      \<and> count_members s (i_household_id i) < 10
      \<and> m_household_id m = i_household_id i \<and> m_user_id m = u_id u
      \<and> m_role m = i_invited_role i
      \<and> committed s' = (work s)
          \<lparr>members := members (work s) @ [m],
           invitations := update_where (\<lambda>k. i_id k = i_id i) (accepted_row (e_db_now E))
             (invitations (work s)),
           users := update_where (\<lambda>v. u_id v = u_id u)
             (\<lambda>v. v\<lparr>u_active_household_id := Some (i_household_id i)\<rparr>) (users (work s))\<rparr>)"
proof (cases "accept_invite E mid raw u s")
  case (Pair r s')
  show ?thesis
  proof (cases r)
    case (Inl e)
    have "committed s' = committed s"
      using Pair Inl unfolding accept_invite_def
      by (auto simp: andthen_def add_member_def insert_member_def repo_accept_invitation_def
          Let_def split: option.splits sum.splits if_splits prod.splits)
    with Pair Inl show ?thesis by simp
  next
    case (Inr out)
    with Pair have "accept_invite E mid raw u s = (Inr out, s')" by simp
    then obtain i m h s2 where i: "get_invitation_by_token_hash s (hash_token (e_ext E) raw) = Some i"
      "check_invitation (e_now E) i = Inr ()" "get_household s (i_household_id i) = Some h"
      "get_member s (i_household_id i) (u_id u) = None"
      "count_members s (i_household_id i) < member_limit"
      "m_household_id m = i_household_id i" "m_user_id m = u_id u" "m_role m = i_invited_role i"
      and s2: "repo_accept_invitation (e_db_now E) (i_id i)
         (upd_work (\<lambda>d. d\<lparr>members := members d @ [m]\<rparr>) s) = (Inr (), s2)"
      and s': "s' = commit (map_user (u_id u)
         (\<lambda>u. u\<lparr>u_active_household_id := Some (i_household_id i)\<rparr>) s2)"
      by (rule accept_invite_InrD) blast
    note row = invitation_by_hash [OF i(1)] check_invitation_InrD [OF i(2)]
    have "update_where (\<lambda>k. i_id k = i_id i \<and> i_status k \<in> {Pending, Declined}) (accepted_row t)
        (invitations (work s)) = update_where (\<lambda>k. i_id k = i_id i) (accepted_row t)
        (invitations (work s))" for t
      unfolding update_where_def
      using row key_unique [OF wf_dbD(5) [OF assms], of _ i] by (intro map_cong) auto
    moreover have "s2 = upd_work (\<lambda>d. d\<lparr>invitations := update_where
        (\<lambda>k. i_id k = i_id i \<and> i_status k \<in> {Pending, Declined}) (accepted_row (e_db_now E))
        (invitations d)\<rparr>) (upd_work (\<lambda>d. d\<lparr>members := members d @ [m]\<rparr>) s)"
      using s2 by (simp add: repo_accept_invitation_def accepted_row_def [abs_def] split: if_splits)
    ultimately have "work s2 = (work s)\<lparr>members := members (work s) @ [m],
        invitations := update_where (\<lambda>k. i_id k = i_id i) (accepted_row (e_db_now E))
          (invitations (work s))\<rparr>"
      by simp
    with s' have "committed s' = (work s)\<lparr>members := members (work s) @ [m],
        invitations := update_where (\<lambda>k. i_id k = i_id i) (accepted_row (e_db_now E))
          (invitations (work s)),
        users := update_where (\<lambda>v. u_id v = u_id u)
             (\<lambda>v. v\<lparr>u_active_household_id := Some (i_household_id i)\<rparr>) (users (work s))\<rparr>"
      by (simp add: map_user_def)
    moreover have "live_household (work s) (i_household_id i)"
      using i(3) get_household_live [of s] by blast
    ultimately show ?thesis
      using Pair Inr i row by (auto simp: member_limit_def intro!: bexI [of _ i])
  qed
qed

text \<open>
  Household 5 with its admin, user 1, its member, user 2, and a pending invitation for user 3,
  who belongs to no household yet.
\<close>

definition invite_db :: database where
  "invite_db = \<lparr>users = [demo_user 1, demo_user 2, demo_user 3],
     households = [demo_household 5 1],
     members = [demo_member 11 5 1 Admin, demo_member 12 5 2 Member],
     invitations = [\<lparr>i_id = 7, i_household_id = 5, i_invited_email = None, i_invited_role = Member,
       i_status = Pending, i_token_hash = ''#link'', i_display_token_ciphertext = None,
       i_invited_by_user_id = 1, i_invited_at = 0, i_expires_at = 5000, i_accepted_at = None,
       i_revoked_at = None\<rparr>],
     guest_tokens = [], refresh_tokens = [], brew_log = [], catalog = [],
     inventory_bags = [], hardware = [], maintenance_log = [], import_sessions = []\<rparr>"

lemma invite_db_rules: "household_rules invite_db"
  by (auto simp: household_rules_def wf_db_def has_admin_def invite_db_def demo_user_def
      demo_member_def demo_household_def active_guest_def)

lemma invite_db_wf: "wf_db (work (open_session invite_db))"
  using invite_db_rules by (simp add: household_rules_def)

lemma invite_db_accept:
  "is_ok (fst (accept_invite demo_env 20 ''link'' (demo_user 3) (open_session invite_db)))"
  by code_simp

theorem accept_invite_result_witness:
  "\<exists>out s'. accept_invite demo_env 20 ''link'' (demo_user 3) (open_session invite_db) = (Inr out, s')
     \<and> (\<exists>m. m_user_id m = 3 \<and> members (committed s') = members invite_db @ [m])"
  using accept_invite_result [OF invite_db_wf, where E = demo_env and mid = 20 and raw = "''link''"
      and u = "demo_user 3"]
    invite_db_accept
  by (cases "accept_invite demo_env 20 ''link'' (demo_user 3) (open_session invite_db)")
    (auto elim!: is_okE simp: demo_user_def)

lemma accepted_link_dead:
  assumes wf: "wf_db (work s)" and "accept_invite E mid raw u s = (Inr out, s')"
  shows "dead_link (hash_token (e_ext E) raw) (committed s')"
proof -
  obtain i m where i: "i \<in> set (invitations (work s))" "i_token_hash i = hash_token (e_ext E) raw"
    and c: "invitations (committed s')
      = update_where (\<lambda>k. i_id k = i_id i) (accepted_row (e_db_now E)) (invitations (work s))"
    using accept_invite_result [OF wf, where E = E and mid = mid and raw = raw and u = u] assms(2) by auto
  have "i_status j = Accepted \<or> i_token_hash j \<noteq> hash_token (e_ext E) raw"
    if "j \<in> set (invitations (committed s'))" for j
  proof -
    from that obtain k where k: "k \<in> set (invitations (work s))"
      "j = (if i_id k = i_id i then accepted_row (e_db_now E) k else k)"
      unfolding c set_update_where by blast
    have "k = i" if "i_token_hash k = hash_token (e_ext E) raw"
      using key_unique [OF wf_dbD(6) [OF wf] k(1) i(1)] i(2) that by simp
    then show ?thesis using k(2) by (auto simp: accepted_row_def)
  qed
  then show ?thesis by (auto simp: dead_link_def list_all_iff)
qed

lemma dead_link_run_refused:
  assumes "dead_link (hash_token (e_ext E) raw) d" "hash_token (e_ext E') raw = hash_token (e_ext E) raw"
    and "list_all (other_link (hash_token (e_ext E) raw)) rs"
  shows "\<exists>e. accept_invite E' mid raw u (open_session (foldl app_step d rs))
           = (Inl e, open_session (foldl app_step d rs))"
  using dead_link_refused [of E' raw "open_session (foldl app_step d rs)"]
    app_dead.run_keeps [OF assms(1,3)] assms(2)
  by simp

text \<open>
  C11. An invitation link admits one person. After a link was accepted, it is refused to every
  user in every state that any requests, in any order, lead to, as long as the link tokens
  drawn in between hash to something else.
\<close>

theorem invitation_single_use:
  assumes "wf_db (work s)" "accept_invite E mid raw u s = (Inr out, s')"
    and "hash_token (e_ext E') raw = hash_token (e_ext E) raw"
    and "list_all (other_link (hash_token (e_ext E) raw)) rs"
  shows "\<exists>e. accept_invite E' mid' raw u' (open_session (foldl app_step (committed s') rs))
           = (Inl e, open_session (foldl app_step (committed s') rs))"
  by (rule dead_link_run_refused [OF accepted_link_dead [OF assms(1,2)] assms(3,4)])

theorem invitation_single_use_witness:
  "\<exists>s' e. fst (accept_invite demo_env 21 ''link'' (demo_user 2)
      (open_session (foldl app_step (committed s')
        [HouseholdRequest demo_env (Some ''k1'') (ResendInvite ''b'' 7 ''new''),
         HouseholdRequest demo_env (Some ''k1'') (RemoveMember 3)]))) = Inl e
    \<and> s' = snd (accept_invite demo_env 20 ''link'' (demo_user 3) (open_session invite_db))"
proof -
  obtain out s' where out: "accept_invite demo_env 20 ''link'' (demo_user 3)
      (open_session invite_db) = (Inr out, s')"
    using invite_db_accept
    by (cases "accept_invite demo_env 20 ''link'' (demo_user 3) (open_session invite_db)")
      (auto elim: is_okE)
  have "list_all (other_link (hash_token (e_ext demo_env) ''link''))
      [HouseholdRequest demo_env (Some ''k1'') (ResendInvite ''b'' 7 ''new''),
       HouseholdRequest demo_env (Some ''k1'') (RemoveMember 3)]"
    by (simp add: hash_token_def demo_env_def demo_externals_def)
  from invitation_single_use [OF invite_db_wf out refl this, of 21 "demo_user 2"] out
  show ?thesis by (metis fst_conv snd_conv)
qed

lemma invitation_by_hash_iff:
  assumes "wf_db d" "i \<in> set (invitations d)"
  shows "get_invitation_by_token_hash (open_session d) (i_token_hash i) = Some i"
  using find_by_key [OF wf_dbD(6) [OF assms(1)] assms(2)]
  by (simp add: get_invitation_by_token_hash_def)

lemma resend_invite_InrD:
  assumes "resend_invite E base iid raw m s = (Inr out, s')"
  obtains i ct where "get_invitation_by_id s iid = Some i" "i_household_id i = m_household_id m"
    "i_status i \<noteq> Accepted"
    "committed s' = (work s)\<lparr>invitations := update_where (\<lambda>i. i_id i = iid)
       (\<lambda>i. i\<lparr>i_expires_at := e_now E + hours 72, i_status := Pending,
              i_token_hash := hash_token (e_ext E) raw, i_display_token_ciphertext := Some ct,
              i_accepted_at := None, i_revoked_at := None\<rparr>) (invitations (work s))\<rparr>"
proof -
  obtain i where i: "get_invitation_by_id s iid = Some i" "i_household_id i = m_household_id m"
    using assms by (auto simp: resend_invite_def own_invitation_def split: if_splits option.splits)
  obtain ct where ct: "encrypt_display_token (e_ext E) (e_st E) raw = Inr ct"
    using assms by (auto simp: resend_invite_def split: if_splits sum.splits)
  have "andthen (repo_resend_invitation (e_now E) iid (hash_token (e_ext E) raw) (Some ct) s)
      (\<lambda>i s. (Inr \<lparr>io_invitation_id = i_id i, io_invite_url = invite_url base raw,
         io_expires_at = i_expires_at i, io_invited_email = i_invited_email i,
         io_invited_role = i_invited_role i\<rparr>, commit s)) = (Inr out, s')"
    using assms i ct by (simp add: resend_invite_def own_invitation_def)
  then show thesis
    using i by (auto simp: repo_resend_invitation_def map_invitation_def Let_def
        split: if_splits intro: that)
qed

text \<open>
  C12. Resending replaces the link. The old link of a resent invitation is refused in every
  later state, while the new one leads to the same invitation, pending again for 72 hours.
\<close>

theorem resend_replaces_link:
  assumes "wf_db (work s)" "resend_invite E base iid new m s = (Inr out, s')"
    and "get_invitation_by_id s iid = Some i" "i_token_hash i = hash_token (e_ext E) old"
    and "hash_token (e_ext E) new \<noteq> hash_token (e_ext E) old"
    and "hash_token (e_ext E') old = hash_token (e_ext E) old"
    and "list_all (other_link (hash_token (e_ext E) old)) rs"
  shows "(\<exists>e. accept_invite E' mid old u (open_session (foldl app_step (committed s') rs))
             = (Inl e, open_session (foldl app_step (committed s') rs)))
    \<and> (\<exists>j. get_invitation_by_token_hash (open_session (committed s')) (hash_token (e_ext E) new)
             = Some j \<and> i_id j = iid \<and> i_household_id j = m_household_id m
           \<and> i_status j = Pending \<and> i_expires_at j = e_now E + hours 72)"
proof -
  from assms(2) obtain k ct where k: "get_invitation_by_id s iid = Some k"
      "i_household_id k = m_household_id m"
    and c: "committed s' = (work s)\<lparr>invitations := update_where (\<lambda>i. i_id i = iid)
       (\<lambda>i. i\<lparr>i_expires_at := e_now E + hours 72, i_status := Pending,
              i_token_hash := hash_token (e_ext E) new, i_display_token_ciphertext := Some ct,
              i_accepted_at := None, i_revoked_at := None\<rparr>) (invitations (work s))\<rparr>"
    by (rule resend_invite_InrD)
  have i: "i \<in> set (invitations (work s))" "i_id i = iid" "i_household_id i = m_household_id m"
    using assms(3) k by (auto simp: get_invitation_by_id_def dest: find_Some_in)
  have "i_token_hash j = hash_token (e_ext E) old \<longrightarrow> j = i" if "j \<in> set (invitations (work s))" for j
    using key_unique [OF wf_dbD(6) [OF assms(1)] that i(1)] assms(4) by simp
  then have "dead_link (hash_token (e_ext E) old) (committed s')"
    using assms(5) i(2) by (auto simp: c dead_link_def list_all_iff set_update_where)
  from dead_link_run_refused [OF this assms(6,7)]
  have old: "\<exists>e. accept_invite E' mid old u (open_session (foldl app_step (committed s') rs))
      = (Inl e, open_session (foldl app_step (committed s') rs))" .
  have ok: "encrypt_display_token (e_ext E) (e_st E) new = Inr ct' \<Longrightarrow> wf_db (work (snd
      (repo_resend_invitation (e_now E) iid (hash_token (e_ext E) new) (Some ct') s)))" for ct'
    by (rule wf_resend [OF assms(1)])
  have wf': "wf_db (committed s')"
    using assms(2) ok
    by (auto simp: resend_invite_def andthen_def split: if_splits sum.splits prod.splits)
  let ?j = "i\<lparr>i_expires_at := e_now E + hours 72, i_status := Pending,
              i_token_hash := hash_token (e_ext E) new, i_display_token_ciphertext := Some ct,
              i_accepted_at := None, i_revoked_at := None\<rparr>"
  have "?j \<in> set (invitations (committed s'))"
    using i(1,2) by (auto simp: c set_update_where intro!: rev_image_eqI)
  from invitation_by_hash_iff [OF wf' this] old i show ?thesis by simp
qed

theorem resend_replaces_link_witness:
  "\<exists>e. fst (accept_invite demo_env 21 ''link'' (demo_user 3) (open_session (committed
      (snd (resend_invite demo_env ''b'' 7 ''new'' (demo_member 11 5 1 Admin)
        (open_session invite_db)))))) = Inl e"
proof -
  obtain out s' where out: "resend_invite demo_env ''b'' 7 ''new'' (demo_member 11 5 1 Admin)
      (open_session invite_db) = (Inr out, s')"
  proof -
    have "is_ok (fst (resend_invite demo_env ''b'' 7 ''new'' (demo_member 11 5 1 Admin)
      (open_session invite_db)))" by code_simp
    then show thesis using that
      by (cases "resend_invite demo_env ''b'' 7 ''new'' (demo_member 11 5 1 Admin)
        (open_session invite_db)") (auto elim: is_okE)
  qed
  obtain i where i: "get_invitation_by_id (open_session invite_db) 7 = Some i"
    "i_token_hash i = hash_token (e_ext demo_env) ''link''"
    by (simp add: get_invitation_by_id_def invite_db_def hash_token_def demo_env_def
        demo_externals_def)
  from resend_replaces_link [OF invite_db_wf out i, of demo_env "[]" 21 "demo_user 3"] out
  show ?thesis by (auto simp: hash_token_def demo_env_def demo_externals_def)
qed

section \<open>The rules of a household\<close>

text \<open>
  C4. Every household has an admin and at most ten members, and the schema's constraints hold,
  in every state that a sequence of requests to the auth and household endpoints leads to,
  whoever sends them and whatever each of them answers.
\<close>

theorem household_rules_kept:
  assumes "household_rules d"
  shows "household_rules (foldl app_step d rs)"
  by (rule app_rules.run_keeps [OF assms]) (simp add: list_all_iff)

theorem household_rules_kept_witness:
  "household_rules (foldl app_step invite_db
     [HouseholdRequest demo_env (Some ''k1'') (UpdateMemberRole 1 Member),
      HouseholdRequest demo_env (Some ''k1'') (DeleteHousehold 5 ''Home''),
      AuthRequest (Login demo_env 8 ''r'' ''user1'' ''secret'')])"
  by (rule household_rules_kept [OF invite_db_rules])

text \<open>
  C9. A refresh token works once. After it was exchanged, it is refused in every state that
  requests to the auth and household endpoints, in any order, lead to.
\<close>

theorem refresh_single_use_all_requests:
  assumes "wf_db (work s)" "wf_db (committed s)" "raw \<noteq> []"
    and "refresh E rid new bt (Some raw) s = (Inr t, s')"
    and "x_sha256hex (e_ext E') raw = x_sha256hex (e_ext E) raw"
  shows "fst (refresh E' rid' new' bt' (Some raw)
           (open_session (foldl app_step (committed s') rs))) = Inl invalid_refresh"
proof -
  have "spent (x_sha256hex (e_ext E) raw) (foldl app_step (committed s') rs)"
    by (rule app_spent.run_keeps [OF refresh_spends [OF assms(1-4)]]) (simp add: list_all_iff)
  with assms(3,5) show ?thesis by (intro spent_refused) auto
qed

theorem refresh_single_use_all_requests_witness:
  "fst (refresh demo_env 3 ''again'' None (Some ''old'')
          (open_session (foldl app_step (committed
             (snd (refresh demo_env 2 ''fresh'' None (Some ''old'') (open_session token_db))))
             [HouseholdRequest demo_env (Some ''k1'') (DeleteHousehold 5 ''Home'')])))
     = Inl invalid_refresh"
proof -
  obtain t s' where out: "refresh demo_env 2 ''fresh'' None (Some ''old'') (open_session token_db)
      = (Inr t, s')"
    using token_db_refresh
    by (cases "refresh demo_env 2 ''fresh'' None (Some ''old'') (open_session token_db)")
      (auto elim: is_okE)
  have wf: "wf_db (work (open_session token_db))" "wf_db (committed (open_session token_db))"
    by (simp_all add: token_db_wf)
  show ?thesis
    unfolding out snd_conv
    by (rule refresh_single_use_all_requests [OF wf _ out]) simp_all
qed

section \<open>Guest links\<close>

lemma guest_lookup:
  assumes "wf_db (work s)" "g \<in> set (guest_tokens (work s))" "active_guest g" "guest_unexpired now g"
  shows "get_guest_token_by_hash now s (g_token_hash g) = Some g"
proof -
  have "find (\<lambda>k. g_token_hash k = g_token_hash g \<and> active_guest k \<and> guest_unexpired now k)
      (guest_tokens (work s)) = find (\<lambda>k. g_token_hash k = g_token_hash g) (guest_tokens (work s))"
    using key_unique [OF wf_dbD(8) [OF assms(1)] _ assms(2)] assms(3,4)
    by (intro find_cong_set) auto
  then show ?thesis
    using find_by_key [OF wf_dbD(8) [OF assms(1)] assms(2)]
    by (simp add: get_guest_token_by_hash_def)
qed

lemma guest_lookup_SomeD:
  "get_guest_token_by_hash now s th = Some g \<Longrightarrow>
     g \<in> set (guest_tokens (work s)) \<and> active_guest g \<and> g_token_hash g = th"
  by (auto simp: get_guest_token_by_hash_def dest!: find_Some_in)

lemma generate_InrD:
  assumes "generate_guest_token E base hid gid raw m s = (Inr out, s')"
  obtains g where "m_household_id m = hid"
    "guest_tokens (work s') = guest_tokens (work (revoke_previous_guest_tokens (e_db_now E) hid s)) @ [g]"
    "g_household_id g = hid" "g_token_hash g = hash_token (e_ext E) raw" "g_revoked_at g = None"
    "g_expires_at g = None" "committed s' = work s'" "guc s' = None"
proof -
  obtain ct where ct: "encrypt_display_token (e_ext E) (e_st E) raw = Inr ct" and hid: "m_household_id m = hid"
    using assms by (auto simp: generate_guest_token_def Let_def split: if_splits sum.splits)
  show thesis
    using assms ct hid
    by (auto simp: generate_guest_token_def repo_create_guest_token_def set_guest_accessible_def
        Let_def split: if_splits intro: that)
qed

text \<open>
  A new guest link replaces the old ones. After an admin generated a link, exactly its key
  opens the household for a guest: the key resolves, at any time, to a guest of that household
  and puts the transaction under that household's row-level setting, and every key that
  resolves to a guest of the household is one with the same hash.
\<close>

theorem guest_link_replaced:
  assumes "wf_db (work s)" "generate_guest_token E base hid gid raw m s = (Inr out, s')"
    and "raw \<noteq> []" "use_postgres (e_st E')"
    and "\<And>r. hash_token (e_ext E') r = hash_token (e_ext E) r"
  shows "\<exists>g. resolve_guest_or_member E' (Some raw) key tok s'
              = (Inr (AsGuest g), set_household_context hid s') \<and> g_household_id g = hid
           \<and> committed s' = work s'
           \<and> (\<forall>raw2 key2 tok2 g2 t2.
                resolve_guest_or_member E' raw2 key2 tok2 s' = (Inr (AsGuest g2), t2)
                \<and> g_household_id g2 = hid \<longrightarrow> g2 = g)"
proof -
  from assms(2) obtain g where g: "m_household_id m = hid"
    "guest_tokens (work s') = guest_tokens (work (revoke_previous_guest_tokens (e_db_now E) hid s)) @ [g]"
    "g_household_id g = hid" "g_token_hash g = hash_token (e_ext E) raw" "g_revoked_at g = None"
    "g_expires_at g = None" "committed s' = work s'" "guc s' = None"
    by (rule generate_InrD)
  have wf': "wf_db (work s')"
  proof -
    have "wf_db (work (snd (repo_create_guest_token gid t hid u th ct
        (revoke_previous_guest_tokens t hid s))))" for t u th ct
      by (intro wf_create_guest wf_revoke_guests assms(1))
    then show ?thesis using assms(2)
      by (auto simp: generate_guest_token_def Let_def andthen_def
          split: if_splits sum.splits prod.splits) (metis snd_conv session_simps(2))
  qed
  have "get_guest_token_by_hash (e_now E') s' (hash_token (e_ext E) raw) = Some g"
    using guest_lookup [OF wf', of g] g by (simp add: active_guest_def guest_unexpired_def)
  then have "resolve_guest_or_member E' (Some raw) key tok s'
      = (Inr (AsGuest g), set_household_context hid s')"
    using assms(3-5) g(3) by (simp add: resolve_guest_or_member_def truthy_def)
  moreover have "g2 = g" if "resolve_guest_or_member E' raw2 key2 tok2 s' = (Inr (AsGuest g2), t2)"
    and "g_household_id g2 = hid" for raw2 key2 tok2 g2 t2
  proof -
    have "g2 \<in> set (guest_tokens (work s')) \<and> active_guest g2"
      using that(1) guest_lookup_SomeD
      by (fastforce simp: resolve_guest_or_member_def andthen_def
          split: option.splits if_splits sum.splits prod.splits)
    then show ?thesis
      using no_active_after_revoke [of "e_db_now E" hid s] that(2) unfolding g(2) by auto
  qed
  ultimately show ?thesis using g by blast
qed

text \<open>Household 5 with an active guest link.\<close>

definition guest_db :: database where
  "guest_db = invite_db\<lparr>guest_tokens := [\<lparr>g_id = 1, g_household_id = 5, g_token_hash = ''#first'',
     g_display_token_ciphertext = None, g_created_by_user_id = 1, g_created_at = 0,
     g_expires_at = None, g_revoked_at = None\<rparr>]\<rparr>"

lemma guest_db_wf: "wf_db guest_db"
  using invite_db_rules by (simp add: household_rules_def wf_db_def guest_db_def active_guest_def
      invite_db_def demo_household_def)

lemma guest_db_generate:
  "is_ok (fst (generate_guest_token demo_env ''b'' 5 2 ''key'' (demo_member 11 5 1 Admin)
     (open_session guest_db)))"
  by code_simp

theorem guest_link_replaced_witness:
  "\<exists>g s'. resolve_guest_or_member demo_env (Some ''key'') None None s'
            = (Inr (AsGuest g), set_household_context 5 s')
     \<and> s' = snd (generate_guest_token demo_env ''b'' 5 2 ''key'' (demo_member 11 5 1 Admin)
              (open_session guest_db))"
proof -
  obtain out s' where out: "generate_guest_token demo_env ''b'' 5 2 ''key''
      (demo_member 11 5 1 Admin) (open_session guest_db) = (Inr out, s')"
    using guest_db_generate
    by (cases "generate_guest_token demo_env ''b'' 5 2 ''key'' (demo_member 11 5 1 Admin)
      (open_session guest_db)") (auto elim: is_okE)
  have wf: "wf_db (work (open_session guest_db))" by (simp add: guest_db_wf)
  have "use_postgres (e_st demo_env)" by code_simp
  from guest_link_replaced [OF wf out _ this refl, of None None] out show ?thesis by auto
qed

text \<open>
  C14. Revoking closes the household to guests: after the endpoint answered, no key resolves to
  a guest of the household, at any time, and the household is marked as not accessible.
\<close>

theorem guest_access_revoked:
  assumes "revoke_guest_token E hid m s = (Inr (), s')"
  shows "committed s' = work s' \<and> m_household_id m = hid
    \<and> (\<forall>E' raw key tok g t. resolve_guest_or_member E' raw key tok s' = (Inr (AsGuest g), t)
          \<longrightarrow> g_household_id g \<noteq> hid)
    \<and> (\<forall>h \<in> set (households (work s')). h_id h = hid \<longrightarrow> \<not> h_is_guest_accessible h)"
proof -
  have m: "m_household_id m = hid" and s': "s' = commit (repo_revoke_guest_tokens (e_db_now E) hid s)"
    using assms by (auto simp: revoke_guest_token_def split: if_splits)
  have none: "\<not> active_guest g" if "g \<in> set (guest_tokens (work s'))" "g_household_id g = hid" for g
    using no_active_after_revoke [of "e_db_now E" hid s] that
    by (simp add: s' repo_revoke_guest_tokens_def set_guest_accessible_def)
  have "g_household_id g \<noteq> hid" if "resolve_guest_or_member E' raw key tok s' = (Inr (AsGuest g), t)"
    for E' raw key tok g t
  proof -
    have "g \<in> set (guest_tokens (work s')) \<and> active_guest g"
      using that guest_lookup_SomeD
      by (fastforce simp: resolve_guest_or_member_def andthen_def
          split: option.splits if_splits sum.splits prod.splits)
    with none show ?thesis by blast
  qed
  with m show ?thesis
    by (auto simp: s' repo_revoke_guest_tokens_def set_guest_accessible_def set_update_where)
qed

theorem guest_access_revoked_witness:
  "\<exists>s'. s' = snd (revoke_guest_token demo_env 5 (demo_member 11 5 1 Admin) (open_session guest_db))
     \<and> (\<forall>raw g t. resolve_guest_or_member demo_env (Some raw) None None s' = (Inr (AsGuest g), t)
          \<longrightarrow> g_household_id g \<noteq> 5)"
proof -
  let ?out = "revoke_guest_token demo_env 5 (demo_member 11 5 1 Admin) (open_session guest_db)"
  have "?out = (Inr (), snd ?out)"
    by (simp add: revoke_guest_token_def demo_member_def)
  from guest_access_revoked [OF this] show ?thesis by blast
qed

section \<open>Removal and deletion\<close>

lemma get_user_repair:
  "get_user_by_id (repair_active_households us s) uid =
     (if uid \<in> set us
      then map_option (\<lambda>u. u\<lparr>u_active_household_id := (case memberships_joined s uid of
             [] \<Rightarrow> None | (m, h) # _ \<Rightarrow> Some (m_household_id m))\<rparr>) (get_user_by_id s uid)
      else get_user_by_id s uid)"
proof (induction us arbitrary: s)
  case (Cons v us)
  let ?fb = "case memberships_joined s v of [] \<Rightarrow> None | (m, h) # _ \<Rightarrow> Some (m_household_id m)"
  let ?t = "map_user v (\<lambda>u. u\<lparr>u_active_household_id := ?fb\<rparr>) s"
  have same: "memberships_joined ?t uid = memberships_joined s uid"
    by (rule memberships_cong) simp_all
  have "get_user_by_id ?t uid = (if uid = v
      then map_option (\<lambda>u. u\<lparr>u_active_household_id := ?fb\<rparr>) (get_user_by_id s uid)
      else get_user_by_id s uid)"
    by (simp add: get_user_map_user option.map_ident)
  then show ?case
    unfolding repair_active_households.simps Let_def Cons.IH same
    by (auto simp: option.map_comp comp_def)
qed simp

text \<open>
  Removing a member ends the membership and nothing else of the household: what is committed
  has the membership rows of all others in their order, the same households and tenant rows,
  and the removed user works in the first of the remaining households, whichever household
  that user had selected before.
\<close>

theorem remove_member_result:
  assumes "wf_db (work s)" "remove_member uid m s = (Inr (), s')"
  shows "members (committed s') = filter (\<lambda>k. \<not> (m_household_id k = m_household_id m
            \<and> m_user_id k = uid)) (members (work s))
    \<and> households (committed s') = households (work s)
    \<and> uid \<noteq> m_user_id m
    \<and> map_option u_active_household_id (get_user_by_id s' uid)
        = map_option (\<lambda>_. case get_memberships_for_user s' uid of
            [] \<Rightarrow> None | k # _ \<Rightarrow> Some (m_household_id k)) (get_user_by_id s uid)"
proof -
  have other: "uid \<noteq> m_user_id m" using assms(2) by (auto simp: remove_member_def)
  let ?gone = "\<lambda>k. m_household_id k = m_household_id m \<and> m_user_id k = uid"
  obtain t where t: "repo_remove_member (m_household_id m) uid s = (Inr (), t)"
    and s': "s' = commit (repair_active_households [uid] t)"
    using assms(2) by (auto simp: remove_member_def simp del: repair_active_households.simps
        split: if_splits elim!: andthen_InrE)
  have none: "filter (\<lambda>k. \<not> ?gone k) (members (work s)) = members (work s)"
    if "get_member s (m_household_id m) uid = None"
    using that by (intro filter_True) (auto simp: get_member_None)
  have w: "members (work t) = filter (\<lambda>k. \<not> ?gone k) (members (work s))"
    "households (work t) = households (work s)" "users (work t) = users (work s)"
    using t none by (auto simp: repo_remove_member_def delete_members_def
        split: option.splits if_splits)
  have joined: "memberships_joined s' uid = memberships_joined t uid"
    by (rule memberships_cong) (simp_all add: s' del: repair_active_households.simps)
  have commit: "get_user_by_id s' uid = get_user_by_id (repair_active_households [uid] t) uid"
    by (simp add: get_user_by_id_def s' del: repair_active_households.simps)
  have "get_user_by_id t uid = get_user_by_id s uid"
    by (simp add: get_user_by_id_def w)
  moreover have "(case memberships_joined t uid of [] \<Rightarrow> None | (k, h) # _ \<Rightarrow> Some (m_household_id k))
      = (case get_memberships_for_user s' uid of [] \<Rightarrow> None | k # _ \<Rightarrow> Some (m_household_id k))"
    by (auto simp: get_memberships_for_user_def joined split: list.split)
  ultimately have "map_option u_active_household_id (get_user_by_id s' uid)
        = map_option (\<lambda>_. case get_memberships_for_user s' uid of
            [] \<Rightarrow> None | k # _ \<Rightarrow> Some (m_household_id k)) (get_user_by_id s uid)"
    unfolding commit get_user_repair by (simp add: option.map_comp comp_def)
  with w other show ?thesis
    by (simp add: s' del: repair_active_households.simps)
qed

text \<open>User 2 belongs to three households and has selected the last of them, \<open>Zoo\<close>.\<close>

definition three_db :: database where
  "three_db = \<lparr>users = [demo_user 1, (demo_user 2)\<lparr>u_active_household_id := Some 6\<rparr>],
     households = [demo_household 5 1, (demo_household 6 1)\<lparr>h_name := ''Zoo''\<rparr>,
       (demo_household 4 1)\<lparr>h_name := ''Attic''\<rparr>],
     members = [demo_member 11 5 1 Admin, demo_member 12 5 2 Member, demo_member 13 6 2 Admin,
       demo_member 14 4 2 Admin],
     invitations = [], guest_tokens = [], refresh_tokens = [], brew_log = [], catalog = [],
     inventory_bags = [], hardware = [], maintenance_log = [], import_sessions = []\<rparr>"

lemma three_db_wf: "wf_db (work (open_session three_db))"
  by (auto simp: wf_db_def three_db_def demo_user_def demo_member_def demo_household_def)

lemma three_db_remove:
  "fst (remove_member 2 (demo_member 11 5 1 Admin) (open_session three_db)) = Inr ()"
  by code_simp

lemma three_db_selection:
  "map m_household_id (get_memberships_for_user
      (snd (remove_member 2 (demo_member 11 5 1 Admin) (open_session three_db))) 2) = [4, 6]"
  by code_simp

text \<open>
  The witness is a removal from one household that moves the user's selection from a second
  household, of which the user stays a member, to a third.
\<close>

theorem remove_member_result_witness:
  "\<exists>s'. remove_member 2 (demo_member 11 5 1 Admin) (open_session three_db) = (Inr (), s')
     \<and> map_option u_active_household_id (get_user_by_id (open_session three_db) 2) = Some (Some 6)
     \<and> get_member s' 6 2 \<noteq> None
     \<and> map_option u_active_household_id (get_user_by_id s' 2) = Some (Some 4)"
proof -
  obtain s' where s': "remove_member 2 (demo_member 11 5 1 Admin) (open_session three_db) = (Inr (), s')"
    using three_db_remove
    by (cases "remove_member 2 (demo_member 11 5 1 Admin) (open_session three_db)") auto
  have before: "get_user_by_id (open_session three_db) 2
      = Some ((demo_user 2)\<lparr>u_active_household_id := Some 6\<rparr>)"
    by (simp add: get_user_by_id_def three_db_def demo_user_def)
  have "map m_household_id (get_memberships_for_user s' 2) = [4, 6]"
    using three_db_selection s' by simp
  then have fb: "(case get_memberships_for_user s' 2 of [] \<Rightarrow> None | k # _ \<Rightarrow> Some (m_household_id k))
      = Some 4"
    by (auto split: list.split)
  have "get_member (snd (remove_member 2 (demo_member 11 5 1 Admin) (open_session three_db))) 6 2
      \<noteq> None"
    by code_simp
  with remove_member_result [OF three_db_wf s'] before fb s' show ?thesis
    by simp
qed

lemma repair_not_active:
  assumes "\<forall>k \<in> set (members (work s)). m_household_id k \<noteq> hid"
    and "\<forall>u \<in> set (users (work s)). u_active_household_id u \<noteq> Some hid"
  shows "\<forall>u \<in> set (users (work (repair_active_households us s))). u_active_household_id u \<noteq> Some hid"
  using assms
proof (induction us arbitrary: s)
  case (Cons v us)
  let ?fb = "case memberships_joined s v of [] \<Rightarrow> None | (m, h) # _ \<Rightarrow> Some (m_household_id m)"
  have "\<forall>(m, h) \<in> set (memberships_joined s v). m_household_id m \<noteq> hid"
    using Cons.prems(1) by (auto simp: set_memberships_joined)
  then have "?fb \<noteq> Some hid" by (auto split: list.split)
  with Cons.prems show ?case
    unfolding repair_active_households.simps Let_def
    by (intro Cons.IH) (auto simp: users_map_user set_update_where)
qed simp

lemma delete_household_InrD:
  assumes "delete_household hid name m s = (Inr (), s')"
  shows "s' = commit (repair_active_households (map m_user_id (get_members s hid))
           (upd_work (cascade_household hid) s))"
    and "m_household_id m = hid"
  using assms by (auto simp: delete_household_def repo_hard_delete_def Let_def
      split: if_splits option.splits)

text \<open>
  C13. Deleting a household erases it and it alone: no row of any table refers to it afterwards,
  every row of the other households is kept in its order, and whoever was a member works in
  the first of the remaining households, or in none.
\<close>

theorem delete_household_erases:
  assumes "wf_db (work s)" "delete_household hid name m s = (Inr (), s')"
  shows "households (committed s') = filter (\<lambda>h. h_id h \<noteq> hid) (households (work s))
    \<and> members (committed s') = filter (\<lambda>k. m_household_id k \<noteq> hid) (members (work s))
    \<and> invitations (committed s') = filter (\<lambda>i. i_household_id i \<noteq> hid) (invitations (work s))
    \<and> guest_tokens (committed s') = filter (\<lambda>g. g_household_id g \<noteq> hid) (guest_tokens (work s))
    \<and> brew_log (committed s') = filter (\<lambda>r. b_household_id r \<noteq> Some hid) (brew_log (work s))
    \<and> catalog (committed s') = filter (\<lambda>r. c_household_id r \<noteq> Some hid) (catalog (work s))
    \<and> inventory_bags (committed s') = filter (\<lambda>r. v_household_id r \<noteq> Some hid) (inventory_bags (work s))
    \<and> hardware (committed s') = filter (\<lambda>r. w_household_id r \<noteq> Some hid) (hardware (work s))
    \<and> maintenance_log (committed s')
        = filter (\<lambda>r. n_household_id r \<noteq> Some hid) (maintenance_log (work s))
    \<and> import_sessions (committed s') = filter (\<lambda>k. is_household_id k \<noteq> hid) (import_sessions (work s))
    \<and> (\<forall>u \<in> set (users (committed s')). u_active_household_id u \<noteq> Some hid)
    \<and> (\<forall>k \<in> set (members (work s)). m_household_id k = hid \<longrightarrow>
          map_option u_active_household_id (get_user_by_id s' (m_user_id k))
            = map_option (\<lambda>_. case get_memberships_for_user s' (m_user_id k) of
                [] \<Rightarrow> None | x # _ \<Rightarrow> Some (m_household_id x)) (get_user_by_id s (m_user_id k)))"
proof -
  let ?us = "map m_user_id (get_members s hid)"
  let ?t = "upd_work (cascade_household hid) s"
  note s' = delete_household_InrD(1) [OF assms(2)]
  have "\<forall>u \<in> set (users (work (repair_active_households ?us ?t))). u_active_household_id u \<noteq> Some hid"
    by (rule repair_not_active) (auto simp: cascade_household_def set_update_where)
  then have active: "\<forall>u \<in> set (users (committed s')). u_active_household_id u \<noteq> Some hid"
    by (simp add: s')
  have repaired: "map_option u_active_household_id (get_user_by_id s' (m_user_id k))
      = map_option (\<lambda>_. case get_memberships_for_user s' (m_user_id k) of
          [] \<Rightarrow> None | x # _ \<Rightarrow> Some (m_household_id x)) (get_user_by_id s (m_user_id k))"
    if k: "k \<in> set (members (work s))" "m_household_id k = hid" for k
  proof -
    let ?uid = "m_user_id k"
    have uid: "?uid \<in> set ?us" using k by (auto simp: get_members_def)
    have joined: "memberships_joined s' ?uid = memberships_joined ?t ?uid"
      by (rule memberships_cong) (simp_all add: s')
    have "get_user_by_id s' ?uid = get_user_by_id (repair_active_households ?us ?t) ?uid"
      by (simp add: get_user_by_id_def s')
    moreover have "get_user_by_id ?t ?uid = None \<longleftrightarrow> get_user_by_id s ?uid = None"
      by (simp add: get_user_by_id_def cascade_household_def find_update_where)
    ultimately show ?thesis
      using uid by (cases "get_user_by_id ?t ?uid"; cases "get_user_by_id s ?uid")
        (auto simp: get_user_repair get_memberships_for_user_def joined split: list.split)
  qed
  show ?thesis
    using active repaired by (auto simp: s' cascade_household_def)
qed

theorem delete_household_erases_witness:
  "\<exists>s'. delete_household 5 ''Home'' (demo_member 11 5 1 Admin) (open_session three_db) = (Inr (), s')
     \<and> map m_id (members (committed s')) = [13, 14]"
proof -
  have ok: "fst (delete_household 5 ''Home'' (demo_member 11 5 1 Admin) (open_session three_db)) = Inr ()"
    by code_simp
  then obtain s' where s': "delete_household 5 ''Home'' (demo_member 11 5 1 Admin)
      (open_session three_db) = (Inr (), s')"
    by (cases "delete_household 5 ''Home'' (demo_member 11 5 1 Admin) (open_session three_db)") auto
  from delete_household_erases [OF three_db_wf s'] s' show ?thesis
    by (simp add: three_db_def demo_member_def)
qed

section \<open>Who sees and who may do what\<close>

lemma pending_outs_links:
  assumes "pending_outs E base is = Inr outs" "p \<in> set outs" "pi_invite_url p \<noteq> None"
  shows "\<exists>i \<in> set is. i_id i = pi_invitation_id p \<and> e_now E < i_expires_at i
           \<and> i_status i \<notin> {Accepted, Revoked}"
  using assms
proof (induction "is" arbitrary: outs)
  case (Cons i "is")
  show ?case
  proof (cases "i_status i \<in> {Accepted, Revoked}")
    case True
    with Cons show ?thesis by auto
  next
    case False
    let ?url = "if i_expires_at i \<le> e_now E then Inr None
      else display_link E (invite_url base) (i_display_token_ciphertext i)"
    obtain url rest where url: "?url = Inr url" and rest: "pending_outs E base is = Inr rest"
      using Cons.prems(1) False
      by (cases ?url; cases "pending_outs E base is") (simp_all add: Let_def)
    then have outs: "outs = pending_out_of E i url # rest"
      using Cons.prems(1) False by (simp add: Let_def)
    show ?thesis
    proof (cases "p = pending_out_of E i url")
      case True
      with url Cons.prems(3) False show ?thesis
        by (auto simp: pending_out_of_def Let_def not_le split: if_splits)
    next
      case other: False
      with outs Cons.prems(2) have "p \<in> set rest" by simp
      from Cons.IH [OF rest this Cons.prems(3)] show ?thesis by auto
    qed
  qed
qed simp

text \<open>
  The detail view is the household's own: it answers only for the household of the caller's
  membership, lists exactly its members, and carries links, invitations and limits exactly
  when the caller is an admin; every invitation link it shows belongs to an invitation that is
  pending, of this household, and not expired.
\<close>

theorem detail_view_scope:
  assumes "get_household_detail E base hid m s = Inr d"
  shows "m_household_id m = hid \<and> live_household (work s) hid
    \<and> hd_members d = map (member_out_of s (m_user_id m)) (get_members s hid)
    \<and> hd_member_count d = length (hd_members d)
    \<and> (hd_admin d \<noteq> None \<longleftrightarrow> m_role m = Admin)
    \<and> (\<forall>a p. hd_admin d = Some a \<and> p \<in> set (ad_pending a) \<and> pi_invite_url p \<noteq> None \<longrightarrow>
          (\<exists>i \<in> set (invitations (work s)). i_id i = pi_invitation_id p \<and> i_household_id i = hid
             \<and> i_status i = Pending \<and> e_now E < i_expires_at i))"
proof -
  obtain h where h: "get_household s hid = Some h"
    using assms by (auto simp: get_household_detail_def split: option.splits)
  have live: "live_household (work s) hid" using h get_household_live [of s hid] by blast
  have "m_household_id m = hid"
    using assms h by (auto simp: get_household_detail_def split: if_splits)
  moreover have "hd_members d = map (member_out_of s (m_user_id m)) (get_members s hid)
      \<and> hd_member_count d = length (hd_members d) \<and> (hd_admin d \<noteq> None \<longleftrightarrow> m_role m = Admin)"
    using assms h
    by (auto simp: get_household_detail_def Let_def count_members_def count_where_def get_members_def
        split: if_splits sum.splits)
  moreover have "\<exists>i \<in> set (invitations (work s)). i_id i = pi_invitation_id p
      \<and> i_household_id i = hid \<and> i_status i = Pending \<and> e_now E < i_expires_at i"
    if p: "hd_admin d = Some a" "p \<in> set (ad_pending a)" "pi_invite_url p \<noteq> None" for a p
  proof -
    obtain outs where outs: "pending_outs E base (get_invitations_for_household s hid) = Inr outs"
      "p \<in> set outs"
      using assms h p by (auto simp: get_household_detail_def Let_def split: if_splits sum.splits)
    from pending_outs_links [OF outs p(3)] obtain i where
      "i \<in> set (get_invitations_for_household s hid)" "i_id i = pi_invitation_id p"
      "e_now E < i_expires_at i" "i_status i \<notin> {Accepted, Revoked}" by blast
    then show ?thesis by (auto simp: get_invitations_for_household_def)
  qed
  ultimately show ?thesis using live by blast
qed

theorem detail_view_scope_witness:
  "\<exists>d. get_household_detail demo_env ''b'' 5 (demo_member 12 5 2 Member) (open_session guest_db) = Inr d
     \<and> hd_admin d = None"
proof -
  let ?r = "get_household_detail demo_env ''b'' 5 (demo_member 12 5 2 Member) (open_session guest_db)"
  have "is_ok ?r" by code_simp
  then obtain d where d: "?r = Inr d" by (rule is_okE)
  from detail_view_scope [OF this] d show ?thesis
    by (simp add: demo_member_def)
qed

end
