(* ===== verification/Slices.thy ===== *)
theory Slices
  imports Deps
begin

text \<open>
  What belongs to a household: its row, its memberships, invitations and guest links, its
  rows in the tenant tables and its import sessions. A change leaves a household untouched when this slice of the
  database is as before; a tenant query depends on the slice of the household it runs under.
\<close>

section \<open>What belongs to a household\<close>

record slice =
  sl_households :: "household list"
  sl_members :: "household_member list"
  sl_invitations :: "pending_invitation list"
  sl_guest_tokens :: "guest_token list"
  sl_brew_log :: "brew_log_row list"
  sl_catalog :: "catalog_row list"
  sl_inventory :: "inventory_row list"
  sl_hardware :: "hardware_row list"
  sl_maintenance :: "maintenance_row list"
  sl_imports :: "import_session list"

definition slice_of :: "uuid \<Rightarrow> database \<Rightarrow> slice" where
  "slice_of hid d = \<lparr>
     sl_households = filter (\<lambda>h. h_id h = hid) (households d),
     sl_members = filter (\<lambda>m. m_household_id m = hid) (members d),
     sl_invitations = filter (\<lambda>i. i_household_id i = hid) (invitations d),
     sl_guest_tokens = filter (\<lambda>g. g_household_id g = hid) (guest_tokens d),
     sl_brew_log = filter (\<lambda>r. b_household_id r = Some hid) (brew_log d),
     sl_catalog = filter (\<lambda>r. c_household_id r = Some hid) (catalog d),
     sl_inventory = filter (\<lambda>r. v_household_id r = Some hid) (inventory_bags d),
     sl_hardware = filter (\<lambda>r. w_household_id r = Some hid) (hardware d),
     sl_maintenance = filter (\<lambda>r. n_household_id r = Some hid) (maintenance_log d),
     sl_imports = filter (\<lambda>k. is_household_id k = hid) (import_sessions d)\<rparr>"

definition untouched :: "uuid \<Rightarrow> database \<Rightarrow> database \<Rightarrow> bool" where
  "untouched hid d d' \<longleftrightarrow> slice_of hid d' = slice_of hid d"

lemma untouched_refl [simp]: "untouched hid d d"
  by (simp add: untouched_def)

lemma untouched_trans: "untouched hid d d' \<Longrightarrow> untouched hid d' d'' \<Longrightarrow> untouched hid d d''"
  by (simp add: untouched_def)

lemma filter_update_other:
  "(\<And>x. x \<in> set xs \<Longrightarrow> q x \<Longrightarrow> \<not> p x) \<Longrightarrow> (\<And>x. q x \<Longrightarrow> p (f x) = p x) \<Longrightarrow>
     filter p (update_where q f xs) = filter p xs"
  by (induction xs) auto

lemma filter_and_same: "(\<And>x. p x \<Longrightarrow> q x) \<Longrightarrow> filter (\<lambda>x. q x \<and> p x) xs = filter p xs"
  by (intro filter_cong) auto

lemma untouched_users [simp]: "untouched hid d (d\<lparr>users := us\<rparr>)"
  by (simp add: untouched_def slice_of_def)

lemma untouched_map_user [simp]: "untouched hid (work s) (work (map_user uid f s))"
  by (simp add: map_user_def)

lemma untouched_same_but_active: "same_but_active s t \<Longrightarrow> untouched hid (work s) (work t)"
  by (auto simp: same_but_active_def)

section \<open>Queries see the own slice only\<close>

text \<open>Two sessions that work for the same household and agree on what belongs to it.\<close>

definition same_view :: "session \<Rightarrow> session \<Rightarrow> bool" where
  "same_view s t \<longleftrightarrow> (\<exists>hid. guc s = Some hid \<and> guc t = Some hid
     \<and> slice_of hid (work s) = slice_of hid (work t))"

lemma visible_slice:
  assumes "guc s = Some hid"
  shows "visible_brew_log s = sl_brew_log (slice_of hid (work s))"
    "visible_catalog s = sl_catalog (slice_of hid (work s))"
    "visible_inventory s = sl_inventory (slice_of hid (work s))"
    "visible_hardware s = sl_hardware (slice_of hid (work s))"
    "visible_maintenance s = sl_maintenance (slice_of hid (work s))"
  using assms
  by (simp_all add: visible_brew_log_def visible_catalog_def visible_inventory_def
      visible_hardware_def visible_maintenance_def slice_of_def)

lemma same_viewD:
  assumes "same_view s t"
  shows "visible_brew_log s = visible_brew_log t" "visible_catalog s = visible_catalog t"
    "visible_inventory s = visible_inventory t" "visible_hardware s = visible_hardware t"
    "visible_maintenance s = visible_maintenance t" "current_household_id s = current_household_id t"
  using assms unfolding same_view_def
  by (auto simp: visible_slice current_household_id_def)

end
