(* ===== verification/HouseholdAccess.thy ===== *)
theory HouseholdAccess
  imports HouseholdProps Slices
begin

text \<open>
  Access control of the household endpoints: the admin requirement guards every administrative
  request, an admin's request touches no other household, a password reset reaches members of
  the admin's household only; and the duplicate checks of an invitation.
\<close>

section \<open>Frames of the repository\<close>

lemma untouched_repair [simp]: "untouched hid (work s) (work (repair_active_households us s))"
  by (simp add: untouched_def slice_of_def)

lemma untouched_cascade: "k \<noteq> hid \<Longrightarrow> untouched hid d (cascade_household k d)"
  by (auto simp: untouched_def slice_of_def cascade_household_def intro!: filter_and_same)

lemma untouched_hard_delete:
  assumes "k \<noteq> hid" shows "untouched hid (work s) (work (snd (repo_hard_delete k s)))"
proof -
  have "untouched hid (work s)
      (work (repair_active_households us (upd_work (cascade_household k) s)))" for us
    by (rule untouched_trans [OF _ untouched_repair]) (simp add: untouched_cascade [OF assms])
  then show ?thesis
    by (simp add: repo_hard_delete_def Let_def split: option.split)
qed

lemma untouched_repo:
  fixes s :: session
  assumes "k \<noteq> hid"
  shows "untouched hid (work s) (work (snd (repo_rename k n s)))"
    "untouched hid (work s) (work (snd (repo_create_invitation iid now t k uid th em role ct s)))"
    "untouched hid (work s) (work (revoke_previous_guest_tokens t k s))"
    "untouched hid (work s) (work (set_guest_accessible k b s))"
    "untouched hid (work s) (work (snd (repo_create_guest_token gid t k uid th ct s)))"
  using assms
  by (auto simp: repo_rename_def repo_create_invitation_def insert_invitation_def
      repo_create_guest_token_def revoke_previous_guest_tokens_def set_guest_accessible_def
      untouched_def slice_of_def Let_def intro!: filter_update_other
      split: option.split sum.split)

lemma untouched_members:
  fixes s :: session
  assumes "k \<noteq> hid"
  shows "untouched hid (work s) (work (snd (repo_remove_member k uid s)))"
    "untouched hid (work s) (work (snd (repo_update_member_role k uid role s)))"
proof -
  have "untouched hid (work s) (work (delete_members (\<lambda>m. m_household_id m = k \<and> m_user_id m = uid) s))"
    using assms by (auto simp: delete_members_def untouched_def slice_of_def intro!: filter_cong)
  then show "untouched hid (work s) (work (snd (repo_remove_member k uid s)))"
    by (simp add: repo_remove_member_def split: option.split)
  show "untouched hid (work s) (work (snd (repo_update_member_role k uid role s)))"
    using assms by (auto simp: repo_update_member_role_def untouched_def slice_of_def
        intro!: filter_update_other split: option.split)
qed

lemma untouched_invitation:
  assumes "wf_db (work s)" "get_invitation_by_id s iid = Some i" "i_household_id i \<noteq> hid"
  shows "untouched hid (work s) (work (snd (repo_revoke_invitation t iid s)))"
    "untouched hid (work s) (work (snd (repo_resend_invitation now iid th ct s)))"
proof -
  have i: "i \<in> set (invitations (work s))" "i_id i = iid"
    using assms(2) by (auto simp: get_invitation_by_id_def dest: find_Some_in)
  have "i_household_id j \<noteq> hid" if "j \<in> set (invitations (work s))" "i_id j = iid" for j
    using key_unique [OF wf_dbD(5) [OF assms(1)] that(1) i(1)] that(2) i(2) assms(3) by simp
  then show "untouched hid (work s) (work (snd (repo_revoke_invitation t iid s)))"
    "untouched hid (work s) (work (snd (repo_resend_invitation now iid th ct s)))"
    by (auto simp: repo_revoke_invitation_def repo_resend_invitation_def map_invitation_def
        untouched_def slice_of_def Let_def intro!: filter_update_other split: option.split)
qed

section \<open>Administrative requests\<close>

lemma untouched_commit:
  assumes "untouched hid (work t) (work (snd m))" "committed (snd m) = work t"
  shows "untouched hid (work t) (committed (snd (andthen m (\<lambda>x s. (Inr (f x), commit s)))))"
  using assms by (cases m) (auto simp: andthen_def split: sum.split)

lemma untouched_bodies:
  assumes "wf_db (work t)" "committed t = work t" "m_household_id m \<noteq> hid"
  shows "untouched hid (work t) (committed (snd (create_invite E base iid raw email role m t)))"
    "untouched hid (work t) (committed (snd (revoke_invite E iid m t)))"
    "untouched hid (work t) (committed (snd (resend_invite E base iid raw m t)))"
    "untouched hid (work t) (committed (snd (update_member_role uid role m t)))"
    "untouched hid (work t) (committed (snd (revoke_guest_token E k m t)))"
    "untouched hid (work t) (committed (snd (rename_household k n m t)))"
    "untouched hid (work t) (committed (snd (delete_household k n m t)))"
proof -
  note com = repo_committed assms(2,3) assms(3) [symmetric]
  show "untouched hid (work t) (committed (snd (create_invite E base iid raw email role m t)))"
    unfolding create_invite_def
    by (auto simp: com assms(2) intro!: untouched_commit untouched_repo assms(3) split: sum.split)
  show "untouched hid (work t) (committed (snd (revoke_invite E iid m t)))"
    unfolding revoke_invite_def own_invitation_def
    by (auto simp: com intro!: untouched_commit untouched_invitation [OF assms(1)] assms(3)
        split: option.split)
  show "untouched hid (work t) (committed (snd (resend_invite E base iid raw m t)))"
    unfolding resend_invite_def own_invitation_def
    by (auto simp: com assms(2) intro!: untouched_commit untouched_invitation [OF assms(1)] assms(3)
        split: option.split sum.split)
  show "untouched hid (work t) (committed (snd (update_member_role uid role m t)))"
    unfolding update_member_role_def
    by (auto simp: com assms(2) intro!: untouched_commit untouched_members assms(3))
  show "untouched hid (work t) (committed (snd (revoke_guest_token E k m t)))"
    using untouched_trans [OF untouched_repo(3) untouched_repo(4)] assms(2,3)
    by (auto simp: revoke_guest_token_def repo_revoke_guest_tokens_def)
  show "untouched hid (work t) (committed (snd (rename_household k n m t)))"
    unfolding rename_household_def
    by (auto simp: com assms(2) intro!: untouched_commit untouched_repo assms(3)
        split: option.split)
  show "untouched hid (work t) (committed (snd (delete_household k n m t)))"
    unfolding delete_household_def
    by (auto simp: com assms(2) intro!: untouched_commit untouched_hard_delete assms(3)
        split: option.split)
qed

lemma untouched_remove:
  assumes "committed t = work t" "m_household_id m \<noteq> hid"
  shows "untouched hid (work t) (committed (snd (remove_member uid m t)))"
proof (cases "m_user_id m = uid")
  case False
  let ?m = "repo_remove_member (m_household_id m) uid t"
  have "untouched hid (work t) (work (snd ?m))" by (rule untouched_members [OF assms(2)])
  from untouched_trans [OF this untouched_repair [of hid "snd ?m" "[uid]"]]
  show ?thesis
    using False assms(1) repo_committed(4) [of "m_household_id m" uid t]
    by (cases ?m) (auto simp: remove_member_def andthen_def simp del: repair_active_households.simps
        repo_committed split: sum.split)
qed (simp add: remove_member_def assms(1))

lemma untouched_generate:
  assumes "committed t = work t" "m_household_id m \<noteq> hid"
  shows "untouched hid (work t) (committed (snd (generate_guest_token E base k gid raw m t)))"
proof (cases "m_household_id m = k")
  case True
  let ?t = "revoke_previous_guest_tokens (e_db_now E) k t"
  have "untouched hid (work t) (committed (snd (andthen
      (repo_create_guest_token gid (e_db_now E) k u th ct ?t) (\<lambda>g s. (Inr (f g), commit s)))))"
    for u th ct and f :: "guest_token \<Rightarrow> guest_token_out"
  proof (cases "repo_create_guest_token gid (e_db_now E) k u th ct ?t")
    case (Pair r s1)
    have "untouched hid (work t) (work s1)"
      using untouched_trans [OF untouched_repo(3) untouched_repo(5)] Pair True assms(2)
      by (metis snd_conv)
    moreover have "committed s1 = work t"
      using repo_committed(11) [of gid "e_db_now E" k u th ct ?t] Pair assms(1) by simp
    ultimately show ?thesis using Pair by (auto simp: andthen_def split: sum.split)
  qed
  with True assms(1) show ?thesis
    by (auto simp: generate_guest_token_def Let_def split: sum.split)
qed (simp add: generate_guest_token_def assms(1))

fun administrative :: "household_request \<Rightarrow> bool" where
  "administrative (CreateHousehold hid mid name) = False"
| "administrative ListMyHouseholds = False"
| "administrative (AcceptInvite mid raw) = False"
| "administrative _ = True"

lemma snd_andthen_unit: "committed (snd (andthen m (\<lambda>_ s. (Inr (), s)))) = committed (snd m)"
  by (cases m) (auto simp: andthen_def split: sum.split)

lemma as_admin_untouched:
  assumes "wf_db d"
    and "\<And>m t. require_admin E token (open_session d) = (Inr m, t) \<Longrightarrow> m_household_id m \<noteq> hid"
    and body: "\<And>m t. wf_db (work t) \<Longrightarrow> committed t = work t \<Longrightarrow> m_household_id m \<noteq> hid \<Longrightarrow>
      untouched hid (work t) (committed (snd (body m t)))"
  shows "untouched hid d (committed (snd (as_admin E token body (open_session d))))"
proof (cases "require_admin E token (open_session d)")
  case (Pair r t)
  have start: "committed (open_session d) = work (open_session d)" by simp
  have same: "\<exists>v. same_but_active (open_session d) v \<and> work t = work v \<and> committed t = committed v"
  proof -
    have refl: "same_but_active (open_session d) (open_session d)" by (simp add: same_but_active_def)
    have "\<exists>v. same_but_active (open_session d) v \<and> work (snd (current_household_membership E token
        (open_session d))) = work v \<and> committed (snd (current_household_membership E token
        (open_session d))) = committed v"
    proof (cases "current_user E token (open_session d)")
      case (Inr u)
      show ?thesis
        using refl Inr resolve_same_but_active [of "open_session d" u]
        by (cases "resolve_membership_for_user u (open_session d)")
          (auto simp: current_household_membership_def andthen_def split: sum.split)
    qed (use refl in \<open>auto simp: current_household_membership_def\<close>)
    moreover have "work t = work (snd (current_household_membership E token (open_session d)))
        \<and> committed t = committed (snd (current_household_membership E token (open_session d)))"
      using Pair by (auto simp: require_admin_def andthen_def split: prod.splits sum.splits if_splits)
    ultimately show ?thesis by simp
  qed
  then obtain v where v: "same_but_active (open_session d) v" "work t = work v"
    "committed t = committed v" by blast
  have t: "committed t = work t" "untouched hid d (work t)" "wf_db (work t)"
    using same_but_active_frame(12) [OF v(1) start] untouched_same_but_active [OF v(1), of hid]
      same_but_active_wf [OF v(1)] assms(1) v(2,3) by simp_all
  show ?thesis
  proof (cases r)
    case (Inl e)
    with Pair t show ?thesis by (simp add: as_admin_def)
  next
    case (Inr m)
    with Pair assms(2) have "m_household_id m \<noteq> hid" by simp
    from untouched_trans [OF t(2) body [OF t(3,1) this]] Inr Pair show ?thesis
      by (simp add: as_admin_def snd_andthen_unit)
  qed
qed

text \<open>
  C5. Administrative requests stay inside the admin's household. Whatever an administrative
  request contains, it changes nothing that belongs to a household other than the one its
  sender is resolved to as an admin: no household row, membership, invitation, guest link or
  tenant row; and when the sender is not resolved to an admin membership at all, it changes
  nothing of any household.
\<close>

theorem admin_requests_stay_home:
  assumes "wf_db d" "administrative r"
    and "\<And>m t. require_admin E token (open_session d) = (Inr m, t) \<Longrightarrow> m_household_id m \<noteq> hid"
  shows "untouched hid d (household_step d (E, token, r))"
proof -
  note admin = as_admin_untouched [OF assms(1,3)]
  have "untouched hid d (committed (snd (household_endpoint E token r (open_session d))))"
    using assms(2)
    by (cases r)
      (auto intro!: admin untouched_bodies untouched_remove untouched_generate)
  then show ?thesis by (simp add: household_step_def after_request_def)
qed

theorem admin_requests_stay_home_witness:
  "untouched 6 three_db (household_step three_db (demo_env, Some ''k1'', DeleteHousehold 5 ''Home''))
   \<and> untouched 5 three_db (household_step three_db (demo_env, Some ''k2'', DeleteHousehold 6 ''Zoo''))"
proof
  have wf: "wf_db three_db" using three_db_wf by simp
  have r1: "map_sum id m_household_id (fst (require_admin demo_env (Some ''k1'') (open_session three_db)))
      = Inr 5" by code_simp
  have r2: "map_sum id m_household_id (fst (require_admin demo_env (Some ''k2'') (open_session three_db)))
      = Inr 6" by code_simp
  show "untouched 6 three_db (household_step three_db (demo_env, Some ''k1'', DeleteHousehold 5 ''Home''))"
    using r1 by (intro admin_requests_stay_home wf) auto
  show "untouched 5 three_db (household_step three_db (demo_env, Some ''k2'', DeleteHousehold 6 ''Zoo''))"
    using r2 by (intro admin_requests_stay_home wf) auto
qed

text \<open>
  The password reset of an admin reaches the members of the admin's own household only: a
  success has set the password of exactly one account, one with the given name that is a member
  there, and the new password verifies for it; everyone else's row is as before.
\<close>

theorem password_reset_scope:
  assumes "admin_reset_password E m username pw s = (Inr (), s')"
  shows "\<exists>target h. get_by_username s username = Inr (Some target)
     \<and> get_member s (m_household_id m) (u_id target) \<noteq> None
     \<and> hash_password (e_ext E) pw = Inr h
     \<and> 12 \<le> length pw \<and> length pw \<le> 1024
     \<and> committed s' = (work s)\<lparr>users := update_where (\<lambda>u. u_id u = u_id target)
         (\<lambda>u. u\<lparr>u_password_hash := Some h\<rparr>) (users (work s))\<rparr>"
  using assms
  by (auto simp: admin_reset_password_def update_password_hash_def map_user_def not_less
      split: if_splits sum.splits option.splits)

lemma three_db_user2:
  "get_by_username (open_session three_db) ''user2''
     = Inr (Some ((demo_user 2)\<lparr>u_active_household_id := Some 6\<rparr>))"
  by code_simp

lemma three_db_reset:
  "fst (admin_reset_password demo_env (demo_member 11 5 1 Admin) ''user2'' ''a-new-secret''
     (open_session three_db)) = Inr ()"
  unfolding admin_reset_password_def three_db_user2
  by (simp add: three_db_def demo_user_def demo_member_def demo_env_def demo_externals_def
      hash_password_def get_member_def)

theorem password_reset_scope_witness:
  "\<exists>target. get_by_username (open_session three_db) ''user2'' = Inr (Some target)
     \<and> get_member (open_session three_db) 5 (u_id target) \<noteq> None"
proof -
  let ?out = "admin_reset_password demo_env (demo_member 11 5 1 Admin) ''user2'' ''a-new-secret''
    (open_session three_db)"
  have "?out = (Inr (), snd ?out)" using three_db_reset by (cases ?out) simp
  from password_reset_scope [OF this] show ?thesis by (auto simp: demo_member_def)
qed

section \<open>The duplicate checks of an invitation\<close>

text \<open>
  What a created invitation means: the household had a free place, the inviter fewer than
  ten invitations of the last 24 hours pending or accepted, no unexpired pending invitation
  names the same address and no member has it; it is pending for 72 hours, its link leads to
  it, and apart from the new row the database is as before. A refusal commits nothing.
\<close>

theorem create_invite_result:
  "case create_invite E base iid raw email role m s of
      (Inl e, s') \<Rightarrow> committed s' = committed s
    | (Inr out, s') \<Rightarrow> (\<exists>i.
        committed s' = (work s)\<lparr>invitations := invitations (work s) @ [i]\<rparr>
      \<and> get_invitation_by_token_hash s' (hash_token (e_ext E) raw) = Some i
      \<and> io_invite_url out = invite_url base raw
      \<and> i_household_id i = m_household_id m \<and> i_invited_role i = role \<and> i_status i = Pending
      \<and> i_expires_at i = e_now E + hours 72
      \<and> count_members s (m_household_id m) < 10
      \<and> recent_invitation_count (e_now E) (m_household_id m) (m_user_id m) s < 10
      \<and> (\<forall>a. i_invited_email i = Some a \<longrightarrow>
            pending_duplicates (e_now E) (m_household_id m) a s = []
            \<and> members_with_email (m_household_id m) a s = []))"
proof (cases "encrypt_display_token (e_ext E) (e_st E) raw")
  case (Inl e)
  then show ?thesis by (simp add: create_invite_def)
next
  case (Inr ct)
  let ?em = "normalize_email (normalise_email email)"
  let ?i = "\<lparr>i_id = iid, i_household_id = m_household_id m, i_invited_email = ?em,
     i_invited_role = role, i_status = Pending, i_token_hash = hash_token (e_ext E) raw,
     i_display_token_ciphertext = Some ct, i_invited_by_user_id = m_user_id m,
     i_invited_at = e_db_now E, i_expires_at = e_now E + hours 72, i_accepted_at = None,
     i_revoked_at = None\<rparr>"
  show ?thesis
  proof (cases "10 \<le> count_members s (m_household_id m)
      \<or> 10 \<le> recent_invitation_count (e_now E) (m_household_id m) (m_user_id m) s")
    case True
    with Inr show ?thesis by (auto simp: create_invite_def repo_create_invitation_def)
  next
    case room: False
    show ?thesis
    proof (cases "check_email_free (e_now E) (m_household_id m) ?em s")
      case (Inl e)
      with Inr room show ?thesis
        by (auto simp: create_invite_def repo_create_invitation_def Let_def)
    next
      case free: (Inr u)
      have dup: "pending_duplicates (e_now E) (m_household_id m) a s = []
          \<and> members_with_email (m_household_id m) a s = []" if "?em = Some a" for a
        using free that
        by (auto simp: check_email_free_def split: sum.splits option.splits dest: scalar_NoneD)
      show ?thesis
      proof (cases "insert_invitation ?i s")
        case (Pair r t)
        have out: "create_invite E base iid raw email role m s = andthen (r, t)
            (\<lambda>_ s. (Inr \<lparr>io_invitation_id = iid, io_invite_url = invite_url base raw,
               io_expires_at = e_now E + hours 72, io_invited_email = ?em, io_invited_role = role\<rparr>,
               commit s))"
          using Inr room free Pair
          by (simp add: create_invite_def repo_create_invitation_def Let_def not_le andthen_def
              split: sum.split)
        show ?thesis
        proof (cases r)
          case Inl
          with out Pair show ?thesis by (auto simp: insert_invitation_def split: if_splits)
        next
          case r: Inr
          have fresh: "hash_token (e_ext E) raw \<notin> i_token_hash ` set (invitations (work s))"
            and t: "t = upd_work (\<lambda>d. d\<lparr>invitations := invitations d @ [?i]\<rparr>) s"
            using Pair r by (auto simp: insert_invitation_def list_ex_iff split: if_splits)
          have "find (\<lambda>i. i_token_hash i = hash_token (e_ext E) raw) (invitations (work s)) = None"
            using fresh unfolding find_None_all by (metis imageI)
          then show ?thesis
            using out r t room dup
            by (auto simp: get_invitation_by_token_hash_def find_append intro!: exI [of _ ?i])
        qed
      qed
    qed
  qed
qed

lemma invite_db_create:
  "is_ok (fst (create_invite demo_env ''b'' 8 ''more'' (Some '' New@X.org'') Admin
     (demo_member 11 5 1 Admin) (open_session invite_db)))"
  by code_simp

theorem create_invite_result_witness:
  "\<exists>i s'. s' = snd (create_invite demo_env ''b'' 8 ''more'' (Some '' New@X.org'') Admin
       (demo_member 11 5 1 Admin) (open_session invite_db))
     \<and> get_invitation_by_token_hash s' (hash_token (e_ext demo_env) ''more'') = Some i
     \<and> i_household_id i = 5 \<and> i_invited_role i = Admin"
proof -
  obtain out s' where out: "create_invite demo_env ''b'' 8 ''more'' (Some '' New@X.org'') Admin
      (demo_member 11 5 1 Admin) (open_session invite_db) = (Inr out, s')"
    using invite_db_create
    by (cases "create_invite demo_env ''b'' 8 ''more'' (Some '' New@X.org'') Admin
      (demo_member 11 5 1 Admin) (open_session invite_db)") (auto elim: is_okE)
  from create_invite_result [where E = demo_env and base = "''b''" and iid = 8 and raw = "''more''"
      and email = "Some '' New@X.org''" and role = Admin and m = "demo_member 11 5 1 Admin"
      and s = "open_session invite_db"] out
  show ?thesis by (auto simp: demo_member_def)
qed

text \<open>
  Resending an invitation that has lapsed does not look for a second pending one to the
  same address. Once a household has two, every further invitation to that address ends in
  the unhandled \<open>MultipleResultsFound\<close> of \<open>scalar_one_or_none\<close>, not in the 409 the check is
  there for, as long as the two limits are not hit.
\<close>

theorem resend_breaks_duplicate_check:
  assumes "resend_invite E base iid new m s = (Inr out, s')"
    and "get_invitation_by_id s iid = Some i" "map_option lower (i_invited_email i) = Some a"
    and "j \<in> set (invitations (work s))" "i_id j \<noteq> iid" "i_household_id j = m_household_id m"
    and "map_option lower (i_invited_email j) = Some a" "i_status j = Pending" "e_now E' < i_expires_at j"
    and "e_now E' < e_now E + hours 72" "normalize_email (normalise_email email) = Some a"
    and "encrypt_display_token (e_ext E') (e_st E') raw = Inr ct"
    and "count_members s (m_household_id m) < 10"
    and "recent_invitation_count (e_now E') (m_household_id m) (m_user_id m) s' < 10"
  shows "create_invite E' base' iid' raw email role m s' = (Inl MultipleResultsFound, s')"
proof -
  from assms(1) obtain k ct' where k: "get_invitation_by_id s iid = Some k"
      "i_household_id k = m_household_id m"
    and c: "committed s' = (work s)\<lparr>invitations := update_where (\<lambda>i. i_id i = iid)
       (\<lambda>i. i\<lparr>i_expires_at := e_now E + hours 72, i_status := Pending,
              i_token_hash := hash_token (e_ext E) new, i_display_token_ciphertext := Some ct',
              i_accepted_at := None, i_revoked_at := None\<rparr>) (invitations (work s))\<rparr>"
    by (rule resend_invite_InrD)
  have w: "work s' = committed s'"
    using assms(1) by (auto simp: resend_invite_def split: if_splits sum.splits elim!: andthen_InrE)
  let ?j = "i\<lparr>i_expires_at := e_now E + hours 72, i_status := Pending,
              i_token_hash := hash_token (e_ext E) new, i_display_token_ciphertext := Some ct',
              i_accepted_at := None, i_revoked_at := None\<rparr>"
  let ?dup = "pending_duplicates (e_now E') (m_household_id m) a s'"
  have i: "i \<in> set (invitations (work s))" "i_id i = iid" "i_household_id i = m_household_id m"
    using assms(2) k by (auto simp: get_invitation_by_id_def dest: find_Some_in)
  have "?j \<in> set ?dup" "j \<in> set ?dup"
    using i assms(3-10) by (auto simp: pending_duplicates_def w c set_update_where intro: rev_image_eqI)
  moreover have "?j \<noteq> j" using i(2) assms(5) by (intro notI) (drule arg_cong [of _ _ i_id], simp)
  ultimately obtain x y zs where "?dup = x # y # zs"
    by (cases ?dup rule: scalar_one_or_none.cases) auto
  then have "check_email_free (e_now E') (m_household_id m) (Some a) s' = Inl MultipleResultsFound"
    by (simp add: check_email_free_def)
  moreover have "count_members s' (m_household_id m) = count_members s (m_household_id m)"
    by (simp add: count_members_def w c)
  ultimately show ?thesis
    using assms(11-14)
    by (simp add: create_invite_def repo_create_invitation_def Let_def)
qed

text \<open>Two invitations of household 5 to one address, the first one lapsed at time 0.\<close>

definition demo_invitation :: "uuid \<Rightarrow> string \<Rightarrow> instant \<Rightarrow> pending_invitation" where
  "demo_invitation iid th expires = \<lparr>i_id = iid, i_household_id = 5, i_invited_email = Some ''a@x'',
     i_invited_role = Member, i_status = Pending, i_token_hash = th,
     i_display_token_ciphertext = None, i_invited_by_user_id = 1, i_invited_at = 0,
     i_expires_at = expires, i_accepted_at = None, i_revoked_at = None\<rparr>"

definition twice_db :: database where
  "twice_db = invite_db\<lparr>invitations := [demo_invitation 7 ''#one'' 0, demo_invitation 8 ''#two'' 5000]\<rparr>"

lemma twice_db_resend:
  "is_ok (fst (resend_invite demo_env ''b'' 7 ''new'' (demo_member 11 5 1 Admin) (open_session twice_db)))"
  "get_invitation_by_id (open_session twice_db) 7 = Some (demo_invitation 7 ''#one'' 0)"
  "encrypt_display_token (e_ext demo_env) (e_st demo_env) ''raw'' = Inr ''new:raw''"
  "count_members (open_session twice_db) 5 = 2"
  "recent_invitation_count 1000 5 1
     (snd (resend_invite demo_env ''b'' 7 ''new'' (demo_member 11 5 1 Admin) (open_session twice_db))) = 2"
  "normalize_email (normalise_email (Some '' A@X '')) = Some ''a@x''"
  "lower ''a@x'' = ''a@x''"
  by code_simp+

theorem resend_breaks_duplicate_check_witness:
  "fst (create_invite demo_env ''b'' 9 ''raw'' (Some '' A@X '') Member (demo_member 11 5 1 Admin)
     (snd (resend_invite demo_env ''b'' 7 ''new'' (demo_member 11 5 1 Admin) (open_session twice_db))))
   = Inl MultipleResultsFound"
proof -
  let ?m = "demo_member 11 5 1 Admin"
  obtain out s' where out: "resend_invite demo_env ''b'' 7 ''new'' ?m (open_session twice_db)
      = (Inr out, s')"
    using twice_db_resend(1)
    by (cases "resend_invite demo_env ''b'' 7 ''new'' ?m (open_session twice_db)") (auto elim: is_okE)
  have "create_invite demo_env ''b'' 9 ''raw'' (Some '' A@X '') Member ?m s'
      = (Inl MultipleResultsFound, s')"
  proof (rule resend_breaks_duplicate_check [OF out twice_db_resend(2) _ _ _ _ _ _ _ _ _
        twice_db_resend(3)])
    show "demo_invitation 8 ''#two'' 5000 \<in> set (invitations (work (open_session twice_db)))"
      by (simp add: twice_db_def)
    show "recent_invitation_count (e_now demo_env) (m_household_id ?m) (m_user_id ?m) s' < 10"
      using twice_db_resend(5) out by (simp add: demo_env_def demo_member_def)
    show "count_members (open_session twice_db) (m_household_id ?m) < 10"
      using twice_db_resend(4) by (simp add: demo_member_def)
  qed (simp_all add: twice_db_resend(6,7) demo_invitation_def demo_env_def demo_member_def
      time_defs)
  with out show ?thesis by simp
qed

end
