(* ===== verification/Ids.thy ===== *)
theory Ids
  imports Interfaces
begin

text \<open>
  The deterministic identifier generators of \<^verbatim>\<open>app/services/ids.py\<close>: shot, bag and
  maintenance identifiers, computed from the identifiers already in use. The lemmas show that
  a generated identifier is never one of the identifiers it was computed from, that the
  collision loop of the bag identifiers ends, and that it takes the smallest free suffix.
\<close>

section \<open>Dates as the generators print them\<close>

record date =
  year :: nat
  month :: nat
  day :: nat

text \<open>\<open>strftime("%Y%m%d")\<close> and \<open>isoformat()\<close>.\<close>

definition strftime_ymd :: "date \<Rightarrow> string" where
  "strftime_ymd d = nat_str (year d) @ pad0 2 (month d) @ pad0 2 (day d)"

definition date_isoformat :: "date \<Rightarrow> string" where
  "date_isoformat d = pad0 4 (year d) @ ''-'' @ pad0 2 (month d) @ ''-'' @ pad0 2 (day d)"

section \<open>Roaster and roast-level codes\<close>

definition roaster_code :: "string \<Rightarrow> string res" where
  "roaster_code roaster =
     (let r = strip roaster in
      if r = [] then Inl ValueError
      else Inr (title (take 2 (takeWhile (\<lambda>c. \<not> py_space c) r))))"

definition roast_level_map :: "string \<rightharpoonup> string" where
  "roast_level_map =
     [''Light'' \<mapsto> ''L'', ''Light / Medium'' \<mapsto> ''LM'', ''Medium'' \<mapsto> ''M'',
      ''Medium / Dark'' \<mapsto> ''MD'', ''Dark'' \<mapsto> ''D'']"

definition roast_level_code :: "string \<Rightarrow> string res" where
  "roast_level_code level =
     (case roast_level_map level of Some c \<Rightarrow> Inr c | None \<Rightarrow> Inl ValueError)"

section \<open>Shot identifiers\<close>

definition shot_prefix :: "date \<Rightarrow> string" where
  "shot_prefix d = ''SH-'' @ strftime_ymd d @ ''-''"

text \<open>
  The regular expression \<open>^prefix(\d+)$\<close> under \<open>match\<close>: the prefix, at least one digit, and
  the end of the string or a newline that ends it.
\<close>

definition match_seq :: "string \<Rightarrow> string \<Rightarrow> nat option" where
  "match_seq prefix sid =
     (if take (length prefix) sid = prefix then
        (let r = drop (length prefix) sid;
             ds = (if r \<noteq> [] \<and> last r = CHR 0x0A then butlast r else r)
         in if ds \<noteq> [] \<and> list_all is_digit ds then Some (str_nat ds) else None)
      else None)"

definition existing_seqs :: "string \<Rightarrow> string list \<Rightarrow> nat list" where
  "existing_seqs prefix ids = List.map_filter (match_seq prefix) ids"

definition make_shot_id :: "date \<Rightarrow> string \<Rightarrow> string list \<Rightarrow> string" where
  "make_shot_id shot_date bag_id existing_ids =
     (let prefix = shot_prefix shot_date;
          sq = foldr max (existing_seqs prefix existing_ids) 0 + 1
      in prefix @ pad0 2 sq)"

section \<open>Bag identifiers\<close>

definition bag_candidate :: "string \<Rightarrow> nat \<Rightarrow> string" where
  "bag_candidate base n = base @ ''-'' @ nat_str n"

lemma bag_candidate_inj: "bag_candidate base m = bag_candidate base n \<longleftrightarrow> m = n"
  by (simp add: bag_candidate_def)

lemma finite_taken: "finite {m. n \<le> m \<and> bag_candidate base m \<in> set ids}"
proof (rule finite_subset)
  show "{m. n \<le> m \<and> bag_candidate base m \<in> set ids} \<subseteq> bag_candidate base -` set ids"
    by auto
  show "finite (bag_candidate base -` set ids)"
    by (rule finite_vimageI) (simp_all add: inj_def bag_candidate_inj)
qed

text \<open>The loop \<open>while True\<close>: every turn uses up one of the taken suffixes that remain.\<close>

function free_candidate :: "string \<Rightarrow> nat \<Rightarrow> string list \<Rightarrow> string" where
  "free_candidate base n ids =
     (if bag_candidate base n \<notin> set ids then bag_candidate base n
      else free_candidate base (n + 1) ids)"
  by pat_completeness auto
termination
proof (relation "measure (\<lambda>(base, n, ids). card {m. n \<le> m \<and> bag_candidate base m \<in> set ids})")
  fix base n ids
  assume "\<not> bag_candidate base n \<notin> set ids"
  then have "n \<in> {m. n \<le> m \<and> bag_candidate base m \<in> set ids}"
    and "n \<notin> {m. n + 1 \<le> m \<and> bag_candidate base m \<in> set ids}"
    by simp_all
  moreover have "{m. n + 1 \<le> m \<and> bag_candidate base m \<in> set ids}
      \<subseteq> {m. n \<le> m \<and> bag_candidate base m \<in> set ids}"
    by auto
  ultimately have "{m. n + 1 \<le> m \<and> bag_candidate base m \<in> set ids}
      \<subset> {m. n \<le> m \<and> bag_candidate base m \<in> set ids}"
    by blast
  then show "((base, n + 1, ids), (base, n, ids))
      \<in> measure (\<lambda>(base, n, ids). card {m. n \<le> m \<and> bag_candidate base m \<in> set ids})"
    by (simp add: psubset_card_mono finite_taken)
qed simp

declare free_candidate.simps [simp del]

definition make_inventory_id :: "string \<Rightarrow> date \<Rightarrow> string \<Rightarrow> string list \<Rightarrow> string res" where
  "make_inventory_id roaster roast_date roast_level existing_ids =
     (case roaster_code roaster of
        Inl e \<Rightarrow> Inl e
      | Inr rc \<Rightarrow>
          (case roast_level_code roast_level of
             Inl e \<Rightarrow> Inl e
           | Inr lc \<Rightarrow>
               (let base = rc @ strftime_ymd roast_date @ lc in
                if base \<notin> set existing_ids then Inr base
                else Inr (free_candidate base 2 existing_ids))))"

section \<open>Maintenance identifiers\<close>

text \<open>\<open>re.compile("MNT(\d+)").fullmatch(mid)\<close>.\<close>

definition match_mnt :: "string \<Rightarrow> nat option" where
  "match_mnt mid =
     (let ds = drop 3 mid in
      if take 3 mid = ''MNT'' \<and> ds \<noteq> [] \<and> list_all is_digit ds then Some (str_nat ds) else None)"

fun mnt_highest :: "nat \<Rightarrow> string list \<Rightarrow> nat" where
  "mnt_highest h [] = h"
| "mnt_highest h (mid # mids) =
     (case match_mnt mid of
        Some k \<Rightarrow> mnt_highest (max h k) mids
      | None \<Rightarrow> mnt_highest h mids)"

definition make_maintenance_id :: "string list \<Rightarrow> string" where
  "make_maintenance_id existing_ids = ''MNT'' @ pad0 3 (mnt_highest 0 existing_ids + 1)"

section \<open>Lemmas\<close>

lemma foldr_max_ge: "x \<in> set xs \<Longrightarrow> x \<le> foldr max xs (0::nat)"
  by (induction xs) auto

lemma last_pad0_not_newline: "last (pad0 w n) \<noteq> CHR 0x0A"
proof -
  have "is_digit (last (pad0 w n))"
    using pad0_digits [of w n] pad0_nonempty [of w n]
    by (metis last_in_set list.pred_set)
  then show ?thesis by (auto simp: is_digit_def)
qed

lemma match_seq_pad0: "match_seq p (p @ pad0 w n) = Some n"
  using last_pad0_not_newline [of w n] by (simp add: match_seq_def)

lemma existing_seqs_mem:
  "sid \<in> set ids \<Longrightarrow> match_seq p sid = Some k \<Longrightarrow> k \<in> set (existing_seqs p ids)"
  by (induction ids) (auto simp: existing_seqs_def List.map_filter_simps split: option.splits)

lemma mnt_highest_ge: "h \<le> mnt_highest h ids"
proof (induction ids arbitrary: h)
  case (Cons mid mids)
  show ?case
  proof (cases "match_mnt mid")
    case (Some k)
    with Cons [of "max h k"] show ?thesis by simp
  qed (use Cons in simp)
qed simp

lemma mnt_highest_bound: "mid \<in> set ids \<Longrightarrow> match_mnt mid = Some k \<Longrightarrow> k \<le> mnt_highest h ids"
proof (induction ids arbitrary: h)
  case (Cons m ms)
  show ?case
  proof (cases "mid = m")
    case True
    with Cons.prems mnt_highest_ge [of "max h k" ms] show ?thesis by simp
  next
    case False
    with Cons show ?thesis by (auto split: option.splits)
  qed
qed simp

lemma match_mnt_pad0: "match_mnt (''MNT'' @ pad0 w n) = Some n"
  by (simp add: match_mnt_def)

lemma free_candidate_fresh: "free_candidate base n ids \<notin> set ids"
proof (induction base n ids rule: free_candidate.induct)
  case (1 base n ids)
  then show ?case
    by (cases "bag_candidate base n \<in> set ids") (simp_all add: free_candidate.simps [of base n])
qed

lemma free_candidate_least:
  "\<exists>k\<ge>n. free_candidate base n ids = bag_candidate base k
      \<and> (\<forall>m. n \<le> m \<and> m < k \<longrightarrow> bag_candidate base m \<in> set ids)"
proof (induction base n ids rule: free_candidate.induct)
  case (1 base n ids)
  show ?case
  proof (cases "bag_candidate base n \<in> set ids")
    case True
    with "1" obtain k where k: "k \<ge> n + 1" "free_candidate base (n + 1) ids = bag_candidate base k"
      "\<forall>m. n + 1 \<le> m \<and> m < k \<longrightarrow> bag_candidate base m \<in> set ids" by auto
    have "bag_candidate base m \<in> set ids" if "n \<le> m" "m < k" for m
      using that True k(3) by (cases "m = n") auto
    with True k(1,2) show ?thesis
      by (intro exI [of _ k]) (simp add: free_candidate.simps [of base n])
  next
    case False
    then show ?thesis
      by (intro exI [of _ n]) (auto simp: free_candidate.simps [of base n])
  qed
qed

lemma make_shot_id_seq:
  "\<exists>n. make_shot_id d b ids = shot_prefix d @ pad0 2 n
     \<and> (\<forall>sid k. sid \<in> set ids \<and> match_seq (shot_prefix d) sid = Some k \<longrightarrow> k < n)"
proof -
  let ?n = "foldr max (existing_seqs (shot_prefix d) ids) 0 + 1"
  have "k < ?n" if "sid \<in> set ids" "match_seq (shot_prefix d) sid = Some k" for sid k
    using foldr_max_ge [OF existing_seqs_mem [OF that]] by simp
  then show ?thesis
    by (intro exI [of _ ?n]) (auto simp: make_shot_id_def Let_def)
qed

lemma make_shot_id_new: "make_shot_id d b ids \<notin> set ids"
  using make_shot_id_seq [of d b ids] match_seq_pad0 by fastforce

lemma make_maintenance_id_seq:
  assumes "mid \<in> set ids" "match_mnt mid = Some k"
  shows "k < mnt_highest 0 ids + 1"
  using mnt_highest_bound [OF assms, of 0] by simp

lemma make_maintenance_id_new: "make_maintenance_id ids \<notin> set ids"
  unfolding make_maintenance_id_def using make_maintenance_id_seq [OF _ match_mnt_pad0] by blast

section \<open>Properties\<close>

text \<open>
  A generated shot identifier is new: it is none of the identifiers that are in use, and
  its sequence number is larger than that of every shot of the same day among them.
\<close>

theorem make_shot_id_fresh:
  "make_shot_id d b ids \<notin> set ids
   \<and> (\<forall>sid k. sid \<in> set ids \<and> match_seq (shot_prefix d) sid = Some k \<longrightarrow>
        (\<exists>n. make_shot_id d b ids = shot_prefix d @ pad0 2 n \<and> k < n))"
  using make_shot_id_seq [of d b ids] make_shot_id_new [of d b ids] by blast

theorem make_shot_id_fresh_witness:
  "make_shot_id \<lparr>year = 2025, month = 2, day = 1\<rparr> ''B'' [''SH-20250201-01''] \<notin> {''SH-20250201-01''}"
  using make_shot_id_fresh [of "\<lparr>year = 2025, month = 2, day = 1\<rparr>" "''B''" "[''SH-20250201-01'']"]
  by simp

text \<open>
  A bag identifier is generated exactly when the roaster is not blank and the roast level
  is one of the five known ones; it is new, and on a collision it carries the smallest free
  suffix from 2 on.
\<close>

theorem make_inventory_id_fresh:
  assumes "make_inventory_id roaster d level ids = Inr bid"
  shows "bid \<notin> set ids \<and>
    (\<exists>rc lc base. roaster_code roaster = Inr rc \<and> roast_level_map level = Some lc
       \<and> base = rc @ strftime_ymd d @ lc
       \<and> (if base \<notin> set ids then bid = base
          else (\<exists>k\<ge>2. bid = bag_candidate base k
                 \<and> (\<forall>m. 2 \<le> m \<and> m < k \<longrightarrow> bag_candidate base m \<in> set ids))))"
  using assms free_candidate_fresh free_candidate_least
  by (auto simp: make_inventory_id_def roast_level_code_def Let_def
      split: sum.splits option.splits if_splits)

theorem make_inventory_id_fresh_witness:
  "''Ve20250201M-3'' \<notin> {''Ve20250201M'', ''Ve20250201M-2''}"
proof -
  have h: "make_inventory_id ''Verve Coffee'' \<lparr>year = 2025, month = 2, day = 1\<rparr> ''Medium''
      [''Ve20250201M'', ''Ve20250201M-2''] = Inr ''Ve20250201M-3''"
    by code_simp
  show ?thesis using make_inventory_id_fresh [OF h] by simp
qed

text \<open>
  A generated maintenance identifier is new, and its number is larger than that of every
  well-formed maintenance identifier in use.
\<close>

theorem make_maintenance_id_fresh:
  "make_maintenance_id ids \<notin> set ids
   \<and> (\<forall>mid k. mid \<in> set ids \<and> match_mnt mid = Some k \<longrightarrow>
        (\<exists>n. make_maintenance_id ids = ''MNT'' @ pad0 3 n \<and> k < n))"
  using make_maintenance_id_seq make_maintenance_id_new unfolding make_maintenance_id_def by blast

theorem make_maintenance_id_fresh_witness:
  "make_maintenance_id [''MNT007'', ''MNTx''] \<notin> {''MNT007'', ''MNTx''}"
  using make_maintenance_id_fresh [of "[''MNT007'', ''MNTx'']"] by simp

section \<open>Drawing several identifiers\<close>

interpretation shots: fresh_generator "make_shot_id d b"
  by unfold_locales (use make_shot_id_new in blast)

interpretation maintenance: fresh_generator make_maintenance_id
  by unfold_locales (use make_maintenance_id_new in blast)

text \<open>
  Identifiers drawn one after the other, each from all that exist by then, never collide:
  a day's shots get pairwise different identifiers, and so do the maintenance events.
\<close>

theorem drawn_ids_distinct:
  assumes "distinct ids"
  shows "distinct (draw (make_shot_id d b) n ids) \<and> distinct (draw make_maintenance_id n ids)"
  using assms by (simp add: shots.draw_distinct maintenance.draw_distinct)

theorem drawn_ids_distinct_witness:
  "distinct (draw (make_shot_id \<lparr>year = 2025, month = 2, day = 1\<rparr> ''B'') 3 [])"
  using drawn_ids_distinct [of "[]" "\<lparr>year = 2025, month = 2, day = 1\<rparr>" "''B''" 3] by simp

end
