(* ===== verification/BrewLogRepo.thy ===== *)
theory BrewLogRepo
  imports Deps
begin

text \<open>
  \<^verbatim>\<open>app/repos/sql/brew_log.py\<close> and \<^verbatim>\<open>app/repos/sql/tenant.py\<close>: the brew log under the
  household's row-level security. The repositories take and return Python dicts; a dict is a
  map from column names to Python values. Every query sees the rows the policy passes, every
  write is checked by the same policy and by the unique columns of the whole table.

  \<open>float()\<close> and \<open>fromisoformat()\<close>, the decimal column type and the texts the database driver
  gives back are parameters, collected in a record.
\<close>

section \<open>Python dicts\<close>

datatype pyval = PNone | PStr string | PFloat string

type_synonym dict = "string \<Rightarrow> pyval option"

definition py_get :: "dict \<Rightarrow> string \<Rightarrow> pyval" where
  "py_get d k = (case d k of None \<Rightarrow> PNone | Some v \<Rightarrow> v)"

definition py_get_or :: "dict \<Rightarrow> string \<Rightarrow> pyval \<Rightarrow> pyval" where
  "py_get_or d k x = (case d k of None \<Rightarrow> x | Some v \<Rightarrow> v)"

fun py_true :: "pyval \<Rightarrow> bool" where
  "py_true PNone = False"
| "py_true (PStr s) = (s \<noteq> [])"
| "py_true (PFloat t) = (t \<noteq> ''0.0'')"

definition py_or :: "pyval \<Rightarrow> pyval \<Rightarrow> pyval" where
  "py_or a b = (if py_true a then a else b)"

fun py_text :: "pyval \<Rightarrow> string option" where
  "py_text PNone = None"
| "py_text (PStr s) = Some s"
| "py_text (PFloat t) = Some t"

text \<open>\<open>row.column or ""\<close>, and \<open>str(row.column) if row.column is not None else ""\<close>.\<close>

definition or_empty :: "string option \<Rightarrow> pyval" where
  "or_empty v = PStr (case v of None \<Rightarrow> [] | Some s \<Rightarrow> s)"

section \<open>Conversions\<close>

text \<open>
  \<open>cv_float t\<close> is the text of \<open>float(t)\<close>, \<open>cv_int t\<close> is \<open>int(t)\<close> of a text, \<open>cv_trunc t\<close> is
  \<open>int\<close> of the float with text \<open>t\<close>, a \<open>ValueError\<close> for a nan and an \<open>OverflowError\<close> for an infinite one, \<open>cv_numeric t\<close> is the text of the value that a column of
  type \<open>NUMERIC(5,1)\<close> gives back for that float, or nothing when it does not fit,
  \<open>cv_datetime\<close> parses an ISO date or time, \<open>cv_date\<close> is the ISO date of an instant,
  \<open>cv_uuid\<close> parses a uuid, \<open>cv_iso_date\<close> gives the ISO text of a date that parses, and
  \<open>cv_ordinal\<close> the number of its day.
\<close>

record conversions =
  cv_float :: "string \<Rightarrow> string option"
  cv_int :: "string \<Rightarrow> int option"
  cv_trunc :: "string \<Rightarrow> int res"
  cv_numeric :: "string \<Rightarrow> string option"
  cv_datetime :: "string \<Rightarrow> instant option"
  cv_date :: "instant \<Rightarrow> string"
  cv_uuid :: "string \<Rightarrow> uuid option"
  cv_iso_date :: "string \<Rightarrow> string option"
  cv_ordinal :: "string \<Rightarrow> int option"

fun to_float :: "conversions \<Rightarrow> pyval \<Rightarrow> string option" where
  "to_float C PNone = None"
| "to_float C (PStr s) = (if s = [] \<or> s = ''N/A'' then None else cv_float C s)"
| "to_float C (PFloat t) = Some t"

fun to_int :: "conversions \<Rightarrow> pyval \<Rightarrow> int option" where
  "to_int C PNone = None"
| "to_int C (PStr s) = (if s = [] \<or> s = ''N/A'' then None else cv_int C s)"
| "to_int C (PFloat t) = (case cv_trunc C t of Inl e \<Rightarrow> None | Inr i \<Rightarrow> Some i)"

text \<open>\<open>_to_int\<close> catches \<open>TypeError\<close> and \<open>ValueError\<close>; the \<open>OverflowError\<close> escapes.\<close>

fun int_overflows :: "conversions \<Rightarrow> pyval \<Rightarrow> bool" where
  "int_overflows C (PFloat t) = (cv_trunc C t = Inl OverflowError)"
| "int_overflows C v = False"

definition parse_datetime :: "conversions \<Rightarrow> pyval \<Rightarrow> instant option" where
  "parse_datetime C v =
     (case py_text v of None \<Rightarrow> None | Some s \<Rightarrow> if s = [] then None else cv_datetime C s)"

text \<open>\<open>parse_uuid\<close>: an empty value is no household, a malformed one raises.\<close>

definition parse_uuid :: "conversions \<Rightarrow> pyval \<Rightarrow> uuid option res" where
  "parse_uuid C v =
     (case py_text v of
        None \<Rightarrow> Inr None
      | Some s \<Rightarrow> if s = [] then Inr None
                  else (case cv_uuid C s of None \<Rightarrow> Inl ValueError | Some u \<Rightarrow> Inr (Some u)))"

definition row_household_id :: "conversions \<Rightarrow> dict \<Rightarrow> uuid option res" where
  "row_household_id C row =
     parse_uuid C (py_or (py_get row ''household_id'') (py_get row ''Household_ID''))"

definition row_household_id_or_context ::
  "conversions \<Rightarrow> session \<Rightarrow> dict \<Rightarrow> uuid option res" where
  "row_household_id_or_context C s row =
     (case row_household_id C row of
        Inl e \<Rightarrow> Inl e
      | Inr (Some h) \<Rightarrow> Inr (Some h)
      | Inr None \<Rightarrow> Inr (current_household_id s))"

section \<open>The table\<close>

text \<open>
  A value that does not fit its column is refused by the database: the decimals by
  \<open>NUMERIC(5,1)\<close>, the whole numbers by \<open>INTEGER\<close> and \<open>SMALLINT\<close>.
\<close>

definition fit_numeric :: "conversions \<Rightarrow> string option \<Rightarrow> string option res" where
  "fit_numeric C v =
     (case v of
        None \<Rightarrow> Inr None
      | Some t \<Rightarrow> (case cv_numeric C t of None \<Rightarrow> Inl DataError | Some t' \<Rightarrow> Inr (Some t')))"

definition fit_int :: "nat \<Rightarrow> int option \<Rightarrow> int option res" where
  "fit_int w v =
     (case v of
        None \<Rightarrow> Inr None
      | Some i \<Rightarrow> if - (2 ^ (w - 1)) \<le> i \<and> i < 2 ^ (w - 1) then Inr (Some i) else Inl DataError)"

definition fit_brew_row :: "conversions \<Rightarrow> brew_log_row \<Rightarrow> brew_log_row res" where
  "fit_brew_row C r =
     (case (fit_numeric C (b_dose_g r), fit_numeric C (b_yield_g r), fit_numeric C (b_grind_setting r),
            fit_int 32 (b_time_sec r), fit_int 16 (b_rating r)) of
        (Inr d, Inr y, Inr g, Inr t, Inr q) \<Rightarrow>
          Inr (r\<lparr>b_dose_g := d, b_yield_g := y, b_grind_setting := g, b_time_sec := t, b_rating := q\<rparr>)
      | _ \<Rightarrow> Inl DataError)"

text \<open>
  \<open>INSERT\<close>: first the policy's \<open>WITH CHECK\<close>, then the unique columns, which look at every row
  of the table, visible or not, and the foreign key of the household.
\<close>

definition brew_conflict :: "brew_log_row \<Rightarrow> brew_log_row \<Rightarrow> bool" where
  "brew_conflict r k \<longleftrightarrow>
     b_id k = b_id r
   \<or> (b_sheets_id r \<noteq> None \<and> b_sheets_id k = b_sheets_id r)
   \<or> (b_household_id r \<noteq> None \<and> b_household_id k = b_household_id r
        \<and> b_idempotency_key r \<noteq> None \<and> b_idempotency_key k = b_idempotency_key r)"

definition household_exists :: "session \<Rightarrow> uuid option \<Rightarrow> bool" where
  "household_exists s h =
     (case h of None \<Rightarrow> True | Some hid \<Rightarrow> list_ex (\<lambda>k. h_id k = hid) (households (work s)))"

definition insert_brew :: "conversions \<Rightarrow> brew_log_row \<Rightarrow> session \<Rightarrow> brew_log_row res \<times> session" where
  "insert_brew C r s =
     (case fit_brew_row C r of
        Inl e \<Rightarrow> (Inl e, s)
      | Inr r' \<Rightarrow>
          if \<not> rls_pass s (b_household_id r') then (Inl ProgrammingError, s)
          else if list_ex (brew_conflict r') (brew_log (work s))
               \<or> \<not> household_exists s (b_household_id r') then (Inl IntegrityError, s)
          else (Inr r', upd_work (\<lambda>d. d\<lparr>brew_log := brew_log d @ [r']\<rparr>) s))"

text \<open>\<open>UPDATE\<close> and \<open>DELETE\<close> touch the rows that the policy and the condition select.\<close>

definition update_brew ::
  "(brew_log_row \<Rightarrow> bool) \<Rightarrow> (brew_log_row \<Rightarrow> brew_log_row) \<Rightarrow> session \<Rightarrow> session" where
  "update_brew p f s = upd_work (\<lambda>d. d\<lparr>brew_log := update_where
     (\<lambda>r. rls_pass s (b_household_id r) \<and> p r) f (brew_log d)\<rparr>) s"

definition delete_brew :: "(brew_log_row \<Rightarrow> bool) \<Rightarrow> session \<Rightarrow> session" where
  "delete_brew p s = upd_work (\<lambda>d. d\<lparr>brew_log := filter
     (\<lambda>r. \<not> (rls_pass s (b_household_id r) \<and> p r)) (brew_log d)\<rparr>) s"

section \<open>The repository\<close>

definition brew_to_dict :: "conversions \<Rightarrow> brew_log_row \<Rightarrow> dict" where
  "brew_to_dict C r = [
     ''Shot_ID'' \<mapsto> or_empty (b_sheets_id r),
     ''Date'' \<mapsto> PStr (cv_date C (b_brewed_at r)),
     ''Bag_ID'' \<mapsto> or_empty (b_bag_id r),
     ''Machine_ID'' \<mapsto> or_empty (b_machine_id r),
     ''Grinder_ID'' \<mapsto> or_empty (b_grinder_id r),
     ''Basket_ID'' \<mapsto> or_empty (b_basket_id r),
     ''Dose_In_g'' \<mapsto> or_empty (b_dose_g r),
     ''Yield_Out_g'' \<mapsto> or_empty (b_yield_g r),
     ''Time_Sec'' \<mapsto> or_empty (map_option int_str (b_time_sec r)),
     ''Grind_Setting'' \<mapsto> or_empty (b_grind_setting r),
     ''Shot_Eligibility'' \<mapsto> or_empty (b_shot_eligibility r),
     ''Taste_Summary'' \<mapsto> or_empty (b_taste_summary r),
     ''User_Notes'' \<mapsto> or_empty (b_notes r),
     ''AI_Feedback'' \<mapsto> or_empty (b_ai_feedback r),
     ''Storage_Method'' \<mapsto> or_empty (b_storage_method r),
     ''Idempotency_Key'' \<mapsto> or_empty (b_idempotency_key r),
     ''Idempotency_Request_Hash'' \<mapsto> or_empty (b_idempotency_request_hash r)]"

text \<open>
  The household filter of a query. Without a household in the transaction's settings the
  methods return before they query.
\<close>

definition brew_where :: "session \<Rightarrow> uuid \<Rightarrow> (brew_log_row \<Rightarrow> bool) \<Rightarrow> brew_log_row list" where
  "brew_where s hid p = filter (\<lambda>r. b_household_id r = Some hid \<and> p r) (visible_brew_log s)"

definition brew_entry ::
  "conversions \<Rightarrow> uuid \<Rightarrow> instant \<Rightarrow> uuid option \<Rightarrow> dict \<Rightarrow> brew_log_row" where
  "brew_entry C bid db_now hid row =
     (let nonempty = (\<lambda>v. if py_true v then py_text v else None) in
      \<lparr>b_id = bid, b_household_id = hid, b_catalog_id = None,
       b_brew_method = py_text (py_get row ''Brew_Method''),
       b_dose_g = to_float C (py_get row ''Dose_In_g''),
       b_yield_g = to_float C (py_get row ''Yield_Out_g''),
       b_time_sec = to_int C (py_get row ''Time_Sec''),
       b_rating = to_int C (py_get row ''Rating''),
       b_notes = py_text (py_get row ''User_Notes''),
       b_sheets_id = py_text (py_get row ''Shot_ID''),
       b_bag_id = py_text (py_get row ''Bag_ID''),
       b_machine_id = py_text (py_get row ''Machine_ID''),
       b_grinder_id = py_text (py_get row ''Grinder_ID''),
       b_basket_id = py_text (py_get row ''Basket_ID''),
       b_grind_setting = to_float C (py_get row ''Grind_Setting''),
       b_shot_eligibility = py_text (py_get row ''Shot_Eligibility''),
       b_taste_summary = py_text (py_get row ''Taste_Summary''),
       b_ai_feedback = py_text (py_get row ''AI_Feedback''),
       b_storage_method = py_text (py_get row ''Storage_Method''),
       b_idempotency_key = nonempty (py_or (py_get row ''idempotency_key'') (py_get row ''Idempotency_Key'')),
       b_idempotency_request_hash = nonempty (py_or (py_get row ''idempotency_request_hash'')
                                                (py_get row ''Idempotency_Request_Hash'')),
       b_brewed_at = (case parse_datetime C (py_get row ''Date'') of None \<Rightarrow> db_now | Some t \<Rightarrow> t)\<rparr>)"

definition brew_add ::
  "conversions \<Rightarrow> uuid \<Rightarrow> instant \<Rightarrow> bool \<Rightarrow> dict \<Rightarrow> session \<Rightarrow> unit res \<times> session" where
  "brew_add C bid db_now do_commit row s =
     (case row_household_id_or_context C s row of
        Inl e \<Rightarrow> (Inl e, s)
      | Inr hid \<Rightarrow>
          if int_overflows C (py_get row ''Time_Sec'') \<or> int_overflows C (py_get row ''Rating'')
          then (Inl OverflowError, s)
          else andthen (insert_brew C (brew_entry C bid db_now hid row) s) (\<lambda>_ s.
            (Inr (), if do_commit then commit s else s)))"

definition brew_update_feedback :: "string \<Rightarrow> string \<Rightarrow> session \<Rightarrow> session" where
  "brew_update_feedback shot_id feedback s =
     (case current_household_id s of
        None \<Rightarrow> s
      | Some hid \<Rightarrow>
          commit (update_brew (\<lambda>r. b_household_id r = Some hid \<and> b_sheets_id r = Some shot_id)
                    (\<lambda>r. r\<lparr>b_ai_feedback := Some feedback\<rparr>) s))"

definition brew_list :: "conversions \<Rightarrow> session \<Rightarrow> dict list" where
  "brew_list C s =
     (case current_household_id s of
        None \<Rightarrow> []
      | Some hid \<Rightarrow> map (brew_to_dict C) (sort_key (\<lambda>r. - b_brewed_at r) (brew_where s hid (\<lambda>_. True))))"

definition brew_list_recent :: "conversions \<Rightarrow> nat \<Rightarrow> session \<Rightarrow> dict list" where
  "brew_list_recent C n s = take n (brew_list C s)"

text \<open>The count and the page, newest first; ties are ordered by the row's uuid.\<close>

definition brew_order :: "brew_log_row \<Rightarrow> int \<times> int" where
  "brew_order r = (- b_brewed_at r, - int (b_id r))"

definition brew_list_paginated ::
  "conversions \<Rightarrow> nat \<Rightarrow> nat \<Rightarrow> session \<Rightarrow> dict list \<times> nat" where
  "brew_list_paginated C page per_page s =
     (case current_household_id s of
        None \<Rightarrow> ([], 0)
      | Some hid \<Rightarrow>
          (let rows = brew_where s hid (\<lambda>_. True)
           in (map (brew_to_dict C)
                 (take per_page (drop ((page - 1) * per_page) (sort_key brew_order rows))),
               length rows)))"

definition brew_list_for_bag :: "conversions \<Rightarrow> string \<Rightarrow> session \<Rightarrow> dict list" where
  "brew_list_for_bag C bag s =
     (case current_household_id s of
        None \<Rightarrow> []
      | Some hid \<Rightarrow> map (brew_to_dict C) (brew_where s hid (\<lambda>r. b_bag_id r = Some bag)))"

text \<open>This query has no household filter of its own.\<close>

definition brew_existing_ids :: "session \<Rightarrow> string list" where
  "brew_existing_ids s = List.map_filter b_sheets_id (visible_brew_log s)"

definition brew_get :: "conversions \<Rightarrow> string \<Rightarrow> session \<Rightarrow> dict option res" where
  "brew_get C shot_id s =
     (case current_household_id s of
        None \<Rightarrow> Inr None
      | Some hid \<Rightarrow> map_sum id (map_option (brew_to_dict C))
                      (scalar_one_or_none (brew_where s hid (\<lambda>r. b_sheets_id r = Some shot_id))))"

definition brew_get_by_idempotency_key ::
  "conversions \<Rightarrow> string \<Rightarrow> session \<Rightarrow> dict option res" where
  "brew_get_by_idempotency_key C key s =
     (case current_household_id s of
        None \<Rightarrow> Inr None
      | Some hid \<Rightarrow> map_sum id (map_option (brew_to_dict C))
                      (scalar_one_or_none (brew_where s hid (\<lambda>r. b_idempotency_key r = Some key))))"

text \<open>
  The patch of a row: the fields that are present, empty texts as NULL. The row with a given
  \<open>sheets_id\<close> is unique, so the \<open>RETURNING\<close> of the update yields at most one row.
\<close>

definition patch_values :: "conversions \<Rightarrow> dict \<Rightarrow> brew_log_row \<Rightarrow> brew_log_row res" where
  "patch_values C upd r =
     (let nonempty = (\<lambda>v. if py_true v then py_text v else None);
          r1 = (case upd ''taste_summary'' of None \<Rightarrow> r
                | Some v \<Rightarrow> r\<lparr>b_taste_summary := nonempty v\<rparr>);
          r2 = (case upd ''user_notes'' of None \<Rightarrow> r1 | Some v \<Rightarrow> r1\<lparr>b_notes := nonempty v\<rparr>);
          r3 = (case upd ''shot_eligibility'' of None \<Rightarrow> r2
                | Some v \<Rightarrow> r2\<lparr>b_shot_eligibility := nonempty v\<rparr>)
      in (case upd ''grind_setting'' of
            None \<Rightarrow> Inr r3
          | Some v \<Rightarrow> map_sum id (\<lambda>g. r3\<lparr>b_grind_setting := g\<rparr>) (fit_numeric C (to_float C v))))"

definition patch_fields :: "string list" where
  "patch_fields = [''taste_summary'', ''user_notes'', ''grind_setting'', ''shot_eligibility'']"

definition brew_update_correction ::
  "conversions \<Rightarrow> string \<Rightarrow> dict \<Rightarrow> session \<Rightarrow> dict option res \<times> session" where
  "brew_update_correction C shot_id upd s =
     (case current_household_id s of
        None \<Rightarrow> (Inr None, s)
      | Some hid \<Rightarrow>
          if list_all (\<lambda>k. upd k = None) patch_fields then (brew_get C shot_id s, s)
          else
            (case scalar_one_or_none (brew_where s hid (\<lambda>r. b_sheets_id r = Some shot_id)) of
               Inl e \<Rightarrow> (Inl e, s)
             | Inr None \<Rightarrow> (Inr None, s)
             | Inr (Some r) \<Rightarrow>
                 (case patch_values C upd r of
                    Inl e \<Rightarrow> (Inl e, s)
                  | Inr r' \<Rightarrow>
                      (Inr (Some (brew_to_dict C r')),
                       commit (update_brew
                         (\<lambda>k. b_household_id k = Some hid \<and> b_sheets_id k = Some shot_id)
                         (\<lambda>_. r') s)))))"

definition brew_delete_by_shot_id :: "string \<Rightarrow> session \<Rightarrow> bool res \<times> session" where
  "brew_delete_by_shot_id shot_id s =
     (case current_household_id s of
        None \<Rightarrow> (Inr False, s)
      | Some hid \<Rightarrow>
          (case scalar_one_or_none (brew_where s hid (\<lambda>r. b_sheets_id r = Some shot_id)) of
             Inl e \<Rightarrow> (Inl e, s)
           | Inr None \<Rightarrow> (Inr False, s)
           | Inr (Some _) \<Rightarrow>
               (Inr True, commit (delete_brew
                  (\<lambda>r. b_household_id r = Some hid \<and> b_sheets_id r = Some shot_id) s))))"

end
