(* ===== verification/TenantRepos.thy ===== *)
theory TenantRepos
  imports BrewLogRepo
begin

text \<open>
  \<^verbatim>\<open>app/repos/sql/catalog.py\<close>, \<^verbatim>\<open>inventory.py\<close>, \<^verbatim>\<open>hardware.py\<close> and \<^verbatim>\<open>maintenance.py\<close>: the other
  tenant tables. An upsert looks for the row with the given Sheets identifier among the rows
  the policy shows, and inserts when there is none; the unique index on that column looks at
  all rows; the update of a found row is again limited by the policy. Every write commits,
  which ends the transaction and its household setting.
\<close>

definition py_string :: "pyval \<Rightarrow> string option" where
  "py_string v = (if py_true v then py_text v else None)"

text \<open>\<open>WITH CHECK\<close>, the primary key and the unique column over all rows of the table, the household's foreign key.\<close>

definition insert_refused ::
  "session \<Rightarrow> uuid option \<Rightarrow> uuid \<Rightarrow> uuid list \<Rightarrow> string option \<Rightarrow> string option list \<Rightarrow> err option" where
  "insert_refused s hid nid ids sid taken =
     (if \<not> rls_pass s hid then Some ProgrammingError
      else if nid \<in> set ids \<or> (sid \<noteq> None \<and> sid \<in> set taken) \<or> \<not> household_exists s hid then Some IntegrityError
      else None)"

text \<open>\<open>sheets_id\<close> of a row: only a non-empty one is looked up.\<close>

definition lookup_key :: "dict \<Rightarrow> string \<Rightarrow> string option" where
  "lookup_key row k = py_string (py_get row k)"

section \<open>Catalog\<close>

definition catalog_to_dict :: "catalog_row \<Rightarrow> dict" where
  "catalog_to_dict r = [
     ''Catalog_ID'' \<mapsto> or_empty (c_sheets_id r),
     ''Roaster'' \<mapsto> PStr (c_roaster r),
     ''Bean_Name'' \<mapsto> PStr (c_bean_name r),
     ''Roast_Level'' \<mapsto> or_empty (c_roast_level r),
     ''Product_URL'' \<mapsto> or_empty (c_product_url r),
     ''Local_Image_Path'' \<mapsto> or_empty (c_local_image_path r),
     ''Notes'' \<mapsto> or_empty (c_notes r)]"

text \<open>The columns an upsert sets; the roaster and the bean name are \<open>NOT NULL\<close>.\<close>

definition catalog_values :: "dict \<Rightarrow> uuid option \<Rightarrow> catalog_row \<Rightarrow> catalog_row res" where
  "catalog_values row hid r =
     (case (py_text (py_get_or row ''Roaster'' (PStr [])), py_text (py_get_or row ''Bean_Name'' (PStr []))) of
        (Some ro, Some bn) \<Rightarrow>
          Inr (r\<lparr>c_household_id := hid, c_roaster := ro, c_bean_name := bn,
                c_origin := py_text (py_get row ''Origin''),
                c_process := py_text (py_get row ''Process''),
                c_roast_level := py_text (py_get row ''Roast_Level''),
                c_notes := py_text (py_or (py_get row ''Tasting_Notes'')
                             (py_or (py_get row ''Notes'') (py_get row ''Catalog_ID''))),
                c_product_url := py_text (py_get row ''Product_URL''),
                c_local_image_path := py_text (py_get row ''Local_Image_Path'')\<rparr>)
      | _ \<Rightarrow> Inl IntegrityError)"

definition blank_catalog :: "uuid \<Rightarrow> string option \<Rightarrow> catalog_row" where
  "blank_catalog nid sid = \<lparr>c_id = nid, c_household_id = None, c_roaster = [], c_bean_name = [],
     c_origin = None, c_process = None, c_roast_level = None, c_notes = None, c_sheets_id = sid,
     c_product_url = None, c_local_image_path = None\<rparr>"

definition catalog_upsert ::
  "conversions \<Rightarrow> uuid \<Rightarrow> dict \<Rightarrow> session \<Rightarrow> unit res \<times> session" where
  "catalog_upsert C nid row s =
     (let key = lookup_key row ''Catalog_ID'';
          found = (if key = None then Inr None
                   else scalar_one_or_none (filter (\<lambda>r. c_sheets_id r = key) (visible_catalog s)))
      in case row_household_id_or_context C s row of
           Inl e \<Rightarrow> (Inl e, s)
         | Inr hid \<Rightarrow>
             (case found of
                Inl e \<Rightarrow> (Inl e, s)
              | Inr (Some old) \<Rightarrow>
                  (case catalog_values row hid old of
                     Inl e \<Rightarrow> (Inl e, s)
                   | Inr r \<Rightarrow>
                       if \<not> rls_pass s hid then (Inl ProgrammingError, s)
                       else if \<not> household_exists s hid then (Inl IntegrityError, s)
                       else (Inr (), commit (upd_work (\<lambda>d. d\<lparr>catalog := update_where
                              (\<lambda>k. rls_pass s (c_household_id k) \<and> c_id k = c_id old) (\<lambda>_. r) (catalog d)\<rparr>) s)))
              | Inr None \<Rightarrow>
                  (case catalog_values row hid
                          (blank_catalog nid (py_text (py_get row ''Catalog_ID''))) of
                     Inl e \<Rightarrow> (Inl e, s)
                   | Inr r \<Rightarrow>
                       (case insert_refused s hid (c_id r) (map c_id (catalog (work s))) (c_sheets_id r)
                               (map c_sheets_id (catalog (work s))) of
                          Some e \<Rightarrow> (Inl e, s)
                        | None \<Rightarrow>
                            (Inr (), commit (upd_work (\<lambda>d. d\<lparr>catalog := catalog d @ [r]\<rparr>) s))))))"

definition catalog_list :: "session \<Rightarrow> dict list" where
  "catalog_list s = map catalog_to_dict (visible_catalog s)"

definition catalog_get :: "string \<Rightarrow> session \<Rightarrow> dict option res" where
  "catalog_get cid s = map_sum id (map_option catalog_to_dict)
     (scalar_one_or_none (filter (\<lambda>r. c_sheets_id r = Some cid) (visible_catalog s)))"

section \<open>Inventory\<close>

text \<open>The outer join with the catalog also sees only the rows the policy passes.\<close>

definition bag_catalog :: "session \<Rightarrow> inventory_row \<Rightarrow> string option" where
  "bag_catalog s r =
     (case v_catalog_id r of
        None \<Rightarrow> None
      | Some cid \<Rightarrow> Option.bind (find (\<lambda>c. c_id c = cid) (visible_catalog s)) c_sheets_id)"

definition inventory_to_dict :: "string option \<Rightarrow> inventory_row \<Rightarrow> dict" where
  "inventory_to_dict cat r =
     (let str = (\<lambda>v. case v of None \<Rightarrow> PStr [] | Some t \<Rightarrow> PStr t) in [
     ''Bag_ID'' \<mapsto> or_empty (v_sheets_id r),
     ''Catalog_ID'' \<mapsto> py_or (str cat) (py_or (str (v_sheets_catalog_id r)) (PStr [])),
     ''Beans'' \<mapsto> or_empty (v_beans r),
     ''Display_Name'' \<mapsto> py_or (str (v_display_name r)) (str (v_beans r)),
     ''RoastDate'' \<mapsto> or_empty (v_roast_date r),
     ''RoastLevel'' \<mapsto> or_empty (v_roast_level r),
     ''Roast_Level'' \<mapsto> or_empty (v_roast_level r),
     ''Status'' \<mapsto> py_or (str (v_status r)) (PStr ''Active''),
     ''Storage_Method'' \<mapsto> or_empty (v_storage_method r),
     ''Notes'' \<mapsto> or_empty (v_notes r)])"

definition to_iso_date :: "conversions \<Rightarrow> pyval \<Rightarrow> string option" where
  "to_iso_date C v =
     (case py_text v of None \<Rightarrow> None | Some t \<Rightarrow> if t = [] then None else cv_iso_date C t)"

definition inventory_values ::
  "conversions \<Rightarrow> dict \<Rightarrow> uuid option \<Rightarrow> inventory_row \<Rightarrow> inventory_row" where
  "inventory_values C row hid r = r\<lparr>
     v_household_id := hid,
     v_roast_date := to_iso_date C (py_get row ''RoastDate''),
     v_beans := py_text (py_get row ''Beans''),
     v_display_name := py_text (py_or (py_get row ''Display_Name'') (py_get row ''Beans'')),
     v_roast_level := py_text (py_or (py_get row ''RoastLevel'') (py_get row ''Roast_Level'')),
     v_status := py_text (py_get_or row ''Status'' (PStr ''Active'')),
     v_storage_method := py_text (py_get row ''Storage_Method''),
     v_notes := py_text (py_or (py_get row ''Notes'') (py_get row ''Beans'')),
     v_sheets_catalog_id := py_text (py_get row ''Catalog_ID'')\<rparr>"

definition blank_bag :: "uuid \<Rightarrow> string option \<Rightarrow> inventory_row" where
  "blank_bag nid sid = \<lparr>v_id = nid, v_household_id = None, v_catalog_id = None,
     v_roast_date = None, v_notes = None, v_sheets_id = sid, v_sheets_catalog_id = None,
     v_beans = None, v_display_name = None, v_roast_level = None, v_status = None,
     v_storage_method = None\<rparr>"

definition inventory_upsert ::
  "conversions \<Rightarrow> uuid \<Rightarrow> dict \<Rightarrow> session \<Rightarrow> unit res \<times> session" where
  "inventory_upsert C nid row s =
     (let key = lookup_key row ''Bag_ID'';
          found = (if key = None then Inr None
                   else scalar_one_or_none (filter (\<lambda>r. v_sheets_id r = key) (visible_inventory s)))
      in case row_household_id_or_context C s row of
           Inl e \<Rightarrow> (Inl e, s)
         | Inr hid \<Rightarrow>
             (case found of
                Inl e \<Rightarrow> (Inl e, s)
              | Inr (Some old) \<Rightarrow>
                  if \<not> rls_pass s hid then (Inl ProgrammingError, s)
                  else if \<not> household_exists s hid then (Inl IntegrityError, s)
                  else (Inr (), commit (upd_work (\<lambda>d. d\<lparr>inventory_bags := update_where
                         (\<lambda>k. rls_pass s (v_household_id k) \<and> v_id k = v_id old) (inventory_values C row hid)
                         (inventory_bags d)\<rparr>) s))
              | Inr None \<Rightarrow>
                  (let r = inventory_values C row hid
                             (blank_bag nid (py_text (py_get row ''Bag_ID'')))
                   in case insert_refused s hid (v_id r) (map v_id (inventory_bags (work s))) (v_sheets_id r)
                             (map v_sheets_id (inventory_bags (work s))) of
                        Some e \<Rightarrow> (Inl e, s)
                      | None \<Rightarrow> (Inr (), commit
                          (upd_work (\<lambda>d. d\<lparr>inventory_bags := inventory_bags d @ [r]\<rparr>) s)))))"

definition inventory_list :: "string option \<Rightarrow> session \<Rightarrow> dict list" where
  "inventory_list status s =
     map (\<lambda>r. inventory_to_dict (bag_catalog s r) r)
       (filter (\<lambda>r. status = None \<or> v_status r = status) (visible_inventory s))"

definition inventory_list_all :: "session \<Rightarrow> dict list" where
  "inventory_list_all s =
     map (\<lambda>r. inventory_to_dict (bag_catalog s r) r) (visible_inventory s)"

definition inventory_get :: "string \<Rightarrow> session \<Rightarrow> dict option res" where
  "inventory_get bag s = map_sum id (map_option (\<lambda>r. inventory_to_dict (bag_catalog s r) r))
     (scalar_one_or_none (filter (\<lambda>r. v_sheets_id r = Some bag) (visible_inventory s)))"

section \<open>Hardware\<close>

definition hardware_to_dict :: "hardware_row \<Rightarrow> dict" where
  "hardware_to_dict r = [
     ''Hardware_ID'' \<mapsto> or_empty (w_sheets_id r),
     ''Name'' \<mapsto> PStr (w_name r),
     ''Category'' \<mapsto> PStr (w_category r),
     ''Product_URL'' \<mapsto> or_empty (w_product_url r),
     ''Local_Image_Path'' \<mapsto> or_empty (w_local_image_path r),
     ''Notes'' \<mapsto> or_empty (w_notes r)]"

definition hardware_values :: "dict \<Rightarrow> uuid option \<Rightarrow> hardware_row \<Rightarrow> hardware_row res" where
  "hardware_values row hid r =
     (case (py_text (py_get_or row ''Name'' (PStr [])), py_text (py_get_or row ''Category'' (PStr []))) of
        (Some n, Some c) \<Rightarrow>
          Inr (r\<lparr>w_household_id := hid, w_name := n, w_category := c,
                w_product_url := py_text (py_get row ''Product_URL''),
                w_local_image_path := py_text (py_get row ''Local_Image_Path'')\<rparr>)
      | _ \<Rightarrow> Inl IntegrityError)"

definition blank_hardware :: "uuid \<Rightarrow> string option \<Rightarrow> hardware_row" where
  "blank_hardware nid sid = \<lparr>w_id = nid, w_household_id = None, w_name = [], w_category = [],
     w_notes = None, w_sheets_id = sid, w_product_url = None, w_local_image_path = None\<rparr>"

definition hardware_upsert ::
  "conversions \<Rightarrow> uuid \<Rightarrow> dict \<Rightarrow> session \<Rightarrow> unit res \<times> session" where
  "hardware_upsert C nid row s =
     (let key = lookup_key row ''Hardware_ID'';
          found = (if key = None then Inr None
                   else scalar_one_or_none (filter (\<lambda>r. w_sheets_id r = key) (visible_hardware s)))
      in case row_household_id_or_context C s row of
           Inl e \<Rightarrow> (Inl e, s)
         | Inr hid \<Rightarrow>
             (case found of
                Inl e \<Rightarrow> (Inl e, s)
              | Inr (Some old) \<Rightarrow>
                  (case hardware_values row hid old of
                     Inl e \<Rightarrow> (Inl e, s)
                   | Inr r \<Rightarrow>
                       if \<not> rls_pass s hid then (Inl ProgrammingError, s)
                       else if \<not> household_exists s hid then (Inl IntegrityError, s)
                       else (Inr (), commit (upd_work (\<lambda>d. d\<lparr>hardware := update_where
                              (\<lambda>k. rls_pass s (w_household_id k) \<and> w_id k = w_id old) (\<lambda>_. r) (hardware d)\<rparr>) s)))
              | Inr None \<Rightarrow>
                  (case hardware_values row hid
                          (blank_hardware nid (py_text (py_get row ''Hardware_ID''))) of
                     Inl e \<Rightarrow> (Inl e, s)
                   | Inr r \<Rightarrow>
                       (case insert_refused s hid (w_id r) (map w_id (hardware (work s))) (w_sheets_id r)
                               (map w_sheets_id (hardware (work s))) of
                          Some e \<Rightarrow> (Inl e, s)
                        | None \<Rightarrow>
                            (Inr (), commit (upd_work (\<lambda>d. d\<lparr>hardware := hardware d @ [r]\<rparr>) s))))))"

definition hardware_list :: "string option \<Rightarrow> session \<Rightarrow> dict list" where
  "hardware_list category s =
     map hardware_to_dict
       (filter (\<lambda>r. category = None \<or> Some (w_category r) = category) (visible_hardware s))"

definition hardware_get :: "string \<Rightarrow> session \<Rightarrow> dict option res" where
  "hardware_get hw s = map_sum id (map_option hardware_to_dict)
     (scalar_one_or_none (filter (\<lambda>r. w_sheets_id r = Some hw) (visible_hardware s)))"

section \<open>Maintenance\<close>

definition event_hardware :: "session \<Rightarrow> maintenance_row \<Rightarrow> string option" where
  "event_hardware s r =
     (case n_hardware_id r of
        None \<Rightarrow> None
      | Some hw \<Rightarrow> Option.bind (find (\<lambda>h. w_id h = hw) (visible_hardware s)) w_sheets_id)"

definition maintenance_to_dict ::
  "conversions \<Rightarrow> string option \<Rightarrow> maintenance_row \<Rightarrow> dict" where
  "maintenance_to_dict C hw r =
     (let str = (\<lambda>v. case v of None \<Rightarrow> PStr [] | Some t \<Rightarrow> PStr t) in [
     ''Maintenance_ID'' \<mapsto> or_empty (n_sheets_id r),
     ''Hardware_ID'' \<mapsto> py_or (str hw) (str (n_sheets_hardware_id r)),
     ''Date'' \<mapsto> PStr (cv_date C (n_performed_at r)),
     ''Action_Type'' \<mapsto> PStr (n_action r),
     ''Notes'' \<mapsto> or_empty (n_notes r)])"

definition maintenance_row_of ::
  "conversions \<Rightarrow> uuid \<Rightarrow> instant \<Rightarrow> dict \<Rightarrow> uuid option \<Rightarrow> maintenance_row res" where
  "maintenance_row_of C nid db_now row hid =
     (case py_text (py_get_or row ''Action_Type'' (PStr [])) of
        None \<Rightarrow> Inl IntegrityError
      | Some a \<Rightarrow>
          Inr \<lparr>n_id = nid, n_household_id = hid, n_hardware_id = None, n_action = a,
               n_performed_at = (case parse_datetime C (py_get row ''Date'') of
                                   None \<Rightarrow> db_now | Some t \<Rightarrow> t),
               n_notes = py_text (py_get row ''Notes''),
               n_sheets_id = py_text (py_get row ''Maintenance_ID''),
               n_sheets_hardware_id = py_text (py_get row ''Hardware_ID'')\<rparr>)"

definition insert_maintenance :: "maintenance_row \<Rightarrow> session \<Rightarrow> unit res \<times> session" where
  "insert_maintenance r s =
     (case insert_refused s (n_household_id r) (n_id r) (map n_id (maintenance_log (work s))) (n_sheets_id r)
             (map n_sheets_id (maintenance_log (work s))) of
        Some e \<Rightarrow> (Inl e, s)
      | None \<Rightarrow> (Inr (), upd_work (\<lambda>d. d\<lparr>maintenance_log := maintenance_log d @ [r]\<rparr>) s))"

definition maintenance_upsert ::
  "conversions \<Rightarrow> uuid \<Rightarrow> instant \<Rightarrow> dict \<Rightarrow> session \<Rightarrow> unit res \<times> session" where
  "maintenance_upsert C nid db_now row s =
     (let key = lookup_key row ''Maintenance_ID''
      in case (if key = None then Inr None
               else scalar_one_or_none (filter (\<lambda>r. n_sheets_id r = key) (visible_maintenance s))) of
           Inl e \<Rightarrow> (Inl e, s)
         | Inr (Some old) \<Rightarrow>
             if n_sheets_hardware_id old \<noteq> None then (Inr (), s)
             else
               (case row_household_id_or_context C s row of
                  Inl e \<Rightarrow> (Inl e, s)
                | Inr hid \<Rightarrow>
                    if \<not> rls_pass s hid then (Inl ProgrammingError, s)
                    else if \<not> household_exists s hid then (Inl IntegrityError, s)
                    else (Inr (), commit (upd_work (\<lambda>d. d\<lparr>maintenance_log := update_where
                           (\<lambda>k. rls_pass s (n_household_id k) \<and> n_id k = n_id old)
                           (\<lambda>k. k\<lparr>n_household_id := hid,
                                  n_sheets_hardware_id := py_text (py_get row ''Hardware_ID'')\<rparr>)
                           (maintenance_log d)\<rparr>) s)))
         | Inr None \<Rightarrow>
             (case row_household_id_or_context C s row of
                Inl e \<Rightarrow> (Inl e, s)
              | Inr hid \<Rightarrow>
                  (case maintenance_row_of C nid db_now row hid of
                     Inl e \<Rightarrow> (Inl e, s)
                   | Inr r \<Rightarrow> andthen (insert_maintenance r s) (\<lambda>_ s. (Inr (), commit s)))))"

text \<open>
  \<open>add\<close> commits and then refreshes the row. The refresh is a \<open>SELECT\<close> of a new transaction,
  and it raises when the row is not visible there.
\<close>

definition refresh_maintenance :: "uuid \<Rightarrow> session \<Rightarrow> unit res" where
  "refresh_maintenance nid s =
     (if list_ex (\<lambda>r. n_id r = nid) (visible_maintenance s) then Inr ()
      else Inl InvalidRequestError)"

definition maintenance_add ::
  "conversions \<Rightarrow> uuid \<Rightarrow> instant \<Rightarrow> dict \<Rightarrow> session \<Rightarrow> unit res \<times> session" where
  "maintenance_add C nid db_now row s =
     (case row_household_id_or_context C s row of
        Inl e \<Rightarrow> (Inl e, s)
      | Inr hid \<Rightarrow>
          (case maintenance_row_of C nid db_now row hid of
             Inl e \<Rightarrow> (Inl e, s)
           | Inr r \<Rightarrow>
               andthen (insert_maintenance r s) (\<lambda>_ s.
                 (let s = commit s in (refresh_maintenance nid s, s)))))"

definition maintenance_list :: "conversions \<Rightarrow> string option \<Rightarrow> session \<Rightarrow> dict list" where
  "maintenance_list C hw s =
     map (\<lambda>r. maintenance_to_dict C (event_hardware s r) r)
       (filter (\<lambda>r. hw = None \<or> n_sheets_hardware_id r = hw \<or> event_hardware s r = hw)
          (visible_maintenance s))"

definition maintenance_get :: "conversions \<Rightarrow> string \<Rightarrow> session \<Rightarrow> dict option res" where
  "maintenance_get C mid s = map_sum id (map_option (maintenance_to_dict C None))
     (scalar_one_or_none (filter (\<lambda>r. n_sheets_id r = Some mid) (visible_maintenance s)))"

section \<open>The refresh after the commit\<close>

text \<open>
  \<open>SqlMaintenanceRepo.add\<close> never succeeds under the fail-closed policy: when the row is
  stored, the commit has ended the household setting, so the refresh finds no row and raises;
  the row is committed all the same.
\<close>

theorem maintenance_add_raises:
  "\<exists>e s'. maintenance_add C nid db_now row s = (Inl e, s')
     \<and> (committed s' = committed s
        \<or> (e = InvalidRequestError
           \<and> (\<exists>r. committed s' = (work s)\<lparr>maintenance_log := maintenance_log (work s) @ [r]\<rparr>)))"
  by (auto simp: maintenance_add_def insert_maintenance_def refresh_maintenance_def
      visible_maintenance_def Let_def list_ex_iff split: sum.split option.split)

end
