(* ===== verification/DualWrite.thy ===== *)
theory DualWrite
  imports TenantRepos
begin

text \<open>
  The Sheets repositories' queries (\<^verbatim>\<open>app/repos/brew_log.py\<close>, \<^verbatim>\<open>inventory.py\<close>,
  \<^verbatim>\<open>catalog.py\<close>, \<^verbatim>\<open>hardware.py\<close>, \<^verbatim>\<open>maintenance.py\<close>) over the rows of a tab, and the dual-write
  wrappers of \<^verbatim>\<open>app/deps.py\<close>. With Postgres enabled a wrapper reads and writes SQL, and raises
  when no SQL repository is there; otherwise it reads the Sheets archive and drops writes. A
  write that raises is rolled back and raised again.
\<close>

section \<open>The Sheets archive\<close>

type_synonym tab = "dict list"

definition py_key :: "dict \<Rightarrow> string \<Rightarrow> string" where
  "py_key d k = (case py_text (py_get_or d k (PStr [])) of None \<Rightarrow> [] | Some t \<Rightarrow> t)"

definition find_row :: "string \<Rightarrow> string \<Rightarrow> tab \<Rightarrow> dict option" where
  "find_row col v rows = find (\<lambda>r. py_get r col = PStr v) rows"

text \<open>\<open>sorted(.., reverse=True)\<close> keeps the order of rows with equal keys.\<close>

definition sorted_desc :: "('a \<Rightarrow> 'k::linorder) \<Rightarrow> 'a list \<Rightarrow> 'a list" where
  "sorted_desc key xs = rev (sort_key key (rev xs))"

definition brew_recency :: "dict \<Rightarrow> string \<times> string" where
  "brew_recency r = (py_key r ''Date'', py_key r ''Shot_ID'')"

definition sheets_brew_get :: "string \<Rightarrow> tab \<Rightarrow> dict option" where
  "sheets_brew_get shot rows = find_row ''Shot_ID'' shot rows"

definition sheets_brew_for_bag :: "string \<Rightarrow> tab \<Rightarrow> dict list" where
  "sheets_brew_for_bag bag rows = filter (\<lambda>r. py_get r ''Bag_ID'' = PStr bag) rows"

definition sheets_brew_recent :: "nat \<Rightarrow> tab \<Rightarrow> dict list" where
  "sheets_brew_recent n rows = take n (sorted_desc brew_recency rows)"

definition sheets_brew_ids :: "tab \<Rightarrow> string list" where
  "sheets_brew_ids rows = List.map_filter (\<lambda>r. py_string (py_get r ''Shot_ID'')) rows"

text \<open>\<open>list(status)\<close> filters only for the status \<open>Active\<close>.\<close>

definition sheets_inventory_list :: "string option \<Rightarrow> tab \<Rightarrow> dict list" where
  "sheets_inventory_list status rows =
     (if status = Some ''Active''
      then filter (\<lambda>r. py_get r ''Status'' = PStr ''Active'') rows else rows)"

definition sheets_inventory_get :: "string \<Rightarrow> tab \<Rightarrow> dict option" where
  "sheets_inventory_get bag rows = find_row ''Bag_ID'' bag rows"

definition sheets_catalog_get :: "string \<Rightarrow> tab \<Rightarrow> dict option" where
  "sheets_catalog_get cid rows = find_row ''Catalog_ID'' cid rows"

definition sheets_hardware_list :: "string option \<Rightarrow> tab \<Rightarrow> dict list" where
  "sheets_hardware_list category rows =
     (case category of None \<Rightarrow> rows | Some c \<Rightarrow> filter (\<lambda>r. py_get r ''Category'' = PStr c) rows)"

definition sheets_hardware_get :: "string \<Rightarrow> tab \<Rightarrow> dict option" where
  "sheets_hardware_get hw rows = find_row ''Hardware_ID'' hw rows"

definition sheets_maintenance_list :: "string option \<Rightarrow> tab \<Rightarrow> dict list" where
  "sheets_maintenance_list hw rows =
     (case hw of None \<Rightarrow> rows | Some h \<Rightarrow> filter (\<lambda>r. py_get r ''Hardware_ID'' = PStr h) rows)"

definition sheets_maintenance_get :: "string \<Rightarrow> tab \<Rightarrow> dict option" where
  "sheets_maintenance_get mid rows = find_row ''Maintenance_ID'' mid rows"

text \<open>\<open>HardwareRepo.next_id\<close>: the prefix of the category and the highest number so far plus one.\<close>

definition hardware_prefix :: "string \<Rightarrow> string option" where
  "hardware_prefix = [''Machine'' \<mapsto> ''M'', ''Grinder'' \<mapsto> ''G'', ''Basket'' \<mapsto> ''B'', ''Storage'' \<mapsto> ''S'']"

definition hardware_nums :: "conversions \<Rightarrow> string \<Rightarrow> tab \<Rightarrow> int list" where
  "hardware_nums C prefix rows =
     List.map_filter (\<lambda>r. cv_int C (drop (length prefix) (py_key r ''Hardware_ID'')))
       (filter (\<lambda>r. take (length prefix) (py_key r ''Hardware_ID'') = prefix) rows)"

definition pad_int2 :: "int \<Rightarrow> string" where
  "pad_int2 i = (if i < 0 then CHR ''-'' # nat_str (nat (- i)) else pad0 2 (nat i))"

definition hardware_next_id :: "conversions \<Rightarrow> string \<Rightarrow> tab \<Rightarrow> string res" where
  "hardware_next_id C category rows =
     (case hardware_prefix category of
        None \<Rightarrow> Inl KeyError
      | Some prefix \<Rightarrow>
          (case hardware_nums C prefix rows of
             [] \<Rightarrow> Inr (prefix @ ''01'')
           | n # ns \<Rightarrow> Inr (prefix @ pad_int2 (foldl max n ns + 1))))"

section \<open>The wrappers\<close>

record backend =
  bk_conv :: conversions
  bk_use_postgres :: bool
  bk_sql :: bool
  bk_brew_log :: tab
  bk_inventory :: tab
  bk_catalog :: tab
  bk_hardware :: tab
  bk_maintenance :: tab

definition require_sql_repo :: "backend \<Rightarrow> unit res" where
  "require_sql_repo B = (if bk_sql B then Inr () else Inl RuntimeError)"

text \<open>\<open>_sql_repo_for_read\<close> and what every reading method does with it.\<close>

definition sql_repo_for_read :: "backend \<Rightarrow> bool res" where
  "sql_repo_for_read B =
     (if \<not> bk_use_postgres B then Inr False else map_sum id (\<lambda>_. True) (require_sql_repo B))"

definition dual_read :: "backend \<Rightarrow> 'a res \<Rightarrow> 'a \<Rightarrow> 'a res" where
  "dual_read B sql sheets =
     (case sql_repo_for_read B of Inl e \<Rightarrow> Inl e | Inr True \<Rightarrow> sql | Inr False \<Rightarrow> Inr sheets)"

definition dual_write :: "backend \<Rightarrow> 'a \<Rightarrow> (session \<Rightarrow> 'a res \<times> session) \<Rightarrow> session \<Rightarrow> 'a res \<times> session" where
  "dual_write B skipped sql s =
     (if \<not> bk_use_postgres B then (Inr skipped, s)
      else
        (case require_sql_repo B of
           Inl e \<Rightarrow> (Inl e, s)
         | Inr _ \<Rightarrow>
             (case sql s of
                (Inl e, s') \<Rightarrow> (Inl e, rollback s')
              | (Inr x, s') \<Rightarrow> (Inr x, s'))))"

subsection \<open>Brew log\<close>

definition dual_brew_list :: "backend \<Rightarrow> session \<Rightarrow> dict list res" where
  "dual_brew_list B s = dual_read B (Inr (brew_list (bk_conv B) s)) (bk_brew_log B)"

definition dual_brew_recent :: "backend \<Rightarrow> nat \<Rightarrow> session \<Rightarrow> dict list res" where
  "dual_brew_recent B n s =
     dual_read B (Inr (brew_list_recent (bk_conv B) n s)) (sheets_brew_recent n (bk_brew_log B))"

definition dual_brew_paginated :: "backend \<Rightarrow> nat \<Rightarrow> nat \<Rightarrow> session \<Rightarrow> (dict list \<times> nat) res" where
  "dual_brew_paginated B page per_page s =
     dual_read B (Inr (brew_list_paginated (bk_conv B) page per_page s))
       (let rows = sorted_desc brew_recency (bk_brew_log B)
        in (take per_page (drop ((page - 1) * per_page) rows), length rows))"

definition dual_brew_for_bag :: "backend \<Rightarrow> string \<Rightarrow> session \<Rightarrow> dict list res" where
  "dual_brew_for_bag B bag s =
     dual_read B (Inr (brew_list_for_bag (bk_conv B) bag s)) (sheets_brew_for_bag bag (bk_brew_log B))"

definition dual_brew_ids :: "backend \<Rightarrow> session \<Rightarrow> string list res" where
  "dual_brew_ids B s = dual_read B (Inr (brew_existing_ids s)) (sheets_brew_ids (bk_brew_log B))"

definition dual_brew_get :: "backend \<Rightarrow> string \<Rightarrow> session \<Rightarrow> dict option res" where
  "dual_brew_get B shot s =
     dual_read B (brew_get (bk_conv B) shot s) (sheets_brew_get shot (bk_brew_log B))"

definition dual_brew_by_key :: "backend \<Rightarrow> string \<Rightarrow> session \<Rightarrow> dict option res" where
  "dual_brew_by_key B key s =
     dual_read B (brew_get_by_idempotency_key (bk_conv B) key s) None"

definition dual_brew_add ::
  "backend \<Rightarrow> uuid \<Rightarrow> instant \<Rightarrow> bool \<Rightarrow> dict \<Rightarrow> session \<Rightarrow> unit res \<times> session" where
  "dual_brew_add B bid db_now do_commit row =
     dual_write B () (brew_add (bk_conv B) bid db_now do_commit row)"

text \<open>These three have no \<open>try\<close> around the call.\<close>

definition dual_plain :: "backend \<Rightarrow> (session \<Rightarrow> session) \<Rightarrow> session \<Rightarrow> unit res \<times> session" where
  "dual_plain B f s =
     (if \<not> bk_use_postgres B then (Inr (), s)
      else (case require_sql_repo B of Inl e \<Rightarrow> (Inl e, s) | Inr _ \<Rightarrow> (Inr (), f s)))"

definition dual_brew_commit :: "backend \<Rightarrow> session \<Rightarrow> unit res \<times> session" where
  "dual_brew_commit B = dual_plain B commit"

definition dual_brew_rollback :: "backend \<Rightarrow> session \<Rightarrow> unit res \<times> session" where
  "dual_brew_rollback B = dual_plain B rollback"

definition dual_brew_set_context :: "backend \<Rightarrow> uuid \<Rightarrow> session \<Rightarrow> unit res \<times> session" where
  "dual_brew_set_context B hid = dual_plain B (set_household_context hid)"

definition dual_brew_update_feedback ::
  "backend \<Rightarrow> string \<Rightarrow> string \<Rightarrow> session \<Rightarrow> unit res \<times> session" where
  "dual_brew_update_feedback B shot feedback =
     dual_write B () (\<lambda>s. (Inr (), brew_update_feedback shot feedback s))"

definition dual_brew_update_correction ::
  "backend \<Rightarrow> string \<Rightarrow> dict \<Rightarrow> session \<Rightarrow> dict option res \<times> session" where
  "dual_brew_update_correction B shot upd s =
     (if \<not> bk_use_postgres B then (Inl RuntimeError, s)
      else dual_write B None (brew_update_correction (bk_conv B) shot upd) s)"

definition dual_brew_delete :: "backend \<Rightarrow> string \<Rightarrow> session \<Rightarrow> bool res \<times> session" where
  "dual_brew_delete B shot s =
     (if \<not> bk_use_postgres B then (Inr False, s)
      else (case require_sql_repo B of
              Inl e \<Rightarrow> (Inl e, s)
            | Inr _ \<Rightarrow> brew_delete_by_shot_id shot s))"

text \<open>Every row of \<open>add_many\<close> is committed on its own.\<close>

fun dual_add_many ::
  "backend \<Rightarrow> ('r \<Rightarrow> session \<Rightarrow> unit res \<times> session) \<Rightarrow> 'r list \<Rightarrow> session \<Rightarrow> unit res \<times> session" where
  "dual_add_many B add [] s = dual_plain B id s"
| "dual_add_many B add (r # rs) s =
     (if \<not> bk_use_postgres B then (Inr (), s)
      else andthen (dual_write B () (add r) s) (\<lambda>_ s. dual_add_many B add rs s))"

definition dual_brew_add_many ::
  "backend \<Rightarrow> instant \<Rightarrow> (uuid \<times> dict) list \<Rightarrow> session \<Rightarrow> unit res \<times> session" where
  "dual_brew_add_many B db_now =
     dual_add_many B (\<lambda>(bid, row). brew_add (bk_conv B) bid db_now True row)"

subsection \<open>Catalog\<close>

definition dual_catalog_list :: "backend \<Rightarrow> session \<Rightarrow> dict list res" where
  "dual_catalog_list B s = dual_read B (Inr (catalog_list s)) (bk_catalog B)"

definition dual_catalog_get :: "backend \<Rightarrow> string \<Rightarrow> session \<Rightarrow> dict option res" where
  "dual_catalog_get B cid s =
     dual_read B (catalog_get cid s) (sheets_catalog_get cid (bk_catalog B))"

definition dual_catalog_upsert :: "backend \<Rightarrow> uuid \<Rightarrow> dict \<Rightarrow> session \<Rightarrow> unit res \<times> session" where
  "dual_catalog_upsert B nid row = dual_write B () (catalog_upsert (bk_conv B) nid row)"

definition dual_catalog_add_many ::
  "backend \<Rightarrow> (uuid \<times> dict) list \<Rightarrow> session \<Rightarrow> unit res \<times> session" where
  "dual_catalog_add_many B = dual_add_many B (\<lambda>(nid, row). catalog_upsert (bk_conv B) nid row)"

subsection \<open>Inventory\<close>

definition dual_inventory_list :: "backend \<Rightarrow> string option \<Rightarrow> session \<Rightarrow> dict list res" where
  "dual_inventory_list B status s =
     dual_read B (Inr (inventory_list status s)) (sheets_inventory_list status (bk_inventory B))"

definition dual_inventory_list_all :: "backend \<Rightarrow> session \<Rightarrow> dict list res" where
  "dual_inventory_list_all B s = dual_read B (Inr (inventory_list_all s)) (bk_inventory B)"

definition dual_inventory_get :: "backend \<Rightarrow> string \<Rightarrow> session \<Rightarrow> dict option res" where
  "dual_inventory_get B bag s =
     dual_read B (inventory_get bag s) (sheets_inventory_get bag (bk_inventory B))"

definition dual_inventory_upsert :: "backend \<Rightarrow> uuid \<Rightarrow> dict \<Rightarrow> session \<Rightarrow> unit res \<times> session" where
  "dual_inventory_upsert B nid row = dual_write B () (inventory_upsert (bk_conv B) nid row)"

definition dual_inventory_add_many ::
  "backend \<Rightarrow> (uuid \<times> dict) list \<Rightarrow> session \<Rightarrow> unit res \<times> session" where
  "dual_inventory_add_many B = dual_add_many B (\<lambda>(nid, row). inventory_upsert (bk_conv B) nid row)"

subsection \<open>Hardware\<close>

definition dual_hardware_list :: "backend \<Rightarrow> string option \<Rightarrow> session \<Rightarrow> dict list res" where
  "dual_hardware_list B category s =
     dual_read B (Inr (hardware_list category s)) (sheets_hardware_list category (bk_hardware B))"

definition dual_hardware_get :: "backend \<Rightarrow> string \<Rightarrow> session \<Rightarrow> dict option res" where
  "dual_hardware_get B hw s =
     dual_read B (hardware_get hw s) (sheets_hardware_get hw (bk_hardware B))"

text \<open>The next identifier comes from the Sheets archive in either mode.\<close>

definition dual_hardware_next_id :: "backend \<Rightarrow> string \<Rightarrow> string res" where
  "dual_hardware_next_id B category = hardware_next_id (bk_conv B) category (bk_hardware B)"

definition dual_hardware_upsert :: "backend \<Rightarrow> uuid \<Rightarrow> dict \<Rightarrow> session \<Rightarrow> unit res \<times> session" where
  "dual_hardware_upsert B nid row = dual_write B () (hardware_upsert (bk_conv B) nid row)"

definition dual_hardware_add_many ::
  "backend \<Rightarrow> (uuid \<times> dict) list \<Rightarrow> session \<Rightarrow> unit res \<times> session" where
  "dual_hardware_add_many B = dual_add_many B (\<lambda>(nid, row). hardware_upsert (bk_conv B) nid row)"

subsection \<open>Maintenance\<close>

definition dual_maintenance_list :: "backend \<Rightarrow> string option \<Rightarrow> session \<Rightarrow> dict list res" where
  "dual_maintenance_list B hw s =
     dual_read B (Inr (maintenance_list (bk_conv B) hw s)) (sheets_maintenance_list hw (bk_maintenance B))"

definition dual_maintenance_get :: "backend \<Rightarrow> string \<Rightarrow> session \<Rightarrow> dict option res" where
  "dual_maintenance_get B mid s =
     dual_read B (maintenance_get (bk_conv B) mid s) (sheets_maintenance_get mid (bk_maintenance B))"

definition dual_maintenance_add ::
  "backend \<Rightarrow> uuid \<Rightarrow> instant \<Rightarrow> dict \<Rightarrow> session \<Rightarrow> unit res \<times> session" where
  "dual_maintenance_add B nid db_now row =
     dual_write B () (maintenance_add (bk_conv B) nid db_now row)"

definition dual_maintenance_add_many ::
  "backend \<Rightarrow> instant \<Rightarrow> (uuid \<times> dict) list \<Rightarrow> session \<Rightarrow> unit res \<times> session" where
  "dual_maintenance_add_many B db_now =
     dual_add_many B (\<lambda>(nid, row). maintenance_add (bk_conv B) nid db_now row)"

end
