(* ===== verification/Caches.thy ===== *)
theory Caches
  imports DualWrite
begin

text \<open>
  The two caches of the process: the TTL cache in front of the Sheets tabs
  (\<^verbatim>\<open>app/repos/base.py\<close>) and the idempotency store of the brew-log endpoint
  (\<^verbatim>\<open>app/services/idempotency_store.py\<close>). Both keep entries with the reading of the monotonic
  clock at which they were made and let them expire passively. The clock is an argument. Both
  keep the contract of the locale \<open>expiring\<close>.
\<close>

section \<open>The contract\<close>

text \<open>
  \<open>look now k c\<close> reads a key, \<open>put now k v c\<close> stores a value, \<open>born k c\<close> is the clock reading
  an entry counts from. A read returns what was stored while the entry is at most \<open>ttl\<close> old
  and nothing later, and no operation touches another key.
\<close>

locale expiring =
  fixes ttl :: int
    and look :: "int \<Rightarrow> 'k \<Rightarrow> 'c \<Rightarrow> 'v option"
    and put :: "int \<Rightarrow> 'k \<Rightarrow> 'v \<Rightarrow> 'c \<Rightarrow> 'c"
    and born :: "'k \<Rightarrow> 'c \<Rightarrow> int option"
  assumes look_put: "born k (put t k v c) = Some b \<Longrightarrow>
      look now k (put t k v c) = (if now - b \<le> ttl then Some v else None)"
    and born_put: "(\<And>b. born k c = Some b \<Longrightarrow> b \<le> t) \<Longrightarrow>
      \<exists>b \<le> t. born k (put t k v c) = Some b"
    and look_other: "k \<noteq> k' \<Longrightarrow> look now k' (put t k v c) = look now k' c"
    and look_born: "look now k c = Some v \<Longrightarrow> \<exists>b. born k c = Some b \<and> now - b \<le> ttl"
begin

text \<open>What is read is never older than the time to live.\<close>

lemma never_stale:
  assumes "look now k (put t k v c) = Some w" "\<And>b. born k c = Some b \<Longrightarrow> b \<le> t"
  shows "w = v"
proof -
  obtain b where b: "born k (put t k v c) = Some b" using born_put [OF assms(2)] by blast
  from look_put [OF b, of now] assms(1) show ?thesis by (simp split: if_splits)
qed

lemma expires:
  assumes "born k (put t k v c) = Some b" "ttl < now - b"
  shows "look now k (put t k v c) = None"
  using look_put [OF assms(1)] assms(2) by simp

end

section \<open>The TTL cache\<close>

record 'd cache_entry =
  ce_data :: 'd
  ce_fetched_at :: int

type_synonym 'd ttl_cache = "string \<Rightarrow> 'd cache_entry option"

definition cache_ttl :: int where
  "cache_ttl = seconds 60"

definition cache_get :: "int \<Rightarrow> string \<Rightarrow> 'd ttl_cache \<Rightarrow> 'd option" where
  "cache_get now key c =
     (case c key of
        None \<Rightarrow> None
      | Some e \<Rightarrow> if cache_ttl < now - ce_fetched_at e then None else Some (ce_data e))"

definition cache_set :: "int \<Rightarrow> string \<Rightarrow> 'd \<Rightarrow> 'd ttl_cache \<Rightarrow> 'd ttl_cache" where
  "cache_set now key rows c = c(key \<mapsto> \<lparr>ce_data = rows, ce_fetched_at = now\<rparr>)"

definition cache_invalidate :: "string \<Rightarrow> 'd ttl_cache \<Rightarrow> 'd ttl_cache" where
  "cache_invalidate key c = c(key := None)"

text \<open>\<open>BaseRepo._fetch_cached\<close>: the tab is read only when the cache has no fresh copy.\<close>

definition fetch_cached :: "int \<Rightarrow> string \<Rightarrow> 'd \<Rightarrow> 'd ttl_cache \<Rightarrow> 'd \<times> 'd ttl_cache" where
  "fetch_cached now key tab_rows c =
     (case cache_get now key c of
        Some rows \<Rightarrow> (rows, c)
      | None \<Rightarrow> (tab_rows, cache_set now key tab_rows c))"

definition fetched_at :: "string \<Rightarrow> 'd ttl_cache \<Rightarrow> int option" where
  "fetched_at key c = map_option ce_fetched_at (c key)"

interpretation ttl_cache: expiring cache_ttl cache_get cache_set fetched_at
  by unfold_locales
    (auto simp: cache_get_def cache_set_def fetched_at_def not_less split: option.splits if_splits)

section \<open>The idempotency store\<close>

record 'r idem_entry =
  ie_response :: "'r option"
  ie_ts :: int
  ie_in_flight :: bool

type_synonym 'r idem_store = "string \<Rightarrow> 'r idem_entry option"

definition idem_ttl :: int where
  "idem_ttl = seconds 300"

definition idem_evict :: "int \<Rightarrow> 'r idem_store \<Rightarrow> 'r idem_store" where
  "idem_evict now c =
     (\<lambda>k. case c k of
            None \<Rightarrow> None
          | Some e \<Rightarrow> if ie_ts e < now - idem_ttl then None else Some e)"

definition check_and_set_sentinel ::
  "int \<Rightarrow> string \<Rightarrow> 'r idem_store \<Rightarrow> 'r option \<times> 'r idem_store" where
  "check_and_set_sentinel now key c =
     (let c = idem_evict now c
      in case c key of
           None \<Rightarrow> (None, c(key \<mapsto> \<lparr>ie_response = None, ie_ts = now, ie_in_flight = True\<rparr>))
         | Some e \<Rightarrow> if ie_in_flight e then (None, c) else (ie_response e, c))"

definition idem_put :: "int \<Rightarrow> string \<Rightarrow> 'r \<Rightarrow> 'r idem_store \<Rightarrow> 'r idem_store" where
  "idem_put now key response c =
     c(key \<mapsto> \<lparr>ie_response = Some response,
               ie_ts = (case c key of None \<Rightarrow> now | Some e \<Rightarrow> ie_ts e), ie_in_flight = False\<rparr>)"

definition idem_clear :: "'r idem_store \<Rightarrow> 'r idem_store" where
  "idem_clear c = Map.empty"

definition idem_look :: "int \<Rightarrow> string \<Rightarrow> 'r idem_store \<Rightarrow> 'r option" where
  "idem_look now key c = fst (check_and_set_sentinel now key c)"

definition idem_born :: "string \<Rightarrow> 'r idem_store \<Rightarrow> int option" where
  "idem_born key c = map_option ie_ts (c key)"

lemma idem_look_cases:
  "idem_look now key c = (case c key of
      None \<Rightarrow> None
    | Some e \<Rightarrow> if ie_ts e < now - idem_ttl \<or> ie_in_flight e then None else ie_response e)"
  by (simp add: idem_look_def check_and_set_sentinel_def idem_evict_def Let_def split: option.split)

interpretation idem: expiring idem_ttl idem_look idem_put idem_born
  by unfold_locales
    (auto simp: idem_look_cases idem_put_def idem_born_def not_less le_diff_eq
      split: option.splits if_splits)

section \<open>Properties\<close>

text \<open>A history of reads, each with the clock and the rows the tab holds by then, and of writes.\<close>

datatype 'd cache_event = Fetch int 'd | Invalidate

fun cache_run :: "string \<Rightarrow> 'd cache_event list \<Rightarrow> 'd ttl_cache \<Rightarrow> 'd ttl_cache" where
  "cache_run key [] c = c"
| "cache_run key (Fetch t rows # es) c = cache_run key es (snd (fetch_cached t key rows c))"
| "cache_run key (Invalidate # es) c = cache_run key es (cache_invalidate key c)"

text \<open>The fetches since the last invalidation.\<close>

fun since_invalidate :: "'d cache_event list \<Rightarrow> (int \<times> 'd) list \<Rightarrow> (int \<times> 'd) list" where
  "since_invalidate [] acc = acc"
| "since_invalidate (Fetch t rows # es) acc = since_invalidate es ((t, rows) # acc)"
| "since_invalidate (Invalidate # es) acc = since_invalidate es []"

lemma cache_run_entry:
  assumes "\<And>e. c key = Some e \<Longrightarrow> (ce_fetched_at e, ce_data e) \<in> set acc"
    and "cache_run key es c key = Some e"
  shows "(ce_fetched_at e, ce_data e) \<in> set (since_invalidate es acc)"
  using assms
proof (induction es arbitrary: c acc)
  case (Cons ev es)
  show ?case
  proof (cases ev)
    case (Fetch t rows)
    have "(ce_fetched_at e', ce_data e') \<in> set ((t, rows) # acc)"
      if "snd (fetch_cached t key rows c) key = Some e'" for e'
      using that Cons.prems(1)
      by (auto simp: fetch_cached_def cache_set_def split: option.splits)
    from Cons.IH [OF this] Cons.prems(2) Fetch show ?thesis by simp
  next
    case Invalidate
    have "(ce_fetched_at e', ce_data e') \<in> set []" if "cache_invalidate key c key = Some e'" for e'
      using that by (simp add: cache_invalidate_def)
    from Cons.IH [OF this] Cons.prems(2) Invalidate show ?thesis by simp
  qed
qed simp

text \<open>
  Reads are never more than a minute behind. In any history of reads and writes of a tab, a
  read answers with the rows the tab holds now or with those it held at an earlier read of
  this history, at most sixty seconds ago and after the last write that invalidated the cache.
\<close>

theorem fetch_cached_age:
  "fst (fetch_cached now key tab_rows (cache_run key es Map.empty)) = tab_rows
   \<or> (\<exists>t. now - t \<le> seconds 60
        \<and> (t, fst (fetch_cached now key tab_rows (cache_run key es Map.empty)))
            \<in> set (since_invalidate es []))"
proof -
  let ?c = "cache_run key es (Map.empty :: 'a ttl_cache)"
  show ?thesis
  proof (cases "cache_get now key ?c")
    case None
    then show ?thesis by (simp add: fetch_cached_def)
  next
    case (Some rows)
    then obtain e where e: "?c key = Some e" "ce_data e = rows" "now - ce_fetched_at e \<le> cache_ttl"
      by (auto simp: cache_get_def not_less split: option.splits if_splits)
    have "(ce_fetched_at e, ce_data e) \<in> set (since_invalidate es [])"
      by (rule cache_run_entry [OF _ e(1)]) simp
    with Some e show ?thesis by (auto simp: fetch_cached_def cache_ttl_def)
  qed
qed

text \<open>
  Replay of a completed request. From the moment a response was stored, the store answers
  its key with that response until five minutes after the key was first seen, measured from
  the sentinel and not from the completion, and with nothing afterwards; other keys are
  answered as before.
\<close>

theorem idempotent_replay:
  assumes "fst (check_and_set_sentinel t0 key c) = None" "c key = None" "t0 \<le> now" "t0 \<le> t1"
  shows "fst (check_and_set_sentinel now key
            (idem_put t1 key resp (snd (check_and_set_sentinel t0 key c))))
          = (if now - t0 \<le> seconds 300 then Some resp else None)
    \<and> (key' \<noteq> key \<longrightarrow> fst (check_and_set_sentinel now key'
            (idem_put t1 key resp (snd (check_and_set_sentinel t0 key c))))
          = fst (check_and_set_sentinel now key' (idem_evict t0 c)))"
proof -
  let ?c = "snd (check_and_set_sentinel t0 key c)"
  have born: "idem_born key ?c = Some t0" "idem_born key (idem_put t1 key resp ?c) = Some t0"
    using assms(2)
    by (simp_all add: check_and_set_sentinel_def idem_evict_def idem_born_def idem_put_def Let_def)
  have other: "idem_look now key' ?c = idem_look now key' (idem_evict t0 c)" if "key' \<noteq> key"
    using that assms(2)
    by (simp add: idem_look_cases check_and_set_sentinel_def Let_def idem_evict_def)
  show ?thesis
    using idem.look_put [OF born(2), of now] idem.look_other [of key key' now t1 resp ?c] other
    by (auto simp: idem_look_def idem_ttl_def)
qed

theorem idempotent_replay_witness:
  "fst (check_and_set_sentinel (seconds 299) ''k''
     (idem_put 5 ''k'' (1::nat) (snd (check_and_set_sentinel 0 ''k'' Map.empty)))) = Some 1"
proof -
  have none: "fst (check_and_set_sentinel 0 ''k'' (Map.empty :: nat idem_store)) = None"
    by (simp add: check_and_set_sentinel_def idem_evict_def Let_def)
  have t: "(0::int) \<le> seconds 299" "(0::int) \<le> 5" by (simp_all add: seconds_def)
  from idempotent_replay [OF none _ t, of "1::nat" "''k''"] show ?thesis
    by (simp add: seconds_def)
qed

end
