(* ===== verification/ApiBrewLog.thy ===== *)
theory ApiBrewLog
  imports Ids Inference Caches
begin

text \<open>
  The brew-log endpoints of \<^verbatim>\<open>app/routers/api_brew_log.py\<close>: the paginated list for members and
  guests, detail and feedback views, creation with its idempotency, correction, generation of
  feedback, and deletion. A handler is a function of the backend, the clocks and identifiers a
  request draws, the membership its dependencies resolved, and the session; creation also
  threads the idempotency store of the process.
\<close>

section \<open>Display names\<close>

type_synonym lookup = "(string \<times> dict) list"

text \<open>\<open>d.setdefault(r[key], r)\<close> over the rows: the first row of a key wins.\<close>

fun keyed :: "string \<Rightarrow> dict list \<Rightarrow> lookup res" where
  "keyed key [] = Inr []"
| "keyed key (r # rs) =
     (if r key = None then Inl KeyError
      else map_sum id (\<lambda>rest. (py_key r key, r) # rest) (keyed key rs))"

definition row_of :: "lookup \<Rightarrow> string \<Rightarrow> dict" where
  "row_of l k = (case map_of l k of None \<Rightarrow> Map.empty | Some r \<Rightarrow> r)"

record lookups =
  lk_bags :: lookup
  lk_catalog :: lookup
  lk_hardware :: lookup

definition keyed_read :: "string \<Rightarrow> dict list res \<Rightarrow> lookup res" where
  "keyed_read key rows = (case rows of Inl e \<Rightarrow> Inl e | Inr rs \<Rightarrow> keyed key rs)"

definition build_lookups :: "backend \<Rightarrow> session \<Rightarrow> lookups res" where
  "build_lookups B s =
     (case keyed_read ''Bag_ID'' (dual_inventory_list_all B s) of
        Inl e \<Rightarrow> Inl e
      | Inr bags \<Rightarrow>
          (case keyed_read ''Catalog_ID'' (dual_catalog_list B s) of
             Inl e \<Rightarrow> Inl e
           | Inr cat \<Rightarrow>
               (case keyed_read ''Hardware_ID'' (dual_hardware_list B None s) of
                  Inl e \<Rightarrow> Inl e
                | Inr hw \<Rightarrow> Inr \<lparr>lk_bags = bags, lk_catalog = cat, lk_hardware = hw\<rparr>)))"

text \<open>\<open>strip\<close> with the characters space and em dash.\<close>

definition strip_dashes :: "string \<Rightarrow> string" where
  "strip_dashes t =
     (let drop_set = (\<lambda>c. c \<in> set (CHR '' '' # em_dash))
      in rev (dropWhile drop_set (rev (dropWhile drop_set t))))"

record names =
  nm_bag_display :: string
  nm_roast_level :: "string option"
  nm_machine_name :: "string option"
  nm_grinder_name :: "string option"
  nm_basket_name :: "string option"

definition or_none :: "pyval \<Rightarrow> string option" where
  "or_none v = py_string v"

definition resolve_names :: "dict \<Rightarrow> lookups \<Rightarrow> names" where
  "resolve_names shot l =
     (let bag_id = py_key shot ''Bag_ID'';
          bag = row_of (lk_bags l) bag_id;
          cat = row_of (lk_catalog l) (py_key bag ''Catalog_ID'');
          roaster = py_key cat ''Roaster'';
          bean = py_key cat ''Bean_Name'';
          display = (if roaster \<noteq> [] \<or> bean \<noteq> []
                     then strip_dashes (roaster @ '' '' @ em_dash @ '' '' @ bean) else bag_id);
          hw = (\<lambda>k. or_none (py_get (row_of (lk_hardware l) (py_key shot k)) ''Name''))
      in \<lparr>nm_bag_display = (if display \<noteq> [] then display else bag_id),
          nm_roast_level = or_none (py_or (py_get bag ''RoastLevel'') (py_get cat ''Roast_Level'')),
          nm_machine_name = hw ''Machine_ID'',
          nm_grinder_name = hw ''Grinder_ID'',
          nm_basket_name = hw ''Basket_ID''\<rparr>)"

record brew_out =
  bo_shot_id :: string
  bo_date :: string
  bo_names :: names
  bo_storage_method :: "string option"
  bo_dose_in_g :: "string option"
  bo_yield_out_g :: "string option"
  bo_time_sec :: "string option"
  bo_grind_setting :: "string option"
  bo_shot_eligibility :: "string option"
  bo_taste_summary :: "string option"
  bo_user_notes :: "string option"
  bo_ai_feedback :: "string option"

definition api_float :: "conversions \<Rightarrow> pyval \<Rightarrow> string option" where
  "api_float C v = (case v of PNone \<Rightarrow> None | PStr t \<Rightarrow> cv_float C t | PFloat t \<Rightarrow> Some t)"

definition shot_to_out :: "conversions \<Rightarrow> dict \<Rightarrow> names \<Rightarrow> brew_out" where
  "shot_to_out C shot n =
     \<lparr>bo_shot_id = py_key shot ''Shot_ID'',
      bo_date = py_key shot ''Date'',
      bo_names = n,
      bo_storage_method = or_none (py_get shot ''Storage_Method''),
      bo_dose_in_g = api_float C (py_get shot ''Dose_In_g''),
      bo_yield_out_g = api_float C (py_get shot ''Yield_Out_g''),
      bo_time_sec = api_float C (py_get shot ''Time_Sec''),
      bo_grind_setting = (if py_get shot ''Grind_Setting'' \<in> {PNone, PStr []} then None
                          else py_text (py_get shot ''Grind_Setting'')),
      bo_shot_eligibility = or_none (py_get shot ''Shot_Eligibility''),
      bo_taste_summary = or_none (py_get shot ''Taste_Summary''),
      bo_user_notes = or_none (py_get shot ''User_Notes''),
      bo_ai_feedback = or_none (py_get shot ''AI_Feedback'')\<rparr>"

definition render_shot :: "backend \<Rightarrow> dict \<Rightarrow> session \<Rightarrow> brew_out res" where
  "render_shot B shot s =
     map_sum id (\<lambda>l. shot_to_out (bk_conv B) shot (resolve_names shot l)) (build_lookups B s)"

section \<open>Reading\<close>

record brew_page =
  bp_items :: "brew_out list"
  bp_page :: nat
  bp_per_page :: nat
  bp_total_count :: nat
  bp_has_next :: bool
  bp_sync_alert :: bool

definition api_brew_log_list ::
  "backend \<Rightarrow> bool \<Rightarrow> int \<Rightarrow> int \<Rightarrow> session \<Rightarrow> brew_page res" where
  "api_brew_log_list B sync_alert page per_page s =
     (let pg = nat (max 1 page); pp = nat (max 1 (min per_page 100))
      in case dual_brew_paginated B pg pp s of
           Inl e \<Rightarrow> Inl e
         | Inr (shots, cnt) \<Rightarrow>
             (case build_lookups B s of
                Inl e \<Rightarrow> Inl e
              | Inr l \<Rightarrow>
                  Inr \<lparr>bp_items = map (\<lambda>r. shot_to_out (bk_conv B) r (resolve_names r l)) shots,
                       bp_page = pg, bp_per_page = pp, bp_total_count = cnt,
                       bp_has_next = (pg * pp < cnt), bp_sync_alert = sync_alert\<rparr>))"

definition shot_not_found :: err where
  "shot_not_found = HTTPException 404 ''Shot not found''"

definition api_brew_log_feedback :: "backend \<Rightarrow> string \<Rightarrow> session \<Rightarrow> string option res" where
  "api_brew_log_feedback B shot_id s =
     (case dual_brew_get B shot_id s of
        Inl e \<Rightarrow> Inl e
      | Inr None \<Rightarrow> Inl shot_not_found
      | Inr (Some shot) \<Rightarrow> Inr (or_none (py_get shot ''AI_Feedback'')))"

definition api_brew_log_detail :: "backend \<Rightarrow> string \<Rightarrow> session \<Rightarrow> brew_out res" where
  "api_brew_log_detail B shot_id s =
     (case dual_brew_get B shot_id s of
        Inl e \<Rightarrow> Inl e
      | Inr None \<Rightarrow> Inl shot_not_found
      | Inr (Some shot) \<Rightarrow> render_shot B shot s)"

section \<open>Correcting\<close>

text \<open>
  The body of a patch: a field is absent, null, or a text. A text that \<open>float\<close> takes as an
  infinity or not a number is not finite.
\<close>

record patch_body =
  pb_taste_summary :: "string option option"
  pb_user_notes :: "string option option"
  pb_grind_setting :: "string option option"
  pb_shot_eligibility :: "string option option"

definition shot_eligibilities :: "string list" where
  "shot_eligibilities = [''God Shot'', ''Good Espresso'', ''Passable'', ''Reject'']"

definition finite_text :: "string \<Rightarrow> bool" where
  "finite_text t = (t \<notin> {''inf'', ''-inf'', ''nan''})"

definition optional_text :: "string option \<Rightarrow> pyval" where
  "optional_text v = (case v of None \<Rightarrow> PNone | Some t \<Rightarrow> PStr t)"

definition patch_grind :: "conversions \<Rightarrow> string option \<Rightarrow> pyval res" where
  "patch_grind C g =
     (if g = None \<or> strip (the g) = [] then Inr (PStr [])
      else
        (case cv_float C (the g) of
           None \<Rightarrow> Inl (HTTPException 422 ''grind_setting must be numeric.'')
         | Some t \<Rightarrow>
             if \<not> finite_text t then Inl (HTTPException 422 ''grind_setting must be a finite number.'')
             else Inr (PStr (strip (the g)))))"

definition patch_eligibility :: "string option \<Rightarrow> pyval res" where
  "patch_eligibility e =
     (case e of
        None \<Rightarrow> Inr PNone
      | Some v \<Rightarrow>
          if strip v = [] then Inr PNone
          else if strip v \<notin> set shot_eligibilities
          then Inl (HTTPException 422
            ''shot_eligibility must be one of: ['God Shot', 'Good Espresso', 'Passable', 'Reject']'')
          else Inr (PStr (strip v)))"

definition normalise_brew_log_patch :: "conversions \<Rightarrow> patch_body \<Rightarrow> dict res" where
  "normalise_brew_log_patch C b =
     (if pb_taste_summary b = None \<and> pb_user_notes b = None \<and> pb_grind_setting b = None
         \<and> pb_shot_eligibility b = None
      then Inl (HTTPException 422 ''At least one editable field is required.'')
      else
        (let base = (\<lambda>k. if k = ''taste_summary'' then map_option optional_text (pb_taste_summary b)
                         else if k = ''user_notes'' then map_option optional_text (pb_user_notes b)
                         else None)
         in case (case pb_grind_setting b of
                    None \<Rightarrow> Inr base
                  | Some g \<Rightarrow> map_sum id (\<lambda>v. base(''grind_setting'' \<mapsto> v)) (patch_grind C g)) of
              Inl e \<Rightarrow> Inl e
            | Inr upd \<Rightarrow>
                (case pb_shot_eligibility b of
                   None \<Rightarrow> Inr upd
                 | Some e \<Rightarrow> map_sum id (\<lambda>v. upd(''shot_eligibility'' \<mapsto> v)) (patch_eligibility e))))"

definition api_brew_log_patch ::
  "backend \<Rightarrow> string \<Rightarrow> patch_body \<Rightarrow> session \<Rightarrow> brew_out res \<times> session" where
  "api_brew_log_patch B shot_id body s =
     (case normalise_brew_log_patch (bk_conv B) body of
        Inl e \<Rightarrow> (Inl e, s)
      | Inr upd \<Rightarrow>
          andthen (dual_brew_update_correction B shot_id upd s) (\<lambda>updated s.
            (case updated of
               None \<Rightarrow> (Inl shot_not_found, s)
             | Some shot \<Rightarrow> (render_shot B shot s, s))))"

section \<open>Feedback on request\<close>

definition extra_of :: "dict \<Rightarrow> names \<Rightarrow> extra_context" where
  "extra_of shot n =
     (let opt = (\<lambda>v. case v of None \<Rightarrow> [] | Some t \<Rightarrow> t)
      in \<lparr>ec_machine_name = opt (nm_machine_name n), ec_grinder_name = opt (nm_grinder_name n),
          ec_basket_name = opt (nm_basket_name n), ec_roast_level = opt (nm_roast_level n),
          ec_taste_summary = opt (or_none (py_get shot ''Taste_Summary'')),
          ec_storage_method = opt (or_none (py_get shot ''Storage_Method''))\<rparr>)"

definition feedback_error :: "err \<Rightarrow> err" where
  "feedback_error e =
     (case e of
        TimeoutError \<Rightarrow> HTTPException 504 ''AI_FEEDBACK_TIMEOUT''
      | LLMError \<Rightarrow> HTTPException 502 ''AI_FEEDBACK_GENERATION_FAILED''
      | ValueError \<Rightarrow> HTTPException 502 ''AI_FEEDBACK_GENERATION_FAILED''
      | _ \<Rightarrow> e)"

definition api_brew_log_feedback_generate ::
  "backend \<Rightarrow> llm_client \<Rightarrow> int \<Rightarrow> string \<Rightarrow> household_member \<Rightarrow> session \<Rightarrow> string res \<times> session"
where
  "api_brew_log_feedback_generate B llm today shot_id membership s =
     (case dual_brew_get B shot_id s of
        Inl e \<Rightarrow> (Inl e, s)
      | Inr None \<Rightarrow> (Inl shot_not_found, s)
      | Inr (Some shot) \<Rightarrow>
          (case build_lookups B s of
             Inl e \<Rightarrow> (Inl e, s)
           | Inr l \<Rightarrow>
               (case andthen (dual_brew_set_context B (m_household_id membership) s) (\<lambda>_ s.
                       get_ai_feedback B llm today shot_id (Some (extra_of shot (resolve_names shot l)))
                         True True s) of
                  (Inl e, s) \<Rightarrow> (Inl (feedback_error e), s)
                | (Inr t, s) \<Rightarrow> (Inr t, s))))"

section \<open>Creating\<close>

record create_body =
  cb_bag_id :: string
  cb_machine_id :: string
  cb_grinder_id :: string
  cb_basket_id :: string
  cb_dose_in_g :: string
  cb_yield_out_g :: string
  cb_time_sec :: string
  cb_grind_setting :: string
  cb_shot_eligibility :: string
  cb_taste_summary :: string
  cb_user_notes :: string
  cb_storage_method :: string
  cb_shot_date :: "string option"
  cb_idempotency_key :: "string option"

definition normalise_idempotency_key :: "string option \<Rightarrow> string option" where
  "normalise_idempotency_key k =
     (case k of None \<Rightarrow> None | Some v \<Rightarrow> if strip v = [] then None else Some (strip v))"

definition iso_date :: "date \<Rightarrow> string" where
  "iso_date d = pad0 4 (year d) @ ''-'' @ pad0 2 (month d) @ ''-'' @ pad0 2 (day d)"

text \<open>
  The payload of the request hash: every field of the body but the key, with the date that is
  used. The hash is a function of it, SHA-256 over canonical JSON.
\<close>

definition hash_payload :: "create_body \<Rightarrow> date \<Rightarrow> string list" where
  "hash_payload b d =
     [cb_bag_id b, cb_basket_id b, cb_dose_in_g b, cb_grinder_id b, cb_grind_setting b,
      cb_machine_id b, iso_date d, cb_shot_eligibility b, cb_storage_method b,
      cb_taste_summary b, cb_time_sec b, cb_user_notes b, cb_yield_out_g b]"

text \<open>What a creation draws and is given: identifiers, the clock, the parser of dates.\<close>

record create_env =
  ce_row_id :: uuid
  ce_db_now :: instant
  ce_monotonic :: int
  ce_today :: date
  ce_today_ordinal :: int
  ce_parse_date :: "string \<Rightarrow> date option"
  ce_request_hash :: "string list \<Rightarrow> string"
  ce_llm :: llm_client

definition shot_row :: "string \<Rightarrow> date \<Rightarrow> create_body \<Rightarrow> (string \<times> string) option \<Rightarrow> dict" where
  "shot_row shot_id d b key =
     (let row = [
        ''Shot_ID'' \<mapsto> PStr shot_id,
        ''Date'' \<mapsto> PStr (iso_date d),
        ''Bag_ID'' \<mapsto> PStr (cb_bag_id b),
        ''Machine_ID'' \<mapsto> PStr (cb_machine_id b),
        ''Grinder_ID'' \<mapsto> PStr (cb_grinder_id b),
        ''Basket_ID'' \<mapsto> PStr (cb_basket_id b),
        ''Dose_In_g'' \<mapsto> PFloat (cb_dose_in_g b),
        ''Yield_Out_g'' \<mapsto> PFloat (cb_yield_out_g b),
        ''Time_Sec'' \<mapsto> PFloat (cb_time_sec b),
        ''Grind_Setting'' \<mapsto> PStr (cb_grind_setting b),
        ''Shot_Eligibility'' \<mapsto> PStr (cb_shot_eligibility b),
        ''Taste_Summary'' \<mapsto> PStr (cb_taste_summary b),
        ''User_Notes'' \<mapsto> PStr (cb_user_notes b),
        ''Storage_Method'' \<mapsto> PStr (cb_storage_method b)]
      in case key of
           None \<Rightarrow> row
         | Some (k, h) \<Rightarrow>
             if h = [] then row
             else row(''Idempotency_Key'' \<mapsto> PStr k, ''Idempotency_Request_Hash'' \<mapsto> PStr h))"

definition existing_idempotent_response ::
  "backend \<Rightarrow> string \<Rightarrow> string \<Rightarrow> session \<Rightarrow> brew_out option res" where
  "existing_idempotent_response B key request_hash s =
     (case dual_brew_by_key B key s of
        Inl e \<Rightarrow> Inl e
      | Inr None \<Rightarrow> Inr None
      | Inr (Some shot) \<Rightarrow>
          if py_get shot ''Idempotency_Request_Hash'' \<noteq> PStr request_hash
          then Inl (HTTPException 409 ''Idempotency key reused with different payload'')
          else map_sum id Some (render_shot B shot s))"

datatype 'a created = Created 'a | Replayed 'a

text \<open>The insert, the names of the response, the commit.\<close>

definition add_and_render ::
  "backend \<Rightarrow> create_env \<Rightarrow> dict \<Rightarrow> session \<Rightarrow> (names \<times> brew_out) res \<times> session" where
  "add_and_render B ce row s =
     andthen (dual_brew_add B (ce_row_id ce) (ce_db_now ce) (\<not> bk_use_postgres B) row s) (\<lambda>_ s.
       (case build_lookups B s of
          Inl e \<Rightarrow> (Inl e, s)
        | Inr l \<Rightarrow>
            (let n = resolve_names row l; out = shot_to_out (bk_conv B) row n
             in if bk_use_postgres B
                then andthen (dual_brew_commit B s) (\<lambda>_ s. (Inr (n, out), s))
                else (Inr (n, out), s))))"

text \<open>The feedback of a new shot; its failures are logged only.\<close>

definition feedback_after_create ::
  "backend \<Rightarrow> create_env \<Rightarrow> household_member \<Rightarrow> string \<Rightarrow> extra_context \<Rightarrow> session \<Rightarrow> session" where
  "feedback_after_create B ce membership shot_id extra s =
     (case andthen (if bk_use_postgres B then dual_brew_set_context B (m_household_id membership) s
                    else (Inr (), s)) (\<lambda>_ s.
             get_ai_feedback B (ce_llm ce) (ce_today_ordinal ce) shot_id (Some extra) False False s) of
        (Inr _, s) \<Rightarrow> s
      | (Inl TimeoutError, s) \<Rightarrow> s
      | (Inl _, s) \<Rightarrow> if bk_use_postgres B then snd (dual_brew_rollback B s) else s)"

text \<open>After an \<open>IntegrityError\<close> a request with a key looks once more for its row.\<close>

definition recover_conflict ::
  "backend \<Rightarrow> household_member \<Rightarrow> (string \<times> string) option \<Rightarrow> session \<Rightarrow> brew_out created res \<times> session"
where
  "recover_conflict B membership key s =
     (case key of
        None \<Rightarrow> (Inl IntegrityError, s)
      | Some (k, h) \<Rightarrow>
          if \<not> bk_use_postgres B \<or> h = [] then (Inl IntegrityError, s)
          else andthen (dual_brew_set_context B (m_household_id membership) s) (\<lambda>_ s.
                 (case existing_idempotent_response B k h s of
                    Inl e \<Rightarrow> (Inl e, s)
                  | Inr (Some out) \<Rightarrow> (Inr (Replayed out), s)
                  | Inr None \<Rightarrow> (Inl IntegrityError, s))))"

definition create_shot ::
  "backend \<Rightarrow> create_env \<Rightarrow> create_body \<Rightarrow> date \<Rightarrow> (string \<times> string) option \<Rightarrow> household_member
     \<Rightarrow> session \<Rightarrow> brew_out created res \<times> session" where
  "create_shot B ce body d key membership s =
     (case dual_brew_ids B s of
        Inl e \<Rightarrow> (Inl e, s)
      | Inr ids \<Rightarrow>
          (let shot_id = make_shot_id d (cb_bag_id body) ids;
               row = shot_row shot_id d body key
           in case add_and_render B ce row s of
                (Inl e, s) \<Rightarrow>
                  (let s = snd (dual_brew_rollback B s)
                   in if e = IntegrityError then recover_conflict B membership key s else (Inl e, s))
              | (Inr (n, out), s) \<Rightarrow>
                  (Inr (Created out),
                   feedback_after_create B ce membership shot_id (extra_of row n) s)))"

definition shot_date_of :: "create_env \<Rightarrow> create_body \<Rightarrow> date res" where
  "shot_date_of ce body =
     (if \<not> truthy (cb_shot_date body) then Inr (ce_today ce)
      else (case ce_parse_date ce (the (cb_shot_date body)) of
              None \<Rightarrow> Inl (HTTPException 422 ''shot_date must be ISO format (YYYY-MM-DD)'')
            | Some d \<Rightarrow> Inr d))"

definition request_key :: "create_env \<Rightarrow> create_body \<Rightarrow> date \<Rightarrow> (string \<times> string) option" where
  "request_key ce body d =
     map_option (\<lambda>k. (k, ce_request_hash ce (hash_payload body d)))
       (normalise_idempotency_key (cb_idempotency_key body))"

definition store_response ::
  "create_env \<Rightarrow> (string \<times> string) option \<Rightarrow> brew_out created res \<Rightarrow> brew_out idem_store \<Rightarrow> brew_out idem_store"
where
  "store_response ce key r c =
     (case (key, r) of
        (Some (k, _), Inr (Created out)) \<Rightarrow> idem_put (ce_monotonic ce) k out c
      | _ \<Rightarrow> c)"

definition api_brew_log_create ::
  "backend \<Rightarrow> create_env \<Rightarrow> create_body \<Rightarrow> household_member \<Rightarrow> brew_out idem_store \<Rightarrow> session
     \<Rightarrow> brew_out created res \<times> brew_out idem_store \<times> session" where
  "api_brew_log_create B ce body membership c s =
     (case shot_date_of ce body of
        Inl e \<Rightarrow> (Inl e, c, s)
      | Inr d \<Rightarrow>
          (case request_key ce body d of
             None \<Rightarrow> (case create_shot B ce body d None membership s of (r, s) \<Rightarrow> (r, c, s))
           | Some (k, h) \<Rightarrow>
               if bk_use_postgres B \<and> h \<noteq> [] then
                 (case existing_idempotent_response B k h s of
                    Inl e \<Rightarrow> (Inl e, c, s)
                  | Inr (Some out) \<Rightarrow> (Inr (Replayed out), c, s)
                  | Inr None \<Rightarrow>
                      (case create_shot B ce body d (Some (k, h)) membership s of
                         (r, s) \<Rightarrow> (r, store_response ce (Some (k, h)) r c, s)))
               else
                 (case check_and_set_sentinel (ce_monotonic ce) k c of
                    (Some out, c) \<Rightarrow> (Inr (Replayed out), c, s)
                  | (None, c) \<Rightarrow>
                      (case create_shot B ce body d (Some (k, h)) membership s of
                         (r, s) \<Rightarrow> (r, store_response ce (Some (k, h)) r c, s)))))"

section \<open>Deleting\<close>

definition api_brew_log_delete :: "backend \<Rightarrow> string \<Rightarrow> session \<Rightarrow> unit res \<times> session" where
  "api_brew_log_delete B shot_id s =
     andthen (dual_brew_delete B shot_id s) (\<lambda>deleted s.
       if deleted then (Inr (), s)
       else (Inl (HTTPException 404 ''Brew log entry not found''), s))"

end
