(* ===== verification/ApiEquipment.thy ===== *)
theory ApiEquipment
  imports ApiBrewLog Images
begin

text \<open>
  The hardware, maintenance and inventory endpoints (\<^verbatim>\<open>app/routers/api_hardware.py\<close>,
  \<^verbatim>\<open>api_maintenance.py\<close>, \<^verbatim>\<open>api_inventory.py\<close>). The session comes from the membership
  dependency, so it is under the household's setting until the first commit.
\<close>

section \<open>Hardware\<close>

record hardware_out =
  wo_hardware_id :: string
  wo_category :: string
  wo_name :: string
  wo_image_path :: "string option"

definition hw_to_out :: "dict \<Rightarrow> hardware_out" where
  "hw_to_out r = \<lparr>wo_hardware_id = py_key r ''Hardware_ID'', wo_category = py_key r ''Category'',
     wo_name = py_key r ''Name'', wo_image_path = or_none (py_get r ''Local_Image_Path'')\<rparr>"

record maintenance_out =
  mo_maintenance_id :: string
  mo_hardware_id :: string
  mo_hardware_name :: string
  mo_date :: string
  mo_action_type :: string
  mo_notes :: "string option"

definition maint_to_out :: "dict \<Rightarrow> string \<Rightarrow> maintenance_out" where
  "maint_to_out r name = \<lparr>mo_maintenance_id = py_key r ''Maintenance_ID'',
     mo_hardware_id = py_key r ''Hardware_ID'', mo_hardware_name = name, mo_date = py_key r ''Date'',
     mo_action_type = py_key r ''Action_Type'', mo_notes = or_none (py_get r ''Notes'')\<rparr>"

definition categories :: "string list" where
  "categories = [''Machine'', ''Grinder'', ''Basket'', ''Storage'']"

definition api_hardware_list :: "backend \<Rightarrow> session \<Rightarrow> hardware_out list res" where
  "api_hardware_list B s = map_sum id (map hw_to_out) (dual_hardware_list B None s)"

definition api_hardware_detail ::
  "backend \<Rightarrow> string \<Rightarrow> session \<Rightarrow> (hardware_out \<times> maintenance_out list) res" where
  "api_hardware_detail B hw s =
     (case dual_hardware_get B hw s of
        Inl e \<Rightarrow> Inl e
      | Inr None \<Rightarrow> Inl (HTTPException 404 ''Hardware item not found'')
      | Inr (Some item) \<Rightarrow>
          (let name = (if item ''Name'' = None then hw else py_key item ''Name'')
           in map_sum id (\<lambda>events. (hw_to_out item,
                map (\<lambda>e. maint_to_out e name) (sorted_desc (\<lambda>e. py_key e ''Date'') events)))
                (dual_maintenance_list B (Some hw) s)))"

text \<open>
  What a creation is given: the uuids of up to two inserts, the network, the language model and
  the storage of the image pipeline, and the random part of an object name. A failure of the
  pipeline is logged only.
\<close>

record hardware_env =
  he_first_id :: uuid
  he_second_id :: uuid
  he_net :: network
  he_llm :: llm_client
  he_storage :: storage
  he_hex :: string

definition url_scheme :: "network \<Rightarrow> string \<Rightarrow> string res" where
  "url_scheme N url = (case nw_parse N url of None \<Rightarrow> Inl ValueError | Some u \<Rightarrow> Inr (up_scheme u))"

text \<open>\<open>content_type.split("/")[-1].replace("jpeg", "jpg")\<close> for the types that can be downloaded.\<close>

definition hardware_ext :: "string \<Rightarrow> string" where
  "hardware_ext ct = (let e = last (split_on CHR ''/'' ct) in if e = ''jpeg'' then ''jpg'' else e)"

definition hardware_picture :: "hardware_env \<Rightarrow> string \<Rightarrow> string \<Rightarrow> string \<Rightarrow> string option" where
  "hardware_picture he hid name url =
     (let N = he_net he;
          image = source_bean_image N (he_llm he) [] name url (Some (fetch_page_context N url))
      in if image = [] then None
         else
           (case fetch_image_bytes N image of
              None \<Rightarrow> None
            | Some (bytes, ct) \<Rightarrow>
                (case fst (upload_image (he_storage he) bytes ct
                       (''hardware-images/'' @ hid @ ''-'' @ he_hex he @ ''.'' @ hardware_ext ct)
                       (assets_bucket (he_storage he)) Map.empty) of
                   Inl _ \<Rightarrow> None
                 | Inr path \<Rightarrow> Some path)))"

definition check_hardware :: "hardware_env \<Rightarrow> string \<Rightarrow> string \<Rightarrow> string option \<Rightarrow> unit res" where
  "check_hardware he category name url =
     (if category \<notin> set categories then Inl (HTTPException 422 ''Invalid category'')
      else if strip name = [] then Inl (HTTPException 422 ''Name is required'')
      else if truthy url then
        (case url_scheme (he_net he) (strip (the url)) of
           Inl e \<Rightarrow> Inl e
         | Inr scheme \<Rightarrow>
             if scheme \<notin> {''http'', ''https''}
             then Inl (HTTPException 422 ''product_url must be http or https'') else Inr ())
      else Inr ())"

definition api_hardware_create ::
  "backend \<Rightarrow> hardware_env \<Rightarrow> string \<Rightarrow> string \<Rightarrow> string option \<Rightarrow> session
     \<Rightarrow> hardware_out res \<times> session" where
  "api_hardware_create B he category name url s =
     (case check_hardware he category name url of
        Inl e \<Rightarrow> (Inl e, s)
      | Inr _ \<Rightarrow>
          (case dual_hardware_next_id B category of
             Inl e \<Rightarrow> (Inl e, s)
           | Inr hid \<Rightarrow>
               (let row = [''Hardware_ID'' \<mapsto> PStr hid, ''Category'' \<mapsto> PStr category,
                           ''Name'' \<mapsto> PStr (strip name),
                           ''Product_URL'' \<mapsto> PStr (strip (case url of None \<Rightarrow> [] | Some u \<Rightarrow> u)),
                           ''Local_Image_Path'' \<mapsto> PStr []]
                in andthen (dual_hardware_upsert B (he_first_id he) row s) (\<lambda>_ s.
                     (case (if truthy url then hardware_picture he hid (strip name) (strip (the url))
                            else None) of
                        None \<Rightarrow> (Inr (hw_to_out row), s)
                      | Some path \<Rightarrow>
                          (let row' = row(''Local_Image_Path'' \<mapsto> PStr path)
                           in case dual_hardware_upsert B (he_second_id he) row' s of
                                (Inl e, s) \<Rightarrow> (Inr (hw_to_out row), s)
                              | (Inr _, s) \<Rightarrow> (Inr (hw_to_out row'), s)))))))"

definition api_hardware_update ::
  "backend \<Rightarrow> uuid \<Rightarrow> string \<Rightarrow> string \<Rightarrow> string option \<Rightarrow> session \<Rightarrow> hardware_out res \<times> session" where
  "api_hardware_update B nid hw name category s =
     (case dual_hardware_get B hw s of
        Inl e \<Rightarrow> (Inl e, s)
      | Inr None \<Rightarrow> (Inl (HTTPException 404 ''Hardware item not found''), s)
      | Inr (Some item) \<Rightarrow>
          if strip name = [] then (Inl (HTTPException 422 ''Name is required''), s)
          else
            (let renamed = item(''Name'' \<mapsto> PStr (strip name));
                 row = (if truthy category \<and> the category \<in> set categories
                        then renamed(''Category'' \<mapsto> PStr (the category)) else renamed)
             in andthen (dual_hardware_upsert B nid row s) (\<lambda>_ s. (Inr (hw_to_out row), s))))"

section \<open>Maintenance\<close>

definition action_types :: "string \<Rightarrow> string list" where
  "action_types category =
     (if category = ''Machine'' then [''Backflush'', ''Descale'', ''Steam Wand Clean'']
      else if category = ''Grinder'' then [''Re-zero''] else [])"

definition hw_name :: "backend \<Rightarrow> session \<Rightarrow> string \<Rightarrow> string res" where
  "hw_name B s hw =
     (if hw = [] then Inr hw
      else map_sum id (\<lambda>item. case item of
             None \<Rightarrow> hw
           | Some r \<Rightarrow> if r ''Name'' = None then hw else py_key r ''Name'') (dual_hardware_get B hw s))"

fun named_events :: "backend \<Rightarrow> session \<Rightarrow> dict list \<Rightarrow> maintenance_out list res" where
  "named_events B s [] = Inr []"
| "named_events B s (e # es) =
     (case hw_name B s (py_key e ''Hardware_ID'') of
        Inl x \<Rightarrow> Inl x
      | Inr name \<Rightarrow> map_sum id (\<lambda>rest. maint_to_out e name # rest) (named_events B s es))"

definition api_maintenance_list ::
  "backend \<Rightarrow> string option \<Rightarrow> session \<Rightarrow> maintenance_out list res" where
  "api_maintenance_list B hw s =
     (case dual_maintenance_list B hw s of
        Inl e \<Rightarrow> Inl e
      | Inr events \<Rightarrow> named_events B s (sorted_desc (\<lambda>e. py_key e ''Date'') events))"

definition api_maintenance_create ::
  "backend \<Rightarrow> uuid \<Rightarrow> instant \<Rightarrow> string \<Rightarrow> string \<Rightarrow> string \<Rightarrow> string \<Rightarrow> session
     \<Rightarrow> maintenance_out res \<times> session" where
  "api_maintenance_create B nid db_now hw action date notes s =
     (case dual_hardware_get B hw s of
        Inl e \<Rightarrow> (Inl e, s)
      | Inr None \<Rightarrow> (Inl (HTTPException 404 ''Hardware not found''), s)
      | Inr (Some item) \<Rightarrow>
          if py_get item ''Category'' = PStr ''Basket''
          then (Inl (HTTPException 422 ''Basket hardware has no valid maintenance action types''), s)
          else if action \<notin> set (action_types (py_key item ''Category''))
          then (Inl (HTTPException 422 (''Invalid action type for '' @ shown item ''Category'')), s)
          else if cv_ordinal (bk_conv B) date = None
          then (Inl (HTTPException 422 ''date must be ISO format (YYYY-MM-DD)''), s)
          else
            (case dual_maintenance_list B None s of
               Inl e \<Rightarrow> (Inl e, s)
             | Inr events \<Rightarrow>
                 if list_ex (\<lambda>e. e ''Maintenance_ID'' = None) events then (Inl KeyError, s)
                 else
                   (let mid = make_maintenance_id (map (\<lambda>e. py_key e ''Maintenance_ID'') events);
                        row = [''Maintenance_ID'' \<mapsto> PStr mid, ''Hardware_ID'' \<mapsto> PStr hw,
                               ''Date'' \<mapsto> PStr date, ''Action_Type'' \<mapsto> PStr action,
                               ''Notes'' \<mapsto> PStr notes];
                        name = (if item ''Name'' = None then hw else py_key item ''Name'')
                    in andthen (dual_maintenance_add B nid db_now row s) (\<lambda>_ s.
                         (Inr (maint_to_out row name), s)))))"

section \<open>Inventory\<close>

record bag_out =
  go_bag_id :: string
  go_display_name :: string
  go_beans :: string
  go_roast_date :: "string option"
  go_roast_level :: "string option"
  go_catalog_id :: string
  go_status :: string
  go_storage_method :: "string option"

definition resolve_display_name :: "backend \<Rightarrow> dict \<Rightarrow> session \<Rightarrow> string res" where
  "resolve_display_name B bag s =
     (let own = (let d = py_get bag ''Display_Name''
                 in if py_true d then py_key bag ''Display_Name''
                    else if bag ''Beans'' \<noteq> None then shown bag ''Beans'' else shown bag ''Bag_ID'');
          cat_id = py_get bag ''Catalog_ID''
      in if \<not> py_true cat_id then Inr own
         else (case dual_catalog_get B (py_key bag ''Catalog_ID'') s of
                 Inl e \<Rightarrow> Inl e
               | Inr None \<Rightarrow> Inr own
               | Inr (Some cat) \<Rightarrow>
                   if cat ''Roaster'' = None \<or> cat ''Bean_Name'' = None then Inl KeyError
                   else Inr (shown cat ''Roaster'' @ '' '' @ em_dash @ '' '' @ shown cat ''Bean_Name'')))"

definition bag_to_out :: "dict \<Rightarrow> string \<Rightarrow> bag_out" where
  "bag_to_out bag name = \<lparr>go_bag_id = py_key bag ''Bag_ID'', go_display_name = name,
     go_beans = py_key bag ''Beans'', go_roast_date = or_none (py_get bag ''RoastDate''),
     go_roast_level = or_none (py_get bag ''RoastLevel''), go_catalog_id = py_key bag ''Catalog_ID'',
     go_status = py_key bag ''Status'', go_storage_method = or_none (py_get bag ''Storage_Method'')\<rparr>"

fun bags_out :: "backend \<Rightarrow> session \<Rightarrow> dict list \<Rightarrow> bag_out list res" where
  "bags_out B s [] = Inr []"
| "bags_out B s (b # bs) =
     (case resolve_display_name B b s of
        Inl e \<Rightarrow> Inl e
      | Inr name \<Rightarrow> map_sum id (\<lambda>rest. bag_to_out b name # rest) (bags_out B s bs))"

definition api_inventory_list :: "backend \<Rightarrow> string option \<Rightarrow> session \<Rightarrow> bag_out list res" where
  "api_inventory_list B status s =
     (case dual_inventory_list B (if status = Some ''all'' then None else status) s of
        Inl e \<Rightarrow> Inl e
      | Inr bags \<Rightarrow> bags_out B s bags)"

definition api_inventory_detail :: "backend \<Rightarrow> string \<Rightarrow> session \<Rightarrow> bag_out res" where
  "api_inventory_detail B bag_id s =
     (case dual_inventory_get B bag_id s of
        Inl e \<Rightarrow> Inl e
      | Inr None \<Rightarrow> Inl (HTTPException 404 ''Bag not found'')
      | Inr (Some bag) \<Rightarrow> map_sum id (bag_to_out bag) (resolve_display_name B bag s))"

definition api_inventory_patch ::
  "backend \<Rightarrow> uuid \<Rightarrow> string \<Rightarrow> string \<Rightarrow> session \<Rightarrow> bag_out res \<times> session" where
  "api_inventory_patch B nid bag_id status s =
     (if status \<notin> {''Active'', ''Finished''}
      then (Inl (HTTPException 422 ''status must be one of: ['Active', 'Finished']''), s)
      else
        (case dual_inventory_get B bag_id s of
           Inl e \<Rightarrow> (Inl e, s)
         | Inr None \<Rightarrow> (Inl (HTTPException 404 ''Bag not found''), s)
         | Inr (Some bag) \<Rightarrow>
             (let row = bag(''Status'' \<mapsto> PStr status)
              in andthen (dual_inventory_upsert B nid row s) (\<lambda>_ s.
                   (map_sum id (bag_to_out row) (resolve_display_name B row s), s)))))"

end
