(* ===== verification/ApiGuest.thy ===== *)
theory ApiGuest
  imports ApiBrewLog
begin

text \<open>
  The read-only views: the public guest view of a household (\<^verbatim>\<open>app/routers/api_guest.py\<close>) and
  the members' dashboard (\<^verbatim>\<open>app/routers/api_dashboard.py\<close>).
\<close>

section \<open>The guest view\<close>

text \<open>\<open>{row[key]: row for row in rows if row.get(key)}\<close>: the last row of a key wins.\<close>

definition last_lookup :: "string \<Rightarrow> dict list \<Rightarrow> lookup" where
  "last_lookup key rows =
     map (\<lambda>r. (py_key r key, r)) (filter (\<lambda>r. py_true (py_get r key)) (rev rows))"

definition guest_bag_name :: "dict \<Rightarrow> lookup \<Rightarrow> string" where
  "guest_bag_name bag cats =
     (let cat = row_of cats (py_key bag ''Catalog_ID'');
          roaster = py_key cat ''Roaster''; bean = py_key cat ''Bean_Name''
      in if roaster \<noteq> [] \<or> bean \<noteq> []
         then strip_dashes (roaster @ '' '' @ em_dash @ '' '' @ bean)
         else (case or_none (py_or (py_get bag ''Display_Name'') (py_get bag ''Beans'')) of
                 None \<Rightarrow> ''Coffee'' | Some t \<Rightarrow> t))"

record guest_shot =
  gs_date :: string
  gs_bag_display :: string
  gs_roast_level :: "string option"
  gs_machine_name :: "string option"
  gs_grinder_name :: "string option"
  gs_basket_name :: "string option"
  gs_storage_method :: "string option"
  gs_dose_in_g :: "string option"
  gs_yield_out_g :: "string option"
  gs_time_sec :: "string option"
  gs_shot_eligibility :: "string option"
  gs_taste_summary :: "string option"

definition guest_shot_of ::
  "conversions \<Rightarrow> dict \<Rightarrow> lookup \<Rightarrow> lookup \<Rightarrow> lookup \<Rightarrow> guest_shot" where
  "guest_shot_of C shot bags cats hws =
     (let bag = row_of bags (py_key shot ''Bag_ID'');
          cat = row_of cats (py_key bag ''Catalog_ID'');
          hw = (\<lambda>k. or_none (py_get (row_of hws (py_key shot k)) ''Name''))
      in \<lparr>gs_date = py_key shot ''Date'', gs_bag_display = guest_bag_name bag cats,
          gs_roast_level = or_none (py_or (py_get bag ''RoastLevel'') (py_get cat ''Roast_Level'')),
          gs_machine_name = hw ''Machine_ID'', gs_grinder_name = hw ''Grinder_ID'',
          gs_basket_name = hw ''Basket_ID'',
          gs_storage_method = or_none (py_get shot ''Storage_Method''),
          gs_dose_in_g = api_float C (py_get shot ''Dose_In_g''),
          gs_yield_out_g = api_float C (py_get shot ''Yield_Out_g''),
          gs_time_sec = api_float C (py_get shot ''Time_Sec''),
          gs_shot_eligibility = or_none (py_get shot ''Shot_Eligibility''),
          gs_taste_summary = or_none (py_get shot ''Taste_Summary'')\<rparr>)"

record guest_bag =
  gb_display_name :: string
  gb_beans :: "string option"
  gb_roast_level :: "string option"
  gb_status :: "string option"
  gb_storage_method :: "string option"

definition guest_bag_of :: "lookup \<Rightarrow> dict \<Rightarrow> guest_bag" where
  "guest_bag_of cats bag =
     (let cat = row_of cats (py_key bag ''Catalog_ID'')
      in \<lparr>gb_display_name = guest_bag_name bag cats,
          gb_beans = or_none (py_get bag ''Beans''),
          gb_roast_level = or_none (py_or (py_get bag ''RoastLevel'') (py_get cat ''Roast_Level'')),
          gb_status = or_none (py_get bag ''Status''),
          gb_storage_method = or_none (py_get bag ''Storage_Method'')\<rparr>)"

record guest_bean =
  gc_roaster :: string
  gc_bean_name :: string
  gc_roast_level :: string
  gc_image_path :: "string option"

definition guest_bean_of :: "dict \<Rightarrow> guest_bean" where
  "guest_bean_of r = \<lparr>gc_roaster = py_key r ''Roaster'', gc_bean_name = py_key r ''Bean_Name'',
     gc_roast_level = py_key r ''Roast_Level'', gc_image_path = or_none (py_get r ''Local_Image_Path'')\<rparr>"

record guest_view =
  gw_household_name :: string
  gw_active_bags :: "guest_bag list"
  gw_recent_shots :: "guest_shot list"
  gw_active_bag_count :: nat
  gw_recent_shot_count :: nat
  gw_entries :: "guest_shot list"
  gw_total :: nat
  gw_beans :: "guest_bean list"
  gw_can_write :: bool

text \<open>The queries of the view, in the transaction under the household's setting.\<close>

definition guest_tables ::
  "backend \<Rightarrow> session \<Rightarrow> (dict list \<times> dict list \<times> dict list \<times> dict list \<times> dict list \<times> nat) res" where
  "guest_tables B s =
     (case (dual_inventory_list B (Some ''Active'') s, dual_inventory_list B None s,
            dual_catalog_list B s, dual_hardware_list B None s, dual_brew_paginated B 1 25 s) of
        (Inr active, Inr bags, Inr cats, Inr hws, Inr (shots, cnt)) \<Rightarrow>
          Inr (active, bags, cats, hws, shots, cnt)
      | (Inl e, _) \<Rightarrow> Inl e
      | (_, Inl e, _) \<Rightarrow> Inl e
      | (_, _, Inl e, _) \<Rightarrow> Inl e
      | (_, _, _, Inl e, _) \<Rightarrow> Inl e
      | (_, _, _, _, Inl e) \<Rightarrow> Inl e)"

definition render_guest_view :: "backend \<Rightarrow> household \<Rightarrow> session \<Rightarrow> guest_view res" where
  "render_guest_view B h s =
     (case guest_tables B s of
        Inl e \<Rightarrow> Inl e
      | Inr (active, bags, cats, hws, shots, cnt) \<Rightarrow>
          (let cat = last_lookup ''Catalog_ID'' cats; bag = last_lookup ''Bag_ID'' bags;
               hw = last_lookup ''Hardware_ID'' hws;
               entries = map (\<lambda>r. guest_shot_of (bk_conv B) r bag cat hw) shots
           in Inr \<lparr>gw_household_name = h_name h, gw_active_bags = map (guest_bag_of cat) active,
                   gw_recent_shots = take 5 entries, gw_active_bag_count = length active,
                   gw_recent_shot_count = cnt, gw_entries = entries, gw_total = cnt,
                   gw_beans = map guest_bean_of cats, gw_can_write = False\<rparr>))"

definition guest_household_view ::
  "backend \<Rightarrow> env \<Rightarrow> uuid \<Rightarrow> string \<Rightarrow> session \<Rightarrow> guest_view res \<times> session" where
  "guest_household_view B E hid key s =
     (if key = [] then (Inl (HTTPException 422 ''key must not be empty''), s)
      else
        (case get_guest_token_include_expired s (hash_token (e_ext E) key) of
           None \<Rightarrow> (Inl (HTTPException 401 ''Invalid or expired guest token''), s)
         | Some g \<Rightarrow>
             if g_household_id g \<noteq> hid then (Inl (HTTPException 404 ''Guest view not found''), s)
             else if \<not> guest_unexpired (e_now E) g
             then (Inl (HTTPException 410 ''Guest link expired''), s)
             else
               (case get_household s hid of
                  None \<Rightarrow> (Inl (HTTPException 404 ''Household not found''), s)
                | Some h \<Rightarrow>
                    (let s = set_household_context hid s in (render_guest_view B h s, s)))))"

section \<open>The dashboard\<close>

record last_shot =
  ls_dose_in_g :: "string option"
  ls_yield_out_g :: "string option"
  ls_time_sec :: "string option"
  ls_shot_eligibility :: pyval

record dashboard_bag =
  db_bag_id :: string
  db_display_name :: string
  db_roast_level :: pyval
  db_days_since_last_shot :: "int option"
  db_last_shot :: "last_shot option"

text \<open>
  The catalog by identifier, the last row of a key winning; the shots of a bag in the order the
  repository lists them, then newest first.
\<close>

definition dashboard_name :: "(string \<times> dict) list \<Rightarrow> dict \<Rightarrow> string res" where
  "dashboard_name cats bag =
     (let own = (if bag ''Beans'' = None then py_key bag ''Bag_ID'' else py_key bag ''Beans'')
      in if \<not> py_true (py_get bag ''Catalog_ID'') then Inr own
         else (case map_of cats (py_key bag ''Catalog_ID'') of
                 None \<Rightarrow> Inr own
               | Some cat \<Rightarrow>
                   if cat ''Roaster'' = None \<or> cat ''Bean_Name'' = None then Inl KeyError
                   else Inr (shown cat ''Roaster'' @ '' '' @ em_dash @ '' '' @ shown cat ''Bean_Name'')))"

definition shots_of_bag :: "dict list \<Rightarrow> string \<Rightarrow> dict list" where
  "shots_of_bag shots bag =
     sorted_desc (\<lambda>r. py_key r ''Date'') (filter (\<lambda>r. bag \<noteq> [] \<and> py_key r ''Bag_ID'' = bag) shots)"

definition dashboard_bag_of ::
  "conversions \<Rightarrow> int \<Rightarrow> (string \<times> dict) list \<Rightarrow> dict list \<Rightarrow> dict \<Rightarrow> dashboard_bag res" where
  "dashboard_bag_of C today cats shots bag =
     (if bag ''Bag_ID'' = None then Inl KeyError
      else
        map_sum id (\<lambda>name. let mine = shots_of_bag shots (py_key bag ''Bag_ID'') in
          \<lparr>db_bag_id = py_key bag ''Bag_ID'', db_display_name = name,
           db_roast_level = py_get bag ''RoastLevel'',
           db_days_since_last_shot = (case mine of
               [] \<Rightarrow> None | r # _ \<Rightarrow> map_option (\<lambda>d. today - d) (ordinal_of C r)),
           db_last_shot = (case mine of
               [] \<Rightarrow> None
             | r # _ \<Rightarrow> Some \<lparr>ls_dose_in_g = api_float C (py_get r ''Dose_In_g''),
                 ls_yield_out_g = api_float C (py_get r ''Yield_Out_g''),
                 ls_time_sec = api_float C (py_get r ''Time_Sec''),
                 ls_shot_eligibility = py_get r ''Shot_Eligibility''\<rparr>)\<rparr>)
          (dashboard_name cats bag))"

fun dashboard_bags ::
  "conversions \<Rightarrow> int \<Rightarrow> (string \<times> dict) list \<Rightarrow> dict list \<Rightarrow> dict list \<Rightarrow> dashboard_bag list res" where
  "dashboard_bags C today cats shots [] = Inr []"
| "dashboard_bags C today cats shots (b # bs) =
     (case dashboard_bag_of C today cats shots b of
        Inl e \<Rightarrow> Inl e
      | Inr o1 \<Rightarrow> map_sum id (\<lambda>rest. o1 # rest) (dashboard_bags C today cats shots bs))"

definition api_dashboard :: "backend \<Rightarrow> int \<Rightarrow> session \<Rightarrow> dashboard_bag list res" where
  "api_dashboard B today s =
     (case dual_inventory_list B (Some ''Active'') s of
        Inl e \<Rightarrow> Inl e
      | Inr active \<Rightarrow>
          (case dual_catalog_list B s of
             Inl e \<Rightarrow> Inl e
           | Inr cats \<Rightarrow>
               if list_ex (\<lambda>r. r ''Catalog_ID'' = None) cats then Inl KeyError
               else
                 (case dual_brew_list B s of
                    Inl e \<Rightarrow> Inl e
                  | Inr shots \<Rightarrow>
                      dashboard_bags (bk_conv B) today
                        (map (\<lambda>r. (py_key r ''Catalog_ID'', r)) (rev cats)) shots active)))"

end
