(* ===== verification/Defaults.thy ===== *)
theory Defaults
  imports DualWrite
begin

text \<open>
  \<^verbatim>\<open>app/services/defaults.py\<close>: the values a brew-log form is filled with, from the most recent
  shot of the bag with the basket, of the bag, of active bags of the same roaster, or of active
  bags of the same roast level.
\<close>

definition field_map :: "(string \<times> string) list" where
  "field_map = [(''Machine_ID'', ''machine_id''), (''Grinder_ID'', ''grinder_id''),
     (''Basket_ID'', ''basket_id''), (''Storage_Method'', ''storage_method''),
     (''Dose_In_g'', ''dose_in_g''), (''Yield_Out_g'', ''yield_out_g''),
     (''Grind_Setting'', ''grind_setting'')]"

definition extract_defaults :: "dict \<Rightarrow> (string \<times> pyval) list" where
  "extract_defaults shot =
     List.map_filter (\<lambda>(col, snake). if py_get shot col \<in> {PNone, PStr []} then None
                                    else Some (snake, py_get shot col)) field_map"

text \<open>\<open>max(shots, key=..)\<close> returns the first of the maximal elements.\<close>

fun max_by :: "('a \<Rightarrow> 'k::linorder) \<Rightarrow> 'a \<Rightarrow> 'a list \<Rightarrow> 'a" where
  "max_by key best [] = best"
| "max_by key best (x # xs) = max_by key (if key best < key x then x else best) xs"

definition most_recent :: "dict list \<Rightarrow> dict option" where
  "most_recent shots =
     (case shots of [] \<Rightarrow> None | s # ss \<Rightarrow> Some (max_by (\<lambda>r. py_key r ''Date'') s ss))"

text \<open>The shots of those bags of a list that a test selects; the test may read the catalog.\<close>

fun shots_of_bags ::
  "backend \<Rightarrow> session \<Rightarrow> (dict \<Rightarrow> bool res) \<Rightarrow> dict list \<Rightarrow> dict list res" where
  "shots_of_bags B s test [] = Inr []"
| "shots_of_bags B s test (b # bs) =
     (case test b of
        Inl e \<Rightarrow> Inl e
      | Inr False \<Rightarrow> shots_of_bags B s test bs
      | Inr True \<Rightarrow>
          if b ''Bag_ID'' = None then Inl KeyError
          else
            (case dual_brew_for_bag B (py_key b ''Bag_ID'') s of
               Inl e \<Rightarrow> Inl e
             | Inr shots \<Rightarrow> map_sum id (\<lambda>rest. shots @ rest) (shots_of_bags B s test bs)))"

definition same_roaster :: "backend \<Rightarrow> session \<Rightarrow> pyval \<Rightarrow> dict \<Rightarrow> bool res" where
  "same_roaster B s roaster bag =
     (if \<not> py_true (py_get bag ''Catalog_ID'') then Inr False
      else map_sum id (\<lambda>c. case c of None \<Rightarrow> False | Some cat \<Rightarrow> py_get cat ''Roaster'' = roaster)
             (dual_catalog_get B (py_key bag ''Catalog_ID'') s))"

definition roaster_shots :: "backend \<Rightarrow> dict \<Rightarrow> session \<Rightarrow> dict list res" where
  "roaster_shots B bag s =
     (if \<not> py_true (py_get bag ''Catalog_ID'') then Inr []
      else
        (case dual_catalog_get B (py_key bag ''Catalog_ID'') s of
           Inl e \<Rightarrow> Inl e
         | Inr None \<Rightarrow> Inr []
         | Inr (Some cat) \<Rightarrow>
             if \<not> py_true (py_get cat ''Roaster'') then Inr []
             else
               (case dual_inventory_list B (Some ''Active'') s of
                  Inl e \<Rightarrow> Inl e
                | Inr bags \<Rightarrow> shots_of_bags B s (same_roaster B s (py_get cat ''Roaster'')) bags)))"

definition level_shots :: "backend \<Rightarrow> dict \<Rightarrow> session \<Rightarrow> dict list res" where
  "level_shots B bag s =
     (if \<not> py_true (py_get bag ''RoastLevel'') then Inr []
      else
        (case dual_inventory_list B (Some ''Active'') s of
           Inl e \<Rightarrow> Inl e
         | Inr bags \<Rightarrow> shots_of_bags B s
             (\<lambda>b. Inr (py_get b ''RoastLevel'' = py_get bag ''RoastLevel'')) bags))"

definition get_defaults ::
  "backend \<Rightarrow> string \<Rightarrow> string option \<Rightarrow> session \<Rightarrow> (string \<times> pyval) list res" where
  "get_defaults B bag_id basket_id s =
     (case dual_brew_for_bag B bag_id s of
        Inl e \<Rightarrow> Inl e
      | Inr shots \<Rightarrow>
          (let with_basket = (if truthy basket_id
                 then filter (\<lambda>r. py_get r ''Basket_ID'' = PStr (the basket_id)) shots else [])
           in case most_recent with_basket of
                Some shot \<Rightarrow> Inr (extract_defaults shot)
              | None \<Rightarrow>
                  (case most_recent shots of
                     Some shot \<Rightarrow> Inr (extract_defaults shot)
                   | None \<Rightarrow>
                       (case dual_inventory_get B bag_id s of
                          Inl e \<Rightarrow> Inl e
                        | Inr None \<Rightarrow> Inr []
                        | Inr (Some bag) \<Rightarrow>
                            (case roaster_shots B bag s of
                               Inl e \<Rightarrow> Inl e
                             | Inr rs \<Rightarrow>
                                 (case most_recent rs of
                                    Some shot \<Rightarrow> Inr (extract_defaults shot)
                                  | None \<Rightarrow>
                                      (case level_shots B bag s of
                                         Inl e \<Rightarrow> Inl e
                                       | Inr ls \<Rightarrow>
                                           (case most_recent ls of
                                              Some shot \<Rightarrow> Inr (extract_defaults shot)
                                            | None \<Rightarrow> Inr []))))))))"

text \<open>The two endpoints of \<^verbatim>\<open>app/routers/defaults.py\<close> and \<^verbatim>\<open>app/routers/api_defaults.py\<close>.\<close>

definition get_defaults_api :: "backend \<Rightarrow> string \<Rightarrow> session \<Rightarrow> (string \<times> pyval) list res" where
  "get_defaults_api B bag_id s = (if bag_id = [] then Inr [] else get_defaults B bag_id None s)"

record defaults_out =
  do_machine_id :: "string option"
  do_grinder_id :: "string option"
  do_basket_id :: "string option"
  do_storage_method :: "string option"
  do_dose_in_g :: "string option"
  do_yield_out_g :: "string option"
  do_grind_setting :: "string option"

definition api_get_defaults ::
  "backend \<Rightarrow> string \<Rightarrow> string option \<Rightarrow> session \<Rightarrow> defaults_out res" where
  "api_get_defaults B bag_id basket_id s =
     map_sum id (\<lambda>d. let at = (\<lambda>k. Option.bind (map_of d k) py_text) in
         \<lparr>do_machine_id = at ''machine_id'', do_grinder_id = at ''grinder_id'',
          do_basket_id = at ''basket_id'', do_storage_method = at ''storage_method'',
          do_dose_in_g = at ''dose_in_g'', do_yield_out_g = at ''yield_out_g'',
          do_grind_setting = at ''grind_setting''\<rparr>) (get_defaults B bag_id basket_id s)"

end
