(* ===== verification/Isolation.thy ===== *)
theory Isolation
  imports Slices ApiEquipment ApiGuest Defaults
begin

text \<open>
  Tenant isolation of the household's data: every reading endpoint depends on the rows of the
  household it runs under and on nothing of any other household; the lemmas
  here go up to the endpoints' helpers, the theorem stands in \<open>CatalogProps\<close> behind the last of them.
\<close>

section \<open>Reading\<close>

lemmas cases_cong = option.case_cong sum.case_cong bool.case_cong if_cong

lemma repo_same_view:
  assumes "same_view s t"
  shows "brew_list C s = brew_list C t" "brew_list_recent C n s = brew_list_recent C n t"
    "brew_list_paginated C p q s = brew_list_paginated C p q t"
    "brew_list_for_bag C bag s = brew_list_for_bag C bag t"
    "brew_existing_ids s = brew_existing_ids t" "brew_get C k s = brew_get C k t"
    "brew_get_by_idempotency_key C k s = brew_get_by_idempotency_key C k t"
    "catalog_list s = catalog_list t" "catalog_get k s = catalog_get k t"
    "inventory_list st s = inventory_list st t" "inventory_list_all s = inventory_list_all t"
    "inventory_get k s = inventory_get k t"
    "hardware_list c s = hardware_list c t" "hardware_get k s = hardware_get k t"
    "maintenance_list C hw s = maintenance_list C hw t" "maintenance_get C k s = maintenance_get C k t"
proof -
  note view = same_viewD [OF assms]
  have cat: "bag_catalog s = bag_catalog t" and ev: "event_hardware s = event_hardware t"
    by (rule ext, simp add: bag_catalog_def event_hardware_def view split: option.split)+
  have bw: "brew_where s hid p = brew_where t hid p" for hid p
    by (simp add: brew_where_def view)
  have bl: "brew_list C s = brew_list C t" by (simp add: brew_list_def bw view cong: cases_cong)
  show "brew_list C s = brew_list C t" "brew_list_recent C n s = brew_list_recent C n t"
    by (simp_all add: brew_list_recent_def bl)
qed (simp_all add: brew_list_paginated_def brew_where_def
      brew_list_for_bag_def brew_existing_ids_def brew_get_def brew_get_by_idempotency_key_def
      catalog_list_def catalog_get_def inventory_list_def inventory_list_all_def inventory_get_def
      bag_catalog_def hardware_list_def hardware_get_def maintenance_list_def
      maintenance_get_def event_hardware_def same_viewD [OF assms]
      cong: cases_cong)

lemma dual_same_view:
  assumes "same_view s t"
  shows "dual_brew_list B s = dual_brew_list B t" "dual_brew_recent B n s = dual_brew_recent B n t"
    "dual_brew_paginated B p q s = dual_brew_paginated B p q t"
    "dual_brew_for_bag B bag s = dual_brew_for_bag B bag t"
    "dual_brew_ids B s = dual_brew_ids B t" "dual_brew_get B k s = dual_brew_get B k t"
    "dual_brew_by_key B k s = dual_brew_by_key B k t"
    "dual_catalog_list B s = dual_catalog_list B t" "dual_catalog_get B k s = dual_catalog_get B k t"
    "dual_inventory_list B st s = dual_inventory_list B st t"
    "dual_inventory_list_all B s = dual_inventory_list_all B t"
    "dual_inventory_get B k s = dual_inventory_get B k t"
    "dual_hardware_list B c s = dual_hardware_list B c t"
    "dual_hardware_get B k s = dual_hardware_get B k t"
    "dual_maintenance_list B hw s = dual_maintenance_list B hw t"
    "dual_maintenance_get B k s = dual_maintenance_get B k t"
  by (simp_all add: dual_brew_list_def dual_brew_recent_def dual_brew_paginated_def
      dual_brew_for_bag_def dual_brew_ids_def dual_brew_get_def dual_brew_by_key_def
      dual_catalog_list_def dual_catalog_get_def dual_inventory_list_def
      dual_inventory_list_all_def dual_inventory_get_def dual_hardware_list_def
      dual_hardware_get_def dual_maintenance_list_def dual_maintenance_get_def
      repo_same_view [OF assms])

lemma lookups_same_view:
  assumes "same_view s t" shows "build_lookups B s = build_lookups B t"
  by (simp add: build_lookups_def dual_same_view [OF assms] cong: cases_cong)

lemma equipment_same_view:
  assumes "same_view s t"
  shows "hw_name B s = hw_name B t" "named_events B s es = named_events B t es"
    "resolve_display_name B b s = resolve_display_name B b t" "bags_out B s bs = bags_out B t bs"
proof -
  show hw: "hw_name B s = hw_name B t"
    by (rule ext) (simp add: hw_name_def dual_same_view [OF assms])
  show "named_events B s es = named_events B t es"
    by (induction es) (simp_all add: hw cong: cases_cong)
  show rn: "resolve_display_name B b s = resolve_display_name B b t" for b
    by (simp add: resolve_display_name_def dual_same_view [OF assms] cong: cases_cong)
  show "bags_out B s bs = bags_out B t bs"
    by (induction bs) (simp_all add: rn cong: cases_cong)
qed

lemma defaults_same_view:
  assumes "same_view s t" shows "get_defaults B bag b s = get_defaults B bag b t"
proof -
  have shots: "shots_of_bags B s test bs = shots_of_bags B t test bs" for test bs
    by (induction bs) (simp_all add: dual_same_view [OF assms] cong: cases_cong)
  have rst: "same_roaster B s r = same_roaster B t r" for r
    by (rule ext) (simp add: same_roaster_def dual_same_view [OF assms])
  show ?thesis
    by (simp add: get_defaults_def roaster_shots_def level_shots_def shots rst
        dual_same_view [OF assms] cong: cases_cong)
qed

section \<open>A backend for the witnesses\<close>

definition parse_digits :: "string \<Rightarrow> nat option" where
  "parse_digits t = (if t \<noteq> [] \<and> list_all is_digit t then Some (str_nat t) else None)"

definition plain_conversions :: conversions where
  "plain_conversions = \<lparr>cv_float = Some, cv_int = (\<lambda>t. map_option int (parse_digits t)),
     cv_trunc = (\<lambda>_. Inr 30), cv_numeric = Some, cv_datetime = (\<lambda>t. map_option int (parse_digits t)),
     cv_date = (\<lambda>i. nat_str (nat i)), cv_uuid = parse_digits, cv_iso_date = Some,
     cv_ordinal = (\<lambda>t. map_option int (parse_digits t))\<rparr>"

definition postgres_backend :: backend where
  "postgres_backend = \<lparr>bk_conv = plain_conversions, bk_use_postgres = True, bk_sql = True,
     bk_brew_log = [], bk_inventory = [], bk_catalog = [], bk_hardware = [], bk_maintenance = []\<rparr>"

definition machine_of :: "uuid \<Rightarrow> string \<Rightarrow> string \<Rightarrow> hardware_row" where
  "machine_of hid sid name = (blank_hardware 31 (Some sid))\<lparr>w_household_id := Some hid, w_name := name,
     w_category := ''Machine''\<rparr>"

definition two_households :: "hardware_row list \<Rightarrow> database" where
  "two_households foreign = demo_db\<lparr>households := [demo_household 5 1, demo_household 6 2],
     hardware := machine_of 5 ''M01'' ''Lever'' # foreign\<rparr>"

end
