(* ===== verification/WriteIsolation.thy ===== *)
theory WriteIsolation
  imports Isolation
begin

text \<open>
  Every writing endpoint changes at most the tenant rows of the household it runs under: all
  other rows of the tenant tables and all other tables keep their contents. The proof follows
  the layers: the SQL repositories, the dual-write wrappers, the endpoints; the catalog and the
  theorem follow in \<open>CatalogProps\<close>.
\<close>

section \<open>What lies outside a household's rows\<close>

definition outside :: "uuid \<Rightarrow> database \<Rightarrow> database" where
  "outside hid d = d\<lparr>
     brew_log := filter (\<lambda>r. b_household_id r \<noteq> Some hid) (brew_log d),
     catalog := filter (\<lambda>r. c_household_id r \<noteq> Some hid) (catalog d),
     inventory_bags := filter (\<lambda>r. v_household_id r \<noteq> Some hid) (inventory_bags d),
     hardware := filter (\<lambda>r. w_household_id r \<noteq> Some hid) (hardware d),
     maintenance_log := filter (\<lambda>r. n_household_id r \<noteq> Some hid) (maintenance_log d)\<rparr>"

text \<open>A session that works for a household at most, and has not gone beyond its rows.\<close>

definition within :: "uuid \<Rightarrow> database \<Rightarrow> session \<Rightarrow> bool" where
  "within hid d s \<longleftrightarrow> (guc s = None \<or> guc s = Some hid)
     \<and> outside hid (work s) = d \<and> outside hid (committed s) = d"

named_theorems within_intros "operations that stay within the own household"

lemma within_basic [within_intros]:
  "within hid d s \<Longrightarrow> within hid d (commit s)"
  "within hid d s \<Longrightarrow> within hid d (rollback s)"
  "within hid d s \<Longrightarrow> within hid d (set_household_context hid s)"
  by (auto simp: within_def)

lemma within_upd:
  assumes "within hid d s" "outside hid (f (work s)) = outside hid (work s)"
  shows "within hid d (upd_work f s)"
  using assms by (simp add: within_def)

lemma within_visible:
  assumes "within hid d s" "rls_pass s h" shows "h = Some hid"
  using assms by (auto simp: within_def rls_pass_def split: option.splits)

lemma within_andthen [within_intros]:
  assumes "within hid d (snd m)"
    and "\<And>x s. m = (Inr x, s) \<Longrightarrow> within hid d s \<Longrightarrow> within hid d (snd (k x s))"
  shows "within hid d (snd (andthen m k))"
  using assms by (auto simp: andthen_def split: prod.splits sum.splits)

lemma filter_update_within:
  assumes "\<And>x. x \<in> set xs \<Longrightarrow> p x \<Longrightarrow> \<not> q x \<and> \<not> q (f x)"
  shows "filter q (update_where p f xs) = filter q xs"
  using assms by (induction xs) auto

lemma filter_own_update:
  assumes "within hid d s" "\<And>x. key x = Some hid \<Longrightarrow> key (f x) = Some hid"
  shows "filter (\<lambda>r. key r \<noteq> Some hid) (update_where (\<lambda>k. rls_pass s (key k) \<and> p k) f xs)
    = filter (\<lambda>r. key r \<noteq> Some hid) xs"
  by (rule filter_update_within) (use within_visible [OF assms(1)] assms(2) in auto)

lemma filter_delete_within:
  assumes "\<And>x. p x \<Longrightarrow> \<not> q x"
  shows "filter q (filter (\<lambda>x. \<not> p x) xs) = filter q xs"
  using assms by (induction xs) auto

section \<open>The repositories\<close>

lemma fit_brew_household: "fit_brew_row C r = Inr r' \<Longrightarrow> b_household_id r' = b_household_id r"
  by (auto simp: fit_brew_row_def split: sum.splits)

lemma within_insert_brew [within_intros]:
  assumes "within hid d s" shows "within hid d (snd (insert_brew C r s))"
  using assms within_visible [OF assms] within_upd [OF assms]
  by (auto simp: insert_brew_def outside_def split: sum.splits)

lemma within_update_brew [within_intros]:
  assumes "within hid d s" "\<And>r. b_household_id r = Some hid \<Longrightarrow> b_household_id (f r) = Some hid"
  shows "within hid d (update_brew p f s)"
  unfolding update_brew_def
  by (rule within_upd [OF assms(1)]) (simp add: outside_def filter_own_update [OF assms(1)] assms(2))

lemma within_delete_brew [within_intros]:
  assumes "within hid d s" shows "within hid d (delete_brew p s)"
  unfolding delete_brew_def
proof (rule within_upd [OF assms])
  have "filter (\<lambda>r. b_household_id r \<noteq> Some hid) (filter
      (\<lambda>r. \<not> (rls_pass s (b_household_id r) \<and> p r)) (brew_log (work s)))
    = filter (\<lambda>r. b_household_id r \<noteq> Some hid) (brew_log (work s))"
    by (rule filter_delete_within) (use within_visible [OF assms] in auto)
  then show "outside hid ((work s)\<lparr>brew_log := filter
      (\<lambda>r. \<not> (rls_pass s (b_household_id r) \<and> p r)) (brew_log (work s))\<rparr>) = outside hid (work s)"
    by (simp add: outside_def)
qed

lemma within_brew_add [within_intros]:
  assumes "within hid d s" shows "within hid d (snd (brew_add C bid t c row s))"
  by (auto simp: brew_add_def assms intro!: within_intros split: sum.split)

lemma within_brew_update_feedback [within_intros]:
  assumes "within hid d s" shows "within hid d (brew_update_feedback shot t s)"
  using assms by (auto simp: brew_update_feedback_def intro!: within_intros split: option.split)

lemma patch_values_household:
  "patch_values C upd r = Inr r' \<Longrightarrow> b_household_id r' = b_household_id r"
  by (auto simp: patch_values_def Let_def map_sum_eq_Inr split: option.splits)

lemma scalar_in: "scalar_one_or_none xs = Inr (Some x) \<Longrightarrow> x \<in> set xs"
  by (cases xs rule: scalar_one_or_none.cases) auto

lemma within_brew_correction [within_intros]:
  assumes "within hid d s" shows "within hid d (snd (brew_update_correction C shot upd s))"
proof -
  have "within hid d (commit (update_brew
          (\<lambda>k. b_household_id k = Some h \<and> b_sheets_id k = Some shot) (\<lambda>_. r') s))"
    if "scalar_one_or_none (brew_where s h (\<lambda>r. b_sheets_id r = Some shot)) = Inr (Some r)"
      "patch_values C upd r = Inr r'" "current_household_id s = Some h" for h r r'
  proof -
    have "b_household_id r' = Some hid"
      using scalar_in [OF that(1)] patch_values_household [OF that(2)] that(3) assms
      by (auto simp: brew_where_def current_household_id_def within_def)
    then show ?thesis using assms by (auto intro!: within_intros)
  qed
  then show ?thesis
    using assms by (auto simp: brew_update_correction_def split: option.split sum.split)
qed

lemma within_brew_delete [within_intros]:
  assumes "within hid d s" shows "within hid d (snd (brew_delete_by_shot_id shot s))"
  using assms
  by (auto simp: brew_delete_by_shot_id_def intro!: within_intros split: option.split sum.split)

text \<open>One table of an upsert: a new row of the household, or an update of a visible row.\<close>

lemma within_append:
  assumes "within hid d s" "rls_pass s h"
  shows "h = Some hid \<Longrightarrow> outside hid (f (work s)) = outside hid (work s) \<Longrightarrow>
    within hid d (commit (upd_work f s))"
  using within_upd [OF assms(1)] within_basic(1) by blast

lemma insert_refused_None: "insert_refused s h nid ids sid taken = None \<Longrightarrow> rls_pass s h"
  by (auto simp: insert_refused_def split: if_splits)

lemma within_catalog_upsert [within_intros]:
  assumes w: "within hid d s" shows "within hid d (snd (catalog_upsert C nid row s))"
proof -
  have own: "catalog_values row h old = Inr r \<Longrightarrow> c_household_id r = h" for h old r
    by (auto simp: catalog_values_def split: option.splits)
  have upd: "within hid d (commit (upd_work (\<lambda>d. d\<lparr>catalog := update_where
      (\<lambda>k. rls_pass s (c_household_id k) \<and> p k) (\<lambda>_. r) (catalog d)\<rparr>) s))"
    if "c_household_id r = Some hid" for p r
    using that
    by (intro within_basic(1) within_upd [OF w])
      (simp add: outside_def filter_own_update [OF w])
  have ins: "within hid d (commit (upd_work (\<lambda>d. d\<lparr>catalog := catalog d @ [r]\<rparr>) s))"
    if "c_household_id r = Some hid" for r
    using that by (auto intro!: within_basic(1) within_upd [OF w] simp: outside_def)
  show ?thesis
    using w
    by (auto simp: catalog_upsert_def Let_def split: sum.split option.split
        dest!: own within_visible [OF w] insert_refused_None intro!: upd ins)
qed

lemma within_inventory_upsert [within_intros]:
  assumes w: "within hid d s" shows "within hid d (snd (inventory_upsert C nid row s))"
proof -
  have own: "v_household_id (inventory_values C row h old) = h" for h old
    by (simp add: inventory_values_def)
  have upd: "within hid d (commit (upd_work (\<lambda>d. d\<lparr>inventory_bags := update_where
      (\<lambda>k. rls_pass s (v_household_id k) \<and> p k) (inventory_values C row (Some hid))
      (inventory_bags d)\<rparr>) s))" for p
    by (intro within_basic(1) within_upd [OF w])
      (simp add: outside_def filter_own_update [OF w] own)
  have ins: "within hid d (commit (upd_work (\<lambda>d. d\<lparr>inventory_bags := inventory_bags d
      @ [inventory_values C row (Some hid) b]\<rparr>) s))" for b
    by (auto intro!: within_basic(1) within_upd [OF w] simp: outside_def own)
  show ?thesis
    using w
    by (auto simp: inventory_upsert_def Let_def own split: sum.split option.split
        dest!: within_visible [OF w] insert_refused_None intro!: upd ins)
qed

lemma within_hardware_upsert [within_intros]:
  assumes w: "within hid d s" shows "within hid d (snd (hardware_upsert C nid row s))"
proof -
  have own: "hardware_values row h old = Inr r \<Longrightarrow> w_household_id r = h" for h old r
    by (auto simp: hardware_values_def split: option.splits)
  have upd: "within hid d (commit (upd_work (\<lambda>d. d\<lparr>hardware := update_where
      (\<lambda>k. rls_pass s (w_household_id k) \<and> p k) (\<lambda>_. r) (hardware d)\<rparr>) s))"
    if "w_household_id r = Some hid" for p r
    using that
    by (intro within_basic(1) within_upd [OF w])
      (simp add: outside_def filter_own_update [OF w])
  have ins: "within hid d (commit (upd_work (\<lambda>d. d\<lparr>hardware := hardware d @ [r]\<rparr>) s))"
    if "w_household_id r = Some hid" for r
    using that by (auto intro!: within_basic(1) within_upd [OF w] simp: outside_def)
  show ?thesis
    using w
    by (auto simp: hardware_upsert_def Let_def split: sum.split option.split
        dest!: own within_visible [OF w] insert_refused_None intro!: upd ins)
qed

lemma within_maintenance_add [within_intros]:
  assumes w: "within hid d s" shows "within hid d (snd (maintenance_add C nid t row s))"
proof -
  have "within hid d (snd (insert_maintenance r s))" for r
    using w within_visible [OF w]
    by (auto simp: insert_maintenance_def outside_def dest!: insert_refused_None
        split: option.split intro!: within_upd [OF w])
  then show ?thesis
    using w by (auto simp: maintenance_add_def Let_def intro!: within_intros split: sum.split)
qed

section \<open>The wrappers\<close>

lemma within_dual_write [within_intros]:
  assumes "within hid d s" "\<And>t. within hid d t \<Longrightarrow> within hid d (snd (f t))"
  shows "within hid d (snd (dual_write B x f s))"
  using assms(1) assms(2) [OF assms(1)]
  by (auto simp: dual_write_def intro!: within_intros split: sum.split prod.split)

lemma within_dual_plain [within_intros]:
  assumes "within hid d s" "\<And>t. within hid d t \<Longrightarrow> within hid d (f t)"
  shows "within hid d (snd (dual_plain B f s))"
  using assms by (auto simp: dual_plain_def split: sum.split)

lemma within_dual [within_intros]:
  assumes "within hid d s"
  shows "within hid d (snd (dual_brew_add B bid t c row s))"
    "within hid d (snd (dual_brew_commit B s))" "within hid d (snd (dual_brew_rollback B s))"
    "within hid d (snd (dual_brew_set_context B hid s))"
    "within hid d (snd (dual_brew_update_feedback B shot txt s))"
    "within hid d (snd (dual_brew_update_correction B shot upd s))"
    "within hid d (snd (dual_brew_delete B shot s))"
    "within hid d (snd (dual_catalog_upsert B nid row s))"
    "within hid d (snd (dual_inventory_upsert B nid row s))"
    "within hid d (snd (dual_hardware_upsert B nid row s))"
    "within hid d (snd (dual_maintenance_add B nid t row s))"
  using assms
  by (simp_all add: dual_brew_add_def dual_brew_commit_def dual_brew_rollback_def
      dual_brew_set_context_def dual_brew_update_feedback_def dual_brew_update_correction_def
      dual_brew_delete_def dual_catalog_upsert_def dual_inventory_upsert_def
      dual_hardware_upsert_def dual_maintenance_add_def within_intros split: sum.split)

section \<open>The endpoints\<close>

lemma within_feedback [within_intros]:
  assumes "within hid d s"
  shows "within hid d (snd (get_ai_feedback B llm today shot extra force raise s))"
proof -
  have "within hid d (snd (complete_feedback B llm raise shot p s))" for p
    using assms by (auto simp: complete_feedback_def intro!: within_intros split: sum.split err.split)
  then show ?thesis
    using assms by (auto simp: get_ai_feedback_def split: sum.split option.split)
qed

lemma within_create_shot [within_intros]:
  assumes "within hid d s" "m_household_id m = hid"
  shows "within hid d (snd (create_shot B ce body dt key m s))"
proof -
  have add: "within hid d (snd (add_and_render B ce row s))" for row
    using assms(1)
    by (auto simp: add_and_render_def Let_def intro!: within_intros split: sum.split)
  have fb: "within hid d (feedback_after_create B ce m shot extra t)" if "within hid d t" for shot extra t
  proof -
    have "within hid d (snd (andthen (if bk_use_postgres B then dual_brew_set_context B (m_household_id m) t
        else (Inr (), t)) (\<lambda>_ s. get_ai_feedback B (ce_llm ce) (ce_today_ordinal ce) shot (Some extra)
          False False s)))"
      using that by (auto simp: assms(2) intro!: within_intros)
    then show ?thesis
      by (auto simp: feedback_after_create_def intro!: within_intros split: prod.split sum.split err.split)
  qed
  have rc: "within hid d (snd (recover_conflict B m key t))" if "within hid d t" for t
    using that
    by (auto simp: recover_conflict_def assms(2) intro!: within_intros split: option.split sum.split)
  show ?thesis
    using assms(1) add
    by (auto simp: create_shot_def Let_def intro!: fb rc within_intros split: sum.split prod.split)
      (metis snd_conv)+
qed

lemma within_create [within_intros]:
  assumes "within hid d s" "m_household_id m = hid"
  shows "within hid d (snd (snd (api_brew_log_create B ce body m c s)))"
proof -
  have "within hid d t" if "create_shot B ce body dt key m s = (r, t)" for dt key r t
    using within_create_shot [OF assms, of B ce body dt key] that by simp
  then show ?thesis
    using assms(1)
    by (auto simp: api_brew_log_create_def split: sum.split option.split prod.split)
qed

lemma within_equipment [within_intros]:
  assumes "within hid d s"
  shows "within hid d (snd (api_hardware_create B he cat nm url s))"
    "within hid d (snd (api_hardware_update B nid hw nm cato s))"
    "within hid d (snd (api_maintenance_create B nid t hw action date notes s))"
    "within hid d (snd (api_inventory_patch B nid bag status s))"
proof -
  have up: "within hid d t'" if "dual_hardware_upsert B n row t = (r, t')" "within hid d t" for n row t r t'
    using within_dual(10) [OF that(2), of B n row] that(1) by simp
  show "within hid d (snd (api_hardware_create B he cat nm url s))"
    using assms
    by (auto simp: api_hardware_create_def Let_def split: sum.split option.split prod.split
        intro!: within_intros dest: up)
qed (use assms in \<open>auto simp: api_hardware_update_def api_maintenance_create_def
      api_inventory_patch_def Let_def split: sum.split option.split intro!: within_intros\<close>)

lemma within_brew_endpoints [within_intros]:
  assumes "within hid d s"
  shows "within hid d (snd (api_brew_log_patch B shot body s))"
    "within hid d (snd (api_brew_log_delete B shot s))"
    "m_household_id m = hid \<Longrightarrow>
       within hid d (snd (api_brew_log_feedback_generate B llm today shot m s))"
proof -
  have gen: "within (m_household_id m) d t"
    if "andthen (dual_brew_set_context B (m_household_id m) s) (\<lambda>_.
         get_ai_feedback B llm today shot extra True True) = (r, t)" "within (m_household_id m) d s"
    for extra r t
    using within_andthen [OF within_dual(4) [OF that(2), of B],
        of "\<lambda>_. get_ai_feedback B llm today shot extra True True"] that(1) within_feedback
    by fastforce
  show "m_household_id m = hid \<Longrightarrow>
      within hid d (snd (api_brew_log_feedback_generate B llm today shot m s))"
    using assms
    by (auto simp: api_brew_log_feedback_generate_def split: sum.split option.split prod.split dest: gen)
qed (use assms in \<open>auto simp: api_brew_log_patch_def api_brew_log_delete_def
      split: option.split sum.split intro!: within_intros\<close>)

definition new_machine :: hardware_env where
  "new_machine = \<lparr>he_first_id = 70, he_second_id = 71, he_net = open_net, he_llm = noop_client,
     he_storage = \<lparr>sg_project = [], sg_upload = (\<lambda>_ _ _ _. False)\<rparr>, he_hex = ''0a''\<rparr>"

end
