(* ===== verification/BrewStore.thy ===== *)
theory BrewStore
  imports Interfaces WriteIsolation
begin

text \<open>
  What the brew-log repository promises a household: a finite map from shot identifiers to
  shots. Adding puts a shot, feedback and correction change the fields they name, deletion
  removes one; what other households do has no effect. The commands are run as the application
  runs them, each in its own transaction under the setting of the household that issued it.
\<close>

section \<open>The abstraction\<close>

definition household_shots :: "conversions \<Rightarrow> uuid \<Rightarrow> database \<Rightarrow> string \<Rightarrow> dict option" where
  "household_shots C hid d k = map_option (brew_to_dict C)
     (find (\<lambda>r. b_household_id r = Some hid \<and> b_sheets_id r = Some k) (brew_log d))"

text \<open>The unique constraint of the column \<open>sheets_id\<close>.\<close>

definition shots_unique :: "database \<Rightarrow> bool" where
  "shots_unique d \<longleftrightarrow> (\<forall>k. count_where (\<lambda>r. b_sheets_id r = Some k) (brew_log d) \<le> 1)"

section \<open>The specification\<close>

text \<open>A shot as it is stored: texts as given, numbers as their columns keep them.\<close>

definition stored_number :: "conversions \<Rightarrow> pyval \<Rightarrow> pyval" where
  "stored_number C v = or_empty (Option.bind (to_float C v) (cv_numeric C))"

definition first_text :: "pyval \<Rightarrow> pyval \<Rightarrow> pyval" where
  "first_text a b = or_empty (if py_true a then py_text a else if py_true b then py_text b else None)"

definition stored_shot :: "conversions \<Rightarrow> instant \<Rightarrow> dict \<Rightarrow> dict" where
  "stored_shot C now row =
     (let txt = (\<lambda>k. or_empty (py_text (py_get row k))); num = (\<lambda>k. stored_number C (py_get row k)) in [
     ''Shot_ID'' \<mapsto> txt ''Shot_ID'',
     ''Date'' \<mapsto> PStr (cv_date C (case parse_datetime C (py_get row ''Date'') of
                                    None \<Rightarrow> now | Some t \<Rightarrow> t)),
     ''Bag_ID'' \<mapsto> txt ''Bag_ID'', ''Machine_ID'' \<mapsto> txt ''Machine_ID'',
     ''Grinder_ID'' \<mapsto> txt ''Grinder_ID'', ''Basket_ID'' \<mapsto> txt ''Basket_ID'',
     ''Dose_In_g'' \<mapsto> num ''Dose_In_g'', ''Yield_Out_g'' \<mapsto> num ''Yield_Out_g'',
     ''Time_Sec'' \<mapsto> or_empty (map_option int_str (to_int C (py_get row ''Time_Sec''))),
     ''Grind_Setting'' \<mapsto> num ''Grind_Setting'',
     ''Shot_Eligibility'' \<mapsto> txt ''Shot_Eligibility'', ''Taste_Summary'' \<mapsto> txt ''Taste_Summary'',
     ''User_Notes'' \<mapsto> txt ''User_Notes'', ''AI_Feedback'' \<mapsto> txt ''AI_Feedback'',
     ''Storage_Method'' \<mapsto> txt ''Storage_Method'',
     ''Idempotency_Key'' \<mapsto>
        first_text (py_get row ''idempotency_key'') (py_get row ''Idempotency_Key''),
     ''Idempotency_Request_Hash'' \<mapsto>
        first_text (py_get row ''idempotency_request_hash'') (py_get row ''Idempotency_Request_Hash'')])"

definition put_field :: "string \<Rightarrow> pyval option \<Rightarrow> dict \<Rightarrow> dict" where
  "put_field k v shot = (case v of None \<Rightarrow> shot | Some x \<Rightarrow> shot(k \<mapsto> x))"

definition corrected_shot :: "conversions \<Rightarrow> dict \<Rightarrow> dict \<Rightarrow> dict" where
  "corrected_shot C upd shot =
     (let txt = (\<lambda>v. first_text v PNone)
      in put_field ''Grind_Setting'' (map_option (stored_number C) (upd ''grind_setting''))
          (put_field ''Shot_Eligibility'' (map_option txt (upd ''shot_eligibility''))
            (put_field ''User_Notes'' (map_option txt (upd ''user_notes''))
              (put_field ''Taste_Summary'' (map_option txt (upd ''taste_summary'')) shot))))"

datatype brew_cmd =
    AddShot uuid instant dict
  | SetFeedback string string
  | Correct string dict
  | Drop string

text \<open>Whether the command succeeded is its outcome.\<close>

fun spec_brew :: "conversions \<Rightarrow> (string \<Rightarrow> dict option) \<Rightarrow> brew_cmd \<Rightarrow> bool \<Rightarrow> (string \<Rightarrow> dict option)" where
  "spec_brew C V (AddShot bid now row) ok =
     (if ok then (case py_text (py_get row ''Shot_ID'') of
                    None \<Rightarrow> V | Some k \<Rightarrow> V(k \<mapsto> stored_shot C now row)) else V)"
| "spec_brew C V (SetFeedback k t) ok = V(k := map_option (\<lambda>shot. shot(''AI_Feedback'' \<mapsto> PStr t)) (V k))"
| "spec_brew C V (Correct k upd) ok =
     (if ok then V(k := map_option (corrected_shot C upd) (V k)) else V)"
| "spec_brew C V (Drop k) ok = V(k := None)"

definition spec_for ::
  "conversions \<Rightarrow> uuid \<Rightarrow> (string \<Rightarrow> dict option) \<Rightarrow> uuid \<times> brew_cmd \<Rightarrow> bool \<Rightarrow> (string \<Rightarrow> dict option)"
where
  "spec_for C hid V c ok = (if fst c = hid then spec_brew C V (snd c) ok else V)"

section \<open>The implementation\<close>

definition in_postgres :: "backend \<Rightarrow> backend" where
  "in_postgres B = B\<lparr>bk_use_postgres := True, bk_sql := True\<rparr>"

fun run_brew :: "backend \<Rightarrow> brew_cmd \<Rightarrow> session \<Rightarrow> bool \<times> session" where
  "run_brew B (AddShot bid now row) s = (case dual_brew_add B bid now True row s of (r, t) \<Rightarrow> (is_ok r, t))"
| "run_brew B (SetFeedback k f) s = (case dual_brew_update_feedback B k f s of (r, t) \<Rightarrow> (is_ok r, t))"
| "run_brew B (Correct k upd) s = (case dual_brew_update_correction B k upd s of (r, t) \<Rightarrow> (is_ok r, t))"
| "run_brew B (Drop k) s = (case dual_brew_delete B k s of (r, t) \<Rightarrow> (is_ok r, t))"

definition exec_brew :: "backend \<Rightarrow> database \<Rightarrow> uuid \<times> brew_cmd \<Rightarrow> database \<times> bool" where
  "exec_brew B d c =
     (case run_brew (in_postgres B) (snd c) (set_household_context (fst c) (open_session d)) of
        (ok, s) \<Rightarrow> (close_session s, ok))"

section \<open>The simulation\<close>

lemma in_postgres_simps [simp]:
  "bk_use_postgres (in_postgres B)" "bk_sql (in_postgres B)" "bk_conv (in_postgres B) = bk_conv B"
  by (simp_all add: in_postgres_def)

lemma dual_postgres:
  assumes "bk_use_postgres B" "bk_sql B"
  shows "dual_read B x y = x" "dual_plain B g s = (Inr (), g s)"
    "dual_write B sk f s = (case f s of (Inl e, s') \<Rightarrow> (Inl e, rollback s') | (Inr v, s') \<Rightarrow> (Inr v, s'))"
  using assms
  by (simp_all add: dual_read_def dual_write_def dual_plain_def sql_repo_for_read_def require_sql_repo_def)

lemma scalar_unique:
  "count_where p xs \<le> 1 \<Longrightarrow> scalar_one_or_none (filter p xs) = Inr (find p xs)"
proof (induction xs)
  case (Cons x xs)
  then show ?case
  proof (cases "p x")
    case True
    then have "filter p xs = []" using Cons.prems by (simp add: count_where_def)
    with True show ?thesis by simp
  qed simp
qed simp

lemma own_row_unique:
  assumes "shots_unique d"
  shows "count_where (\<lambda>r. b_household_id r = Some hid \<and> b_sheets_id r = Some k) (brew_log d) \<le> 1"
proof -
  have "count_where (\<lambda>r. b_household_id r = Some hid \<and> b_sheets_id r = Some k) (brew_log d)
      \<le> count_where (\<lambda>r. b_sheets_id r = Some k) (brew_log d)"
    by (rule count_where_mono) simp
  with assms show ?thesis unfolding shots_unique_def by (meson le_trans)
qed

lemma own_rows:
  assumes "guc s = Some hid"
  shows "brew_where s hid p = filter (\<lambda>r. b_household_id r = Some hid \<and> p r) (brew_log (work s))"
  using assms
  by (auto simp: brew_where_def visible_brew_log_def intro!: filter_cong)

lemma own_shot:
  assumes "guc s = Some hid" "shots_unique (work s)"
  shows "scalar_one_or_none (brew_where s hid (\<lambda>r. b_sheets_id r = Some k))
    = Inr (find (\<lambda>r. b_household_id r = Some hid \<and> b_sheets_id r = Some k) (brew_log (work s)))"
  using own_rows [OF assms(1)] scalar_unique [OF own_row_unique [OF assms(2)]] by simp

lemma brew_get_view:
  assumes "guc s = Some hid" "shots_unique (work s)"
  shows "brew_get C k s = Inr (household_shots C hid (work s) k)"
  using own_shot [OF assms] assms(1)
  by (simp add: brew_get_def current_household_id_def household_shots_def)

lemma fit_brew_rowD:
  assumes "fit_brew_row C r = Inr r'"
  shows "b_sheets_id r' = b_sheets_id r" "b_household_id r' = b_household_id r"
    "b_id r' = b_id r" "b_idempotency_key r' = b_idempotency_key r"
    "b_ai_feedback r' = b_ai_feedback r" "b_bag_id r' = b_bag_id r"
    "b_idempotency_request_hash r' = b_idempotency_request_hash r"
  using assms by (auto simp: fit_brew_row_def split: sum.splits)

lemma fit_numeric_Inr: "fit_numeric C v = Inr w \<Longrightarrow> w = Option.bind v (cv_numeric C)"
  by (auto simp: fit_numeric_def split: option.splits)

lemma fit_int_Inr: "fit_int n v = Inr w \<Longrightarrow> w = v"
  by (auto simp: fit_int_def split: option.splits if_splits)

lemma py_or_text: "(if py_true (py_or a b) then py_text (py_or a b) else None)
    = (if py_true a then py_text a else if py_true b then py_text b else None)"
  by (simp add: py_or_def)

lemma stored_shot_entry:
  assumes "fit_brew_row C (brew_entry C bid now h row) = Inr r"
  shows "brew_to_dict C r = stored_shot C now row"
proof -
  let ?e = "brew_entry C bid now h row"
  have r: "r = ?e\<lparr>b_dose_g := Option.bind (b_dose_g ?e) (cv_numeric C),
      b_yield_g := Option.bind (b_yield_g ?e) (cv_numeric C),
      b_grind_setting := Option.bind (b_grind_setting ?e) (cv_numeric C)\<rparr>"
    using assms
    by (auto simp: fit_brew_row_def dest!: fit_numeric_Inr fit_int_Inr split: sum.splits)
  show ?thesis
    unfolding r brew_to_dict_def stored_shot_def stored_number_def first_text_def brew_entry_def Let_def
    by (simp add: py_or_text)
qed

lemma brew_add_result:
  assumes "brew_add C bid now do_commit row s = (r, t)"
  shows "case r of
      Inl e \<Rightarrow> t = s
    | Inr _ \<Rightarrow> \<exists>h q. row_household_id_or_context C s row = Inr h \<and> rls_pass s h
        \<and> fit_brew_row C (brew_entry C bid now h row) = Inr q
        \<and> \<not> list_ex (brew_conflict q) (brew_log (work s))
        \<and> t = (if do_commit then commit else id)
                (upd_work (\<lambda>d. d\<lparr>brew_log := brew_log d @ [q]\<rparr>) s)"
  using assms fit_brew_rowD(2)
  by (auto simp: brew_add_def insert_brew_def brew_entry_def Let_def split: sum.splits if_splits)

lemma new_shot_unique:
  assumes "shots_unique d" "\<not> list_ex (brew_conflict q) (brew_log d)"
  shows "shots_unique (d\<lparr>brew_log := brew_log d @ [q]\<rparr>)"
proof -
  have "count_where (\<lambda>r. b_sheets_id r = Some k) (brew_log d) = 0" if "b_sheets_id q = Some k" for k
    using assms(2) that by (auto simp: count_where_def filter_empty_conv list_ex_iff brew_conflict_def)
  with assms(1) show ?thesis by (auto simp: shots_unique_def)
qed

lemma new_shot_view:
  assumes "\<not> list_ex (brew_conflict q) (brew_log d)" "b_household_id q = Some h"
  shows "household_shots C hid (d\<lparr>brew_log := brew_log d @ [q]\<rparr>) = (
    if hid = h then (case b_sheets_id q of
        None \<Rightarrow> household_shots C hid d
      | Some k \<Rightarrow> (household_shots C hid d)(k \<mapsto> brew_to_dict C q))
    else household_shots C hid d)"
proof -
  have "find (\<lambda>r. b_household_id r = Some hid \<and> b_sheets_id r = Some k) (brew_log d) = None"
    if "b_sheets_id q = Some k" for k
    using assms(1) that by (auto simp: find_None_all list_ex_iff brew_conflict_def)
  then show ?thesis
    by (auto simp: household_shots_def find_append assms(2) fun_eq_iff split: option.split)
qed

text \<open>An update of the rows with one identifier, and a delete of them.\<close>

definition update_shot :: "uuid \<Rightarrow> string \<Rightarrow> (brew_log_row \<Rightarrow> brew_log_row) \<Rightarrow> session \<Rightarrow> session" where
  "update_shot hid k f s =
     update_brew (\<lambda>r. b_household_id r = Some hid \<and> b_sheets_id r = Some k) f s"

lemma updated_view:
  assumes "guc s = Some hid"
    and "\<And>r. r \<in> set (brew_log (work s)) \<Longrightarrow> b_household_id r = Some hid \<and> b_sheets_id r = Some k \<Longrightarrow>
      b_sheets_id (f r) = Some k \<and> b_household_id (f r) = Some hid"
  shows "shots_unique (work s) \<Longrightarrow> shots_unique (work (update_shot hid k f s))"
    and "household_shots C hid' (work (update_shot hid k f s)) = (
      if hid' = hid then (household_shots C hid' (work s))(k := map_option (brew_to_dict C \<circ> f)
        (find (\<lambda>r. b_household_id r = Some hid \<and> b_sheets_id r = Some k) (brew_log (work s))))
      else household_shots C hid' (work s))"
proof -
  let ?p = "\<lambda>r. b_household_id r = Some hid \<and> b_sheets_id r = Some k"
  have log: "brew_log (work (update_shot hid k f s)) = update_where ?p f (brew_log (work s))"
    using assms(1) by (auto simp: update_shot_def update_brew_def update_where_def)
  have count: "count_where (\<lambda>r. b_sheets_id r = Some j) (update_where ?p f (brew_log (work s)))
      = count_where (\<lambda>r. b_sheets_id r = Some j) (brew_log (work s))" for j
    by (rule count_update_where) (use assms(2) in auto)
  show "shots_unique (work s) \<Longrightarrow> shots_unique (work (update_shot hid k f s))"
    by (simp add: shots_unique_def log count)
  have find: "find (\<lambda>r. b_household_id r = Some hid' \<and> b_sheets_id r = Some j) (update_where ?p f xs)
      = map_option (\<lambda>r. if ?p r then f r else r)
          (find (\<lambda>r. b_household_id r = Some hid' \<and> b_sheets_id r = Some j) xs)"
    if "\<And>r. r \<in> set xs \<Longrightarrow> ?p r \<Longrightarrow> ?p (f r)" for j xs
    using that by (induction xs) auto
  show "household_shots C hid' (work (update_shot hid k f s)) = (
      if hid' = hid then (household_shots C hid' (work s))(k := map_option (brew_to_dict C \<circ> f)
        (find ?p (brew_log (work s)))) else household_shots C hid' (work s))"
    using find [of "brew_log (work s)"] assms(2)
    by (auto simp: household_shots_def log fun_eq_iff option.map_comp comp_def
        intro!: map_option_cong dest: find_Some_in)
qed

lemma dropped_view:
  fixes s :: session and k :: string
  assumes "guc s = Some hid"
  defines "t \<equiv> delete_brew (\<lambda>r. b_household_id r = Some hid \<and> b_sheets_id r = Some k) s"
  shows "shots_unique (work s) \<Longrightarrow> shots_unique (work t)"
    and "household_shots C hid' (work t) =
      (if hid' = hid then (household_shots C hid' (work s))(k := None) else household_shots C hid' (work s))"
proof -
  have log: "brew_log (work t) = filter (\<lambda>r. \<not> (b_household_id r = Some hid \<and> b_sheets_id r = Some k))
      (brew_log (work s))"
    using assms(1) by (auto simp: t_def delete_brew_def intro!: filter_cong)
  show "shots_unique (work s) \<Longrightarrow> shots_unique (work t)"
    unfolding shots_unique_def log by (meson count_where_filter_le le_trans)
  show "household_shots C hid' (work t) =
      (if hid' = hid then (household_shots C hid' (work s))(k := None) else household_shots C hid' (work s))"
    by (auto simp: household_shots_def log find_filter fun_eq_iff find_None_all
        intro!: arg_cong [of _ _ "map_option _"] find_cong_set)
qed

lemma dict_update:
  "brew_to_dict C (r\<lparr>b_taste_summary := v\<rparr>) = (brew_to_dict C r)(''Taste_Summary'' \<mapsto> or_empty v)"
  "brew_to_dict C (r\<lparr>b_notes := v\<rparr>) = (brew_to_dict C r)(''User_Notes'' \<mapsto> or_empty v)"
  "brew_to_dict C (r\<lparr>b_shot_eligibility := v\<rparr>) = (brew_to_dict C r)(''Shot_Eligibility'' \<mapsto> or_empty v)"
  "brew_to_dict C (r\<lparr>b_grind_setting := v\<rparr>) = (brew_to_dict C r)(''Grind_Setting'' \<mapsto> or_empty v)"
  "brew_to_dict C (r\<lparr>b_ai_feedback := v\<rparr>) = (brew_to_dict C r)(''AI_Feedback'' \<mapsto> or_empty v)"
  by (rule ext, simp add: brew_to_dict_def)+

lemma patched_dict:
  assumes "patch_values C upd r = Inr r'"
  shows "brew_to_dict C r' = corrected_shot C upd (brew_to_dict C r)"
    and "b_sheets_id r' = b_sheets_id r" "b_household_id r' = b_household_id r"
proof -
  have ft: "or_empty (if py_true v then py_text v else None) = first_text v PNone" for v
    by (simp add: first_text_def)
  show "brew_to_dict C r' = corrected_shot C upd (brew_to_dict C r)"
    using assms
    by (auto simp: patch_values_def corrected_shot_def Let_def put_field_def dict_update ft
        stored_number_def map_sum_eq_Inr split: option.splits dest!: fit_numeric_Inr)
  show "b_sheets_id r' = b_sheets_id r" "b_household_id r' = b_household_id r"
    using assms by (auto simp: patch_values_def Let_def map_sum_eq_Inr split: option.splits)
qed

lemma unpatched_dict:
  "list_all (\<lambda>k. upd k = None) patch_fields \<Longrightarrow> corrected_shot C upd shot = shot"
  by (simp add: patch_fields_def corrected_shot_def put_field_def)

text \<open>Each command, in a transaction of its household.\<close>

definition good_step :: "backend \<Rightarrow> uuid \<Rightarrow> brew_cmd \<Rightarrow> database \<Rightarrow> bool" where
  "good_step B hid c d \<longleftrightarrow> (\<forall>d' ok. exec_brew B d (hid, c) = (d', ok) \<longrightarrow> shots_unique d'
     \<and> (\<forall>hid'. household_shots (bk_conv B) hid' d'
          = spec_for (bk_conv B) hid' (household_shots (bk_conv B) hid' d) (hid, c) ok))"

lemma add_step:
  assumes "shots_unique d" shows "good_step B hid (AddShot bid now row) d"
proof -
  let ?C = "bk_conv B" and ?s = "set_household_context hid (open_session d)"
  obtain r t where run: "brew_add ?C bid now True row ?s = (r, t)" by fastforce
  have sheets: "b_sheets_id (brew_entry ?C bid now h row) = py_text (py_get row ''Shot_ID'')" for h
    by (simp add: brew_entry_def Let_def)
  show ?thesis
  proof (cases r)
    case (Inl e)
    with brew_add_result [OF run] run assms show ?thesis
      by (auto simp: good_step_def exec_brew_def dual_brew_add_def dual_postgres spec_for_def)
  next
    case (Inr u)
    then obtain q where q: "fit_brew_row ?C (brew_entry ?C bid now (Some hid) row) = Inr q"
      "\<not> list_ex (brew_conflict q) (brew_log d)" "t = commit (upd_work (\<lambda>d. d\<lparr>brew_log := brew_log d @ [q]\<rparr>) ?s)"
      using brew_add_result [OF run] by (auto simp: open_session_def)
    have own: "b_household_id q = Some hid" "b_sheets_id q = py_text (py_get row ''Shot_ID'')"
      using fit_brew_rowD [OF q(1)] by (simp_all add: brew_entry_def Let_def)
    show ?thesis
      using run Inr q(3) new_shot_unique [OF assms q(2)] new_shot_view [OF q(2) own(1)] own
        stored_shot_entry [OF q(1)]
      by (auto simp: good_step_def exec_brew_def dual_brew_add_def dual_postgres spec_for_def
          split: option.split)
  qed
qed

lemma feedback_step:
  assumes "shots_unique d" shows "good_step B hid (SetFeedback k f) d"
proof -
  let ?s = "set_household_context hid (open_session d)"
  let ?f = "\<lambda>r. r\<lparr>b_ai_feedback := Some f\<rparr>"
  have "brew_update_feedback k f ?s = commit (update_shot hid k ?f ?s)"
    by (simp add: brew_update_feedback_def current_household_id_def update_shot_def)
  then show ?thesis
    using updated_view [of ?s hid k ?f] assms
    by (auto simp: good_step_def exec_brew_def dual_brew_update_feedback_def dual_postgres spec_for_def
        household_shots_def option.map_comp comp_def dict_update or_empty_def)
qed

lemma correct_step:
  assumes "shots_unique d" shows "good_step B hid (Correct k upd) d"
proof -
  let ?C = "bk_conv B" and ?s = "set_household_context hid (open_session d)"
  let ?p = "\<lambda>r. b_household_id r = Some hid \<and> b_sheets_id r = Some k"
  have uniq: "shots_unique (work ?s)" and guc: "guc ?s = Some hid" using assms by simp_all
  note views = brew_get_view [OF guc uniq] own_shot [OF guc uniq]
  show ?thesis
  proof (cases "list_all (\<lambda>k. upd k = None) patch_fields")
    case True
    then have "corrected_shot ?C upd = (\<lambda>shot. shot)" by (simp add: unpatched_dict fun_eq_iff)
    with True show ?thesis
      using assms views
      by (auto simp: good_step_def exec_brew_def dual_brew_update_correction_def dual_postgres spec_for_def
          brew_update_correction_def current_household_id_def option.map_ident)
  next
    case False
    show ?thesis
    proof (cases "find ?p (brew_log d)")
      case None
      with False assms views(2) [of k] show ?thesis
        by (auto simp: good_step_def exec_brew_def dual_brew_update_correction_def dual_postgres
            spec_for_def brew_update_correction_def current_household_id_def household_shots_def)
    next
      case (Some r)
      show ?thesis
      proof (cases "patch_values ?C upd r")
        case (Inl e)
        with Some False assms views(2) [of k] show ?thesis
          by (auto simp: good_step_def exec_brew_def dual_brew_update_correction_def dual_postgres
              spec_for_def brew_update_correction_def current_household_id_def)
      next
        case (Inr r')
        have own: "b_sheets_id r' = Some k" "b_household_id r' = Some hid"
          using patched_dict(2,3) [OF Inr] find_Some_in [OF Some] by simp_all
        have run: "brew_update_correction ?C k upd ?s
            = (Inr (Some (brew_to_dict ?C r')), commit (update_shot hid k (\<lambda>_. r') ?s))"
          using False Some Inr views(2) [of k]
          by (simp add: brew_update_correction_def current_household_id_def update_shot_def)
        show ?thesis
          using run Some assms updated_view [of ?s hid k "\<lambda>_. r'"] own patched_dict(1) [OF Inr]
          by (auto simp: good_step_def exec_brew_def dual_brew_update_correction_def dual_postgres
              spec_for_def household_shots_def)
      qed
    qed
  qed
qed

lemma drop_step:
  assumes "shots_unique d" shows "good_step B hid (Drop k) d"
proof -
  let ?s = "set_household_context hid (open_session d)"
  let ?p = "\<lambda>r. b_household_id r = Some hid \<and> b_sheets_id r = Some k"
  have "shots_unique (work ?s)" "guc ?s = Some hid" using assms by simp_all
  note look = own_shot [OF this(2,1), of k]
  show ?thesis
  proof (cases "find ?p (brew_log d)")
    case None
    with assms look show ?thesis
      by (auto simp: good_step_def exec_brew_def dual_brew_delete_def require_sql_repo_def
          brew_delete_by_shot_id_def current_household_id_def spec_for_def household_shots_def fun_upd_triv)
  next
    case (Some r)
    with assms look dropped_view [of ?s hid] show ?thesis
      by (auto simp: good_step_def exec_brew_def dual_brew_delete_def require_sql_repo_def
          brew_delete_by_shot_id_def current_household_id_def spec_for_def)
  qed
qed

lemma brew_step: "shots_unique d \<Longrightarrow> good_step B hid c d"
  by (cases c) (simp_all add: add_step feedback_step correct_step drop_step)

interpretation brew_store: simulation "exec_brew B" shots_unique "household_shots (bk_conv B) hid"
    "spec_for (bk_conv B) hid" for B hid
proof
  fix d :: database and c
  assume "shots_unique d"
  from brew_step [OF this, of B "fst c" "snd c"]
  show "shots_unique (fst (exec_brew B d c))"
    "household_shots (bk_conv B) hid (fst (exec_brew B d c))
      = spec_for (bk_conv B) hid (household_shots (bk_conv B) hid d) c (snd (exec_brew B d c))"
    unfolding good_step_def by (metis prod.collapse)+
qed

section \<open>The refinement\<close>

text \<open>
  C3. The brew log refines a map per household. After any sequence of additions, feedback,
  corrections and deletions by any households, each in its own transaction, looking up a shot
  under a household's setting returns exactly what a map from identifiers to shots holds that
  was updated by the successful commands of that household only; identifiers stay unique.
\<close>

theorem brew_log_refines_map:
  assumes "shots_unique d" "run_steps (exec_brew B) d cs = (d', log)"
  shows "shots_unique d'
    \<and> dual_brew_get (in_postgres B) k (set_household_context hid (open_session d'))
      = Inr (foldl (\<lambda>V (c, ok). spec_for (bk_conv B) hid V c ok)
              (household_shots (bk_conv B) hid d) log k)"
proof -
  have fin: "shots_unique d'" "household_shots (bk_conv B) hid d'
      = foldl (\<lambda>V (c, ok). spec_for (bk_conv B) hid V c ok) (household_shots (bk_conv B) hid d) log"
    using brew_store.run_sim [OF assms, of hid] by auto
  have "brew_get (bk_conv B) k (set_household_context hid (open_session d'))
      = Inr (household_shots (bk_conv B) hid d' k)"
    using brew_get_view [of "set_household_context hid (open_session d')" hid] fin(1) by simp
  with fin show ?thesis by (simp add: dual_brew_get_def dual_postgres)
qed

definition plain_shot :: "string \<Rightarrow> dict" where
  "plain_shot k = [''Shot_ID'' \<mapsto> PStr k, ''Taste_Summary'' \<mapsto> PStr ''Sour'']"

theorem brew_log_refines_map_witness:
  "let d' = fst (run_steps (exec_brew postgres_backend) (two_households [])
      [(5, AddShot 80 0 (plain_shot ''S1'')), (6, Drop ''S1''), (6, SetFeedback ''S1'' ''x''),
       (5, Correct ''S1'' [''taste_summary'' \<mapsto> PStr ''Sweet'']), (6, AddShot 81 0 (plain_shot ''S2''))])
   in case dual_brew_get postgres_backend ''S1'' (set_household_context 5 (open_session d')) of
        Inr (Some shot) \<Rightarrow> shot ''Taste_Summary'' = Some (PStr ''Sweet'') \<and> shot ''AI_Feedback'' = Some (PStr [])
      | _ \<Rightarrow> False"
proof -
  let ?cs = "[(5, AddShot 80 0 (plain_shot ''S1'')), (6, Drop ''S1''), (6, SetFeedback ''S1'' ''x''),
       (5, Correct ''S1'' [''taste_summary'' \<mapsto> PStr ''Sweet'']), (6, AddShot 81 0 (plain_shot ''S2''))]"
  let ?run = "run_steps (exec_brew postgres_backend) (two_households []) ?cs"
  have uniq: "shots_unique (two_households [])"
    by (simp add: shots_unique_def two_households_def demo_db_def)
  have "map snd (snd ?run) = [True, True, True, True, True]" by code_simp
  then have "snd ?run = zip ?cs [True, True, True, True, True]"
    using run_steps_commands [of "exec_brew postgres_backend"] by (metis prod.collapse)
  with brew_log_refines_map [OF uniq, of postgres_backend ?cs "fst ?run" "snd ?run" "''S1''" 5]
  show ?thesis
    by (simp add: in_postgres_def postgres_backend_def Let_def spec_for_def stored_shot_def plain_shot_def
        corrected_shot_def put_field_def first_text_def or_empty_def py_get_def)
qed

end
