(* ===== verification/BrewCreate.thy ===== *)
theory BrewCreate
  imports BrewStore
begin

text \<open>
  Creation of a shot with the SQL repositories: what is committed, what a repeated request
  gets, and what happens when the identifier is taken by another household.
\<close>

section \<open>Lookups never fail\<close>

lemma keyed_total: "\<forall>r \<in> set rs. r key \<noteq> None \<Longrightarrow> \<exists>l. keyed key rs = Inr l"
  by (induction rs) auto

lemma postgres_lookups:
  assumes "bk_use_postgres B" "bk_sql B"
  shows "\<exists>l. build_lookups B s = Inr l"
proof -
  have "\<exists>l. keyed ''Bag_ID'' (inventory_list_all s) = Inr l" "\<exists>l. keyed ''Catalog_ID'' (catalog_list s) = Inr l"
    "\<exists>l. keyed ''Hardware_ID'' (hardware_list None s) = Inr l"
    by (rule keyed_total; auto simp: inventory_list_all_def inventory_to_dict_def catalog_list_def
        catalog_to_dict_def hardware_list_def hardware_to_dict_def Let_def)+
  then show ?thesis
    by (auto simp: build_lookups_def keyed_read_def dual_inventory_list_all_def dual_catalog_list_def
        dual_hardware_list_def dual_postgres [OF assms])
qed

section \<open>Feedback changes one field of one row\<close>

lemma feedback_effect:
  assumes "bk_use_postgres B" "bk_sql B"
    and "get_ai_feedback B llm today shot extra force raise s = (r, t)"
  shows "t = s \<or> (\<exists>txt. t = brew_update_feedback shot txt s)"
proof -
  have "complete_feedback B llm raise shot p s = (r, t) \<Longrightarrow> t = s \<or> (\<exists>txt. t = brew_update_feedback shot txt s)"
    for p
    by (auto simp: complete_feedback_def dual_brew_update_feedback_def dual_postgres [OF assms(1,2)]
        andthen_def split: sum.splits err.splits if_splits)
  with assms(3) show ?thesis
    by (auto simp: get_ai_feedback_def split: sum.splits option.splits if_splits)
qed

lemma feedback_after_create_effect:
  assumes "bk_use_postgres B" "bk_sql B" "work s = committed s"
  shows "\<exists>f. committed (feedback_after_create B ce m shot extra s) = committed s
      \<or> committed (feedback_after_create B ce m shot extra s)
          = work (update_shot (m_household_id m) shot (\<lambda>r. r\<lparr>b_ai_feedback := Some f\<rparr>)
                (set_household_context (m_household_id m) s))"
proof -
  let ?s = "set_household_context (m_household_id m) s"
  obtain r t where run: "get_ai_feedback B (ce_llm ce) (ce_today_ordinal ce) shot (Some extra) False False ?s = (r, t)"
    by fastforce
  have "committed t = committed s \<or> (\<exists>f. committed t
      = work (update_shot (m_household_id m) shot (\<lambda>r. r\<lparr>b_ai_feedback := Some f\<rparr>) ?s))"
    using feedback_effect [OF assms(1,2) run]
    by (auto simp: brew_update_feedback_def current_household_id_def update_shot_def)
  moreover have "committed (feedback_after_create B ce m shot extra s) = committed t"
    using run assms(1,2)
    by (auto simp: feedback_after_create_def dual_brew_set_context_def dual_brew_rollback_def
        dual_postgres [OF assms(1,2)] split: sum.splits err.splits)
  ultimately show ?thesis by auto
qed

section \<open>The insert\<close>

lemma fit_brew_row_error: "fit_brew_row C r = Inl e \<Longrightarrow> e = DataError"
  by (auto simp: fit_brew_row_def split: sum.splits)

lemma row_household_error: "row_household_id_or_context C s row = Inl e \<Longrightarrow> e = ValueError"
  by (auto simp: row_household_id_or_context_def row_household_id_def parse_uuid_def
      split: sum.splits option.splits if_splits)

lemma brew_add_error:
  assumes "brew_add C bid now c row s = (Inl e, t)"
  shows "e \<in> {IntegrityError, ProgrammingError, DataError, ValueError, OverflowError}"
proof (cases "row_household_id_or_context C s row")
  case (Inl x)
  with assms row_household_error show ?thesis by (auto simp: brew_add_def)
next
  case (Inr h)
  with assms show ?thesis
    by (cases "fit_brew_row C (brew_entry C bid now h row)")
      (auto simp: brew_add_def insert_brew_def dest: fit_brew_row_error split: if_splits)
qed

lemma add_and_render_result:
  assumes "bk_use_postgres B" "bk_sql B" "add_and_render B ce row s = (r, t)"
  shows "case r of
      Inl e \<Rightarrow> committed t = committed s \<and> e \<in> {IntegrityError, ProgrammingError, DataError, ValueError, OverflowError}
    | Inr (n, out) \<Rightarrow> \<exists>h q. row_household_id_or_context (bk_conv B) s row = Inr h \<and> rls_pass s h
        \<and> fit_brew_row (bk_conv B) (brew_entry (bk_conv B) (ce_row_id ce) (ce_db_now ce) h row) = Inr q
        \<and> \<not> list_ex (brew_conflict q) (brew_log (work s))
        \<and> t = commit (upd_work (\<lambda>d. d\<lparr>brew_log := brew_log d @ [q]\<rparr>) s)
        \<and> out = shot_to_out (bk_conv B) row n"
proof -
  obtain r1 t1 where add: "brew_add (bk_conv B) (ce_row_id ce) (ce_db_now ce) False row s = (r1, t1)"
    by fastforce
  obtain l where l: "build_lookups B t1 = Inr l" using postgres_lookups assms by blast
  show ?thesis
  proof (cases r1)
    case (Inl e)
    with add Inl assms(3) brew_add_error brew_add_result [OF add] show ?thesis
      by (auto simp: add_and_render_def dual_brew_add_def dual_postgres [OF assms(1,2)] assms(1))
  next
    case (Inr u)
    with add l assms(3) brew_add_result [OF add] show ?thesis
      by (auto simp: add_and_render_def dual_brew_add_def dual_brew_commit_def
          dual_postgres [OF assms(1,2)] assms(1) Let_def)
  qed
qed

section \<open>Creation\<close>

text \<open>
  The committed row of a new shot: the stored form of the request, and nothing else but a
  feedback that may have been added.
\<close>

definition new_shot_row ::
  "conversions \<Rightarrow> create_env \<Rightarrow> create_body \<Rightarrow> date \<Rightarrow> (string \<times> string) option \<Rightarrow> uuid \<Rightarrow> string
     \<Rightarrow> brew_log_row \<Rightarrow> bool" where
  "new_shot_row C ce body d key hid shot_id q \<longleftrightarrow>
     b_id q = ce_row_id ce \<and> b_household_id q = Some hid \<and> b_sheets_id q = Some shot_id
   \<and> brew_to_dict C (q\<lparr>b_ai_feedback := None\<rparr>)
       = stored_shot C (ce_db_now ce) (shot_row shot_id d body key)"

lemma shot_row_simps [simp]:
  "shot_row k d b key ''Shot_ID'' = Some (PStr k)"
  "shot_row k d b key ''AI_Feedback'' = None"
  "shot_row k d b key ''household_id'' = None"
  "shot_row k d b key ''Household_ID'' = None"
  by (cases key; auto simp: shot_row_def Let_def)+

lemma shot_row_context: "row_household_id_or_context C s (shot_row k d b key) = Inr (guc s)"
  by (simp add: row_household_id_or_context_def row_household_id_def py_get_def py_or_def
      parse_uuid_def current_household_id_def)

lemma entry_is_new_shot:
  assumes "fit_brew_row C (brew_entry C (ce_row_id ce) (ce_db_now ce) (Some hid)
      (shot_row shot_id d body key)) = Inr q"
  shows "new_shot_row C ce body d key hid shot_id q" "b_ai_feedback q = None"
proof -
  note fit = fit_brew_rowD [OF assms]
  have q: "b_id q = ce_row_id ce" "b_household_id q = Some hid" "b_sheets_id q = Some shot_id"
    and ai: "b_ai_feedback q = None"
    using fit by (simp_all add: brew_entry_def Let_def py_get_def)
  have "brew_to_dict C (q\<lparr>b_ai_feedback := None\<rparr>) = brew_to_dict C q"
    by (simp add: brew_to_dict_def ai)
  with q stored_shot_entry [OF assms] show "new_shot_row C ce body d key hid shot_id q"
    by (simp add: new_shot_row_def)
  show "b_ai_feedback q = None" by (rule ai)
qed

lemma new_shot_feedback:
  "new_shot_row C ce body d key hid shot_id q \<Longrightarrow>
     new_shot_row C ce body d key hid shot_id (q\<lparr>b_ai_feedback := f\<rparr>)"
  by (simp add: new_shot_row_def)

text \<open>The feedback of the new shot reaches the new row only.\<close>

lemma feedback_of_new_row:
  assumes "\<not> list_ex (brew_conflict q) xs" "b_household_id q = Some hid" "b_sheets_id q = Some shot"
    "guc s = Some hid" "brew_log (work s) = xs @ [q]"
  shows "work (update_shot hid shot f s) = (work s)\<lparr>brew_log := xs @ [f q]\<rparr>"
proof -
  have "\<not> (rls_pass s (b_household_id x) \<and> b_household_id x = Some hid \<and> b_sheets_id x = Some shot)"
    if "x \<in> set xs" for x
    using assms(1,3) that by (auto simp: list_ex_iff brew_conflict_def)
  then have "update_where (\<lambda>x. rls_pass s (b_household_id x) \<and> b_household_id x = Some hid
      \<and> b_sheets_id x = Some shot) f xs = xs"
    by (rule update_where_none)
  then show ?thesis
    using assms by (simp add: update_shot_def update_brew_def update_where_def)
qed

lemma create_shot_result:
  assumes pg: "bk_use_postgres B" "bk_sql B"
    and s: "guc s = Some (m_household_id m)" "work s = committed s"
    and run: "create_shot B ce body d key m s = (r, t)"
  shows "case r of
      Inr (Created out) \<Rightarrow> \<exists>q.
          committed t = (committed s)\<lparr>brew_log := brew_log (committed s) @ [q]\<rparr>
        \<and> new_shot_row (bk_conv B) ce body d key (m_household_id m) (bo_shot_id out) q
        \<and> \<not> list_ex (brew_conflict q) (brew_log (committed s))
        \<and> bo_shot_id out = make_shot_id d (cb_bag_id body) (brew_existing_ids s)
        \<and> bo_ai_feedback out = None
    | _ \<Rightarrow> committed t = committed s"
proof -
  let ?hid = "m_household_id m" and ?C = "bk_conv B"
  let ?id = "make_shot_id d (cb_bag_id body) (brew_existing_ids s)"
  let ?row = "shot_row ?id d body key"
  obtain r1 t1 where add: "add_and_render B ce ?row s = (r1, t1)" by fastforce
  have ids: "dual_brew_ids B s = Inr (brew_existing_ids s)"
    by (simp add: dual_brew_ids_def dual_postgres [OF pg])
  show ?thesis
  proof (cases r1)
    case (Inl e)
    have "committed (snd (recover_conflict B m key (rollback t1))) = committed t1"
      by (auto simp: recover_conflict_def dual_brew_set_context_def dual_postgres [OF pg]
          split: option.split sum.split)
    moreover have "\<nexists>out. fst (recover_conflict B m key (rollback t1)) = Inr (Created out)"
      by (auto simp: recover_conflict_def dual_brew_set_context_def dual_postgres [OF pg]
          split: option.split sum.split)
    ultimately show ?thesis
      using run ids add Inl add_and_render_result [OF pg add]
      by (cases r) (auto simp: create_shot_def dual_brew_rollback_def dual_postgres [OF pg] Let_def
          split: if_splits created.split)
  next
    case (Inr no)
    then obtain n out where no: "r1 = Inr (n, out)" by (cases no) auto
    then obtain q where q: "fit_brew_row ?C (brew_entry ?C (ce_row_id ce) (ce_db_now ce) (Some ?hid) ?row) = Inr q"
      "\<not> list_ex (brew_conflict q) (brew_log (committed s))"
      "t1 = commit (upd_work (\<lambda>d. d\<lparr>brew_log := brew_log d @ [q]\<rparr>) s)" "out = shot_to_out ?C ?row n"
      using add_and_render_result [OF pg add] s by (auto simp: shot_row_context)
    have res: "r = Inr (Created out)" "t = feedback_after_create B ce m ?id (extra_of ?row n) t1"
      using run ids add no by (auto simp: create_shot_def Let_def)
    note new = entry_is_new_shot [OF q(1)]
    have own: "b_household_id q = Some ?hid" "b_sheets_id q = Some ?id"
      using new(1) by (simp_all add: new_shot_row_def)
    have clean: "work t1 = committed t1" using q(3) by simp
    have log: "brew_log (work (set_household_context ?hid t1)) = brew_log (committed s) @ [q]"
      using q(3) s(2) by simp
    have base: "committed t1 = (committed s)\<lparr>brew_log := brew_log (committed s) @ [q]\<rparr>"
      using q(3) s(2) by simp
    obtain f where "committed t = committed t1 \<or> committed t
        = work (update_shot ?hid ?id (\<lambda>r. r\<lparr>b_ai_feedback := Some f\<rparr>) (set_household_context ?hid t1))"
      using feedback_after_create_effect [OF pg clean, of ce m ?id "extra_of ?row n"] res(2) by blast
    then obtain q' where q': "q' = q \<or> q' = q\<lparr>b_ai_feedback := Some f\<rparr>"
      "committed t = (committed s)\<lparr>brew_log := brew_log (committed s) @ [q']\<rparr>"
      using base clean feedback_of_new_row [OF q(2) own _ log] by auto
    moreover have "new_shot_row ?C ce body d key ?hid ?id q'" "\<not> list_ex (brew_conflict q') (brew_log (committed s))"
      using q'(1) new(1) new_shot_feedback [OF new(1)] q(2) by (auto simp: brew_conflict_def [abs_def])
    moreover have "bo_shot_id out = ?id" "bo_ai_feedback out = None"
      by (simp_all add: q(4) shot_to_out_def py_key_def py_get_or_def py_get_def or_none_def py_string_def)
    ultimately show ?thesis using res(1) q'(2) by auto
  qed
qed

lemma create_cases:
  assumes "api_brew_log_create B ce body m c s = (r, c', t)"
  shows "(t = s \<and> (\<nexists>out. r = Inr (Created out)))
    \<or> (\<exists>d. shot_date_of ce body = Inr d \<and> create_shot B ce body d (request_key ce body d) m s = (r, t))"
  using assms
  by (auto simp: api_brew_log_create_def split: sum.splits option.splits prod.splits if_splits)

text \<open>
  C6. Creating a shot commits exactly one row or nothing. When the request answers with a new
  shot, the log has one row more: a row of the caller's household that stores the request under
  a fresh identifier, which the response names, and possibly a feedback, which the response
  does not contain. A replayed answer and every failure leave the database as it was.
\<close>

theorem create_commits_one:
  assumes "bk_use_postgres B" "bk_sql B"
    and "guc s = Some (m_household_id m)" "work s = committed s"
    and "api_brew_log_create B ce body m c s = (r, c', t)"
  shows "case r of
      Inr (Created out) \<Rightarrow> \<exists>d q. shot_date_of ce body = Inr d
        \<and> close_session t = (committed s)\<lparr>brew_log := brew_log (committed s) @ [q]\<rparr>
        \<and> new_shot_row (bk_conv B) ce body d (request_key ce body d) (m_household_id m) (bo_shot_id out) q
        \<and> b_sheets_id q \<notin> b_sheets_id ` set (brew_log (committed s))
        \<and> bo_ai_feedback out = None
    | _ \<Rightarrow> close_session t = committed s"
proof -
  have once: "case r of
      Inr (Created out) \<Rightarrow> \<exists>q. close_session u = (committed s)\<lparr>brew_log := brew_log (committed s) @ [q]\<rparr>
        \<and> new_shot_row (bk_conv B) ce body d key (m_household_id m) (bo_shot_id out) q
        \<and> b_sheets_id q \<notin> b_sheets_id ` set (brew_log (committed s))
        \<and> bo_ai_feedback out = None
    | _ \<Rightarrow> close_session u = committed s"
    if "create_shot B ce body d key m s = (r, u)" for r d key u
    using create_shot_result [OF assms(1-4) that]
    by (auto simp: new_shot_row_def list_ex_iff brew_conflict_def split: sum.splits created.splits)
  from create_cases [OF assms(5)] show ?thesis
  proof
    assume "t = s \<and> (\<nexists>out. r = Inr (Created out))"
    then show ?thesis by (auto split: sum.split created.split)
  next
    assume "\<exists>d. shot_date_of ce body = Inr d \<and> create_shot B ce body d (request_key ce body d) m s = (r, t)"
    then obtain d where d: "shot_date_of ce body = Inr d"
      "create_shot B ce body d (request_key ce body d) m s = (r, t)" by blast
    from once [OF d(2)] d(1) show ?thesis by (cases r) (auto split: created.splits)
  qed
qed

definition espresso :: "string option \<Rightarrow> create_body" where
  "espresso key = \<lparr>cb_bag_id = ''BAG1'', cb_machine_id = [], cb_grinder_id = [], cb_basket_id = [],
     cb_dose_in_g = ''18.0'', cb_yield_out_g = ''36.0'', cb_time_sec = ''30.0'', cb_grind_setting = ''2.5'',
     cb_shot_eligibility = ''Passable'', cb_taste_summary = [], cb_user_notes = [],
     cb_storage_method = [], cb_shot_date = None, cb_idempotency_key = key\<rparr>"

definition morning :: "uuid \<Rightarrow> create_env" where
  "morning bid = \<lparr>ce_row_id = bid, ce_db_now = 0, ce_monotonic = 0,
     ce_today = \<lparr>year = 2026, month = 3, day = 1\<rparr>, ce_today_ordinal = 0,
     ce_parse_date = (\<lambda>_. None), ce_request_hash = hd, ce_llm = noop_client\<rparr>"

definition home_session :: "uuid \<Rightarrow> database \<Rightarrow> session" where
  "home_session hid d = set_household_context hid (open_session d)"

lemma created_when_added:
  assumes "shot_date_of ce body = Inr d" "dual_brew_ids B s = Inr ids"
    and "case request_key ce body d of None \<Rightarrow> True
       | Some (k, h) \<Rightarrow> bk_use_postgres B \<and> h \<noteq> [] \<and> existing_idempotent_response B k h s = Inr None"
    and "case fst (add_and_render B ce (shot_row (make_shot_id d (cb_bag_id body) ids) d body
           (request_key ce body d)) s) of Inr (n, out) \<Rightarrow> bo_shot_id out = sid | _ \<Rightarrow> False"
  shows "\<exists>out. fst (api_brew_log_create B ce body m c s) = Inr (Created out) \<and> bo_shot_id out = sid"
  using assms
  by (auto simp: api_brew_log_create_def create_shot_def Let_def
      split: option.splits sum.splits prod.splits)

lemma new_day:
  "shot_date_of (morning bid) (espresso key) = Inr \<lparr>year = 2026, month = 3, day = 1\<rparr>"
  "request_key (morning bid) (espresso None) d = None"
  "request_key (morning bid) (espresso (Some ''key'')) d = Some (''key'', ''BAG1'')"
proof -
  have "normalise_idempotency_key (Some ''key'') = Some ''key''" by code_simp
  then show "request_key (morning bid) (espresso (Some ''key'')) d = Some (''key'', ''BAG1'')"
    by (simp add: request_key_def espresso_def morning_def hash_payload_def)
qed (simp_all add: shot_date_of_def espresso_def morning_def truthy_def request_key_def
    normalise_idempotency_key_def)

lemma first_shot:
  assumes "key = None \<or> key = Some ''key''"
  shows "\<exists>out. fst (api_brew_log_create postgres_backend (morning 90) (espresso key) m c
      (home_session 5 (two_households []))) = Inr (Created out) \<and> bo_shot_id out = ''SH-20260301-01''"
proof -
  let ?s = "home_session 5 (two_households [])" and ?d = "\<lparr>year = 2026, month = 3, day = 1\<rparr>"
  have ids: "dual_brew_ids postgres_backend ?s = Inr []" by code_simp
  have sid: "make_shot_id ?d b [] = ''SH-20260301-01''" for b by code_simp
  have none: "existing_idempotent_response postgres_backend ''key'' ''BAG1'' ?s = Inr None" by code_simp
  have add: "case fst (add_and_render postgres_backend (morning 90) (shot_row ''SH-20260301-01'' ?d (espresso None) None) ?s)
      of Inr (n, out) \<Rightarrow> bo_shot_id out = ''SH-20260301-01'' | _ \<Rightarrow> False"
    "case fst (add_and_render postgres_backend (morning 90) (shot_row ''SH-20260301-01'' ?d
        (espresso (Some ''key'')) (Some (''key'', ''BAG1''))) ?s)
      of Inr (n, out) \<Rightarrow> bo_shot_id out = ''SH-20260301-01'' | _ \<Rightarrow> False"
    by code_simp+
  show ?thesis
  proof (cases key)
    case None
    then show ?thesis by (intro created_when_added [OF new_day(1) ids]) (simp_all add: new_day sid add del: One_nat_def)
  next
    case (Some k)
    with assms none add show ?thesis
      by (intro created_when_added [OF new_day(1) ids]) (auto simp: new_day sid postgres_backend_def simp del: One_nat_def)
  qed
qed

theorem create_commits_one_witness:
  "\<exists>q. brew_log (close_session (snd (snd (api_brew_log_create postgres_backend (morning 90) (espresso None)
        (demo_member 11 5 1 Admin) Map.empty (home_session 5 (two_households [])))))) = [q]
     \<and> b_household_id q = Some 5 \<and> b_sheets_id q = Some ''SH-20260301-01''"
proof -
  let ?out = "api_brew_log_create postgres_backend (morning 90) (espresso None)
        (demo_member 11 5 1 Admin) Map.empty (home_session 5 (two_households []))"
  have pre: "bk_use_postgres postgres_backend" "bk_sql postgres_backend"
    "guc (home_session 5 (two_households [])) = Some (m_household_id (demo_member 11 5 1 Admin))"
    "work (home_session 5 (two_households [])) = committed (home_session 5 (two_households []))"
    by (simp_all add: postgres_backend_def home_session_def demo_member_def)
  obtain out where out: "fst ?out = Inr (Created out)" "bo_shot_id out = ''SH-20260301-01''"
    using first_shot by blast
  from create_commits_one [OF pre, of "morning 90" "espresso None" Map.empty "fst ?out" "fst (snd ?out)" "snd (snd ?out)"]
    out show ?thesis
    by (auto simp: new_shot_row_def home_session_def two_households_def demo_db_def demo_member_def)
qed

section \<open>Repeating a request\<close>

lemma request_keyD:
  "request_key ce body d = Some (k, h) \<Longrightarrow> k \<noteq> [] \<and> h = ce_request_hash ce (hash_payload body d)"
  by (auto simp: request_key_def normalise_idempotency_key_def split: option.splits if_splits)

lemma stored_shot_at:
  "stored_shot C now row ''Idempotency_Key''
     = Some (first_text (py_get row ''idempotency_key'') (py_get row ''Idempotency_Key''))"
  "stored_shot C now row ''Idempotency_Request_Hash''
     = Some (first_text (py_get row ''idempotency_request_hash'') (py_get row ''Idempotency_Request_Hash''))"
  "stored_shot C now row ''Shot_ID'' = Some (or_empty (py_text (py_get row ''Shot_ID'')))"
  by (simp_all add: stored_shot_def Let_def)

lemma new_row_key:
  assumes "new_shot_row C ce body d (Some (k, h)) hid shot_id q" "k \<noteq> []" "h \<noteq> []"
  shows "b_idempotency_key q = Some k" "py_get (brew_to_dict C q) ''Idempotency_Request_Hash'' = PStr h"
    "py_get (brew_to_dict C q) ''Shot_ID'' = PStr shot_id"
proof -
  have eq: "brew_to_dict C (q\<lparr>b_ai_feedback := None\<rparr>)
      = stored_shot C (ce_db_now ce) (shot_row shot_id d body (Some (k, h)))"
    using assms(1) by (simp add: new_shot_row_def)
  have at: "py_get (brew_to_dict C q) f = py_get (stored_shot C (ce_db_now ce) (shot_row shot_id d body (Some (k, h)))) f"
    if "f \<noteq> ''AI_Feedback''" for f
    using that unfolding eq [symmetric] by (simp add: brew_to_dict_def py_get_def)
  have row: "py_get (shot_row shot_id d body (Some (k, h))) ''idempotency_key'' = PNone"
    "py_get (shot_row shot_id d body (Some (k, h))) ''idempotency_request_hash'' = PNone"
    "py_get (shot_row shot_id d body (Some (k, h))) ''Idempotency_Key'' = PStr k"
    "py_get (shot_row shot_id d body (Some (k, h))) ''Idempotency_Request_Hash'' = PStr h"
    "py_get (shot_row shot_id d body (Some (k, h))) ''Shot_ID'' = PStr shot_id"
    using assms(3) by (simp_all add: shot_row_def py_get_def Let_def)
  have "py_get (brew_to_dict C q) ''Idempotency_Key'' = PStr k"
    using at [of "''Idempotency_Key''"] row assms(2)
    by (simp add: py_get_def [of "stored_shot _ _ _"] stored_shot_at first_text_def or_empty_def)
  then show "b_idempotency_key q = Some k"
    using assms(2) by (auto simp: brew_to_dict_def py_get_def or_empty_def split: option.splits)
  show "py_get (brew_to_dict C q) ''Idempotency_Request_Hash'' = PStr h"
    "py_get (brew_to_dict C q) ''Shot_ID'' = PStr shot_id"
    using at [of "''Idempotency_Request_Hash''"] at [of "''Shot_ID''"] row assms(3)
    by (simp_all add: py_get_def [of "stored_shot _ _ _"] stored_shot_at first_text_def or_empty_def)
qed

text \<open>A key that is stored once in the household is found.\<close>

lemma found_by_key:
  assumes "guc s = Some hid" "brew_log (work s) = xs @ [q]" "\<not> list_ex (brew_conflict q) xs"
    "b_household_id q = Some hid" "b_idempotency_key q = Some k"
  shows "brew_get_by_idempotency_key C k s = Inr (Some (brew_to_dict C q))"
proof -
  have "filter (\<lambda>r. b_household_id r = Some hid \<and> b_idempotency_key r = Some k) xs = []"
    using assms(3-5) by (auto simp: filter_empty_conv list_ex_iff brew_conflict_def)
  then have "brew_where s hid (\<lambda>r. b_idempotency_key r = Some k) = [q]"
    using own_rows [OF assms(1)] assms(2,4,5) by simp
  then show ?thesis using assms(1) by (simp add: brew_get_by_idempotency_key_def current_household_id_def)
qed

text \<open>
  C7. A request with an idempotency key takes effect once. After a creation with a key, any
  further request of the household with that key changes nothing at all: with the same payload
  it is answered with the shot that was created, with another payload by a conflict.
\<close>

theorem create_idempotent:
  assumes pg: "bk_use_postgres B" "bk_sql B"
    and s: "guc s = Some (m_household_id m)" "work s = committed s"
    and first: "api_brew_log_create B ce body m c s = (Inr (Created out), c1, s1)"
    and key: "shot_date_of ce body = Inr d" "request_key ce body d = Some (k, h)" "h \<noteq> []"
    and again: "shot_date_of ce2 body2 = Inr d2" "request_key ce2 body2 d2 = Some (k, h2)" "h2 \<noteq> []"
    and t: "t = set_household_context (m_household_id m) (open_session (close_session s1))"
  shows "\<exists>res. api_brew_log_create B ce2 body2 m2 c2 t = (res, c2, t)
    \<and> (if h2 = h then \<exists>out2. res = Inr (Replayed out2) \<and> bo_shot_id out2 = bo_shot_id out
       else res = Inl (HTTPException 409 ''Idempotency key reused with different payload''))"
proof -
  have "create_shot B ce body d (Some (k, h)) m s = (Inr (Created out), s1)"
    using create_cases [OF first] key by auto
  from create_shot_result [OF pg s this] obtain q where
    q: "committed s1 = (committed s)\<lparr>brew_log := brew_log (committed s) @ [q]\<rparr>"
      "new_shot_row (bk_conv B) ce body d (Some (k, h)) (m_household_id m) (bo_shot_id out) q"
      "\<not> list_ex (brew_conflict q) (brew_log (committed s))" by auto
  have k: "k \<noteq> []" using request_keyD [OF key(2)] by simp
  note row = new_row_key [OF q(2) k key(3)]
  have found: "dual_brew_by_key B k t = Inr (Some (brew_to_dict (bk_conv B) q))"
    using found_by_key [of t "m_household_id m", OF _ _ q(3) _ row(1)] q(1,2) t
    by (simp add: dual_brew_by_key_def dual_postgres [OF pg] new_shot_row_def)
  obtain l where l: "build_lookups B t = Inr l" using postgres_lookups [OF pg] by blast
  have reply: "existing_idempotent_response B k h2 t = (if h2 = h
      then Inr (Some (shot_to_out (bk_conv B) (brew_to_dict (bk_conv B) q)
             (resolve_names (brew_to_dict (bk_conv B) q) l)))
      else Inl (HTTPException 409 ''Idempotency key reused with different payload''))"
    using found row(2) l by (simp add: existing_idempotent_response_def render_shot_def)
  have "bo_shot_id (shot_to_out (bk_conv B) (brew_to_dict (bk_conv B) q) n) = bo_shot_id out" for n
    using row(3) by (auto simp: shot_to_out_def py_key_def py_get_or_def py_get_def split: option.splits)
  with reply again pg show ?thesis
    by (simp add: api_brew_log_create_def)
qed

theorem create_idempotent_witness:
  "\<exists>out2. fst (api_brew_log_create postgres_backend (morning 91) (espresso (Some ''key''))
      (demo_member 11 5 1 Admin) Map.empty (set_household_context 5 (open_session (close_session
        (snd (snd (api_brew_log_create postgres_backend (morning 90) (espresso (Some ''key''))
          (demo_member 11 5 1 Admin) Map.empty (home_session 5 (two_households []))))))))) = Inr (Replayed out2)
     \<and> bo_shot_id out2 = ''SH-20260301-01''"
proof -
  let ?out = "api_brew_log_create postgres_backend (morning 90) (espresso (Some ''key''))
        (demo_member 11 5 1 Admin) Map.empty (home_session 5 (two_households []))"
  let ?d = "\<lparr>year = 2026, month = 3, day = 1\<rparr>"
  have pre: "bk_use_postgres postgres_backend" "bk_sql postgres_backend"
    "guc (home_session 5 (two_households [])) = Some (m_household_id (demo_member 11 5 1 Admin))"
    "work (home_session 5 (two_households [])) = committed (home_session 5 (two_households []))"
    by (simp_all add: postgres_backend_def home_session_def demo_member_def)
  obtain out where out: "fst ?out = Inr (Created out)" "bo_shot_id out = ''SH-20260301-01''"
    using first_shot by blast
  have first: "?out = (Inr (Created out), fst (snd ?out), snd (snd ?out))" using out(1) by (metis prod.collapse)
  from create_idempotent [OF pre first new_day(1) new_day(3) _ new_day(1) new_day(3) _ refl, of 91 "demo_member 11 5 1 Admin" Map.empty]
    out(2) show ?thesis
    by (auto simp: demo_member_def)
qed

section \<open>Identifiers of other households\<close>

lemma conflict_refuses:
  assumes "list_ex (brew_conflict q) (brew_log (work s))" "fit_brew_row C r = Inr q" "rls_pass s (b_household_id q)"
  shows "insert_brew C r s = (Inl IntegrityError, s)"
  using assms by (simp add: insert_brew_def)

lemma taken_id_refused:
  assumes "bk_use_postgres B" "bk_sql B" "guc s = Some hid"
    and "x \<in> set (brew_log (work s))" "b_sheets_id x = Some shot_id"
  shows "\<exists>e t. add_and_render B ce (shot_row shot_id d body key) s = (Inl e, t)
    \<and> e \<in> {IntegrityError, DataError, OverflowError}"
proof -
  let ?C = "bk_conv B" and ?row = "shot_row shot_id d body key"
  let ?r = "brew_entry ?C (ce_row_id ce) (ce_db_now ce) (Some hid) ?row"
  have "\<exists>e. fst (brew_add ?C (ce_row_id ce) (ce_db_now ce) False ?row s) = Inl e \<and> e \<in> {IntegrityError, DataError, OverflowError}"
  proof (cases "fit_brew_row ?C ?r")
    case (Inl e)
    with fit_brew_row_error [OF Inl] assms(3) show ?thesis
      by (simp add: brew_add_def insert_brew_def shot_row_context)
  next
    case (Inr q)
    have "b_sheets_id q = Some shot_id" "b_household_id q = Some hid"
      using fit_brew_rowD [OF Inr] by (simp_all add: brew_entry_def Let_def py_get_def)
    with assms(4,5) have "list_ex (brew_conflict q) (brew_log (work s))"
      by (auto simp: list_ex_iff brew_conflict_def)
    with Inr assms(3) \<open>b_household_id q = Some hid\<close> show ?thesis
      by (simp add: brew_add_def shot_row_context conflict_refuses)
  qed
  then show ?thesis
    by (auto simp: add_and_render_def dual_brew_add_def dual_postgres [OF assms(1,2)] assms(1)
        split: prod.split sum.split)
qed

text \<open>
  C40. The shots of one household block another household. The daily number of a new shot
  is chosen from the identifiers the household can see, but must be unique among all
  households: when some household already has a shot with that identifier, every creation of
  that day fails, whatever its content, and leaves the database as it was, so repeating the
  request never helps. The request may have an idempotency key, as those of the frontend have,
  unless it repeats a creation of the household that is stored under this key.
\<close>

theorem foreign_shot_blocks_creation:
  assumes pg: "bk_use_postgres B" "bk_sql B"
    and s: "guc s = Some (m_household_id m)" "work s = committed s"
    and day: "shot_date_of ce body = Inr d"
    and key: "case request_key ce body d of None \<Rightarrow> True
      | Some (k, h) \<Rightarrow> h \<noteq> [] \<and> existing_idempotent_response B k h s = Inr None"
    and taken: "x \<in> set (brew_log (committed s))"
      "b_sheets_id x = Some (make_shot_id d (cb_bag_id body) (brew_existing_ids s))"
  shows "\<exists>e c' t. api_brew_log_create B ce body m c s = (Inl e, c', t)
    \<and> e \<in> {IntegrityError, DataError, OverflowError} \<and> close_session t = committed s"
proof -
  let ?id = "make_shot_id d (cb_bag_id body) (brew_existing_ids s)" and ?key = "request_key ce body d"
  obtain e t where add: "add_and_render B ce (shot_row ?id d body ?key) s = (Inl e, t)" "e \<in> {IntegrityError, DataError, OverflowError}"
    using taken_id_refused [OF pg s(1) _ taken(2)] taken(1) s(2) by metis
  have keep: "committed t = committed s" using add_and_render_result [OF pg add(1)] by simp
  have restored: "set_household_context (m_household_id m) (rollback t) = s"
    using s keep by (simp add: set_household_context_def rollback_def)
  have "fst (recover_conflict B m ?key (rollback t)) = Inl IntegrityError
      \<and> close_session (snd (recover_conflict B m ?key (rollback t))) = committed s"
    using key keep s(2) by (auto simp: recover_conflict_def dual_brew_set_context_def dual_postgres [OF pg]
        restored split: option.split)
  then obtain t' where "create_shot B ce body d ?key m s = (Inl e, t')" "close_session t' = committed s"
    using add keep by (cases "recover_conflict B m ?key (rollback t)")
      (auto simp: create_shot_def Let_def dual_brew_ids_def dual_brew_rollback_def dual_postgres [OF pg])
  with day key add(2) pg(1) show ?thesis by (auto simp: api_brew_log_create_def split: option.splits)
qed

theorem foreign_shot_blocks_creation_witness:
  "\<exists>e c' t. api_brew_log_create postgres_backend (morning 91) (espresso (Some ''key'')) (demo_member 12 6 2 Member)
        Map.empty (home_session 6 (fst (exec_brew postgres_backend (two_households [])
          (5, AddShot 90 0 (plain_shot ''SH-20260301-01''))))) = (Inl e, c', t)
     \<and> e \<in> {IntegrityError, DataError, OverflowError}"
proof -
  let ?s = "home_session 6 (fst (exec_brew postgres_backend (two_households [])
      (5, AddShot 90 0 (plain_shot ''SH-20260301-01''))))"
  let ?d = "\<lparr>year = 2026, month = 3, day = 1\<rparr>"
  have pre: "bk_use_postgres postgres_backend" "bk_sql postgres_backend"
    "guc ?s = Some (m_household_id (demo_member 12 6 2 Member))" "work ?s = committed ?s"
    by (simp_all add: postgres_backend_def home_session_def demo_member_def)
  have "existing_idempotent_response postgres_backend ''key'' ''BAG1'' ?s = Inr None" by code_simp
  then have key: "case request_key (morning 91) (espresso (Some ''key'')) ?d of None \<Rightarrow> True
      | Some (k, h) \<Rightarrow> h \<noteq> [] \<and> existing_idempotent_response postgres_backend k h ?s = Inr None"
    by (simp add: new_day(3))
  have "list_ex (\<lambda>x. b_sheets_id x = Some (make_shot_id ?d (cb_bag_id (espresso (Some ''key''))) (brew_existing_ids ?s)))
      (brew_log (committed ?s))" by code_simp
  then obtain x where "x \<in> set (brew_log (committed ?s))"
    "b_sheets_id x = Some (make_shot_id ?d (cb_bag_id (espresso (Some ''key''))) (brew_existing_ids ?s))"
    by (auto simp: list_ex_iff)
  from foreign_shot_blocks_creation [OF pre new_day(1) key this, of Map.empty] show ?thesis by blast
qed

end
