(* ===== verification/BrewViews.thy ===== *)
theory BrewViews
  imports BrewCreate "HOL-Library.Multiset"
begin

text \<open>
  The listing of the brew log, the validation of corrections, and the prompts of the feedback:
  the pages are the listing cut in pieces, an accepted correction is well formed, and no client
  ever sees a prompt beyond the budget.
\<close>

section \<open>Pages\<close>

lemma pages_take: "concat (map (\<lambda>i. take k (drop (i * k) xs)) [0..<n]) = take (n * k) xs"
proof (induction n)
  case (Suc n)
  then show ?case by (simp add: take_add [symmetric] add.commute)
qed simp

lemma map_sort_key: "map f (sort_key f xs) = sort (map f xs)"
  by (rule properties_for_sort [symmetric]) simp_all

lemma sort_by_order: "map (\<lambda>r. - b_brewed_at r) (sort_key brew_order rows) = sort (map (\<lambda>r. - b_brewed_at r) rows)"
proof (rule properties_for_sort [symmetric])
  show "mset (map (\<lambda>r. - b_brewed_at r) (sort_key brew_order rows)) = mset (map (\<lambda>r. - b_brewed_at r) rows)"
    by simp
  have "sorted_wrt (\<lambda>x y. brew_order x \<le> brew_order y) (sort_key brew_order rows)"
    using sorted_sort_key [of brew_order rows] by (simp add: sorted_map)
  then have "sorted_wrt (\<lambda>x y. - b_brewed_at x \<le> - b_brewed_at y) (sort_key brew_order rows)"
    by (rule sorted_wrt_mono_rel [rotated]) (auto simp: brew_order_def less_eq_prod_def)
  then show "sorted (map (\<lambda>r. - b_brewed_at r) (sort_key brew_order rows))"
    by (simp add: sorted_map)
qed

text \<open>
  C37. The pages of the list are the whole log, each shot once, newest first. For any page size
  up to the maximum the pages, put together, are a listing of exactly the shots that the
  unpaginated query returns, with the same sequence of dates; the announced total is their
  number, and a page announces a next page exactly when that page is not empty.
\<close>

theorem pages_are_the_log:
  assumes pg: "bk_use_postgres B" "bk_sql B" and guc: "guc s = Some hid" and size: "1 \<le> k" "k \<le> 100"
  shows "\<exists>pages all. (\<forall>i. api_brew_log_list B alert (int i + 1) (int k) s = Inr (pages i))
    \<and> (\<forall>n. concat (map (\<lambda>i. bp_items (pages i)) [0..<n]) = take (n * k) all)
    \<and> mset (map bo_shot_id all) = mset (map (\<lambda>r. py_key r ''Shot_ID'') (brew_list (bk_conv B) s))
    \<and> map bo_date all = map (\<lambda>r. py_key r ''Date'') (brew_list (bk_conv B) s)
    \<and> (\<forall>i. bp_total_count (pages i) = length all
         \<and> (bp_has_next (pages i) \<longleftrightarrow> bp_items (pages (Suc i)) \<noteq> []))"
proof -
  let ?C = "bk_conv B" and ?rows = "brew_where s hid (\<lambda>_. True)"
  obtain l where l: "build_lookups B s = Inr l" using postgres_lookups [OF pg] by blast
  define render where "render r = shot_to_out ?C r (resolve_names r l)" for r
  define all where "all = map render (map (brew_to_dict ?C) (sort_key brew_order ?rows))"
  define pages where "pages i = \<lparr>bp_items = take k (drop (i * k) all), bp_page = Suc i, bp_per_page = k,
      bp_total_count = length all, bp_has_next = (Suc i * k < length all), bp_sync_alert = alert\<rparr>" for i
  have page: "api_brew_log_list B alert (int i + 1) (int k) s = Inr (pages i)" for i
  proof -
    have "nat (max 1 (int i + 1)) = Suc i" "nat (max 1 (min (int k) 100)) = k" using size by auto
    then show ?thesis
      using l guc size
      by (simp add: api_brew_log_list_def dual_brew_paginated_def dual_postgres [OF pg] brew_list_paginated_def
          current_household_id_def pages_def all_def render_def take_map drop_map Let_def)
  qed
  have ids: "map bo_shot_id all = map (\<lambda>r. py_key (brew_to_dict ?C r) ''Shot_ID'') (sort_key brew_order ?rows)"
    and dates: "map bo_date all = map (\<lambda>r. cv_date ?C (- r)) (map (\<lambda>r. - b_brewed_at r) (sort_key brew_order ?rows))"
    by (simp_all add: all_def render_def shot_to_out_def brew_to_dict_def py_key_def py_get_or_def)
  have "map (\<lambda>r. py_key r ''Date'') (brew_list ?C s)
      = map (\<lambda>r. cv_date ?C (- r)) (map (\<lambda>r. - b_brewed_at r) (sort_key (\<lambda>r. - b_brewed_at r) ?rows))"
    using guc by (simp add: brew_list_def current_household_id_def brew_to_dict_def py_key_def py_get_or_def)
  with dates have same_dates: "map bo_date all = map (\<lambda>r. py_key r ''Date'') (brew_list ?C s)"
    by (simp only: sort_by_order map_sort_key)
  have same_ids: "mset (map bo_shot_id all) = mset (map (\<lambda>r. py_key r ''Shot_ID'') (brew_list ?C s))"
    using guc unfolding ids by (simp add: brew_list_def current_household_id_def image_mset.compositionality comp_def)
  have pieces: "concat (map (\<lambda>i. bp_items (pages i)) [0..<n]) = take (n * k) all" for n
    using pages_take [of k all n] by (simp add: pages_def)
  have next_page: "bp_has_next (pages i) \<longleftrightarrow> bp_items (pages (Suc i)) \<noteq> []" for i
    using size(1) by (auto simp: pages_def)
  show ?thesis
    by (rule exI [of _ pages], rule exI [of _ all])
      (use page pieces same_ids same_dates next_page in \<open>auto simp: pages_def\<close>)
qed

definition two_shots :: session where
  "two_shots = home_session 5 (fst (run_steps (exec_brew postgres_backend) (two_households [])
     [(5, AddShot 90 0 (plain_shot ''S1'')), (5, AddShot 91 1 (plain_shot ''S2''))]))"

theorem pages_are_the_log_witness:
  "\<exists>p. api_brew_log_list postgres_backend False 1 1 two_shots = Inr p \<and> bp_total_count p = 2
     \<and> length (bp_items p) = 1"
proof -
  have pre: "bk_use_postgres postgres_backend" "bk_sql postgres_backend" "guc two_shots = Some 5"
    "(1::nat) \<le> 1" "(1::nat) \<le> 100"
    by (simp_all add: postgres_backend_def two_shots_def home_session_def)
  have two: "length (brew_list (bk_conv postgres_backend) two_shots) = 2" by code_simp
  from pages_are_the_log [OF pre, of False] obtain pages all where
    p: "\<forall>i. api_brew_log_list postgres_backend False (int i + 1) (int 1) two_shots = Inr (pages i)"
      "\<forall>n. concat (map (\<lambda>i. bp_items (pages i)) [0..<n]) = take (n * 1) all"
      "map bo_date all = map (\<lambda>r. py_key r ''Date'') (brew_list (bk_conv postgres_backend) two_shots)"
      "\<forall>i. bp_total_count (pages i) = length all" by blast
  have len: "length all = 2" using arg_cong [OF p(3), of length] two by simp
  have "api_brew_log_list postgres_backend False 1 1 two_shots = Inr (pages 0)"
    using p(1) [rule_format, of 0] by simp
  moreover have "length (bp_items (pages 0)) = 1"
    using arg_cong [OF p(2) [rule_format, of 1], of length] len by simp
  ultimately show ?thesis using p(4) len by auto
qed

section \<open>Corrections\<close>

definition finite_number :: "conversions \<Rightarrow> string \<Rightarrow> bool" where
  "finite_number C t \<longleftrightarrow> (\<exists>v. cv_float C t = Some v \<and> finite_text v)"

text \<open>What the repository may rely on in the fields of a correction.\<close>

fun field_ok :: "conversions \<Rightarrow> string \<Rightarrow> pyval \<Rightarrow> bool" where
  "field_ok C k PNone = (k \<noteq> ''grind_setting'')"
| "field_ok C k (PStr t) =
     ((k = ''grind_setting'' \<longrightarrow> t = [] \<or> (\<exists>u. t = strip u \<and> finite_number C u))
      \<and> (k = ''shot_eligibility'' \<longrightarrow> t \<in> set shot_eligibilities))"
| "field_ok C k (PFloat t) = False"

text \<open>
  An accepted correction is well typed. It names at least one field and only the four that
  may be edited; each value is null or a text, an eligibility is null or one of the four grades,
  and a grind setting is empty or the trimmed form of a finite number.
\<close>

theorem accepted_patch_typed:
  assumes "normalise_brew_log_patch C body = Inr upd"
  shows "dom upd \<noteq> {} \<and> dom upd \<subseteq> set patch_fields \<and> (\<forall>k v. upd k = Some v \<longrightarrow> field_ok C k v)"
proof -
  have free: "field_ok C k (optional_text v)" if "k \<in> {''taste_summary'', ''user_notes''}" for k v
    using that by (auto simp: optional_text_def split: option.split)
  have grind: "patch_grind C g = Inr v \<Longrightarrow> field_ok C ''grind_setting'' v" for g v
    by (cases g) (fastforce simp: patch_grind_def finite_number_def split: if_splits option.splits)+
  have elig: "patch_eligibility e = Inr v \<Longrightarrow> field_ok C ''shot_eligibility'' v" for e v
    by (auto simp: patch_eligibility_def split: if_splits option.splits)
  show ?thesis
    using assms free grind elig
    by (auto simp: normalise_brew_log_patch_def Let_def map_sum_eq_Inr patch_fields_def dom_def
        split: if_splits option.splits sum.splits)
qed

theorem accepted_patch_typed_witness:
  "\<exists>upd. normalise_brew_log_patch plain_conversions \<lparr>pb_taste_summary = Some None, pb_user_notes = None,
        pb_grind_setting = Some (Some '' 2.5 ''), pb_shot_eligibility = Some (Some ''Reject'')\<rparr> = Inr upd
     \<and> (\<forall>v. upd ''shot_eligibility'' = Some v \<longrightarrow> field_ok plain_conversions ''shot_eligibility'' v)"
proof -
  let ?body = "\<lparr>pb_taste_summary = Some None, pb_user_notes = None,
      pb_grind_setting = Some (Some '' 2.5 ''), pb_shot_eligibility = Some (Some ''Reject'')\<rparr>"
  have "is_ok (normalise_brew_log_patch plain_conversions ?body)" by code_simp
  then obtain upd where upd: "normalise_brew_log_patch plain_conversions ?body = Inr upd"
    by (auto elim: is_okE)
  with accepted_patch_typed [OF upd] show ?thesis by blast
qed

section \<open>The prompt budget\<close>

lemma build_prompt_budget: "build_prompt shot h m e = Inr p \<Longrightarrow> length p \<le> 2048"
  by (auto simp: build_prompt_def Let_def split: if_splits)

lemma fallback_prompt_budget: "prompt_with_fallback shot h m e = Inr p \<Longrightarrow> length p \<le> 2048"
  by (auto simp: prompt_with_fallback_def dest: build_prompt_budget split: sum.splits)

text \<open>
  The feedback asks a client only with prompts of at most 2048 bytes, with the maintenance
  dropped when they would make the prompt too long: two clients that answer such prompts alike
  give the same result, the same stored feedback and the same errors, for every shot, history
  and maintenance log, however long.
\<close>

theorem feedback_prompt_bounded:
  assumes "\<And>p. length p \<le> 2048 \<Longrightarrow> llm p = llm' p"
  shows "get_ai_feedback B llm today shot extra force raise s
       = get_ai_feedback B llm' today shot extra force raise s"
proof -
  have "complete_feedback B llm raise shot p s = complete_feedback B llm' raise shot p s"
    if "\<And>q. p = Inr q \<Longrightarrow> length q \<le> 2048" for p
    using that assms by (cases p) (simp_all add: complete_feedback_def)
  then show ?thesis
    unfolding get_ai_feedback_def
    by (auto split: sum.split option.split simp: fallback_prompt_budget)
qed

definition budget_client :: "llm_client" where
  "budget_client p = (if 2048 < length p then Inl LLMError else noop_client p)"

theorem feedback_prompt_bounded_witness:
  "get_ai_feedback postgres_backend budget_client 0 ''S1'' None True False two_shots
     = get_ai_feedback postgres_backend noop_client 0 ''S1'' None True False two_shots"
  by (rule feedback_prompt_bounded) (simp add: budget_client_def)

end
