(* ===== verification/ApiCatalog.thy ===== *)
theory ApiCatalog
  imports ApiEquipment
begin

text \<open>
  The catalog endpoints of \<^verbatim>\<open>app/routers/api_catalog.py\<close>: list and detail, creation and change of
  an entry, inference of an entry from a product page, new bags of an entry, and the upload of
  a picture. The parsing of the model's answer as JSON is a parameter.
\<close>

section \<open>Views\<close>

definition roast_levels :: "string list" where
  "roast_levels = [''Light'', ''Light / Medium'', ''Medium'', ''Medium / Dark'', ''Dark'']"

record catalog_out =
  co_catalog_id :: string
  co_roaster :: string
  co_bean_name :: string
  co_roast_level :: string
  co_product_url :: "string option"
  co_image_path :: "string option"

definition catalog_to_out :: "dict \<Rightarrow> catalog_out" where
  "catalog_to_out r = \<lparr>co_catalog_id = py_key r ''Catalog_ID'', co_roaster = py_key r ''Roaster'',
     co_bean_name = py_key r ''Bean_Name'', co_roast_level = py_key r ''Roast_Level'',
     co_product_url = or_none (py_get r ''Product_URL''),
     co_image_path = or_none (py_get r ''Local_Image_Path'')\<rparr>"

definition api_catalog_list :: "backend \<Rightarrow> session \<Rightarrow> catalog_out list res" where
  "api_catalog_list B s = map_sum id (map catalog_to_out) (dual_catalog_list B s)"

record catalog_detail =
  cd_item :: catalog_out
  cd_bags :: "bag_out list"
  cd_recent_shots :: "brew_out list"

text \<open>The shots of the linked bags, in the order of the bags.\<close>

fun linked_shots :: "backend \<Rightarrow> session \<Rightarrow> dict list \<Rightarrow> dict list res" where
  "linked_shots B s [] = Inr []"
| "linked_shots B s (b # bs) =
     (if b ''Bag_ID'' = None then Inl KeyError
      else
        (case dual_brew_for_bag B (py_key b ''Bag_ID'') s of
           Inl e \<Rightarrow> Inl e
         | Inr shots \<Rightarrow> map_sum id (\<lambda>rest. shots @ rest) (linked_shots B s bs)))"

text \<open>The name of a piece of hardware, or nothing; every one used is fetched.\<close>

definition shot_hardware :: "backend \<Rightarrow> session \<Rightarrow> string \<Rightarrow> string option res" where
  "shot_hardware B s hw =
     (if hw = [] then Inr None
      else map_sum id (\<lambda>item. Option.bind item (\<lambda>r. py_text (py_get r ''Name''))) (dual_hardware_get B hw s))"

definition catalog_shot_out ::
  "backend \<Rightarrow> session \<Rightarrow> string \<Rightarrow> dict \<Rightarrow> brew_out res" where
  "catalog_shot_out B s display shot =
     (case (shot_hardware B s (py_key shot ''Machine_ID''), shot_hardware B s (py_key shot ''Grinder_ID''),
            shot_hardware B s (py_key shot ''Basket_ID'')) of
        (Inr m, Inr g, Inr b) \<Rightarrow>
          Inr (shot_to_out (bk_conv B) shot \<lparr>nm_bag_display = display, nm_roast_level = None,
                 nm_machine_name = m, nm_grinder_name = g, nm_basket_name = b\<rparr>)
      | (Inl e, _) \<Rightarrow> Inl e
      | (_, Inl e, _) \<Rightarrow> Inl e
      | (_, _, Inl e) \<Rightarrow> Inl e)"

fun catalog_shots_out :: "backend \<Rightarrow> session \<Rightarrow> string \<Rightarrow> dict list \<Rightarrow> brew_out list res" where
  "catalog_shots_out B s display [] = Inr []"
| "catalog_shots_out B s display (r # rs) =
     (case catalog_shot_out B s display r of
        Inl e \<Rightarrow> Inl e
      | Inr o1 \<Rightarrow> map_sum id (\<lambda>rest. o1 # rest) (catalog_shots_out B s display rs))"

definition entry_name :: "dict \<Rightarrow> string" where
  "entry_name entry = shown entry ''Roaster'' @ '' '' @ em_dash @ '' '' @ shown entry ''Bean_Name''"

definition api_catalog_detail :: "backend \<Rightarrow> string \<Rightarrow> session \<Rightarrow> catalog_detail res" where
  "api_catalog_detail B cid s =
     (case dual_catalog_get B cid s of
        Inl e \<Rightarrow> Inl e
      | Inr None \<Rightarrow> Inl (HTTPException 404 ''Catalog entry not found'')
      | Inr (Some entry) \<Rightarrow>
          (case dual_inventory_list B None s of
             Inl e \<Rightarrow> Inl e
           | Inr bags \<Rightarrow>
               (let linked = filter (\<lambda>b. py_get b ''Catalog_ID'' = PStr cid) bags
                in case linked_shots B s linked of
                     Inl e \<Rightarrow> Inl e
                   | Inr shots \<Rightarrow>
                       map_sum id (\<lambda>outs. \<lparr>cd_item = catalog_to_out entry,
                           cd_bags = map (\<lambda>b. bag_to_out b (entry_name entry)) linked,
                           cd_recent_shots = outs\<rparr>)
                         (catalog_shots_out B s (entry_name entry)
                            (take 10 (sorted_desc (\<lambda>r. py_key r ''Date'') shots))))))"

section \<open>Creating and changing an entry\<close>

text \<open>\<open>_fetch_all\<close> reads past the cache: the same rows as the list.\<close>

definition dual_catalog_fetch_all :: "backend \<Rightarrow> session \<Rightarrow> dict list res" where
  "dual_catalog_fetch_all B s = dual_read B (Inr (catalog_list s)) (bk_catalog B)"

definition catalog_nums :: "conversions \<Rightarrow> dict list \<Rightarrow> int list" where
  "catalog_nums C rows = List.map_filter (\<lambda>r. cv_int C (drop 3 (py_key r ''Catalog_ID'')))
     (filter (\<lambda>r. starts_with ''CAT'' (py_key r ''Catalog_ID'')) rows)"

definition pad_int3 :: "int \<Rightarrow> string" where
  "pad_int3 i = (if i < 0 then CHR ''-'' # pad0 2 (nat (- i)) else pad0 3 (nat i))"

definition next_catalog_id :: "conversions \<Rightarrow> dict list \<Rightarrow> string" where
  "next_catalog_id C rows =
     ''CAT'' @ pad_int3 ((case catalog_nums C rows of [] \<Rightarrow> 99 | n # ns \<Rightarrow> foldl max n ns) + 1)"

record catalog_body =
  kb_roaster :: string
  kb_bean_name :: string
  kb_roast_level :: string
  kb_product_url :: "string option"
  kb_source_image_url :: "string option"

record catalog_env =
  ca_row_id :: uuid
  ca_net :: network
  ca_llm :: llm_client
  ca_storage :: storage
  ca_hex :: string

text \<open>All messages that apply are reported together; the model joins them by newlines.\<close>

definition check_catalog :: "network \<Rightarrow> catalog_body \<Rightarrow> unit res" where
  "check_catalog N b =
     (let url_error = (if truthy (kb_product_url b) then
            map_sum id (\<lambda>scheme. if scheme \<in> {''http'', ''https''} then []
                                 else [''Product URL must start with http:// or https://.''])
              (url_scheme N (strip (the (kb_product_url b))))
          else Inr []);
          errors = (if strip (kb_roaster b) = [] then [''Roaster is required.''] else [])
            @ (if strip (kb_bean_name b) = [] then [''Bean name is required.''] else [])
            @ (if kb_roast_level b \<noteq> [] \<and> kb_roast_level b \<notin> set roast_levels
               then [''Invalid roast level.''] else [])
      in case url_error of
           Inl e \<Rightarrow> Inl e
         | Inr url_msgs \<Rightarrow> if errors @ url_msgs = [] then Inr ()
                       else Inl (HTTPException 422 (join_lines (errors @ url_msgs))))"

definition bean_ext :: "string \<Rightarrow> string" where
  "bean_ext ct = (if is_infix ''png'' ct then ''png'' else if is_infix ''webp'' ct then ''webp'' else ''jpg'')"

definition opt_text :: "string option \<Rightarrow> string" where
  "opt_text v = (case v of None \<Rightarrow> [] | Some t \<Rightarrow> t)"

text \<open>The path of the picture of a new entry; every failure on the way leaves it empty.\<close>

definition catalog_picture :: "catalog_env \<Rightarrow> catalog_body \<Rightarrow> string \<Rightarrow> string" where
  "catalog_picture ca b cid =
     (let given = strip (opt_text (kb_source_image_url b));
          image = (if given = [] \<and> truthy (kb_product_url b)
                   then source_bean_image (ca_net ca) (ca_llm ca) (strip (kb_roaster b))
                          (strip (kb_bean_name b)) (strip (the (kb_product_url b))) None
                   else given)
      in if image = [] then []
         else
           (case fetch_image_bytes (ca_net ca) image of
              None \<Rightarrow> []
            | Some (bytes, ct) \<Rightarrow>
                (case fst (upload_image (ca_storage ca) bytes ct
                       (''bean-images/'' @ cid @ ''-'' @ ca_hex ca @ ''.'' @ bean_ext ct)
                       (assets_bucket (ca_storage ca)) Map.empty) of
                   Inl _ \<Rightarrow> []
                 | Inr path \<Rightarrow> path)))"

definition api_catalog_create ::
  "backend \<Rightarrow> catalog_env \<Rightarrow> catalog_body \<Rightarrow> session \<Rightarrow> catalog_out res \<times> session" where
  "api_catalog_create B ca b s =
     (case check_catalog (ca_net ca) b of
        Inl e \<Rightarrow> (Inl e, s)
      | Inr _ \<Rightarrow>
          (case dual_catalog_fetch_all B s of
             Inl e \<Rightarrow> (Inl e, s)
           | Inr existing \<Rightarrow>
               (let cid = next_catalog_id (bk_conv B) existing;
                    row = [''Catalog_ID'' \<mapsto> PStr cid, ''Roaster'' \<mapsto> PStr (strip (kb_roaster b)),
                           ''Bean_Name'' \<mapsto> PStr (strip (kb_bean_name b)),
                           ''Roast_Level'' \<mapsto> PStr (kb_roast_level b),
                           ''Product_URL'' \<mapsto> PStr (strip (opt_text (kb_product_url b))),
                           ''Local_Image_Path'' \<mapsto> PStr (catalog_picture ca b cid)]
                in andthen (dual_catalog_upsert B (ca_row_id ca) row s) (\<lambda>_ s.
                     (Inr (catalog_to_out row), s)))))"

definition api_catalog_update ::
  "backend \<Rightarrow> network \<Rightarrow> uuid \<Rightarrow> string \<Rightarrow> catalog_body \<Rightarrow> session \<Rightarrow> catalog_out res \<times> session" where
  "api_catalog_update B N nid cid b s =
     (case check_catalog N b of
        Inl e \<Rightarrow> (Inl e, s)
      | Inr _ \<Rightarrow>
          (case dual_catalog_fetch_all B s of
             Inl e \<Rightarrow> (Inl e, s)
           | Inr rows \<Rightarrow>
               (case find_row ''Catalog_ID'' cid rows of
                  None \<Rightarrow> (Inl (HTTPException 404 ''Catalog entry not found''), s)
                | Some entry \<Rightarrow>
                    (let row = entry(''Catalog_ID'' \<mapsto> PStr cid, ''Roaster'' \<mapsto> PStr (strip (kb_roaster b)),
                           ''Bean_Name'' \<mapsto> PStr (strip (kb_bean_name b)),
                           ''Roast_Level'' \<mapsto> PStr (kb_roast_level b),
                           ''Product_URL'' \<mapsto> PStr (strip (opt_text (kb_product_url b))))
                     in andthen (dual_catalog_upsert B nid row s) (\<lambda>_ s.
                          (Inr (catalog_to_out row), s))))))"

section \<open>Inferring an entry from a product page\<close>

text \<open>The text before the last occurrence, or all of it.\<close>

definition before_last :: "string \<Rightarrow> string \<Rightarrow> string" where
  "before_last sub t =
     (case find (\<lambda>n. starts_with sub (drop n t)) (rev [0..<length t]) of None \<Rightarrow> t | Some n \<Rightarrow> take n t)"

definition unfenced :: "string \<Rightarrow> string" where
  "unfenced answer =
     (let t = strip answer
      in if starts_with ''```'' t
         then strip (before_last ''```'' (join_lines (tl (split_on (CHR 0x0A) t)))) else t)"

text \<open>
  A value of the model's answer: a text, another value that is false, or one that is not.
  \<open>json_object\<close> is \<open>json.loads\<close> for answers that are objects.
\<close>

datatype json_value = JText string | JFalsy | JOther

type_synonym json_object = "string \<Rightarrow> (string \<Rightarrow> json_value option) option"

text \<open>\<open>data.get(k, "") or ""\<close>; nothing stands for a value that is not a text.\<close>

definition answer_field :: "(string \<Rightarrow> json_value option) \<Rightarrow> string \<Rightarrow> string option" where
  "answer_field data k =
     (case data k of None \<Rightarrow> Some [] | Some (JText t) \<Rightarrow> Some t | Some JFalsy \<Rightarrow> Some [] | Some JOther \<Rightarrow> None)"

definition extract_prompt :: "string \<Rightarrow> string" where
  "extract_prompt context_block =
     ''You are a coffee product data extractor. Given the product page text below, ''
     @ ''return ONLY a JSON object with these exact keys: ''
     @ ''roaster (string), bean_name (string), roast_level (one of: ''
     @ ''Light, Light / Medium, Medium, Medium / Dark, Dark, or empty string if unclear). ''
     @ ''Return raw JSON only, no markdown, no explanation.'' @ newline @ newline
     @ ''Product page text:'' @ newline @ context_block"

definition slug_prompt :: "string \<Rightarrow> string" where
  "slug_prompt url =
     ''Given this coffee product URL: '' @ url @ newline
     @ ''Return ONLY a JSON object with these exact keys: ''
     @ ''roaster (string), bean_name (string), roast_level (one of: ''
     @ ''Light, Light / Medium, Medium, Medium / Dark, Dark, or empty string). ''
     @ ''If you cannot determine a value, use an empty string. ''
     @ ''Return raw JSON only, no markdown.''"

definition answer_level :: "string option \<Rightarrow> string" where
  "answer_level raw = (case raw of None \<Rightarrow> [] | Some l \<Rightarrow> if l \<in> set roast_levels then l else [])"

text \<open>Roaster, bean name and roast level from the model; a failed call or answer leaves them empty.\<close>

definition infer_fields ::
  "json_object \<Rightarrow> llm_client \<Rightarrow> string \<Rightarrow> string option \<times> string option \<times> string" where
  "infer_fields J llm prompt =
     (case llm prompt of
        Inl _ \<Rightarrow> (Some [], Some [], [])
      | Inr answer \<Rightarrow>
          (case J (unfenced answer) of
             None \<Rightarrow> (Some [], Some [], [])
           | Some data \<Rightarrow> (answer_field data ''roaster'', answer_field data ''bean_name'',
                            answer_level (answer_field data ''roast_level''))))"

record infer_out =
  io_roaster :: string
  io_bean_name :: string
  io_roast_level :: string
  io_image_path :: "string option"

definition empty_infer :: infer_out where
  "empty_infer = \<lparr>io_roaster = [], io_bean_name = [], io_roast_level = [], io_image_path = None\<rparr>"

text \<open>A name that is not a text is refused when the response is built, after the \<open>try\<close> blocks.\<close>

definition api_catalog_infer ::
  "json_object \<Rightarrow> network \<Rightarrow> llm_client \<Rightarrow> string \<Rightarrow> infer_out res" where
  "api_catalog_infer J N llm url =
     (if strip url = [] then Inr empty_infer
      else
        (let page = fetch_page_context N (strip url);
             prompt = (if inference_text page \<noteq> [] then extract_prompt (inference_text page)
                       else slug_prompt url)
         in case infer_fields J llm prompt of
              (Some roaster, Some bean, level) \<Rightarrow>
                (let image = source_bean_image N llm roaster bean url (Some page)
                 in Inr \<lparr>io_roaster = roaster, io_bean_name = bean, io_roast_level = level,
                         io_image_path = (if image = [] then None else Some image)\<rparr>)
            | _ \<Rightarrow> Inl ValueError))"

section \<open>New bags of an entry\<close>

record bag_body =
  nb_beans :: string
  nb_roast_date :: string
  nb_roast_level :: string
  nb_storage_method :: "string option"

text \<open>The catalog's roast level binds; an entry without one takes any known level.\<close>

definition effective_roast_level :: "dict \<Rightarrow> string \<Rightarrow> string res" where
  "effective_roast_level entry level =
     (let own = strip (py_key entry ''Roast_Level''); given = strip level
      in if own \<noteq> [] then
           (if given \<noteq> own
            then Inl (HTTPException 422 (''roast_level must match catalog roast level: '' @ own))
            else Inr own)
         else if given = [] then Inl (HTTPException 422 ''roast_level is required.'')
         else if given \<notin> set roast_levels then Inl (HTTPException 422 ''Invalid roast level.'')
         else Inr given)"

definition bag_row :: "string \<Rightarrow> string \<Rightarrow> dict \<Rightarrow> string \<Rightarrow> bag_body \<Rightarrow> dict" where
  "bag_row bag_id cid entry level b = [
     ''Bag_ID'' \<mapsto> PStr bag_id,
     ''Beans'' \<mapsto> PStr (if nb_beans b \<noteq> [] then nb_beans b else entry_name entry),
     ''RoastDate'' \<mapsto> PStr (nb_roast_date b),
     ''RoastLevel'' \<mapsto> PStr level,
     ''Display_Name'' \<mapsto> PStr (entry_name entry),
     ''Catalog_ID'' \<mapsto> PStr cid,
     ''Status'' \<mapsto> PStr ''Active'',
     ''Storage_Method'' \<mapsto> PStr (opt_text (nb_storage_method b))]"

definition api_catalog_add_bag ::
  "backend \<Rightarrow> (string \<Rightarrow> date option) \<Rightarrow> uuid \<Rightarrow> string \<Rightarrow> bag_body \<Rightarrow> session \<Rightarrow> bag_out res \<times> session"
where
  "api_catalog_add_bag B parse_date nid cid b s =
     (case dual_catalog_get B cid s of
        Inl e \<Rightarrow> (Inl e, s)
      | Inr None \<Rightarrow> (Inl (HTTPException 404 ''Catalog entry not found''), s)
      | Inr (Some entry) \<Rightarrow>
          (case effective_roast_level entry (nb_roast_level b) of
             Inl e \<Rightarrow> (Inl e, s)
           | Inr level \<Rightarrow>
               (case parse_date (nb_roast_date b) of
                  None \<Rightarrow> (Inl (HTTPException 422 ''roast_date must be ISO format (YYYY-MM-DD)''), s)
                | Some roast_date \<Rightarrow>
                    (case dual_inventory_list B None s of
                       Inl e \<Rightarrow> (Inl e, s)
                     | Inr bags \<Rightarrow>
                         if list_ex (\<lambda>g. g ''Bag_ID'' = None) bags then (Inl KeyError, s)
                         else
                           (case make_inventory_id (py_key entry ''Roaster'') roast_date level
                                   (map (\<lambda>g. py_key g ''Bag_ID'') bags) of
                              Inl e \<Rightarrow> (Inl e, s)
                            | Inr bag_id \<Rightarrow>
                                (let row = bag_row bag_id cid entry level b
                                 in andthen (dual_inventory_upsert B nid row s) (\<lambda>_ s.
                                      (Inr (bag_to_out row (entry_name entry)), s))))))))"

section \<open>Uploading a picture\<close>

definition jpeg_signature :: string where
  "jpeg_signature = [CHR 0xFF, CHR 0xD8, CHR 0xFF]"

definition png_signature :: string where
  "png_signature = [CHR 0x89] @ ''PNG'' @ [CHR 0x0D, CHR 0x0A, CHR 0x1A, CHR 0x0A]"

definition upload_bytes_match_content_type :: "string \<Rightarrow> string \<Rightarrow> bool" where
  "upload_bytes_match_content_type bytes ct =
     (if ct = ''image/jpeg'' then starts_with jpeg_signature bytes
      else if ct = ''image/png'' then starts_with png_signature bytes
      else if ct = ''image/webp'' then
        12 \<le> length bytes \<and> starts_with ''RIFF'' bytes \<and> take 4 (drop 8 bytes) = ''WEBP''
      else False)"

definition max_upload_bytes :: nat where
  "max_upload_bytes = 2097152"

definition upload_ext :: "string \<Rightarrow> string" where
  "upload_ext ct = (if ct = ''image/jpeg'' then ''jpg'' else if ct = ''image/png'' then ''png'' else ''webp'')"

definition check_upload :: "string \<Rightarrow> string \<Rightarrow> unit res" where
  "check_upload ct bytes =
     (if ct \<notin> {''image/jpeg'', ''image/png'', ''image/webp''}
      then Inl (HTTPException 422 ''file must be a JPEG, PNG, or WebP image.'')
      else if bytes = [] then Inl (HTTPException 422 ''file must not be empty.'')
      else if max_upload_bytes < length bytes
      then Inl (HTTPException 413 ''file must be 2 MB or smaller.'')
      else if \<not> upload_bytes_match_content_type bytes ct
      then Inl (HTTPException 422 ''file content does not match the declared image type.'')
      else Inr ())"

definition api_catalog_upload_image ::
  "backend \<Rightarrow> storage \<Rightarrow> string \<Rightarrow> uuid \<Rightarrow> string \<Rightarrow> string option \<Rightarrow> string \<Rightarrow> session \<times> files
     \<Rightarrow> string res \<times> session \<times> files" where
  "api_catalog_upload_image B G hex nid cid content_type bytes sf =
     (case sf of (s, fs) \<Rightarrow>
       (case dual_catalog_get B cid s of
          Inl e \<Rightarrow> (Inl e, s, fs)
        | Inr None \<Rightarrow> (Inl (HTTPException 404 ''Catalog entry not found''), s, fs)
        | Inr (Some _) \<Rightarrow>
            (let ct = media_type (opt_text content_type)
             in case check_upload ct bytes of
                  Inl e \<Rightarrow> (Inl e, s, fs)
                | Inr _ \<Rightarrow>
                    (case upload_image G bytes ct (''bean-images/'' @ cid @ ''-'' @ hex @ ''.'' @ upload_ext ct)
                            (assets_bucket G) fs of
                       (Inl e, fs) \<Rightarrow> (Inl e, s, fs)
                     | (Inr path, fs) \<Rightarrow>
                         (case dual_catalog_get B cid s of
                            Inl e \<Rightarrow> (Inl e, s, fs)
                          | Inr None \<Rightarrow> (Inr path, s, fs)
                          | Inr (Some fresh) \<Rightarrow>
                              (case dual_catalog_upsert B nid (fresh(''Local_Image_Path'' \<mapsto> PStr path)) s of
                                 (Inl e, s) \<Rightarrow> (Inl e, s, fs)
                               | (Inr _, s) \<Rightarrow> (Inr path, s, fs)))))))"

end
