(* ===== verification/CatalogProps.thy ===== *)
theory CatalogProps
  imports ApiCatalog BrewCreate
begin

text \<open>
  The isolation of all tenant endpoints, of which those of the catalog are the last, and the
  catalog endpoints with the SQL repositories: the rows a creation, a change and
  a new bag commit, the identifiers they choose, and the limits of an uploaded picture.
\<close>

section \<open>Isolation\<close>

lemma catalog_same_view:
  assumes "same_view s t"
  shows "linked_shots B s bs = linked_shots B t bs"
    "catalog_shots_out B s display rs = catalog_shots_out B t display rs"
proof -
  show "linked_shots B s bs = linked_shots B t bs"
    by (induction bs) (simp_all add: dual_same_view [OF assms] cong: cases_cong)
  have hw: "shot_hardware B s k = shot_hardware B t k" for k
    by (simp add: shot_hardware_def dual_same_view [OF assms])
  have "catalog_shot_out B s display r = catalog_shot_out B t display r" for r
    by (simp add: catalog_shot_out_def hw)
  then show "catalog_shots_out B s display rs = catalog_shots_out B t display rs"
    by (induction rs) (simp_all cong: cases_cong)
qed

lemma within_catalog_endpoints [within_intros]:
  assumes "within hid d s"
  shows "within hid d (snd (api_catalog_create B ca b s))"
    "within hid d (snd (api_catalog_update B N nid cid b s))"
    "within hid d (snd (api_catalog_add_bag B pd nid cid g s))"
    "within hid d (fst (snd (api_catalog_upload_image B G hex nid cid ct bytes (s, fs))))"
proof -
  have up: "within hid d t" if "dual_catalog_upsert B nid row s = (r, t)" for nid row r t
    using within_dual(8) [OF assms, of B nid row] that by simp
  show "within hid d (fst (snd (api_catalog_upload_image B G hex nid cid ct bytes (s, fs))))"
    using assms
    by (auto simp: api_catalog_upload_image_def Let_def split: sum.split option.split prod.split dest: up)
qed (use assms in \<open>auto simp: api_catalog_create_def api_catalog_update_def api_catalog_add_bag_def
      Let_def split: sum.split option.split intro!: within_intros\<close>)

text \<open>
  C2. No reading endpoint reveals anything of another household. Two databases that agree on
  what belongs to a household give, under that household's setting, the same answers to the
  list, the detail, the feedback and the creation form's defaults of its shots, to the
  dashboard, to the hardware, maintenance, inventory and catalog views, and to the guest view.
\<close>

theorem reads_see_own_household:
  assumes "same_view s t"
  shows "api_brew_log_list B a p q s = api_brew_log_list B a p q t
    \<and> api_brew_log_detail B shot s = api_brew_log_detail B shot t
    \<and> api_brew_log_feedback B shot s = api_brew_log_feedback B shot t
    \<and> existing_idempotent_response B k h s = existing_idempotent_response B k h t
    \<and> api_get_defaults B bag b s = api_get_defaults B bag b t
    \<and> get_defaults_api B bag s = get_defaults_api B bag t
    \<and> api_dashboard B today s = api_dashboard B today t
    \<and> api_hardware_list B s = api_hardware_list B t
    \<and> api_hardware_detail B hw s = api_hardware_detail B hw t
    \<and> api_maintenance_list B hwo s = api_maintenance_list B hwo t
    \<and> api_inventory_list B st s = api_inventory_list B st t
    \<and> api_inventory_detail B bag s = api_inventory_detail B bag t
    \<and> api_catalog_list B s = api_catalog_list B t
    \<and> api_catalog_detail B cid s = api_catalog_detail B cid t
    \<and> render_guest_view B hh s = render_guest_view B hh t"
  by (simp add: api_brew_log_list_def api_brew_log_detail_def api_brew_log_feedback_def
      existing_idempotent_response_def render_shot_def api_get_defaults_def get_defaults_api_def
      api_dashboard_def api_hardware_list_def api_hardware_detail_def api_maintenance_list_def
      api_inventory_list_def api_inventory_detail_def render_guest_view_def guest_tables_def
      lookups_same_view [OF assms] equipment_same_view [OF assms] defaults_same_view [OF assms]
      api_catalog_list_def api_catalog_detail_def Let_def catalog_same_view [OF assms]
      dual_same_view [OF assms] cong: cases_cong)

theorem reads_see_own_household_witness:
  "api_catalog_list postgres_backend
       (set_household_context 5 (open_session (two_households [machine_of 6 ''M02'' ''Secret''])))
     = api_catalog_list postgres_backend (set_household_context 5 (open_session (two_households [])))
   \<and> api_hardware_list postgres_backend
       (set_household_context 5 (open_session (two_households [machine_of 6 ''M02'' ''Secret''])))
     = api_hardware_list postgres_backend (set_household_context 5 (open_session (two_households [])))"
proof -
  have "same_view (set_household_context 5 (open_session (two_households [machine_of 6 ''M02'' ''Secret''])))
      (set_household_context 5 (open_session (two_households [])))"
    unfolding same_view_def by (rule exI [of _ 5]) code_simp
  from reads_see_own_household [OF this, of postgres_backend] show ?thesis by blast
qed

text \<open>
  C1. No writing endpoint of the tenant data touches anything outside the household it runs
  under. A request of a member, in a transaction under the setting of the member's household,
  leaves every row of every other household, the rows without household and all other tables in
  the database as they were, whatever its result. These are all writing routes of the brew log,
  hardware, maintenance, inventory and catalog routers: creating, correcting and deleting shots,
  generating feedback, creating and changing hardware, logging maintenance, changing a bag,
  creating and changing a catalog entry, adding a bag to it and uploading its picture.
\<close>

theorem writes_stay_home:
  assumes "guc s = Some (m_household_id m)" "work s = committed s"
  shows "list_all (\<lambda>t. outside (m_household_id m) (close_session t)
          = outside (m_household_id m) (committed s))
      [snd (snd (api_brew_log_create B ce body m c s)),
       snd (api_brew_log_patch B shot patch s),
       snd (api_brew_log_delete B shot s),
       snd (api_brew_log_feedback_generate B llm today shot m s),
       snd (api_hardware_create B he category name url s),
       snd (api_hardware_update B nid hw name new_category s),
       snd (api_maintenance_create B nid db_now hw action date notes s),
       snd (api_inventory_patch B nid bag status s),
       snd (api_catalog_create B ca ce_body s),
       snd (api_catalog_update B nets nid cid cu_body s),
       snd (api_catalog_add_bag B pd nid cid new_bag s),
       fst (snd (api_catalog_upload_image B G hex nid cid ct bytes (s, fs)))]"
proof -
  let ?hid = "m_household_id m"
  have start: "within ?hid (outside ?hid (committed s)) s"
    using assms by (simp add: within_def)
  have D: "within ?hid (outside ?hid (committed s)) t \<Longrightarrow>
      outside ?hid (close_session t) = outside ?hid (committed s)" for t
    by (simp add: within_def)
  show ?thesis
    by (simp only: list.pred_inject simp_thms, intro conjI; rule D)
      (simp_all add: within_create within_brew_endpoints within_equipment within_catalog_endpoints start)
qed

theorem writes_stay_home_witness:
  "filter (\<lambda>r. w_household_id r \<noteq> Some 5) (hardware (close_session (snd
      (api_hardware_create postgres_backend new_machine ''Grinder'' ''Mill'' None
        (set_household_context 5 (open_session (two_households [machine_of 6 ''M02'' ''Secret''])))))))
    = [machine_of 6 ''M02'' ''Secret'']"
proof -
  let ?s = "set_household_context 5 (open_session (two_households [machine_of 6 ''M02'' ''Secret'']))"
  have pre: "guc ?s = Some (m_household_id (demo_member 11 5 1 Admin))" "work ?s = committed ?s"
    by (simp_all add: demo_member_def)
  have "hardware (outside 5 (close_session (snd
      (api_hardware_create postgres_backend new_machine ''Grinder'' ''Mill'' None ?s))))
      = hardware (outside 5 (committed ?s))"
    using writes_stay_home [OF pre, where B = postgres_backend and he = new_machine
        and category = "''Grinder''" and name = "''Mill''" and url = None]
    by (simp add: demo_member_def)
  then show ?thesis by (simp add: outside_def two_households_def machine_of_def)
qed



section \<open>The committed row\<close>

definition int_reads :: "conversions \<Rightarrow> bool" where
  "int_reads C \<longleftrightarrow> (\<forall>n. cv_int C (pad_int3 n) = Some n)"

lemma foldl_max_init: "(n::int) \<le> foldl max n ns"
proof (induction ns arbitrary: n)
  case (Cons m ms)
  have "n \<le> max n m" by simp
  also have "\<dots> \<le> foldl max (max n m) ms" by (rule Cons.IH)
  finally show ?case by simp
qed simp

lemma foldl_max_ge: "x \<in> set ns \<Longrightarrow> (x::int) \<le> foldl max n ns"
proof (induction ns arbitrary: n)
  case (Cons m ms)
  then show ?case using foldl_max_init [of "max n m" ms] by auto
qed simp

lemma next_catalog_id_new:
  assumes "int_reads C" "r \<in> set rows"
  shows "py_key r ''Catalog_ID'' \<noteq> next_catalog_id C rows"
proof
  let ?top = "case catalog_nums C rows of [] \<Rightarrow> 99 | n # ns \<Rightarrow> foldl max n ns"
  assume same: "py_key r ''Catalog_ID'' = next_catalog_id C rows"
  then have pre: "starts_with ''CAT'' (py_key r ''Catalog_ID'')"
    and int: "cv_int C (drop 3 (py_key r ''Catalog_ID'')) = Some (?top + 1)"
    using assms(1) by (simp_all add: next_catalog_id_def starts_with_def int_reads_def)
  then have mem: "?top + 1 \<in> set (catalog_nums C rows)"
    using assms(2) by (auto simp: catalog_nums_def set_map_filter)
  show False
  proof (cases "catalog_nums C rows")
    case (Cons n ns)
    with mem foldl_max_ge [of "?top + 1" ns n] foldl_max_init [of n ns] show False by auto
  qed (use mem in simp)
qed

lemma catalog_upsert_result:
  assumes "catalog_upsert C nid row s = (r, t)" "guc s = Some hid"
    and "row ''household_id'' = None" "row ''Household_ID'' = None"
  shows "case r of
      Inl e \<Rightarrow> t = s
    | Inr _ \<Rightarrow> household_exists s (Some hid) \<and>
        ((\<exists>old q. scalar_one_or_none (filter (\<lambda>k. c_sheets_id k = lookup_key row ''Catalog_ID'') (visible_catalog s))
              = Inr (Some old) \<and> lookup_key row ''Catalog_ID'' \<noteq> None
            \<and> catalog_values row (Some hid) old = Inr q
            \<and> t = commit (upd_work (\<lambda>d. d\<lparr>catalog := update_where
                (\<lambda>k. rls_pass s (c_household_id k) \<and> c_id k = c_id old) (\<lambda>_. q) (catalog d)\<rparr>) s))
         \<or> (\<exists>q. catalog_values row (Some hid) (blank_catalog nid (py_text (py_get row ''Catalog_ID''))) = Inr q
            \<and> (c_sheets_id q = None \<or> c_sheets_id q \<notin> c_sheets_id ` set (catalog (work s)))
            \<and> t = commit (upd_work (\<lambda>d. d\<lparr>catalog := catalog d @ [q]\<rparr>) s)))"
proof -
  have ctx: "row_household_id_or_context C s row = Inr (Some hid)"
    using assms(2-4)
    by (simp add: row_household_id_or_context_def row_household_id_def py_get_def py_or_def
        parse_uuid_def current_household_id_def)
  have own: "catalog_values row h k = Inr q \<Longrightarrow> c_household_id q = h" for h k q
    by (auto simp: catalog_values_def split: option.splits)
  show ?thesis
    using assms(1) ctx
    by (auto simp: catalog_upsert_def Let_def insert_refused_def
        split: sum.splits option.splits if_splits)
qed

lemma catalog_values_simps:
  assumes "catalog_values row h k = Inr q"
  shows "c_household_id q = h" "c_id q = c_id k" "c_sheets_id q = c_sheets_id k"
    "py_text (py_get_or row ''Roaster'' (PStr [])) = Some (c_roaster q)"
    "py_text (py_get_or row ''Bean_Name'' (PStr [])) = Some (c_bean_name q)"
    "c_roast_level q = py_text (py_get row ''Roast_Level'')"
    "c_product_url q = py_text (py_get row ''Product_URL'')"
    "c_local_image_path q = py_text (py_get row ''Local_Image_Path'')"
    "c_origin q = py_text (py_get row ''Origin'')" "c_process q = py_text (py_get row ''Process'')"
  using assms by (auto simp: catalog_values_def split: option.splits)

lemma dual_catalog_fetch_all_postgres:
  assumes "bk_use_postgres B" "bk_sql B" shows "dual_catalog_fetch_all B s = Inr (catalog_list s)"
  by (simp add: dual_catalog_fetch_all_def dual_postgres [OF assms])

definition new_entry :: "catalog_env \<Rightarrow> catalog_body \<Rightarrow> string \<Rightarrow> dict" where
  "new_entry ca b cid = [''Catalog_ID'' \<mapsto> PStr cid, ''Roaster'' \<mapsto> PStr (strip (kb_roaster b)),
     ''Bean_Name'' \<mapsto> PStr (strip (kb_bean_name b)), ''Roast_Level'' \<mapsto> PStr (kb_roast_level b),
     ''Product_URL'' \<mapsto> PStr (strip (opt_text (kb_product_url b))),
     ''Local_Image_Path'' \<mapsto> PStr (catalog_picture ca b cid)]"

text \<open>A valid creation is one upsert of the new entry.\<close>

lemma catalog_create_upsert:
  assumes "bk_use_postgres B" "bk_sql B" "check_catalog (ca_net ca) b = Inr ()"
    and "row = new_entry ca b (next_catalog_id (bk_conv B) (catalog_list s))"
    and "catalog_upsert (bk_conv B) (ca_row_id ca) row s = (r, t)"
  shows "api_catalog_create B ca b s =
    (map_sum id (\<lambda>_. catalog_to_out row) r, (case r of Inl _ \<Rightarrow> rollback t | Inr _ \<Rightarrow> t))"
  using assms
  by (simp add: api_catalog_create_def dual_catalog_fetch_all_postgres new_entry_def Let_def
      dual_catalog_upsert_def dual_postgres split: sum.split)

lemma next_catalog_id_nonempty: "next_catalog_id C rows \<noteq> []"
  by (simp add: next_catalog_id_def)

text \<open>The chosen identifier is none of the visible ones, so the upsert inserts.\<close>

lemma new_entry_is_new:
  assumes "int_reads C"
  shows "filter (\<lambda>k. c_sheets_id k = Some (next_catalog_id C (catalog_list s))) (visible_catalog s) = []"
proof -
  let ?cid = "next_catalog_id C (catalog_list s)"
  have "c_sheets_id k \<noteq> Some ?cid" if "k \<in> set (visible_catalog s)" for k
  proof
    assume "c_sheets_id k = Some ?cid"
    then have "py_key (catalog_to_dict k) ''Catalog_ID'' = ?cid"
      by (simp add: py_key_def py_get_or_def catalog_to_dict_def or_empty_def)
    with next_catalog_id_new [OF assms, of "catalog_to_dict k" "catalog_list s"] that show False
      by (simp add: catalog_list_def)
  qed
  then show ?thesis by (auto simp: filter_empty_conv)
qed

lemma new_entry_lookup:
  "lookup_key (new_entry ca b cid) ''Catalog_ID'' = (if cid = [] then None else Some cid)"
  "new_entry ca b cid ''household_id'' = None" "new_entry ca b cid ''Household_ID'' = None"
  by (simp_all add: new_entry_def lookup_key_def py_get_def py_string_def)

lemma new_entry_values:
  assumes "catalog_values (new_entry ca b cid) h (blank_catalog nid (Some cid)) = Inr q"
  shows "catalog_to_out (catalog_to_dict q) = catalog_to_out (new_entry ca b cid)"
    "c_roaster q = strip (kb_roaster b)" "c_bean_name q = strip (kb_bean_name b)"
  using catalog_values_simps [OF assms]
  by (simp_all add: new_entry_def catalog_to_dict_def catalog_to_out_def py_key_def py_get_def
      py_get_or_def or_none_def py_string_def or_empty_def blank_catalog_def)

lemma check_catalogD:
  assumes "check_catalog N b = Inr ()"
  shows "strip (kb_roaster b) \<noteq> []" "strip (kb_bean_name b) \<noteq> []"
    "kb_roast_level b = [] \<or> kb_roast_level b \<in> set roast_levels"
  using assms by (auto simp: check_catalog_def Let_def split: sum.splits if_splits)

text \<open>
  C36. Creating a catalog entry commits exactly one row or nothing: a row of the household,
  under the identifier of the response, which no other row of the table has; it reads back as
  the response, its roaster and bean name are not blank and its roast level is one of the five
  known ones or empty. Every failure leaves the database as it was.
\<close>

theorem catalog_create_result:
  assumes "bk_use_postgres B" "bk_sql B" "int_reads (bk_conv B)"
    and "guc s = Some hid" "work s = committed s"
    and "api_catalog_create B ca b s = (r, t)"
  shows "case r of
      Inl _ \<Rightarrow> close_session t = committed s
    | Inr out \<Rightarrow> \<exists>q. close_session t = (committed s)\<lparr>catalog := catalog (committed s) @ [q]\<rparr>
        \<and> c_household_id q = Some hid \<and> c_sheets_id q = Some (co_catalog_id out)
        \<and> c_sheets_id q \<notin> c_sheets_id ` set (catalog (committed s))
        \<and> catalog_to_out (catalog_to_dict q) = out
        \<and> co_roaster out \<noteq> [] \<and> co_bean_name out \<noteq> []
        \<and> co_roast_level out \<in> insert [] (set roast_levels)"
proof (cases "check_catalog (ca_net ca) b")
  case (Inl e)
  then show ?thesis using assms(6) by (auto simp: api_catalog_create_def)
next
  case (Inr u)
  then have ok: "check_catalog (ca_net ca) b = Inr ()" by simp
  define cid where "cid = next_catalog_id (bk_conv B) (catalog_list s)"
  define row where "row = new_entry ca b cid"
  obtain r1 t1 where up: "catalog_upsert (bk_conv B) (ca_row_id ca) row s = (r1, t1)" by fastforce
  have run: "r = map_sum id (\<lambda>_. catalog_to_out row) r1"
    "t = (case r1 of Inl _ \<Rightarrow> rollback t1 | Inr _ \<Rightarrow> t1)"
    using catalog_create_upsert [OF assms(1,2) ok row_def [unfolded cid_def] up] assms(6) by simp_all
  have key: "cid \<noteq> []" by (simp add: cid_def next_catalog_id_nonempty)
  have none: "filter (\<lambda>k. c_sheets_id k = lookup_key row ''Catalog_ID'') (visible_catalog s) = []"
    using new_entry_is_new [OF assms(3), of s] key by (simp add: row_def new_entry_lookup cid_def)
  have id: "py_text (py_get row ''Catalog_ID'') = Some cid"
    by (simp add: row_def new_entry_def py_get_def)
  have "row ''household_id'' = None" "row ''Household_ID'' = None"
    by (simp_all add: row_def new_entry_lookup)
  note res = catalog_upsert_result [OF up assms(4) this]
  show ?thesis
  proof (cases r1)
    case (Inl e)
    then show ?thesis using run res by simp
  next
    case (Inr v)
    with res obtain q where q: "catalog_values row (Some hid) (blank_catalog (ca_row_id ca) (Some cid)) = Inr q"
      "c_sheets_id q = None \<or> c_sheets_id q \<notin> c_sheets_id ` set (catalog (work s))"
      "t1 = commit (upd_work (\<lambda>d. d\<lparr>catalog := catalog d @ [q]\<rparr>) s)"
      using id none by auto
    have vals: "c_household_id q = Some hid" "c_sheets_id q = Some cid"
      using catalog_values_simps [OF q(1)] by (simp_all add: blank_catalog_def)
    have out: "co_catalog_id (catalog_to_out row) = cid" "co_roaster (catalog_to_out row) = strip (kb_roaster b)"
      "co_bean_name (catalog_to_out row) = strip (kb_bean_name b)"
      "co_roast_level (catalog_to_out row) = kb_roast_level b"
      by (simp_all add: row_def new_entry_def catalog_to_out_def py_key_def py_get_or_def)
    have ok_run: "r = Inr (catalog_to_out row)"
      "close_session t = (committed s)\<lparr>catalog := catalog (committed s) @ [q]\<rparr>"
      using run Inr q(3) assms(5) by simp_all
    show ?thesis
      unfolding ok_run sum.case out
      by (rule exI [of _ q]) (use q(2) vals check_catalogD [OF ok] assms(5)
          new_entry_values(1) [OF q(1) [unfolded row_def]] row_def in auto)
  qed
qed

text \<open>A backend whose \<open>int\<close> reads negative numbers too.\<close>

definition digits_int :: "string \<Rightarrow> int option" where
  "digits_int t = (case t of [] \<Rightarrow> None
     | c # ds \<Rightarrow> if c = CHR ''-'' then map_option (\<lambda>n. - int n) (parse_digits ds)
                else map_option int (parse_digits t))"

definition catalog_backend :: backend where
  "catalog_backend = postgres_backend\<lparr>bk_conv := plain_conversions\<lparr>cv_int := digits_int\<rparr>\<rparr>"

lemma catalog_backend_simps:
  "bk_use_postgres catalog_backend" "bk_sql catalog_backend"
  by (simp_all add: catalog_backend_def postgres_backend_def)

lemma catalog_backend_reads: "int_reads (bk_conv catalog_backend)"
proof -
  have digits: "parse_digits (pad0 w n) = Some n" for w n by (simp add: parse_digits_def)
  have "digits_int (pad0 w n) = Some (int n)" for w n
  proof (cases "pad0 w n")
    case (Cons c ds)
    then have "c \<noteq> CHR ''-''" using pad0_digits [of w n] by (auto simp: is_digit_def)
    with Cons digits [of w n] show ?thesis by (simp add: digits_int_def)
  qed simp
  then show ?thesis
    by (simp add: int_reads_def catalog_backend_def pad_int3_def digits_int_def digits)
qed

definition first_entry :: catalog_body where
  "first_entry = \<lparr>kb_roaster = '' Verve '', kb_bean_name = ''Street'', kb_roast_level = ''Medium'',
     kb_product_url = None, kb_source_image_url = None\<rparr>"

definition offline_catalog :: "uuid \<Rightarrow> catalog_env" where
  "offline_catalog nid = \<lparr>ca_row_id = nid, ca_net = open_net, ca_llm = noop_client,
     ca_storage = \<lparr>sg_project = [], sg_upload = (\<lambda>_ _ _ _. False)\<rparr>, ca_hex = ''0a''\<rparr>"

theorem catalog_create_result_witness:
  "\<exists>q. catalog (close_session (snd (api_catalog_create catalog_backend (offline_catalog 80) first_entry
        (home_session 5 (two_households []))))) = [q]
     \<and> c_household_id q = Some 5 \<and> c_sheets_id q = Some ''CAT100''"
proof -
  let ?s = "home_session 5 (two_households [])"
  let ?run = "api_catalog_create catalog_backend (offline_catalog 80) first_entry ?s"
  have pre: "guc ?s = Some 5" "work ?s = committed ?s" by (simp_all add: home_session_def)
  have "map_sum id co_catalog_id (fst ?run) = Inr ''CAT100''" by code_simp
  then obtain out where out: "fst ?run = Inr out" "co_catalog_id out = ''CAT100''"
    by (auto simp: map_sum_eq_Inr)
  from catalog_create_result [OF catalog_backend_simps catalog_backend_reads pre, of "offline_catalog 80" first_entry
      "fst ?run" "snd ?run"] out
  show ?thesis by (auto simp: home_session_def two_households_def demo_db_def)
qed

section \<open>Identifiers of other households\<close>

text \<open>
  The next identifier is computed from the household's own entries, but must be unique in
  the whole table: when another household has that entry, no entry can be created. A request
  with valid fields then fails with an integrity error and commits nothing. In particular two
  households can never both have a first entry, which is always \<open>CAT100\<close>.
\<close>

theorem foreign_entry_blocks_catalog:
  assumes "bk_use_postgres B" "bk_sql B" "int_reads (bk_conv B)"
    and "guc s = Some hid" "work s = committed s"
    and "check_catalog (ca_net ca) b = Inr ()"
    and "x \<in> set (catalog (committed s))"
      "c_sheets_id x = Some (next_catalog_id (bk_conv B) (catalog_list s))"
  shows "fst (api_catalog_create B ca b s) = Inl IntegrityError
    \<and> close_session (snd (api_catalog_create B ca b s)) = committed s"
proof -
  define cid where "cid = next_catalog_id (bk_conv B) (catalog_list s)"
  define row where "row = new_entry ca b cid"
  have ctx: "row_household_id_or_context (bk_conv B) s row = Inr (Some hid)"
    using assms(4)
    by (simp add: row_def new_entry_lookup row_household_id_or_context_def row_household_id_def
        py_get_def py_or_def parse_uuid_def current_household_id_def)
  have vals: "\<exists>q. catalog_values row (Some hid) (blank_catalog nid (Some cid)) = Inr q" for nid
    by (simp add: row_def new_entry_def catalog_values_def py_get_or_def)
  then obtain q where q: "catalog_values row (Some hid) (blank_catalog (ca_row_id ca) (Some cid)) = Inr q"
    by blast
  have sid: "c_sheets_id q = Some cid" using catalog_values_simps(3) [OF q] by (simp add: blank_catalog_def)
  have taken: "Some cid \<in> c_sheets_id ` set (catalog (committed s))"
    using assms(7,8) unfolding cid_def by (metis image_eqI)
  have "catalog_upsert (bk_conv B) (ca_row_id ca) row s = (Inl IntegrityError, s)"
  proof -
    have key: "lookup_key row ''Catalog_ID'' = Some cid" "py_text (py_get row ''Catalog_ID'') = Some cid"
      by (simp_all add: row_def new_entry_lookup cid_def next_catalog_id_nonempty)
        (simp add: new_entry_def py_get_def)
    have none: "filter (\<lambda>k. c_sheets_id k = Some cid) (visible_catalog s) = []"
      using new_entry_is_new [OF assms(3), of s] by (simp add: cid_def)
    have "insert_refused s (Some hid) nid ids (c_sheets_id q) (map c_sheets_id (catalog (work s))) = Some IntegrityError" for nid ids
      using sid taken assms(4,5) by (simp add: insert_refused_def rls_pass_def)
    then show ?thesis
      using ctx key none q by (simp add: catalog_upsert_def)
  qed
  from catalog_create_upsert [OF assms(1,2,6) row_def [unfolded cid_def] this]
  show ?thesis by simp
qed

theorem foreign_entry_blocks_catalog_witness:
  "fst (api_catalog_create catalog_backend (offline_catalog 81) first_entry
      (home_session 6 (close_session (snd (api_catalog_create catalog_backend (offline_catalog 80) first_entry
        (home_session 5 (two_households [])))))))
     = Inl IntegrityError"
proof -
  let ?d = "close_session (snd (api_catalog_create catalog_backend (offline_catalog 80) first_entry
        (home_session 5 (two_households []))))"
  let ?s = "home_session 6 ?d"
  have pre: "guc ?s = Some 6" "work ?s = committed ?s" by (simp_all add: home_session_def)
  have ok: "check_catalog (ca_net (offline_catalog 81)) first_entry = Inr ()" by code_simp
  have "list_ex (\<lambda>x. c_sheets_id x = Some (next_catalog_id (bk_conv catalog_backend) (catalog_list ?s)))
      (catalog (committed ?s))" by code_simp
  then obtain x where "x \<in> set (catalog (committed ?s))"
    "c_sheets_id x = Some (next_catalog_id (bk_conv catalog_backend) (catalog_list ?s))"
    by (auto simp: list_ex_iff)
  from foreign_entry_blocks_catalog [OF catalog_backend_simps catalog_backend_reads pre ok this]
  show ?thesis by blast
qed

section \<open>Changing an entry\<close>

lemma rls_pass_iff: "guc s = Some hid \<Longrightarrow> rls_pass s h \<longleftrightarrow> h = Some hid"
  by (cases h) (auto simp: rls_pass_def)

lemma find_row_visible:
  assumes "find_row ''Catalog_ID'' cid (catalog_list s) = Some entry" "cid \<noteq> []"
  obtains k where "k \<in> set (visible_catalog s)" "c_sheets_id k = Some cid" "entry = catalog_to_dict k"
proof -
  from assms(1) obtain k where k: "k \<in> set (visible_catalog s)" "entry = catalog_to_dict k"
    "py_get entry ''Catalog_ID'' = PStr cid"
    unfolding find_row_def catalog_list_def
    by (auto dest!: find_Some_in)
  have "c_sheets_id k = Some cid"
    using k(2,3) assms(2)
    by (auto simp: catalog_to_dict_def py_get_def or_empty_def split: option.splits)
  with k that show thesis by blast
qed

text \<open>
  Changing an entry rewrites exactly the household's entry with that identifier or nothing:
  the new roaster, bean name, roast level and product address are stored without surrounding
  blanks, the picture is kept, and the response is the entry as it now reads. The columns for
  origin and process, which no dict carries, are emptied.
\<close>

theorem catalog_update_result:
  assumes "bk_use_postgres B" "bk_sql B" "guc s = Some hid" "work s = committed s" "cid \<noteq> []"
    and "api_catalog_update B N nid cid b s = (Inr out, t)"
  shows "\<exists>old q. old \<in> set (catalog (committed s)) \<and> c_household_id old = Some hid \<and> c_sheets_id old = Some cid
    \<and> close_session t = (committed s)\<lparr>catalog := update_where
          (\<lambda>k. c_household_id k = Some hid \<and> c_id k = c_id old) (\<lambda>_. q) (catalog (committed s))\<rparr>
    \<and> c_id q = c_id old \<and> c_household_id q = Some hid \<and> c_sheets_id q = Some cid
    \<and> c_roaster q = strip (kb_roaster b) \<and> c_bean_name q = strip (kb_bean_name b)
    \<and> c_roast_level q = Some (kb_roast_level b)
    \<and> catalog_to_out (catalog_to_dict q) = out
    \<and> co_image_path out = co_image_path (catalog_to_out (catalog_to_dict old))
    \<and> c_origin q = None \<and> c_process q = None"
proof -
  from assms(6) obtain entry where e: "find_row ''Catalog_ID'' cid (catalog_list s) = Some entry"
    by (auto simp: api_catalog_update_def dual_catalog_fetch_all_postgres [OF assms(1,2)]
        split: sum.splits option.splits)
  define row where "row = entry(''Catalog_ID'' \<mapsto> PStr cid, ''Roaster'' \<mapsto> PStr (strip (kb_roaster b)),
      ''Bean_Name'' \<mapsto> PStr (strip (kb_bean_name b)), ''Roast_Level'' \<mapsto> PStr (kb_roast_level b),
      ''Product_URL'' \<mapsto> PStr (strip (opt_text (kb_product_url b))))"
  obtain k where k: "k \<in> set (visible_catalog s)" "c_sheets_id k = Some cid" "entry = catalog_to_dict k"
    using find_row_visible [OF e assms(5)] .
  obtain r1 t1 where up: "catalog_upsert (bk_conv B) nid row s = (r1, t1)" by fastforce
  from assms(6) e up have run: "r1 = Inr ()" "t = t1" "out = catalog_to_out row"
    by (auto simp: api_catalog_update_def dual_catalog_fetch_all_postgres [OF assms(1,2)] row_def [symmetric]
        Let_def dual_catalog_upsert_def dual_postgres [OF assms(1,2)] andthen_def split: sum.splits prod.splits)
  have rowd: "row ''household_id'' = None" "row ''Household_ID'' = None"
    "lookup_key row ''Catalog_ID'' = Some cid" "row ''Origin'' = None" "row ''Process'' = None"
    "py_text (py_get row ''Catalog_ID'') = Some cid"
    using assms(5)
    by (simp_all add: row_def k(3) catalog_to_dict_def lookup_key_def py_get_def py_string_def)
  have some: "k \<in> set (filter (\<lambda>r. c_sheets_id r = lookup_key row ''Catalog_ID'') (visible_catalog s))"
    using k rowd by simp
  have found: "\<exists>old q. scalar_one_or_none (filter (\<lambda>r. c_sheets_id r = lookup_key row ''Catalog_ID'') (visible_catalog s))
              = Inr (Some old) \<and> catalog_values row (Some hid) old = Inr q
            \<and> t1 = commit (upd_work (\<lambda>d. d\<lparr>catalog := update_where
                (\<lambda>r. rls_pass s (c_household_id r) \<and> c_id r = c_id old) (\<lambda>_. q) (catalog d)\<rparr>) s)"
  proof -
    have seen: "k \<in> set (catalog (work s))" using k(1) by (auto simp: visible_catalog_def)
    have taken: "c_sheets_id k \<in> c_sheets_id ` set (catalog (work s))" using seen by (rule imageI)
    have "c_sheets_id q = Some cid"
      if "catalog_values row (Some hid) (blank_catalog nid (Some cid)) = Inr q" for q
      using catalog_values_simps(3) [OF that] by (simp add: blank_catalog_def)
    then show ?thesis
      using catalog_upsert_result [OF up assms(3) rowd(1,2)] run(1) taken k(2) rowd(6) by auto
  qed
  then obtain old q where q: "scalar_one_or_none (filter (\<lambda>r. c_sheets_id r = lookup_key row ''Catalog_ID'') (visible_catalog s))
              = Inr (Some old)" "catalog_values row (Some hid) old = Inr q"
    "t1 = commit (upd_work (\<lambda>d. d\<lparr>catalog := update_where
                (\<lambda>r. rls_pass s (c_household_id r) \<and> c_id r = c_id old) (\<lambda>_. q) (catalog d)\<rparr>) s)"
    by blast
  have same: "k = old" using scalar_SomeD [OF q(1)] some by simp
  note v = catalog_values_simps [OF q(2)]
  have old: "old \<in> set (catalog (committed s))" "c_household_id old = Some hid"
    using k(1) same assms(3,4) by (auto simp: visible_catalog_def rls_pass_def split: option.splits)
  have "close_session t = (committed s)\<lparr>catalog := update_where
          (\<lambda>k. c_household_id k = Some hid \<and> c_id k = c_id old) (\<lambda>_. q) (catalog (committed s))\<rparr>"
    using run(2) q(3) assms(4) by (simp add: rls_pass_iff [OF assms(3)])
  moreover have "catalog_to_out (catalog_to_dict q) = out"
      "co_image_path out = co_image_path (catalog_to_out (catalog_to_dict old))"
    unfolding run(3) using v k(2,3) same
    by (simp_all add: row_def catalog_to_out_def catalog_to_dict_def py_key_def py_get_def
        py_get_or_def or_none_def py_string_def or_empty_def)
  ultimately show ?thesis
    using old v k(2,3) same rowd
    by (intro exI [of _ old] exI [of _ q])
      (simp add: row_def py_get_def py_get_or_def)
qed

theorem catalog_update_result_witness:
  "\<exists>q. catalog (close_session (snd (api_catalog_update catalog_backend open_net 0 ''CAT100''
        (first_entry\<lparr>kb_bean_name := ''Sermon''\<rparr>)
        (home_session 5 (close_session (snd (api_catalog_create catalog_backend (offline_catalog 80) first_entry
          (home_session 5 (two_households []))))))))) = [q]
     \<and> c_bean_name q = ''Sermon'' \<and> c_roaster q = ''Verve''"
proof -
  let ?d = "close_session (snd (api_catalog_create catalog_backend (offline_catalog 80) first_entry
          (home_session 5 (two_households []))))"
  let ?s = "home_session 5 ?d" and ?b = "first_entry\<lparr>kb_bean_name := ''Sermon''\<rparr>"
  let ?run = "api_catalog_update catalog_backend open_net 0 ''CAT100'' ?b ?s"
  have pre: "guc ?s = Some 5" "work ?s = committed ?s" by (simp_all add: home_session_def)
  have "is_ok (fst ?run)" by code_simp
  then obtain out where out: "?run = (Inr out, snd ?run)" by (metis is_okE prod.collapse)
  have "length (catalog (committed ?s)) = 1" by code_simp
  then obtain k where k: "catalog (committed ?s) = [k]" by (auto simp: length_Suc_conv)
  have strips: "strip (kb_bean_name ?b) = ''Sermon''" "strip (kb_roaster ?b) = ''Verve''" by code_simp+
  from catalog_update_result [OF catalog_backend_simps pre _ out] k strips show ?thesis by auto
qed

section \<open>New bags\<close>

lemma make_inventory_id_new:
  assumes "make_inventory_id roaster d level ids = Inr bid" shows "bid \<notin> set ids" "bid \<noteq> []"
proof -
  from assms obtain rc lc where codes: "roaster_code roaster = Inr rc" "roast_level_code level = Inr lc"
    by (auto simp: make_inventory_id_def split: sum.splits)
  define base where "base = rc @ strftime_ymd d @ lc"
  have base: "base \<noteq> []" "bid = (if base \<notin> set ids then base else free_candidate base 2 ids)"
  proof -
    have "strftime_ymd d \<noteq> []" by (simp add: strftime_ymd_def)
    then show "base \<noteq> []" by (simp add: base_def)
    show "bid = (if base \<notin> set ids then base else free_candidate base 2 ids)"
      using assms codes by (simp add: make_inventory_id_def base_def Let_def split: if_splits)
  qed
  then show "bid \<notin> set ids" using free_candidate_fresh [of base 2 ids] by simp
  from base show "bid \<noteq> []"
    using free_candidate_least [of 2 base ids] by (auto simp: bag_candidate_def split: if_splits)
qed

lemma inventory_upsert_new:
  assumes "inventory_upsert C nid row s = (r, t)" "guc s = Some hid"
    and "row ''household_id'' = None" "row ''Household_ID'' = None"
    and "filter (\<lambda>k. v_sheets_id k = lookup_key row ''Bag_ID'') (visible_inventory s) = []"
      "lookup_key row ''Bag_ID'' \<noteq> None"
  shows "case r of
      Inl e \<Rightarrow> t = s
    | Inr _ \<Rightarrow> \<exists>q. q = inventory_values C row (Some hid) (blank_bag nid (py_text (py_get row ''Bag_ID'')))
        \<and> (v_sheets_id q = None \<or> v_sheets_id q \<notin> v_sheets_id ` set (inventory_bags (work s)))
        \<and> t = commit (upd_work (\<lambda>d. d\<lparr>inventory_bags := inventory_bags d @ [q]\<rparr>) s)"
proof -
  have ctx: "row_household_id_or_context C s row = Inr (Some hid)"
    using assms(2-4)
    by (simp add: row_household_id_or_context_def row_household_id_def py_get_def py_or_def
        parse_uuid_def current_household_id_def)
  show ?thesis
    using assms(1,5,6) ctx
    by (auto simp: inventory_upsert_def Let_def insert_refused_def split: sum.splits option.splits if_splits)
qed

lemma bag_row_simps:
  "bag_row bid cid entry level b ''Bag_ID'' = Some (PStr bid)"
  "bag_row bid cid entry level b ''household_id'' = None"
  "bag_row bid cid entry level b ''Household_ID'' = None"
  "bag_row bid cid entry level b ''RoastLevel'' = Some (PStr level)"
  "bag_row bid cid entry level b ''Status'' = Some (PStr ''Active'')"
  "bag_row bid cid entry level b ''Catalog_ID'' = Some (PStr cid)"
  by (simp_all add: bag_row_def)

lemma new_bag_is_new:
  assumes "bid \<notin> set (map (\<lambda>g. py_key g ''Bag_ID'') (inventory_list None s))"
  shows "filter (\<lambda>k. v_sheets_id k = Some bid) (visible_inventory s) = []"
  using assms
  by (force simp: filter_empty_conv inventory_list_def inventory_to_dict_def py_key_def py_get_or_def or_empty_def Let_def)

lemma effective_roast_levelD:
  assumes "effective_roast_level entry level = Inr l"
  shows "l \<noteq> []" "if strip (py_key entry ''Roast_Level'') \<noteq> [] then l = strip (py_key entry ''Roast_Level'')
    else l \<in> set roast_levels"
  using assms by (auto simp: effective_roast_level_def Let_def split: if_splits)

text \<open>
  Adding a bag commits exactly one row or nothing: a bag of the household under the
  identifier of the response, which no other bag of any household has; it is active, belongs to
  the entry, and its roast level is the entry's, or one of the five known ones when the entry
  has none. Every failure leaves the database as it was.
\<close>

theorem add_bag_result:
  assumes "bk_use_postgres B" "bk_sql B" "guc s = Some hid" "work s = committed s"
    and "api_catalog_add_bag B parse_date nid cid b s = (r, t)"
  shows "case r of
      Inl _ \<Rightarrow> close_session t = committed s
    | Inr out \<Rightarrow> \<exists>entry level q. catalog_get cid s = Inr (Some entry)
        \<and> (if strip (py_key entry ''Roast_Level'') \<noteq> [] then level = strip (py_key entry ''Roast_Level'')
           else level \<in> set roast_levels)
        \<and> close_session t = (committed s)\<lparr>inventory_bags := inventory_bags (committed s) @ [q]\<rparr>
        \<and> v_household_id q = Some hid \<and> v_sheets_id q = Some (go_bag_id out)
        \<and> v_sheets_id q \<notin> v_sheets_id ` set (inventory_bags (committed s))
        \<and> v_sheets_catalog_id q = Some cid \<and> v_status q = Some ''Active'' \<and> v_roast_level q = Some level"
proof -
  have reads: "dual_catalog_get B cid s = catalog_get cid s"
    "dual_inventory_list B None s = Inr (inventory_list None s)"
    by (simp_all add: dual_catalog_get_def dual_inventory_list_def dual_postgres [OF assms(1,2)])
  have same: "close_session s = committed s" by simp
  show ?thesis
  proof (cases "t = s \<and> \<not> is_ok r")
    case True
    then show ?thesis using same by (cases r) auto
  next
    case False
    with assms(5) obtain entry level d bid where h: "catalog_get cid s = Inr (Some entry)"
      "effective_roast_level entry (nb_roast_level b) = Inr level" "parse_date (nb_roast_date b) = Some d"
      "make_inventory_id (py_key entry ''Roaster'') d level
         (map (\<lambda>g. py_key g ''Bag_ID'') (inventory_list None s)) = Inr bid"
      "andthen (dual_inventory_upsert B nid (bag_row bid cid entry level b) s) (\<lambda>_ s.
         (Inr (bag_to_out (bag_row bid cid entry level b) (entry_name entry)), s)) = (r, t)"
      by (auto simp: api_catalog_add_bag_def reads Let_def split: sum.splits option.splits if_splits)
    note new = make_inventory_id_new [OF h(4)]
    let ?row = "bag_row bid cid entry level b"
    obtain r1 t1 where up: "inventory_upsert (bk_conv B) nid ?row s = (r1, t1)" by fastforce
    have key: "lookup_key ?row ''Bag_ID'' = Some bid"
      using new(2) by (simp add: lookup_key_def py_get_def bag_row_simps py_string_def)
    note res = inventory_upsert_new [OF up assms(3) bag_row_simps(2,3), unfolded key, OF new_bag_is_new [OF new(1)]]
    show ?thesis
    proof (cases r1)
      case (Inl e)
      with up h(5) res show ?thesis
        by (auto simp: dual_inventory_upsert_def dual_postgres [OF assms(1,2)])
    next
      case (Inr u)
      with up h(5) have run: "r = Inr (bag_to_out ?row (entry_name entry))" "t = t1"
        by (auto simp: dual_inventory_upsert_def dual_postgres [OF assms(1,2)])
      from Inr res obtain q where q: "q = inventory_values (bk_conv B) ?row (Some hid) (blank_bag nid (py_text (py_get ?row ''Bag_ID'')))"
        "v_sheets_id q = None \<or> v_sheets_id q \<notin> v_sheets_id ` set (inventory_bags (work s))"
        "t1 = commit (upd_work (\<lambda>d. d\<lparr>inventory_bags := inventory_bags d @ [q]\<rparr>) s)"
        by auto
      have vals: "v_household_id q = Some hid" "v_sheets_id q = Some bid" "v_sheets_catalog_id q = Some cid"
        "v_status q = Some ''Active''" "v_roast_level q = Some level"
        using effective_roast_levelD(1) [OF h(2)]
        by (simp_all add: q(1) inventory_values_def blank_bag_def py_get_def py_get_or_def py_or_def bag_row_simps)
      have out: "go_bag_id (bag_to_out ?row (entry_name entry)) = bid"
        by (simp add: bag_to_out_def py_key_def py_get_or_def bag_row_simps)
      show ?thesis
        unfolding run sum.case out
        using h(1) vals effective_roast_levelD(2) [OF h(2)] q(2,3) assms(4)
        by (intro exI [of _ entry] exI [of _ level] exI [of _ q]) simp
    qed
  qed
qed

definition first_bag :: bag_body where
  "first_bag = \<lparr>nb_beans = [], nb_roast_date = ''2026-03-01'', nb_roast_level = ''Medium'', nb_storage_method = None\<rparr>"

theorem add_bag_result_witness:
  "\<exists>q. inventory_bags (close_session (snd (api_catalog_add_bag catalog_backend
        (\<lambda>_. Some \<lparr>year = 2026, month = 3, day = 1\<rparr>) 85 ''CAT100'' first_bag
        (home_session 5 (close_session (snd (api_catalog_create catalog_backend (offline_catalog 80) first_entry
          (home_session 5 (two_households [])))))))))
      = [q] \<and> v_sheets_id q = Some ''Ve20260301M'' \<and> v_household_id q = Some 5"
proof -
  let ?d = "close_session (snd (api_catalog_create catalog_backend (offline_catalog 80) first_entry
          (home_session 5 (two_households []))))"
  let ?s = "home_session 5 ?d" and ?date = "\<lambda>_::string. Some \<lparr>year = 2026, month = 3, day = 1\<rparr>"
  let ?run = "api_catalog_add_bag catalog_backend ?date 85 ''CAT100'' first_bag ?s"
  have pre: "guc ?s = Some 5" "work ?s = committed ?s" by (simp_all add: home_session_def)
  have "map_sum id go_bag_id (fst ?run) = Inr ''Ve20260301M''" by code_simp
  then obtain out where out: "fst ?run = Inr out" "go_bag_id out = ''Ve20260301M''"
    by (auto simp: map_sum_eq_Inr)
  have empty: "inventory_bags (committed ?s) = []" by code_simp
  from add_bag_result [OF catalog_backend_simps pre, of ?date 85 "''CAT100''" first_bag "fst ?run" "snd ?run"] out empty
  show ?thesis by auto
qed

section \<open>Pictures\<close>

lemma scalar_error: "scalar_one_or_none xs = Inl e \<Longrightarrow> e = MultipleResultsFound"
  by (cases xs rule: scalar_one_or_none.cases) auto

lemma catalog_upsert_error:
  assumes "catalog_upsert C nid row s = (Inl e, t)"
  shows "t = s" "\<nexists>c m. e = HTTPException c m"
proof -
  have "row_household_id_or_context C s row = Inl x \<Longrightarrow> x = ValueError" for x
    by (rule row_household_error)
  then show "t = s" "\<nexists>c m. e = HTTPException c m"
    using assms
    by (auto simp: catalog_upsert_def Let_def insert_refused_def catalog_values_def
        split: sum.splits option.splits if_splits dest!: scalar_error)
qed

lemma upload_image_local:
  assumes "upload_image G bytes ct obj bucket fs = (r, fs')"
  shows "case r of Inl e \<Rightarrow> e = RuntimeError
    | Inr path \<Rightarrow> sg_project G = [] \<longrightarrow> (\<exists>name. path = ''/static/uploads/'' @ name \<and> fs' name = Some bytes)"
  using assms by (auto simp: upload_image_def local_upload_def split: if_splits)

lemma map_sum_eq_Inl: "map_sum f g r = Inl y \<longleftrightarrow> (\<exists>x. r = Inl x \<and> y = f x)"
  by (cases r) auto

lemma catalog_get_error: "catalog_get cid s = Inl e \<Longrightarrow> \<nexists>c m. e = HTTPException c m"
  by (auto simp: catalog_get_def map_sum_eq_Inl dest: scalar_error)

lemma upload_accepted:
  assumes "bk_use_postgres B" "bk_sql B"
    and "api_catalog_upload_image B G hex nid cid ct bytes (s, fs) = (Inr path, t, fs')"
  shows "\<exists>e obj. catalog_get cid s = Inr (Some e) \<and> check_upload (media_type (opt_text ct)) bytes = Inr ()
    \<and> upload_image G bytes (media_type (opt_text ct)) obj (assets_bucket G) fs = (Inr path, fs')"
  using assms(3)
  by (auto simp: api_catalog_upload_image_def dual_catalog_get_def dual_postgres [OF assms(1,2)] Let_def
      split: sum.splits option.splits prod.splits)

lemma upload_refused:
  assumes "bk_use_postgres B" "bk_sql B"
    and "api_catalog_upload_image B G hex nid cid ct bytes (s, fs) = (Inl e, t, fs')"
  shows "committed t = committed s \<and> ((\<exists>c m. e = HTTPException c m) \<longrightarrow> fs' = fs)"
proof -
  have upsert: "committed t = committed s \<and> (\<nexists>c m. e = HTTPException c m)"
    if "dual_catalog_upsert B nid row s = (Inl e, t)" for row e t
    using that catalog_upsert_error [of "bk_conv B" nid row s]
    by (auto simp: dual_catalog_upsert_def dual_postgres [OF assms(1,2)] split: sum.splits prod.splits)
  have store: "e = RuntimeError" if "upload_image G bytes c obj k fs = (Inl e, fs1)" for e c obj k fs1
    using upload_image_local [OF that] by simp
  show ?thesis
    using assms(3)
    by (auto simp: api_catalog_upload_image_def dual_catalog_get_def dual_postgres [OF assms(1,2)] Let_def
        split: sum.splits option.splits prod.splits dest!: upsert store catalog_get_error)
qed

lemma check_upload_limits:
  assumes "check_upload ct bytes = Inr ()"
  shows "ct \<in> {''image/jpeg'', ''image/png'', ''image/webp''}" "bytes \<noteq> []" "length bytes \<le> 2097152"
    "upload_bytes_match_content_type bytes ct"
  using assms by (auto simp: check_upload_def max_upload_bytes_def split: if_splits)

text \<open>
  C38. An uploaded picture is accepted only for an entry of the household and only within the
  limits: one of the three image types, not empty, at most two megabytes, and beginning with the
  signature of its type. Without a storage project it is then a file of the upload directory
  under the path of the response. A refused upload changes neither the database nor the files.
\<close>

theorem upload_image_limits:
  assumes "bk_use_postgres B" "bk_sql B" "guc s = Some hid" "work s = committed s"
    and "api_catalog_upload_image B G hex nid cid ct bytes (s, fs) = (r, t, fs')"
  shows "case r of
      Inl (HTTPException _ _) \<Rightarrow> close_session t = committed s \<and> fs' = fs
    | Inl _ \<Rightarrow> close_session t = committed s
    | Inr path \<Rightarrow> (\<exists>k \<in> set (catalog (committed s)). c_household_id k = Some hid \<and> c_sheets_id k = Some cid)
        \<and> media_type (opt_text ct) \<in> {''image/jpeg'', ''image/png'', ''image/webp''}
        \<and> 0 < length bytes \<and> length bytes \<le> 2097152
        \<and> upload_bytes_match_content_type bytes (media_type (opt_text ct))
        \<and> (sg_project G = [] \<longrightarrow> (\<exists>name. path = ''/static/uploads/'' @ name \<and> fs' name = Some bytes))"
proof (cases r)
  case (Inl e)
  with upload_refused [OF assms(1,2) assms(5) [unfolded Inl]] show ?thesis
    by (auto split: err.split)
next
  case (Inr path)
  then obtain e obj where up: "catalog_get cid s = Inr (Some e)"
    "check_upload (media_type (opt_text ct)) bytes = Inr ()"
    "upload_image G bytes (media_type (opt_text ct)) obj (assets_bucket G) fs = (Inr path, fs')"
    using upload_accepted [OF assms(1,2)] assms(5) by blast
  have "\<exists>k \<in> set (catalog (committed s)). c_household_id k = Some hid \<and> c_sheets_id k = Some cid"
    using up(1) assms(3,4)
    by (auto simp: catalog_get_def map_sum_eq_Inr visible_catalog_def rls_pass_iff
        dest!: scalar_in sym [of "Some _"])
  with Inr check_upload_limits [OF up(2)] upload_image_local [OF up(3)] show ?thesis by simp
qed

lemma upload_goes_through:
  assumes "check_upload (media_type (opt_text ct)) bytes = Inr ()" "sg_project G = []"
    and "\<And>path. case dual_catalog_get B cid s of
        Inr (Some e) \<Rightarrow> is_ok (fst (dual_catalog_upsert B nid (e(''Local_Image_Path'' \<mapsto> PStr path)) s))
      | _ \<Rightarrow> False"
  shows "is_ok (fst (api_catalog_upload_image B G hex nid cid ct bytes (s, fs)))"
  using assms
  by (auto simp: api_catalog_upload_image_def Let_def upload_image_def local_upload_def is_ok_def
      split: sum.splits option.splits prod.splits) (metis fst_conv sum.case(1) sum.exhaust)+

theorem upload_image_limits_witness:
  "(case api_catalog_upload_image catalog_backend (ca_storage (offline_catalog 80)) ''0a'' 0 ''CAT100''
      (Some ''image/jpeg'') (jpeg_signature @ ''rest'')
      (home_session 5 (close_session (snd (api_catalog_create catalog_backend (offline_catalog 80) first_entry
          (home_session 5 (two_households []))))), Map.empty) of
     (r, t, fs) \<Rightarrow> is_ok r \<and> (\<exists>name. fs name = Some (jpeg_signature @ ''rest'')))"
proof -
  let ?s = "home_session 5 (close_session (snd (api_catalog_create catalog_backend (offline_catalog 80) first_entry
          (home_session 5 (two_households [])))))"
  let ?G = "ca_storage (offline_catalog 80)" and ?ct = "Some ''image/jpeg''" and ?bytes = "jpeg_signature @ ''rest''"
  let ?run = "api_catalog_upload_image catalog_backend ?G ''0a'' 0 ''CAT100'' ?ct ?bytes (?s, Map.empty)"
  have pre: "guc ?s = Some 5" "work ?s = committed ?s" by (simp_all add: home_session_def)
  obtain r t fs where run: "?run = (r, t, fs)" by (cases ?run) auto
  have parts: "check_upload (media_type (opt_text ?ct)) ?bytes = Inr ()"
  proof -
    have "media_type (opt_text ?ct) = ''image/jpeg''" "upload_bytes_match_content_type ?bytes ''image/jpeg''"
      by code_simp+
    then show ?thesis by (simp add: check_upload_def max_upload_bytes_def jpeg_signature_def)
  qed
  have entry: "(case dual_catalog_get catalog_backend ''CAT100'' ?s of Inr (Some e) \<Rightarrow>
      is_ok (fst (dual_catalog_upsert catalog_backend 0 (e(''Local_Image_Path'' \<mapsto> PStr path)) ?s)) | _ \<Rightarrow> False)" for path
    by code_simp
  have "is_ok (fst ?run)"
    by (rule upload_goes_through [OF parts _ entry]) (simp add: offline_catalog_def)
  then have "is_ok r" unfolding run by simp
  then obtain path where ok: "r = Inr path" by (rule is_okE)
  have "sg_project ?G = []" by (simp add: offline_catalog_def)
  with ok upload_image_limits [OF catalog_backend_simps pre run] have "\<exists>name. fs name = Some ?bytes"
    unfolding ok sum.case by blast
  then show ?thesis using ok unfolding run by simp
qed

end
