(* ===== verification/AppStart.thy ===== *)
theory AppStart
  imports AuthProps Isolation
begin

text \<open>
  The start of the application (\<^verbatim>\<open>app/main.py\<close>, \<^verbatim>\<open>app/setup_guard.py\<close>): the guard of a fresh
  deployment, which lets only the registration of the first user through, and the backfill of
  columns that older migrations added. The guard's flag is a variable of the process.
\<close>

section \<open>The setup guard\<close>

definition check_and_set_setup_required :: "database \<Rightarrow> bool" where
  "check_and_set_setup_required d = (length (users d) = 0)"

definition setup_at_start :: "bool \<Rightarrow> string option \<Rightarrow> database \<Rightarrow> bool" where
  "setup_at_start use_pg database_url d =
     (if use_pg \<and> truthy database_url then check_and_set_setup_required d else False)"

definition setup_whitelisted :: "string \<Rightarrow> string \<Rightarrow> bool" where
  "setup_whitelisted verb path =
     ((verb = ''POST'' \<and> path = ''/auth/register'')
      \<or> take 8 path = ''/static/''
      \<or> path \<in> {''/'', ''/welcome'', ''/health''})"

text \<open>The answer of the middleware, or what the application answers.\<close>

datatype 'a reply = SetupRequired | Answer 'a

definition setup_guard_middleware ::
  "string \<Rightarrow> string \<Rightarrow> (bool \<times> session \<Rightarrow> 'a \<times> bool \<times> session) \<Rightarrow> bool \<times> session
     \<Rightarrow> 'a reply \<times> bool \<times> session" where
  "setup_guard_middleware verb path call_next fs =
     (if fst fs \<and> \<not> setup_whitelisted verb path then (SetupRequired, fs)
      else (case call_next fs of (r, fs') \<Rightarrow> (Answer r, fs')))"

text \<open>The registration clears the flag after its commit.\<close>

definition register_request ::
  "env \<Rightarrow> uuid \<Rightarrow> uuid \<Rightarrow> string \<Rightarrow> string \<Rightarrow> string \<Rightarrow> string option \<Rightarrow> bool \<times> session
     \<Rightarrow> (user \<times> token_out) res \<times> bool \<times> session" where
  "register_request E nid rid raw username password display_name fs =
     (case fs of (flag, s) \<Rightarrow>
       (case register E nid rid raw username password display_name s of (r, s') \<Rightarrow>
          (r, (if committed s' \<noteq> committed s then False else flag), s')))"

section \<open>The backfill\<close>

fun upsert_events :: "conversions \<Rightarrow> instant \<Rightarrow> (uuid \<times> dict) list \<Rightarrow> session \<Rightarrow> unit res \<times> session" where
  "upsert_events C now [] s = (Inr (), s)"
| "upsert_events C now ((nid, row) # rows) s =
     andthen (maintenance_upsert C nid now row s) (\<lambda>_ s. upsert_events C now rows s)"

definition backfill_maintenance_logs ::
  "conversions \<Rightarrow> instant \<Rightarrow> (uuid \<times> dict) list \<Rightarrow> session \<Rightarrow> unit res \<times> session" where
  "backfill_maintenance_logs C now rows s =
     (if count_where (\<lambda>r. n_sheets_hardware_id r = None) (visible_maintenance s) = 0 then (Inr (), s)
      else upsert_events C now rows s)"

text \<open>A bag that is there gets only the missing reference to its catalog entry.\<close>

definition backfill_bag :: "conversions \<Rightarrow> uuid \<Rightarrow> dict \<Rightarrow> session \<Rightarrow> unit res \<times> session" where
  "backfill_bag C nid row s =
     (if \<not> py_true (py_get row ''Bag_ID'') then (Inr (), s)
      else
        (case scalar_one_or_none (filter (\<lambda>r. v_sheets_id r = py_text (py_get row ''Bag_ID'')) (visible_inventory s)) of
           Inl e \<Rightarrow> (Inl e, s)
         | Inr None \<Rightarrow> inventory_upsert C nid row s
         | Inr (Some old) \<Rightarrow>
             if v_sheets_catalog_id old \<noteq> None then (Inr (), s)
             else (Inr (), commit (upd_work (\<lambda>d. d\<lparr>inventory_bags := update_where
                    (\<lambda>k. rls_pass s (v_household_id k) \<and> v_id k = v_id old)
                    (\<lambda>k. k\<lparr>v_sheets_catalog_id := py_text (py_get row ''Catalog_ID'')\<rparr>)
                    (inventory_bags d)\<rparr>) s))))"

fun backfill_bags :: "conversions \<Rightarrow> (uuid \<times> dict) list \<Rightarrow> session \<Rightarrow> unit res \<times> session" where
  "backfill_bags C [] s = (Inr (), s)"
| "backfill_bags C ((nid, row) # rows) s =
     andthen (backfill_bag C nid row s) (\<lambda>_ s. backfill_bags C rows s)"

definition backfill_inventory_bags ::
  "conversions \<Rightarrow> (uuid \<times> dict) list \<Rightarrow> session \<Rightarrow> unit res \<times> session" where
  "backfill_inventory_bags C rows s =
     (if count_where (\<lambda>r. v_sheets_catalog_id r = None) (visible_inventory s) = 0 then (Inr (), s)
      else backfill_bags C rows s)"

text \<open>
  The rows come from the Sheets archive, each with the uuid an insert would draw; nothing stands
  for a client or a read that raises. Every exception is logged only, and the session is closed.
\<close>

definition run_startup_backfill ::
  "backend \<Rightarrow> instant \<Rightarrow> (uuid \<times> dict) list option \<Rightarrow> (uuid \<times> dict) list option \<Rightarrow> database \<Rightarrow> database" where
  "run_startup_backfill B now events bags d =
     (if \<not> bk_use_postgres B then d
      else
        (case (case events of None \<Rightarrow> (Inl RuntimeError, open_session d)
               | Some rows \<Rightarrow> backfill_maintenance_logs (bk_conv B) now rows (open_session d)) of
           (Inl _, s) \<Rightarrow> close_session s
         | (Inr _, s) \<Rightarrow>
             (case bags of None \<Rightarrow> close_session s
              | Some rows \<Rightarrow> close_session (snd (backfill_inventory_bags (bk_conv B) rows s)))))"

section \<open>Properties\<close>

lemma register_succeeds:
  assumes "users (work s) = []" "refresh_tokens (work s) = []" "committed s = work s"
    and "validate_username un" "validate_password pw" "length pw \<le> 1024"
    and "32 \<le> length (jwt_secret (e_st E))"
  shows "\<exists>u t s'. register E nid rid raw un pw dn s = (Inr (u, t), s')
    \<and> users (committed s') = [u] \<and> u_username u = Some un"
proof -
  obtain u s1 where u: "create_user nid (e_db_now E) (Some un) (Some (x_pwd_hash (e_ext E) pw)) None None
      (if truthy dn then the dn else un) None s = (Inr u, s1)"
    "users (work s1) = [u]" "refresh_tokens (work s1) = []" "u_username u = Some un"
    using assms(1,2) by (simp add: create_user_def Let_def)
  obtain at s2 where t: "issue_tokens E rid raw (u_id u) s1
      = (Inr \<lparr>t_access_token = at, t_cookie = set_refresh_cookie (e_st E) raw\<rparr>, commit s2)"
    "users (work s2) = users (work s1)"
    by (rule issue_tokens_ok [OF assms(7), of "u_id u" s1 rid raw]) (simp_all add: u(2,3))
  have "register E nid rid raw un pw dn s
      = (Inr (u, \<lparr>t_access_token = at, t_cookie = set_refresh_cookie (e_st E) raw\<rparr>), commit s2)"
    using assms(1,4-6) u(1) t(1)
    by (simp add: register_def get_by_username_def hash_password_def Let_def)
  with t(2) u(2,4) show ?thesis by auto
qed

text \<open>
  A fresh deployment can always be set up. While no user exists, every request but the
  registration, the start page, the health probe and static files is answered with 503. A
  registration with a valid name and password passes the guard, succeeds, and from then on every
  request of this process reaches the application; a restarted process finds a user and does
  not guard either.
\<close>

theorem setup_can_be_left:
  assumes "users d = []" "refresh_tokens d = []"
    and "validate_username un" "validate_password pw" "length pw \<le> 1024"
    and "32 \<le> length (jwt_secret (e_st E))"
  shows "check_and_set_setup_required d
    \<and> (\<forall>verb path app s. \<not> setup_whitelisted verb path \<longrightarrow>
          setup_guard_middleware verb path app (check_and_set_setup_required d, s)
            = (SetupRequired, check_and_set_setup_required d, s))
    \<and> (\<exists>u t s. setup_guard_middleware ''POST'' ''/auth/register''
            (register_request E nid rid raw un pw dn) (check_and_set_setup_required d, open_session d)
            = (Answer (Inr (u, t)), False, s)
        \<and> u_username u = Some un \<and> \<not> check_and_set_setup_required (close_session s)
        \<and> (\<forall>verb path (app :: bool \<times> session \<Rightarrow> 'a \<times> bool \<times> session) s'.
              \<exists>r. fst (setup_guard_middleware verb path app (False, s')) = Answer r))"
proof -
  obtain u t s where run: "register E nid rid raw un pw dn (open_session d) = (Inr (u, t), s)"
    "users (committed s) = [u]" "u_username u = Some un"
    using register_succeeds [of "open_session d"] assms by fastforce
  then have "committed s \<noteq> d" using assms(1) by auto
  with run show ?thesis
    by (auto simp: check_and_set_setup_required_def assms(1) setup_guard_middleware_def
        setup_whitelisted_def register_request_def split: prod.split)
qed

theorem setup_can_be_left_witness:
  "\<exists>u t s. setup_guard_middleware ''POST'' ''/auth/register''
      (register_request demo_env 3 7 ''ra'' ''Alice'' ''correct horse battery'' None)
      (True, open_session (demo_db\<lparr>users := [], refresh_tokens := []\<rparr>)) = (Answer (Inr (u, t)), False, s)"
proof -
  let ?d = "demo_db\<lparr>users := [], refresh_tokens := []\<rparr>"
  have d: "users ?d = []" "refresh_tokens ?d = []" "check_and_set_setup_required ?d"
    by (simp_all add: check_and_set_setup_required_def)
  have pw: "validate_username ''Alice''" "validate_password ''correct horse battery''"
    "length ''correct horse battery'' \<le> 1024"
    by (simp_all add: validate_username_def validate_password_def username_re_def username_char_def
        is_letter_def Let_def)
  have "32 \<le> length (jwt_secret (e_st demo_env))" by (simp add: demo_env_def demo_settings_def)
  from setup_can_be_left [OF d(1,2) pw this, of 3 7 "''ra''" None] d(3) show ?thesis by auto
qed

lemma nothing_visible:
  "visible_maintenance (open_session d) = []" "visible_inventory (open_session d) = []"
  by (simp_all add: visible_maintenance_def visible_inventory_def)

text \<open>
  The backfill never changes anything: it works in a session without household setting, in
  which the policy shows no row, so it counts no missing values and skips both tables, whatever
  the database and the Sheets archive hold.
\<close>

theorem backfill_does_nothing:
  "run_startup_backfill B now events bags d = d"
  by (simp add: run_startup_backfill_def backfill_maintenance_logs_def backfill_inventory_bags_def
      nothing_visible split: option.split)

end
