(* ===== verification/Importer.thy ===== *)
theory Importer
  imports Ids Images "HOL-Library.AList"
begin

text \<open>
  The import of legacy spreadsheets (\<^verbatim>\<open>app/services/importer.py\<close>): the sections of a CSV export
  and the sheets of a workbook, the prompts that map legacy columns to canonical ones, the
  report of unknown enum values, and the normalisation of rows. A Python dict is an association
  list in the order of its keys; \<open>json.loads\<close> and the reading of a workbook are parameters.
\<close>

section \<open>Cells and rows\<close>

datatype import_error = ImportParseError string | ImportKeyError | ImportTypeError | ImportAttributeError

type_synonym 'a imported = "import_error + 'a"

definition cell_get :: "row \<Rightarrow> string \<Rightarrow> cell option" where
  "cell_get r k = map_of r (Some k)"

section \<open>CSV\<close>

text \<open>The reader of the standard library with the dialect \<open>excel\<close>, character by character.\<close>

datatype csv_state = StartRecord | StartField | InField | InQuoted | QuoteInQuoted

definition lf :: char where "lf = CHR 0x0A"
definition cr :: char where "cr = CHR 0x0D"
definition dquote :: char where "dquote = CHR 0x22"

fun csv_records :: "csv_state \<Rightarrow> string \<Rightarrow> string list \<Rightarrow> string \<Rightarrow> string list list" where
  "csv_records st f fs [] = (if st = StartRecord then [] else [rev (rev f # fs)])"
| "csv_records InQuoted f fs (c # cs) =
     (if c = dquote then csv_records QuoteInQuoted f fs cs else csv_records InQuoted (c # f) fs cs)"
| "csv_records InField f fs (c # cs) =
     (if c = lf then rev (rev f # fs) # csv_records StartRecord [] [] cs
      else if c = CHR '','' then csv_records StartField [] (rev f # fs) cs
      else csv_records InField (c # f) fs cs)"
| "csv_records QuoteInQuoted f fs (c # cs) =
     (if c = dquote then csv_records InQuoted (dquote # f) fs cs
      else if c = lf then rev (rev f # fs) # csv_records StartRecord [] [] cs
      else if c = CHR '','' then csv_records StartField [] (rev f # fs) cs
      else csv_records InField (c # f) fs cs)"
| "csv_records st f fs (c # cs) =
     (if c = lf then (if st = StartRecord then [] else rev ([] # fs)) # csv_records StartRecord [] [] cs
      else if c = dquote then csv_records InQuoted [] fs cs
      else if c = CHR '','' then csv_records StartField [] ([] # fs) cs
      else csv_records InField [c] fs cs)"

definition csv_reader :: "string \<Rightarrow> string list list" where
  "csv_reader text = csv_records StartRecord [] [] text"

text \<open>\<open>csv.DictReader\<close>: the first record names the fields, empty records are skipped.\<close>

definition dict_of_record :: "string list \<Rightarrow> string list \<Rightarrow> row" where
  "dict_of_record names vals =
     (let d = foldl (\<lambda>d (k, v). AList.update (Some k) (CText v) d) [] (zip names vals)
      in if length names < length vals
         then AList.update None (CRest (drop (length names) vals)) d
         else foldl (\<lambda>d k. AList.update (Some k) CNone d) d (drop (length vals) names))"

definition dict_reader :: "string \<Rightarrow> row list" where
  "dict_reader text =
     (case csv_reader text of
        [] \<Rightarrow> []
      | names # records \<Rightarrow> map (dict_of_record names) (filter (\<lambda>r. r \<noteq> []) records))"

text \<open>Carriage returns become newlines.\<close>

fun unix_lines :: "string \<Rightarrow> string" where
  "unix_lines [] = []"
| "unix_lines [c] = [if c = cr then lf else c]"
| "unix_lines (c # d # cs) =
     (if c = cr \<and> d = lf then lf # unix_lines cs
      else (if c = cr then lf else c) # unix_lines (d # cs))"

text \<open>
  A line that begins with two hashes and a word starts a section. The text of the section begins
  one character after the word: behind the line break, or within the line.
\<close>

definition word_char :: "char \<Rightarrow> bool" where
  "word_char c = (is_letter c \<or> is_digit c \<or> c = CHR ''_'')"

definition marker :: "string \<Rightarrow> (string \<times> string) option" where
  "marker line =
     (if take 2 line = ''##'' \<and> takeWhile word_char (drop 2 line) \<noteq> []
      then Some (takeWhile word_char (drop 2 line), dropWhile word_char (drop 2 line)) else None)"

fun section_blocks :: "(string \<times> string list) option \<Rightarrow> string list \<Rightarrow> (string \<times> string) list" where
  "section_blocks None [] = []"
| "section_blocks (Some (n, ls)) [] = [(n, join_lines (rev ls))]"
| "section_blocks current (l # ls) =
     (case marker l of
        Some (n, rest) \<Rightarrow>
          (case current of None \<Rightarrow> [] | Some (m, done_lines) \<Rightarrow> [(m, join_lines (rev done_lines))])
            @ section_blocks (Some (n, if rest = [] then [] else [drop 1 rest])) ls
      | None \<Rightarrow> section_blocks (map_option (\<lambda>(m, done_lines). (m, l # done_lines)) current) ls)"

definition parse_legacy_csv :: "string \<Rightarrow> sections imported" where
  "parse_legacy_csv content =
     (let blocks = section_blocks None (split_on lf (unix_lines content));
          add = (\<lambda>d (n, text). AList.update n (if strip text = [] then [] else dict_reader (strip text)) d);
          found = foldl add [] blocks
      in if blocks = [] then Inl (ImportParseError ''No sections found in CSV'')
         else if map_of found ''Brew_Log'' = None
         then Inl (ImportParseError ''Required section Brew_Log is missing'')
         else Inr found)"

section \<open>Workbooks\<close>

text \<open>
  A cell of a workbook: empty, a text, a float that is a whole number with the text Python prints
  for it, or the text of another value.
\<close>

datatype xcell = XNone | XText string | XWhole int string | XOther string

fun cell_str :: "xcell \<Rightarrow> string" where
  "cell_str XNone = []"
| "cell_str (XText t) = t"
| "cell_str (XWhole i t) = int_str i"
| "cell_str (XOther t) = t"

fun xcell_blank :: "xcell \<Rightarrow> bool" where
  "xcell_blank XNone = True"
| "xcell_blank (XText t) = (strip t = [])"
| "xcell_blank (XWhole i t) = (strip t = [])"
| "xcell_blank (XOther t) = (strip t = [])"

text \<open>A header is \<open>str(v).strip()\<close>: a whole float keeps its decimals there.\<close>

fun header_str :: "xcell \<Rightarrow> string" where
  "header_str (XWhole i t) = strip t"
| "header_str v = strip (cell_str v)"

definition trim_headers :: "string list \<Rightarrow> string list" where
  "trim_headers hs = (if list_ex (\<lambda>h. h \<noteq> []) hs then rev (dropWhile (\<lambda>h. h = []) (rev hs)) else hs)"

definition sheet_row :: "string list \<Rightarrow> xcell list \<Rightarrow> row" where
  "sheet_row headers cells =
     foldl (\<lambda>d (h, v). if h = [] then d else AList.update (Some h) (CText (cell_str v)) d) [] (zip headers cells)"

definition sheet_rows :: "xcell list list \<Rightarrow> row list" where
  "sheet_rows rows =
     (case dropWhile (list_all xcell_blank) rows of
        [] \<Rightarrow> []
      | header # data \<Rightarrow>
          map (sheet_row (trim_headers (map header_str header))) (filter (\<lambda>r. \<not> list_all xcell_blank r) data))"

definition cell_text :: "cell option \<Rightarrow> string" where
  "cell_text c = (case c of Some (CText t) \<Rightarrow> t | _ \<Rightarrow> [])"

text \<open>Rows without date or bag are the template rows of the former application.\<close>

definition brew_row_filled :: "row \<Rightarrow> bool" where
  "brew_row_filled r = (strip (cell_text (cell_get r ''Date'')) \<noteq> [] \<and> strip (cell_text (cell_get r ''Bag_ID'')) \<noteq> [])"

definition parse_xlsx_to_sections ::
  "('w \<Rightarrow> (string \<times> xcell list list) list option) \<Rightarrow> 'w \<Rightarrow> sections imported" where
  "parse_xlsx_to_sections load_workbook raw =
     (case load_workbook raw of
        None \<Rightarrow> Inl (ImportParseError ''Could not open XLSX file'')
      | Some sheets \<Rightarrow>
          (let found = foldl (\<lambda>d (n, rows). AList.update n (sheet_rows rows) d) [] sheets
           in if sheets = [] then Inl (ImportParseError ''XLSX file contains no sheets'')
              else
                (case map_of found ''Brew_Log'' of
                   None \<Rightarrow> Inl (ImportParseError ''Required sheet Brew_Log is missing'')
                 | Some brew \<Rightarrow> Inr (AList.update ''Brew_Log'' (filter brew_row_filled brew) found))))"

section \<open>JSON and representations\<close>

definition hex_digit :: "nat \<Rightarrow> char" where
  "hex_digit n = (if n < 10 then char_of (48 + n) else char_of (87 + n))"

text \<open>\<open>json.dumps\<close> of a text.\<close>

fun json_char :: "char \<Rightarrow> string" where
  "json_char c =
     (let n = of_char c :: nat
      in if c = dquote then [CHR 0x5C, dquote] else if n = 92 then [CHR 0x5C, CHR 0x5C]
         else if n = 10 then [CHR 0x5C, CHR ''n''] else if n = 13 then [CHR 0x5C, CHR ''r'']
         else if n = 9 then [CHR 0x5C, CHR ''t''] else if n = 8 then [CHR 0x5C, CHR ''b'']
         else if n = 12 then [CHR 0x5C, CHR ''f'']
         else if n < 32 then [CHR 0x5C] @ ''u00'' @ [hex_digit (n div 16), hex_digit (n mod 16)] else [c])"

definition json_str :: "string \<Rightarrow> string" where
  "json_str t = dquote # concat (map json_char t) @ [dquote]"

fun sep_by :: "string \<Rightarrow> string list \<Rightarrow> string" where
  "sep_by sep [] = []"
| "sep_by sep [x] = x"
| "sep_by sep (x # xs) = x @ sep @ sep_by sep xs"

definition json_key :: "string option \<Rightarrow> string" where
  "json_key k = (case k of None \<Rightarrow> dquote # ''null'' @ [dquote] | Some t \<Rightarrow> json_str t)"

text \<open>A list of keys: the key \<open>None\<close> is null.\<close>

definition json_names :: "string option list \<Rightarrow> string" where
  "json_names ks = ''['' @ sep_by '', '' (map (\<lambda>k. case k of None \<Rightarrow> ''null'' | Some t \<Rightarrow> json_str t) ks) @ '']''"

definition json_dict :: "(string option \<times> string) list \<Rightarrow> string" where
  "json_dict kvs = ''{'' @ sep_by '', '' (map (\<lambda>(k, v). json_key k @ '': '' @ json_str v) kvs) @ ''}''"

definition json_rows :: "(string option \<times> string) list list \<Rightarrow> string" where
  "json_rows rs = ''['' @ sep_by '', '' (map json_dict rs) @ '']''"

text \<open>The same with \<open>indent=2\<close>.\<close>

definition json_dict_indented :: "(string option \<times> string) list \<Rightarrow> string" where
  "json_dict_indented kvs =
     (if kvs = [] then ''{}''
      else ''{'' @ [lf] @ sep_by ([CHR '',''] @ [lf]) (map (\<lambda>(k, v). ''    '' @ json_key k @ '': '' @ json_str v) kvs)
             @ [lf] @ ''  }'')"

definition json_rows_indented :: "(string option \<times> string) list list \<Rightarrow> string" where
  "json_rows_indented rs =
     (if rs = [] then ''[]''
      else ''['' @ [lf] @ sep_by ([CHR '',''] @ [lf]) (map (\<lambda>r. ''  '' @ json_dict_indented r) rs) @ [lf] @ '']'')"

text \<open>\<open>str\<close> of a cell; a list of texts prints their \<open>repr\<close>.\<close>

definition repr_quote :: "string \<Rightarrow> char" where
  "repr_quote t = (if CHR 0x27 \<in> set t \<and> dquote \<notin> set t then dquote else CHR 0x27)"

definition repr_char :: "char \<Rightarrow> char \<Rightarrow> string" where
  "repr_char q c =
     (let n = of_char c :: nat
      in if c = q \<or> n = 92 then [CHR 0x5C, c]
         else if n = 10 then [CHR 0x5C, CHR ''n''] else if n = 13 then [CHR 0x5C, CHR ''r'']
         else if n = 9 then [CHR 0x5C, CHR ''t'']
         else if n < 32 \<or> n = 127 then [CHR 0x5C, CHR ''x'', hex_digit (n div 16), hex_digit (n mod 16)]
         else [c])"

definition py_repr :: "string \<Rightarrow> string" where
  "py_repr t = (let q = repr_quote t in q # concat (map (repr_char q) t) @ [q])"

fun py_str :: "cell \<Rightarrow> string" where
  "py_str (CText t) = t"
| "py_str CNone = ''None''"
| "py_str (CRest ts) = ''['' @ sep_by '', '' (map py_repr ts) @ '']''"

section \<open>Column mapping\<close>

definition truncated :: "nat \<Rightarrow> row \<Rightarrow> (string option \<times> string) list" where
  "truncated n r = map (\<lambda>(k, v). (k, take n (py_str v))) r"

definition mapping_prompt :: "string \<Rightarrow> string option list \<Rightarrow> string list \<Rightarrow> row list \<Rightarrow> string" where
  "mapping_prompt sheet legacy canonical rows =
     ''You are mapping legacy database columns to a canonical schema.'' @ newline @ newline
     @ ''Sheet: '' @ sheet @ newline
     @ ''Legacy columns: '' @ json_names legacy @ newline
     @ ''Canonical columns: '' @ json_names (map Some canonical) @ newline
     @ ''Sample rows (first 3, values truncated to 80 chars):'' @ newline
     @ json_rows_indented (map (truncated 80) rows) @ newline @ newline
     @ ''Return ONLY a JSON object in this exact format '' @ em_dash @ '' no prose, no markdown fences:'' @ newline
     @ ''{'' @ json_str ''mapping'' @ '': {'' @ json_str ''<legacy_col>'' @ '': '' @ json_str ''<canonical_col_or_null>''
     @ '', ...}}'' @ newline @ newline
     @ ''Rules:'' @ newline
     @ ''- Map every legacy column to the most likely canonical column name.'' @ newline
     @ ''- Use JSON null (not the string '' @ json_str ''null'' @ '') when no canonical column matches.'' @ newline
     @ ''- Do not invent canonical column names; use only those in the Canonical columns list.''"

text \<open>Up to three rows; one row less as long as the prompt is too long, but never less than one.\<close>

fun try_prompts :: "(nat \<Rightarrow> string) \<Rightarrow> nat \<Rightarrow> string" where
  "try_prompts prompt 0 = prompt 1"
| "try_prompts prompt (Suc left) =
     (let p = prompt (Suc left) in if length p \<le> 1024 then p else try_prompts prompt left)"

definition build_mapping_prompt :: "string \<Rightarrow> string option list \<Rightarrow> string list \<Rightarrow> row list \<Rightarrow> string" where
  "build_mapping_prompt sheet legacy canonical sample =
     (let rows = take 3 sample
      in try_prompts (\<lambda>k. mapping_prompt sheet legacy canonical (take k rows)) (length rows))"

text \<open>The answers of the model: JSON values as \<open>json.loads\<close> gives them.\<close>

datatype json = JNull | JBool bool | JNumber string | JString string | JArray "json list" | JObject "(string \<times> json) list"

type_synonym json_parser = "string \<Rightarrow> json option"

definition parse_mapping_response :: "json_parser \<Rightarrow> string \<Rightarrow> (string \<times> json) list imported" where
  "parse_mapping_response loads answer =
     (case loads answer of
        Some (JObject kvs) \<Rightarrow>
          (case map_of kvs ''mapping'' of
             None \<Rightarrow> Inr []
           | Some (JObject m) \<Rightarrow> Inr m
           | Some _ \<Rightarrow> Inl ImportAttributeError)
      | _ \<Rightarrow> Inr [])"

definition canonical_columns :: "string \<Rightarrow> string list option" where
  "canonical_columns = [
     ''Brew_Log'' \<mapsto> [''Shot_ID'', ''Date'', ''Bag_ID'', ''Machine_ID'', ''Grinder_ID'', ''Basket_ID'',
        ''Dose_In_g'', ''Yield_Out_g'', ''Time_Sec'', ''Grind_Setting'', ''Shot_Eligibility'',
        ''Taste_Summary'', ''User_Notes'', ''AI_Feedback'', ''Storage_Method''],
     ''Catalog'' \<mapsto> [''Catalog_ID'', ''Roaster'', ''Bean_Name'', ''Roast_Level'', ''Product_URL'', ''Local_Image_Path''],
     ''Hardware'' \<mapsto> [''Hardware_ID'', ''Category'', ''Name''],
     ''Inventory'' \<mapsto> [''Bag_ID'', ''Beans'', ''RoastDate'', ''RoastLevel'', ''Display_Name'', ''Catalog_ID'',
        ''Status'', ''Storage_Method''],
     ''Maintenance'' \<mapsto> [''Maintenance_ID'', ''Hardware_ID'', ''Date'', ''Action_Type'', ''Notes'']]"

definition batch_sections :: "sections \<Rightarrow> sections" where
  "batch_sections = filter (\<lambda>(n, rows). n \<noteq> ''Grinder_Calibration'' \<and> rows \<noteq> [])"

definition batch_lines :: "string \<times> row list \<Rightarrow> string list" where
  "batch_lines s =
     (case s of (n, rows) \<Rightarrow>
       [''## '' @ n,
        ''  Canonical columns: '' @ json_names (map Some (case canonical_columns n of None \<Rightarrow> [] | Some cs \<Rightarrow> cs)),
        ''  Legacy columns: '' @ json_names (map fst (hd rows)),
        ''  Sample rows: '' @ json_rows (map (truncated 60) (take 2 rows)),
        []])"

definition build_batch_mapping_prompt :: "sections \<Rightarrow> string" where
  "build_batch_mapping_prompt sections = join_lines
     ([''You are mapping legacy spreadsheet columns to canonical schema columns.'',
       ''Map each section's legacy columns to the canonical columns provided.'',
       [],
       ''Return ONLY a JSON object '' @ em_dash @ '' no prose, no markdown fences '' @ em_dash @ '' in this exact format:'',
       ''{'' @ json_str ''sections'' @ '': {'' @ json_str ''<section>'' @ '': {'' @ json_str ''mapping'' @ '': {''
         @ json_str ''<legacy_col>'' @ '': '' @ json_str ''<canonical_col_or_null>'' @ ''}}, ...}}'',
       [],
       ''Rules:'',
       ''- Map every legacy column to the most likely canonical column name.'',
       ''- Use JSON null (not the string '' @ json_str ''null'' @ '') when no canonical column matches.'',
       ''- Do not invent canonical column names; use only those listed per section.'',
       []]
      @ concat (map batch_lines (batch_sections sections)))"

text \<open>The key \<open>None\<close> of surplus fields maps to itself in the identity mapping.\<close>

datatype mapping = Identity "string option list" | Given "(string \<times> json) list"

definition section_mapping :: "json \<Rightarrow> row list \<Rightarrow> mapping imported" where
  "section_mapping raw rows =
     (case (case raw of JObject kvs \<Rightarrow> (case map_of kvs ''mapping'' of None \<Rightarrow> JObject [] | Some m \<Rightarrow> m)
            | _ \<Rightarrow> JObject []) of
        JObject [] \<Rightarrow> Inr (Identity (map fst (hd rows)))
      | JObject m \<Rightarrow> Inr (Given m)
      | JNull \<Rightarrow> Inr (Identity (map fst (hd rows)))
      | JBool b \<Rightarrow> if b then Inl ImportAttributeError else Inr (Identity (map fst (hd rows)))
      | JNumber t \<Rightarrow> if t \<in> {''0'', ''0.0'', ''-0'', ''-0.0''} then Inr (Identity (map fst (hd rows)))
                     else Inl ImportAttributeError
      | JString t \<Rightarrow> if t = [] then Inr (Identity (map fst (hd rows))) else Inl ImportAttributeError
      | JArray xs \<Rightarrow> if xs = [] then Inr (Identity (map fst (hd rows))) else Inl ImportAttributeError)"

fun section_mappings :: "(string \<times> json) list \<Rightarrow> sections \<Rightarrow> (string \<times> mapping) list imported" where
  "section_mappings data [] = Inr []"
| "section_mappings data ((n, rows) # rest) =
     (case section_mapping (case map_of data n of None \<Rightarrow> JObject [] | Some j \<Rightarrow> j) rows of
        Inl e \<Rightarrow> Inl e
      | Inr m \<Rightarrow> map_sum id (\<lambda>ms. (n, m) # ms) (section_mappings data rest))"

definition parse_batch_mapping_response ::
  "json_parser \<Rightarrow> string \<Rightarrow> sections \<Rightarrow> (string \<times> mapping) list imported" where
  "parse_batch_mapping_response loads answer sections =
     (case (case loads answer of
              None \<Rightarrow> Inr (JObject [])
            | Some (JObject kvs) \<Rightarrow> Inr (case map_of kvs ''sections'' of None \<Rightarrow> JObject [] | Some j \<Rightarrow> j)
            | Some _ \<Rightarrow> Inl ImportAttributeError) of
        Inl e \<Rightarrow> Inl e
      | Inr (JObject data) \<Rightarrow> section_mappings data (batch_sections sections)
      | Inr _ \<Rightarrow> if batch_sections sections = [] then Inr [] else Inl ImportAttributeError)"

section \<open>Enum values\<close>

definition known_enum_maps :: "string \<Rightarrow> (string \<Rightarrow> string option) option" where
  "known_enum_maps = [
     ''Shot_Eligibility'' \<mapsto> [''OK with Milk'' \<mapsto> ''Passable'', ''Passable Espresso'' \<mapsto> ''Passable'',
        ''Good'' \<mapsto> ''Good Espresso'', ''Reject'' \<mapsto> ''Reject'', ''Good Espresso'' \<mapsto> ''Good Espresso'',
        ''God Shot'' \<mapsto> ''God Shot''],
     ''Taste_Summary'' \<mapsto> [''Weak and Sour'' \<mapsto> ''Weak & Sour'', ''Balanced and Neutral'' \<mapsto> ''Sweet & Balanced'',
        ''Too acidic'' \<mapsto> ''Acidic & Bright'', ''Too bitter'' \<mapsto> ''Harsh & Bitter''],
     ''Roast_Level'' \<mapsto> [''Medium-Dark'' \<mapsto> ''Medium / Dark'', ''Light/Medium'' \<mapsto> ''Light / Medium'']]"

definition canonical_enum_values :: "string \<Rightarrow> string list" where
  "canonical_enum_values col =
     (if col = ''Shot_Eligibility'' then [''Reject'', ''Passable'', ''Good Espresso'', ''God Shot'']
      else if col = ''Taste_Summary'' then [''Weak & Sour'', ''Acidic & Bright'', ''Sweet & Balanced'',
        ''Complex & Syrupy'', ''Harsh & Bitter'', ''Strong & Muddy'', ''Salty / Channeled'']
      else if col = ''Roast_Level'' then [''Light'', ''Light / Medium'', ''Medium'', ''Medium / Dark'', ''Dark'']
      else [])"

type_synonym enum_maps = "string \<Rightarrow> (string \<Rightarrow> string option) option"

text \<open>The values of one row in the columns mapped to \<open>col\<close> that neither table knows.\<close>

definition unknown_value :: "string \<Rightarrow> string \<Rightarrow> bool" where
  "unknown_value col v =
     (v \<noteq> [] \<and> (case known_enum_maps col of None \<Rightarrow> False
                | Some known \<Rightarrow> known v = None \<and> v \<notin> set (canonical_enum_values col)))"

definition row_unknowns :: "string \<Rightarrow> column_mapping \<Rightarrow> row \<Rightarrow> string list" where
  "row_unknowns col mapping r =
     filter (unknown_value col)
       (map (\<lambda>(legacy, _). cell_text (cell_get r legacy)) (filter (\<lambda>(_, canonical). canonical = Some col) mapping))"

definition find_enum_divergences :: "row list \<Rightarrow> column_mapping \<Rightarrow> string \<Rightarrow> string list option" where
  "find_enum_divergences rows mapping col =
     (let vals = sort (remdups (concat (map (row_unknowns col mapping) rows)))
      in if vals = [] then None else Some vals)"

text \<open>\<open>.get(col, {}).get(val)\<close> of a cell; only a text can be a key.\<close>

definition enum_lookup :: "enum_maps \<Rightarrow> string \<Rightarrow> cell \<Rightarrow> string option" where
  "enum_lookup M col v =
     (case v of CText t \<Rightarrow> (case M col of None \<Rightarrow> None | Some m \<Rightarrow> m t) | _ \<Rightarrow> None)"

definition resolve_enum :: "enum_maps \<Rightarrow> string \<Rightarrow> cell \<Rightarrow> cell" where
  "resolve_enum confirmed col v =
     (case enum_lookup known_enum_maps col v of
        Some t \<Rightarrow> CText t
      | None \<Rightarrow> (case enum_lookup confirmed col v of Some t \<Rightarrow> CText t | None \<Rightarrow> v))"

section \<open>Normalising rows\<close>

text \<open>
  The renamed row of the brew log: every key of the row in turn, unless it is mapped to nothing.
  The others go through the mapping; there the last column mapped to a name wins.
\<close>

definition mapped :: "column_mapping \<Rightarrow> string option \<Rightarrow> string option" where
  "mapped mapping k = (case k of None \<Rightarrow> None | Some l \<Rightarrow> (case map_of mapping l of None \<Rightarrow> None | Some c \<Rightarrow> c))"

definition rename_by_row :: "column_mapping \<Rightarrow> row \<Rightarrow> out_row" where
  "rename_by_row mapping r =
     foldl (\<lambda>out (k, v). case mapped mapping k of None \<Rightarrow> out | Some c \<Rightarrow> AList.update c v out) [] r"

definition rename_by_mapping :: "column_mapping \<Rightarrow> row \<Rightarrow> out_row" where
  "rename_by_mapping mapping r =
     foldl (\<lambda>out (l, c). case (c, cell_get r l) of (Some k, Some v) \<Rightarrow> AList.update k v out | _ \<Rightarrow> out) [] mapping"

definition resolve_column :: "enum_maps \<Rightarrow> string \<Rightarrow> string \<Rightarrow> out_row \<Rightarrow> out_row" where
  "resolve_column confirmed enum_col col out =
     (case map_of out col of None \<Rightarrow> out | Some v \<Rightarrow> AList.update col (resolve_enum confirmed enum_col v) out)"

text \<open>
  The patterns \<open>^\d{4}-\d{2}-\d{2}$\<close> and \<open>^(\d{2})/(\d{2})/(\d{4})$\<close> under \<open>match\<close>: a newline may follow.
\<close>

definition digits_at :: "nat list \<Rightarrow> string \<Rightarrow> bool" where
  "digits_at ns t = list_all (\<lambda>n. n < length t \<and> is_digit (t ! n)) ns"

definition matches_end :: "nat \<Rightarrow> string \<Rightarrow> bool" where
  "matches_end n t = (length t = n \<or> (length t = n + 1 \<and> last t = lf))"

definition is_iso_date :: "string \<Rightarrow> bool" where
  "is_iso_date t = (matches_end 10 t \<and> digits_at [0, 1, 2, 3, 5, 6, 8, 9] t \<and> t ! 4 = CHR ''-'' \<and> t ! 7 = CHR ''-'')"

definition is_us_date :: "string \<Rightarrow> bool" where
  "is_us_date t = (matches_end 10 t \<and> digits_at [0, 1, 3, 4, 6, 7, 8, 9] t \<and> t ! 2 = CHR ''/'' \<and> t ! 5 = CHR ''/'')"

definition normalize_date :: "string \<Rightarrow> string" where
  "normalize_date t =
     (if is_iso_date t then t
      else if is_us_date t then take 4 (drop 6 t) @ ''-'' @ take 2 t @ ''-'' @ take 2 (drop 3 t)
      else t)"

text \<open>A date cell that is no text makes \<open>re.match\<close> raise. \<open>fresh\<close> is the random part of a new identifier.\<close>

definition normalize_brew_log_row ::
  "string \<Rightarrow> row \<Rightarrow> column_mapping \<Rightarrow> enum_maps \<Rightarrow> out_row imported" where
  "normalize_brew_log_row fresh r mapping confirmed =
     (let out = rename_by_row mapping r
      in case (case map_of out ''Date'' of
                 None \<Rightarrow> Inr out
               | Some (CText t) \<Rightarrow> Inr (AList.update ''Date'' (CText (normalize_date t)) out)
               | Some _ \<Rightarrow> Inl ImportTypeError) of
           Inl e \<Rightarrow> Inl e
         | Inr out \<Rightarrow>
             (let out = resolve_column confirmed ''Taste_Summary'' ''Taste_Summary''
                          (resolve_column confirmed ''Shot_Eligibility'' ''Shot_Eligibility'' out)
              in Inr (if cell_text (map_of out ''Shot_ID'') = []
                      then AList.update ''Shot_ID'' (CText (''SHOT-'' @ fresh)) out else out)))"

definition normalize_catalog_row :: "row \<Rightarrow> column_mapping \<Rightarrow> enum_maps \<Rightarrow> out_row" where
  "normalize_catalog_row r mapping confirmed =
     resolve_column confirmed ''Roast_Level'' ''Roast_Level'' (rename_by_mapping mapping r)"

definition normalize_inventory_row :: "row \<Rightarrow> column_mapping \<Rightarrow> enum_maps \<Rightarrow> out_row" where
  "normalize_inventory_row r mapping confirmed =
     resolve_column confirmed ''Roast_Level'' ''RoastLevel'' (rename_by_mapping mapping r)"

definition normalize_hardware_row :: "row \<Rightarrow> column_mapping \<Rightarrow> out_row" where
  "normalize_hardware_row r mapping = rename_by_mapping mapping r"

definition migrate_grinder_calibration_row :: "row \<Rightarrow> nat \<Rightarrow> out_row imported" where
  "migrate_grinder_calibration_row r n =
     (case (cell_get r ''Grinder_ID'', cell_get r ''Date'') of
        (Some g, Some d) \<Rightarrow>
          Inr [(''Maintenance_ID'', CText (''MNT'' @ pad0 3 n)), (''Hardware_ID'', g), (''Date'', d),
               (''Action_Type'', CText ''Re-zero''),
               (''Notes'', case cell_get r ''Notes'' of None \<Rightarrow> CText [] | Some v \<Rightarrow> v)]
      | _ \<Rightarrow> Inl ImportKeyError)"

end
