(* ===== verification/Urls.thy ===== *)
theory Urls
  imports Inference
begin

text \<open>
  The parts of Python's \<open>urllib.parse\<close> that \<^verbatim>\<open>app/models/base.py\<close> uses: splitting of a URL, its
  user, password and host, and the fields of its query. Texts are ASCII. Whether the content of a
  bracketed host is a valid address is a parameter.
\<close>

section \<open>Splitting at a character\<close>

text \<open>\<open>s.partition(c)\<close>, without the separator: \<open>None\<close> when it does not occur.\<close>

definition cut_at :: "char \<Rightarrow> string \<Rightarrow> string \<times> string option" where
  "cut_at c s = (takeWhile (\<lambda>x. x \<noteq> c) s, case dropWhile (\<lambda>x. x \<noteq> c) s of [] \<Rightarrow> None | _ # rest \<Rightarrow> Some rest)"

text \<open>\<open>s.rpartition(c)\<close>: what follows the last separator, and what precedes it.\<close>

definition cut_at_last :: "char \<Rightarrow> string \<Rightarrow> string option \<times> string" where
  "cut_at_last c s = (case cut_at c (rev s) of (a, b) \<Rightarrow> (map_option rev b, rev a))"

lemma cut_at_none: "c \<notin> set s \<Longrightarrow> cut_at c s = (s, None)"
  by (induction s) (auto simp: cut_at_def)

lemma cut_at_first: "c \<notin> set a \<Longrightarrow> cut_at c (a @ c # b) = (a, Some b)"
  by (induction a) (auto simp: cut_at_def)

lemma cut_at_last_here: "c \<notin> set b \<Longrightarrow> cut_at_last c (a @ c # b) = (Some a, b)"
  using cut_at_first [of c "rev b" "rev a"] by (simp add: cut_at_last_def)

section \<open>\<open>urlsplit\<close>\<close>

record url_split =
  us_scheme :: string
  us_netloc :: string
  us_path :: string
  us_query :: string
  us_fragment :: string

definition scheme_char :: "char \<Rightarrow> bool" where
  "scheme_char c \<longleftrightarrow> is_letter c \<or> is_digit c \<or> c \<in> {CHR ''+'', CHR ''-'', CHR ''.''}"

definition clean_url :: "string \<Rightarrow> string" where
  "clean_url url = filter (\<lambda>c. c \<notin> {CHR 0x09, CHR 0x0A, CHR 0x0D}) (dropWhile (\<lambda>c. (of_char c :: nat) \<le> 32) url)"

text \<open>The scheme in lower case, and the rest.\<close>

definition split_scheme :: "string \<Rightarrow> string \<times> string" where
  "split_scheme url =
     (case cut_at CHR '':'' url of
        (a, Some rest) \<Rightarrow> if a \<noteq> [] \<and> is_letter (hd a) \<and> list_all scheme_char a then (lower a, rest) else ([], url)
      | (a, None) \<Rightarrow> ([], url))"

definition split_netloc :: "string \<Rightarrow> string \<times> string" where
  "split_netloc url =
     (if starts_with ''//'' url
      then (let stop = (\<lambda>c. c \<in> {CHR ''/'', CHR ''?'', CHR ''#''})
            in (takeWhile (\<lambda>c. \<not> stop c) (drop 2 url), dropWhile (\<lambda>c. \<not> stop c) (drop 2 url)))
      else ([], url))"

definition bracketed_host :: "string \<Rightarrow> string" where
  "bracketed_host netloc =
     (case cut_at CHR ''['' netloc of (_, None) \<Rightarrow> [] | (_, Some rest) \<Rightarrow> fst (cut_at CHR '']'' rest))"

definition netloc_valid :: "(string \<Rightarrow> bool) \<Rightarrow> string \<Rightarrow> bool" where
  "netloc_valid ip_ok netloc \<longleftrightarrow>
     (CHR ''['' \<in> set netloc \<longleftrightarrow> CHR '']'' \<in> set netloc)
   \<and> (if CHR ''['' \<in> set netloc then ip_ok (bracketed_host netloc) else True)"

definition urlsplit :: "(string \<Rightarrow> bool) \<Rightarrow> string \<Rightarrow> url_split res" where
  "urlsplit ip_ok url =
     (case split_scheme (clean_url url) of (scheme, rest) \<Rightarrow>
      case split_netloc rest of (netloc, tail) \<Rightarrow>
        if \<not> netloc_valid ip_ok netloc then Inl ValueError
        else
          (case cut_at CHR ''#'' tail of (before, fragment) \<Rightarrow>
           case cut_at CHR ''?'' before of (path, query) \<Rightarrow>
             Inr \<lparr>us_scheme = scheme, us_netloc = netloc, us_path = path,
                  us_query = (case query of None \<Rightarrow> [] | Some q \<Rightarrow> q),
                  us_fragment = (case fragment of None \<Rightarrow> [] | Some f \<Rightarrow> f)\<rparr>))"

section \<open>User, password and host\<close>

definition userinfo :: "url_split \<Rightarrow> string option \<times> string option" where
  "userinfo u =
     (case cut_at_last CHR ''@'' (us_netloc u) of
        (None, _) \<Rightarrow> (None, None)
      | (Some info, _) \<Rightarrow> (case cut_at CHR '':'' info of (name, pwd) \<Rightarrow> (Some name, pwd)))"

definition hostname :: "url_split \<Rightarrow> string option" where
  "hostname u =
     (let info = snd (cut_at_last CHR ''@'' (us_netloc u));
          host = (case cut_at CHR ''['' info of
                    (_, Some rest) \<Rightarrow> fst (cut_at CHR '']'' rest)
                  | (_, None) \<Rightarrow> fst (cut_at CHR '':'' info))
      in if host = [] then None
         else (case cut_at CHR ''%'' host of
                 (name, None) \<Rightarrow> Some (lower name)
               | (name, Some zone) \<Rightarrow> Some (lower name @ CHR ''%'' # zone)))"

section \<open>\<open>parse_qs\<close>\<close>

definition hex_val :: "char \<Rightarrow> nat option" where
  "hex_val c =
     (let n = of_char c :: nat
      in if 48 \<le> n \<and> n \<le> 57 then Some (n - 48)
         else if 65 \<le> n \<and> n \<le> 70 then Some (n - 55)
         else if 97 \<le> n \<and> n \<le> 102 then Some (n - 87) else None)"

text \<open>\<open>unquote\<close>: two hexadecimal digits after a percent sign are a byte.\<close>

fun unquote :: "string \<Rightarrow> string" where
  "unquote [] = []"
| "unquote [a] = [a]"
| "unquote [a, b] = [a, b]"
| "unquote (a # b # c # s) =
     (case (if a = CHR ''%'' then (hex_val b, hex_val c) else (None, None)) of
        (Some x, Some y) \<Rightarrow> char_of (16 * x + y) # unquote s
      | _ \<Rightarrow> a # unquote (b # c # s))"

definition decode_field :: "string \<Rightarrow> string" where
  "decode_field s = unquote (map (\<lambda>c. if c = CHR ''+'' then CHR '' '' else c) s)"

text \<open>Fields without a value are left out.\<close>

definition parse_qsl :: "string \<Rightarrow> (string \<times> string) list" where
  "parse_qsl qs = List.map_filter
     (\<lambda>f. case cut_at CHR ''='' f of
        (k, Some v) \<Rightarrow> if v = [] then None else Some (decode_field k, decode_field v)
      | (k, None) \<Rightarrow> None)
     (split_on CHR ''&'' qs)"

text \<open>\<open>parse_qs(qs).get(k, [""])[0]\<close>\<close>

definition first_field :: "string \<Rightarrow> string \<Rightarrow> string" where
  "first_field k qs = (case map_of (parse_qsl qs) k of None \<Rightarrow> [] | Some v \<Rightarrow> v)"

lemma unquote_plain: "CHR ''%'' \<notin> set s \<Longrightarrow> unquote s = s"
  by (induction s rule: unquote.induct) auto

lemma decode_plain: "CHR ''%'' \<notin> set s \<Longrightarrow> CHR ''+'' \<notin> set s \<Longrightarrow> decode_field s = s"
proof -
  assume "CHR ''%'' \<notin> set s" and plus: "CHR ''+'' \<notin> set s"
  have "map (\<lambda>c. if c = CHR ''+'' then CHR '' '' else c) s = s"
    using plus by (intro map_idI) auto
  then show ?thesis using \<open>CHR ''%'' \<notin> set s\<close> by (simp add: decode_field_def unquote_plain)
qed

lemma split_on_none: "c \<notin> set s \<Longrightarrow> split_on c s = [s]"
  by (induction s) auto

end
