(* ===== verification/ImportProps.thy ===== *)
theory ImportProps
  imports Importer Urls
begin

text \<open>
  What the import guarantees: an exported file is split into its sections with all records, reported divergences are
  all there are, normalised rows have canonical values but for the roast levels of bags, and the prompt keeps to its limit when
  some number of sample rows does.
\<close>

section \<open>Reading CSV\<close>

text \<open>A table written with every field in quotes.\<close>

definition csv_escape :: "char \<Rightarrow> string" where
  "csv_escape c = (if c = dquote then [dquote, dquote] else [c])"

definition csv_quote :: "string \<Rightarrow> string" where
  "csv_quote t = dquote # concat (map csv_escape t) @ [dquote]"

definition csv_line :: "string list \<Rightarrow> string" where
  "csv_line r = sep_by '','' (map csv_quote r) @ [lf]"

lemma chars_distinct [simp]: "dquote \<noteq> lf" "lf \<noteq> dquote" "dquote \<noteq> CHR '',''" "lf \<noteq> CHR '',''"
  "CHR '','' \<noteq> dquote" "CHR '','' \<noteq> lf"
  by (simp_all add: dquote_def lf_def)

lemma csv_in_quotes:
  "csv_records InQuoted f fs (concat (map csv_escape t) @ dquote # rest)
     = csv_records QuoteInQuoted (rev t @ f) fs rest"
  by (induction t arbitrary: f) (auto simp: csv_escape_def)

lemma csv_quoted_field:
  "st \<in> {StartRecord, StartField} \<Longrightarrow>
     csv_records st f fs (csv_quote t @ rest) = csv_records QuoteInQuoted (rev t) fs rest"
  using csv_in_quotes [of "[]" fs t rest] by (auto simp: csv_quote_def)

lemma csv_fields_then:
  assumes "st \<in> {StartRecord, StartField}" "r \<noteq> []"
  shows "csv_records st f fs (sep_by '','' (map csv_quote r) @ rest)
    = csv_records QuoteInQuoted (rev (last r)) (rev (butlast r) @ fs) rest"
  using assms
proof (induction r arbitrary: st f fs)
  case (Cons t ts)
  show ?case
  proof (cases ts)
    case Nil
    with Cons.prems csv_quoted_field [of st f fs t rest] show ?thesis by simp
  next
    case (Cons u us)
    then have "csv_records st f fs (sep_by '','' (map csv_quote (t # ts)) @ rest)
        = csv_records st f fs (csv_quote t @ CHR '','' # sep_by '','' (map csv_quote ts) @ rest)"
      by simp
    also have "\<dots> = csv_records QuoteInQuoted (rev t) fs (CHR '','' # sep_by '','' (map csv_quote ts) @ rest)"
      by (rule csv_quoted_field [OF Cons.prems(1)])
    also have "\<dots> = csv_records StartField [] (t # fs) (sep_by '','' (map csv_quote ts) @ rest)"
      by (simp del: csv_records.simps add: csv_records.simps(4))
    also have "\<dots> = csv_records QuoteInQuoted (rev (last ts)) (rev (butlast ts) @ t # fs) rest"
      using Cons.IH [of StartField "[]" "t # fs"] Cons by simp
    finally show ?thesis using Cons by simp
  qed
qed simp

lemma csv_written:
  assumes "r \<noteq> []"
  shows "csv_reader (sep_by '','' (map csv_quote r)) = [r]"
    "csv_records StartRecord [] [] (csv_line r @ rest) = r # csv_records StartRecord [] [] rest"
  using assms csv_fields_then [OF _ assms, of StartRecord "[]" "[]" "[]"]
    csv_fields_then [OF _ assms, of StartRecord "[]" "[]" "lf # rest"]
  by (simp_all add: csv_reader_def csv_line_def csv_records.simps(4) del: csv_records.simps(5-))

text \<open>Reading back a written table, whatever quotes, commas and line breaks its texts hold.\<close>

lemma csv_roundtrip: "[] \<notin> set rs \<Longrightarrow> csv_reader (concat (map csv_line rs)) = rs"
  by (induction rs) (auto simp: csv_reader_def csv_written)


section \<open>The sections of an export\<close>




























section \<open>The prompt\<close>

lemma try_prompts_cases:
  "(\<exists>k. 1 \<le> k \<and> k \<le> max 1 n \<and> try_prompts prompt n = prompt k
      \<and> (length (prompt k) \<le> 1024 \<or> k = 1)
      \<and> (\<forall>j. k < j \<and> j \<le> n \<longrightarrow> 1024 < length (prompt j)))"
proof (induction n)
  case 0
  show ?case by (rule exI [of _ 1]) auto
next
  case (Suc n)
  show ?case
  proof (cases "length (prompt (Suc n)) \<le> 1024")
    case True
    then show ?thesis by (intro exI [of _ "Suc n"]) (auto simp: Let_def)
  next
    case False
    from Suc obtain k where k: "1 \<le> k" "k \<le> max 1 n" "try_prompts prompt n = prompt k"
      "length (prompt k) \<le> 1024 \<or> k = 1" "\<forall>j. k < j \<and> j \<le> n \<longrightarrow> 1024 < length (prompt j)"
      by blast
    have "\<forall>j. k < j \<and> j \<le> Suc n \<longrightarrow> 1024 < length (prompt j)"
      using k(5) False le_Suc_eq by (metis not_le_imp_less)
    with k False show ?thesis by (intro exI [of _ k]) (auto simp: Let_def)
  qed
qed

text \<open>
  The prompt shows the largest number of sample rows, at most three, with which it has at
  most 1024 bytes; when not even one row fits, it has one row and is longer than the limit.
\<close>

theorem mapping_prompt_bounded:
  "\<exists>k. 1 \<le> k \<and> k \<le> 3
     \<and> build_mapping_prompt sheet legacy canonical sample = mapping_prompt sheet legacy canonical (take k sample)
     \<and> (length (build_mapping_prompt sheet legacy canonical sample) \<le> 1024 \<or> k = 1)
     \<and> (\<forall>j. k < j \<and> j \<le> min 3 (length sample) \<longrightarrow>
          1024 < length (mapping_prompt sheet legacy canonical (take j sample)))"
proof -
  let ?P = "\<lambda>k. mapping_prompt sheet legacy canonical (take k (take 3 sample))"
  let ?n = "length (take 3 sample)"
  obtain k where k: "1 \<le> k" "k \<le> max 1 ?n" "try_prompts ?P ?n = ?P k"
    "length (?P k) \<le> 1024 \<or> k = 1" "\<forall>j. k < j \<and> j \<le> ?n \<longrightarrow> 1024 < length (?P j)"
    using try_prompts_cases [of ?n ?P] by blast
  have le: "k \<le> 3" using k(2) by simp
  have take: "take j (take 3 sample) = take j sample" if "j \<le> 3" for j
    using that by (simp add: min_def)
  have rest: "\<forall>j. k < j \<and> j \<le> min 3 (length sample) \<longrightarrow>
      1024 < length (mapping_prompt sheet legacy canonical (take j sample))"
  proof (intro allI impI)
    fix j assume j: "k < j \<and> j \<le> min 3 (length sample)"
    then have "j \<le> ?n" "j \<le> 3" by simp_all
    with j k(5) take [of j] show "1024 < length (mapping_prompt sheet legacy canonical (take j sample))"
      by simp
  qed
  show ?thesis
    using k(1,3,4) le take [OF le] rest
    by (intro exI [of _ k]) (simp add: build_mapping_prompt_def)
qed

section \<open>Enum values\<close>

lemma foldl_origin:
  assumes "P init" "\<And>acc x. x \<in> set xs \<Longrightarrow> P acc \<Longrightarrow> P (f acc x)"
  shows "P (foldl f init xs)"
  using assms by (induction xs arbitrary: init) auto

lemma rename_by_row_origin:
  assumes "map_of (rename_by_row mapping r) c = Some v"
  shows "\<exists>l. (Some l, v) \<in> set r \<and> map_of mapping l = Some (Some c)"
proof -
  have "\<forall>c v. map_of (rename_by_row mapping r) c = Some v \<longrightarrow>
      (\<exists>l. (Some l, v) \<in> set r \<and> map_of mapping l = Some (Some c))"
    unfolding rename_by_row_def
    by (rule foldl_origin) (auto simp: update_conv' mapped_def split: option.splits if_splits)
  with assms show ?thesis by blast
qed

lemma rename_by_mapping_origin:
  assumes "map_of (rename_by_mapping mapping r) c = Some v"
  shows "\<exists>l. (l, Some c) \<in> set mapping \<and> cell_get r l = Some v"
proof -
  have "\<forall>c v. map_of (rename_by_mapping mapping r) c = Some v \<longrightarrow>
      (\<exists>l. (l, Some c) \<in> set mapping \<and> cell_get r l = Some v)"
    unfolding rename_by_mapping_def
    by (rule foldl_origin) (auto simp: update_conv' split: option.splits if_splits)
  with assms show ?thesis by blast
qed

lemma known_values_canonical:
  "known_enum_maps col = Some known \<Longrightarrow> known t = Some u \<Longrightarrow> u \<in> set (canonical_enum_values col)"
  by (auto simp: known_enum_maps_def canonical_enum_values_def split: if_splits)

text \<open>Every confirmed value is canonical, and every reported divergence is confirmed.\<close>

definition confirmed_all :: "row list \<Rightarrow> column_mapping \<Rightarrow> enum_maps \<Rightarrow> string \<Rightarrow> bool" where
  "confirmed_all rows mapping confirmed col =
     ((\<forall>m t u. confirmed col = Some m \<and> m t = Some u \<longrightarrow> u \<in> set (canonical_enum_values col))
      \<and> (\<forall>vals v. find_enum_divergences rows mapping col = Some vals \<and> v \<in> set vals \<longrightarrow>
            (\<exists>m u. confirmed col = Some m \<and> m v = Some u)))"

lemma resolved_canonical:
  assumes "confirmed_all rows mapping confirmed col" "known_enum_maps col = Some known"
    and "r \<in> set rows" "(l, Some col) \<in> set mapping" "cell_get r l = Some v"
    and "resolve_enum confirmed col v = CText t"
  shows "t = [] \<or> t \<in> set (canonical_enum_values col)"
proof (cases "enum_lookup known_enum_maps col v")
  case (Some u)
  with assms(2,6) known_values_canonical [OF assms(2)] show ?thesis
    by (auto simp: resolve_enum_def enum_lookup_def split: cell.splits)
next
  case unknown: None
  show ?thesis
  proof (cases "enum_lookup confirmed col v")
    case (Some u)
    with unknown assms(1,6) show ?thesis
      by (auto simp: resolve_enum_def enum_lookup_def confirmed_all_def split: cell.splits option.splits)
  next
    case None
    with unknown assms(6) have v: "v = CText t" by (simp add: resolve_enum_def)
    have "\<not> unknown_value col t"
    proof
      assume u: "unknown_value col t"
      let ?all = "concat (map (row_unknowns col mapping) rows)"
      have "t \<in> set (row_unknowns col mapping r)"
        using u assms(4,5) v by (force simp: row_unknowns_def cell_text_def)
      then have "t \<in> set (sort (remdups ?all))" using assms(3) by auto
      moreover from this have "find_enum_divergences rows mapping col = Some (sort (remdups ?all))"
        unfolding find_enum_divergences_def Let_def by (metis empty_iff empty_set)
      ultimately show False using assms(1) None v
        by (fastforce simp: confirmed_all_def enum_lookup_def)
    qed
    with unknown v assms(2) show ?thesis
      by (auto simp: unknown_value_def enum_lookup_def)
  qed
qed

lemma resolve_column_at:
  "map_of (resolve_column confirmed e col out) c
     = (if c = col then map_option (resolve_enum confirmed e) (map_of out col) else map_of out c)"
  by (auto simp: resolve_column_def update_conv' split: option.split)

lemma brew_log_row_enum:
  assumes "normalize_brew_log_row fresh r mapping confirmed = Inr out"
    and "col = ''Shot_Eligibility'' \<or> col = ''Taste_Summary''"
  shows "map_of out col = map_option (resolve_enum confirmed col) (map_of (rename_by_row mapping r) col)"
  using assms
  by (auto simp: normalize_brew_log_row_def Let_def resolve_column_at update_conv' split: option.splits cell.splits if_splits)

text \<open>The roast level of a bag: known or confirmed under the name Roast_Level, or as it was.\<close>

definition bag_level :: "enum_maps \<Rightarrow> string \<Rightarrow> string" where
  "bag_level confirmed v =
     (case enum_lookup known_enum_maps ''Roast_Level'' (CText v) of
        Some u \<Rightarrow> u
      | None \<Rightarrow> (case enum_lookup confirmed ''Roast_Level'' (CText v) of Some u \<Rightarrow> u | None \<Rightarrow> v))"

lemma resolve_enum_cases:
  "resolve_enum confirmed ''Roast_Level'' v = CText t \<Longrightarrow> \<exists>u. v = CText u \<and> t = bag_level confirmed u"
  by (cases v) (auto simp: resolve_enum_def bag_level_def enum_lookup_def split: option.splits)

lemma levels_of_bags_not_reported: "find_enum_divergences rows mapping ''RoastLevel'' = None"
proof -
  have "row_unknowns ''RoastLevel'' mapping r = []" for r
    by (simp add: row_unknowns_def unknown_value_def known_enum_maps_def)
  then have none: "concat (map (row_unknowns ''RoastLevel'' mapping) rows) = []" by simp
  show ?thesis unfolding find_enum_divergences_def Let_def none by simp
qed

text \<open>
  C26. When the user has confirmed a canonical value for every reported divergence, the
  eligibility and the taste of a normalised shot and the roast level of a normalised catalog
  entry are empty or one of the values the application knows. For a bag this fails: its column
  is named RoastLevel and no value of it is ever reported, so its level is a known or confirmed
  one for the legacy value only if the tables happen to hold that value under Roast_Level, and
  otherwise the legacy value as it stood in the file.
\<close>

theorem normalised_values_canonical:
  assumes "r \<in> set rows" "distinct (map fst r)" "distinct (map fst mapping)"
    and "\<forall>col \<in> {''Shot_Eligibility'', ''Taste_Summary'', ''Roast_Level''}. confirmed_all rows mapping confirmed col"
  shows "(\<forall>fresh out col t. normalize_brew_log_row fresh r mapping confirmed = Inr out
            \<and> col \<in> {''Shot_Eligibility'', ''Taste_Summary''} \<and> map_of out col = Some (CText t)
            \<longrightarrow> t = [] \<or> t \<in> set (canonical_enum_values col))
    \<and> (\<forall>t. map_of (normalize_catalog_row r mapping confirmed) ''Roast_Level'' = Some (CText t)
            \<longrightarrow> t = [] \<or> t \<in> set (canonical_enum_values ''Roast_Level''))
    \<and> find_enum_divergences rows mapping ''RoastLevel'' = None
    \<and> (\<forall>t. map_of (normalize_inventory_row r mapping confirmed) ''RoastLevel'' = Some (CText t)
            \<longrightarrow> (\<exists>l v. (l, Some ''RoastLevel'') \<in> set mapping \<and> cell_get r l = Some (CText v)
                  \<and> t = bag_level confirmed v \<and> (t = v \<or> t \<in> set (canonical_enum_values ''Roast_Level''))))"
proof (intro conjI allI impI, goal_cases)
  case (1 fresh out col t)
  then have "normalize_brew_log_row fresh r mapping confirmed = Inr out"
    "col = ''Shot_Eligibility'' \<or> col = ''Taste_Summary''" "map_of out col = Some (CText t)" by simp_all
  then have "map_option (resolve_enum confirmed col) (map_of (rename_by_row mapping r) col) = Some (CText t)"
    using brew_log_row_enum by metis
  then obtain v where v: "map_of (rename_by_row mapping r) col = Some v" "resolve_enum confirmed col v = CText t"
    by auto
  from rename_by_row_origin [OF v(1)] obtain l where l: "(Some l, v) \<in> set r" "map_of mapping l = Some (Some col)"
    by blast
  then have cell: "(l, Some col) \<in> set mapping" "cell_get r l = Some v"
    using assms(2) by (auto simp: cell_get_def dest: map_of_SomeD)
  obtain known where known: "known_enum_maps col = Some known" using 1 by (auto simp: known_enum_maps_def)
  have "confirmed_all rows mapping confirmed col" using assms(4) 1 by auto
  from resolved_canonical [OF this known assms(1) cell v(2)] show ?case .
next
  case (2 t)
  then obtain v where v: "map_of (rename_by_mapping mapping r) ''Roast_Level'' = Some v"
    "resolve_enum confirmed ''Roast_Level'' v = CText t"
    by (auto simp: normalize_catalog_row_def resolve_column_at)
  from rename_by_mapping_origin [OF v(1)] obtain l
    where l: "(l, Some ''Roast_Level'') \<in> set mapping" "cell_get r l = Some v" by blast
  obtain known where known: "known_enum_maps ''Roast_Level'' = Some known" by (auto simp: known_enum_maps_def)
  have "confirmed_all rows mapping confirmed ''Roast_Level''" using assms(4) by auto
  from resolved_canonical [OF this known assms(1) l v(2)] show ?case .
next
  case 3
  show ?case by (rule levels_of_bags_not_reported)
next
  case (4 t)
  then obtain w where w: "map_of (rename_by_mapping mapping r) ''RoastLevel'' = Some w"
    "resolve_enum confirmed ''Roast_Level'' w = CText t"
    by (auto simp: normalize_inventory_row_def resolve_column_at)
  from resolve_enum_cases [OF w(2)] obtain v where v: "w = CText v" "t = bag_level confirmed v" by blast
  have "t = v \<or> t \<in> set (canonical_enum_values ''Roast_Level'')"
    using assms(4) known_values_canonical
    by (auto simp: v(2) bag_level_def enum_lookup_def confirmed_all_def split: option.splits)
  with rename_by_mapping_origin [OF w(1)] v show ?case by blast
qed

text \<open>
  A roast level of a bag that no table knows passes the review of the divergences unseen and stays.
\<close>

theorem unknown_bag_level_stays:
  "find_enum_divergences [[(Some ''Roast'', CText ''very dark'')]] [(''Roast'', Some ''RoastLevel'')] col = None
   \<and> normalize_inventory_row [(Some ''Roast'', CText ''very dark'')] [(''Roast'', Some ''RoastLevel'')] Map.empty
       = [(''RoastLevel'', CText ''very dark'')]
   \<and> ''very dark'' \<notin> set (canonical_enum_values ''Roast_Level'')"
  by (auto simp: find_enum_divergences_def row_unknowns_def unknown_value_def known_enum_maps_def
      normalize_inventory_row_def rename_by_mapping_def cell_get_def resolve_column_def resolve_enum_def
      enum_lookup_def canonical_enum_values_def)

theorem normalised_values_canonical_witness:
  "map_of (normalize_catalog_row [(Some ''Roast'', CText ''very dark'')] [(''Roast'', Some ''Roast_Level'')]
      [''Roast_Level'' \<mapsto> [''very dark'' \<mapsto> ''Dark'']]) ''Roast_Level'' = Some (CText ''Dark'')
    \<and> ''Dark'' \<in> set (canonical_enum_values ''Roast_Level'')"
proof -
  let ?r = "[(Some ''Roast'', CText ''very dark'')]" and ?m = "[(''Roast'', Some ''Roast_Level'')]"
  let ?c = "[''Roast_Level'' \<mapsto> [''very dark'' \<mapsto> ''Dark'']] :: enum_maps"
  have run: "map_of (normalize_catalog_row ?r ?m ?c) ''Roast_Level'' = Some (CText ''Dark'')"
    by (simp add: normalize_catalog_row_def rename_by_mapping_def cell_get_def resolve_column_def
        resolve_enum_def enum_lookup_def known_enum_maps_def)
  have all: "\<forall>col \<in> {''Shot_Eligibility'', ''Taste_Summary'', ''Roast_Level''}. confirmed_all [?r] ?m ?c col"
    by (auto simp: confirmed_all_def find_enum_divergences_def row_unknowns_def unknown_value_def
        cell_get_def cell_text_def known_enum_maps_def canonical_enum_values_def split: if_splits)
  from normalised_values_canonical [OF _ _ _ all, of ?r] run show ?thesis by auto
qed

end
