(* ===== verification/GoogleAuth.thy ===== *)
theory GoogleAuth
  imports AuthProps Interfaces
begin

text \<open>
  Signing in with Google (\<^verbatim>\<open>app/auth.py\<close>): the login redirect stores the hash of a random state
  with a PKCE verifier for five minutes, the callback uses it up, exchanges the code, and creates
  or refreshes the user of the Google account. The exchange over HTTP, the digest and the
  random texts are parameters.
\<close>

section \<open>The table of pending logins\<close>

record oauth_state =
  o_id :: uuid
  o_state_hash :: string
  o_pkce_verifier :: string
  o_expires_at :: instant

text \<open>One transaction over the tables of the database and this one.\<close>

record oauth_session =
  oa_committed :: "oauth_state list"
  oa_work :: "oauth_state list"
  oa_db :: session

definition oa_open :: "database \<times> oauth_state list \<Rightarrow> oauth_session" where
  "oa_open d = \<lparr>oa_committed = snd d, oa_work = snd d, oa_db = open_session (fst d)\<rparr>"

definition oa_commit :: "oauth_session \<Rightarrow> oauth_session" where
  "oa_commit x = x\<lparr>oa_committed := oa_work x, oa_db := commit (oa_db x)\<rparr>"

definition oa_close :: "oauth_session \<Rightarrow> database \<times> oauth_state list" where
  "oa_close x = (close_session (oa_db x), oa_committed x)"

text \<open>\<open>INSERT INTO oauth_states\<close>: the primary key and the unique hash.\<close>

definition add_oauth_state :: "oauth_state \<Rightarrow> oauth_session \<Rightarrow> oauth_session option" where
  "add_oauth_state o1 x =
     (if list_ex (\<lambda>k. o_id k = o_id o1 \<or> o_state_hash k = o_state_hash o1) (oa_work x) then None
      else Some (x\<lparr>oa_work := oa_work x @ [o1]\<rparr>))"

definition delete_oauth_state :: "oauth_state \<Rightarrow> oauth_session \<Rightarrow> oauth_session" where
  "delete_oauth_state o1 x = x\<lparr>oa_work := filter (\<lambda>k. o_id k \<noteq> o_id o1) (oa_work x)\<rparr>"

section \<open>The authorisation URL\<close>

record google_config =
  gc_client_id :: "string option"
  gc_redirect_uri :: "string option"

definition oauth_redirect_uri :: "google_config \<Rightarrow> string \<Rightarrow> string" where
  "oauth_redirect_uri gc callback_url =
     (if truthy (gc_redirect_uri gc) then the (gc_redirect_uri gc) else callback_url)"

text \<open>The alphabet of \<open>urlsafe_b64encode\<close>, and the encoding without the padding.\<close>

definition b64_char :: "nat \<Rightarrow> char" where
  "b64_char n =
     (if n < 26 then char_of (65 + n) else if n < 52 then char_of (71 + n)
      else if n < 62 then char_of (n - 4) else if n = 62 then CHR ''-'' else CHR ''_'')"

fun b64_unpadded :: "nat list \<Rightarrow> string" where
  "b64_unpadded [] = []"
| "b64_unpadded [a] = map b64_char [a div 4, (a mod 4) * 16]"
| "b64_unpadded [a, b] = map b64_char [a div 4, (a mod 4) * 16 + b div 16, (b mod 16) * 4]"
| "b64_unpadded (a # b # c # bs) =
     map b64_char [a div 4, (a mod 4) * 16 + b div 16, (b mod 16) * 4 + c div 64, c mod 64] @ b64_unpadded bs"

definition pkce_code_challenge :: "(string \<Rightarrow> nat list) \<Rightarrow> string \<Rightarrow> string" where
  "pkce_code_challenge sha256 code_verifier = b64_unpadded (sha256 code_verifier)"

text \<open>\<open>urlencode\<close>: names and values with \<open>quote_plus\<close>; \<open>None\<close> is printed.\<close>

definition upper_hex :: "nat \<Rightarrow> char" where
  "upper_hex n = (if n < 10 then char_of (48 + n) else char_of (55 + n))"

definition quote_plus_char :: "char \<Rightarrow> string" where
  "quote_plus_char c =
     (if is_letter c \<or> is_digit c \<or> c \<in> set ''_.-~'' then [c]
      else if c = CHR '' '' then ''+''
      else (let n = of_char c :: nat in [CHR ''%'', upper_hex (n div 16), upper_hex (n mod 16)]))"

definition quote_plus :: "string \<Rightarrow> string" where
  "quote_plus t = concat (map quote_plus_char t)"

fun urlencode :: "(string \<times> string) list \<Rightarrow> string" where
  "urlencode [] = []"
| "urlencode [(k, v)] = quote_plus k @ ''='' @ quote_plus v"
| "urlencode ((k, v) # kvs) = quote_plus k @ ''='' @ quote_plus v @ ''&'' @ urlencode kvs"

definition build_google_authorize_url :: "google_config \<Rightarrow> string \<Rightarrow> string \<Rightarrow> string \<Rightarrow> string" where
  "build_google_authorize_url gc callback_url state code_challenge =
     ''https://accounts.google.com/o/oauth2/v2/auth?'' @ urlencode
       [(''client_id'', case gc_client_id gc of None \<Rightarrow> ''None'' | Some t \<Rightarrow> t),
        (''redirect_uri'', oauth_redirect_uri gc callback_url),
        (''response_type'', ''code''),
        (''scope'', ''openid email profile''),
        (''state'', state),
        (''code_challenge'', code_challenge),
        (''code_challenge_method'', ''S256'')]"

section \<open>The endpoints\<close>

text \<open>The redirects: to the login page with an error, to Google, or back with a session.\<close>

datatype redirect = OAuthFailed | ToGoogle string | SignedIn token_out

definition google_login ::
  "env \<Rightarrow> google_config \<Rightarrow> (string \<Rightarrow> nat list) \<Rightarrow> string \<Rightarrow> uuid \<Rightarrow> string \<Rightarrow> string \<Rightarrow> oauth_session
     \<Rightarrow> redirect \<times> oauth_session" where
  "google_login E gc sha256 callback_url nid state code_verifier x =
     (if \<not> use_postgres (e_st E) then (OAuthFailed, x)
      else
        (case add_oauth_state
                \<lparr>o_id = nid, o_state_hash = hash_token (e_ext E) state, o_pkce_verifier = code_verifier,
                 o_expires_at = e_now E + minutes 5\<rparr> x of
           None \<Rightarrow> (OAuthFailed, x)
         | Some x \<Rightarrow>
             (ToGoogle (build_google_authorize_url gc callback_url state
                          (pkce_code_challenge sha256 code_verifier)), oa_commit x)))"

text \<open>The members of the profile as the texts Python prints for them; nothing when the exchange raises.\<close>

type_synonym userinfo = "string \<Rightarrow> string option"

definition info :: "userinfo \<Rightarrow> string \<Rightarrow> string" where
  "info ui k = (case ui k of None \<Rightarrow> [] | Some t \<Rightarrow> t)"

definition nonempty :: "string \<Rightarrow> string option" where
  "nonempty t = (if t = [] then None else Some t)"

definition or_else :: "string \<Rightarrow> string option \<Rightarrow> string option" where
  "or_else t old = (if t = [] then old else Some t)"

definition upsert_google_user ::
  "uuid \<Rightarrow> instant \<Rightarrow> userinfo \<Rightarrow> session \<Rightarrow> uuid res \<times> session" where
  "upsert_google_user nid db_now ui s =
     (let sub = info ui ''sub''; email = lower (info ui ''email''); name = info ui ''name'';
          picture = info ui ''picture''
      in case get_by_google_sub s sub of
           None \<Rightarrow>
             andthen (create_user nid db_now None None (Some sub) (nonempty email)
                        (if name \<noteq> [] then name else if email \<noteq> [] then email else sub)
                        (nonempty picture) s)
               (\<lambda>u s. (Inr (u_id u), s))
         | Some u \<Rightarrow>
             (Inr (u_id u),
              map_user (u_id u) (\<lambda>v. v\<lparr>u_email := or_else email (u_email u),
                u_display_name := (if name \<noteq> [] then name else u_display_name u),
                u_picture_url := or_else picture (u_picture_url u), u_last_seen_at := db_now\<rparr>) s))"

text \<open>
  An exception before the commit leaves nothing of the request; one after it, when the access
  token is signed, leaves what was committed.
\<close>

definition google_callback ::
  "env \<Rightarrow> google_config \<Rightarrow> (string \<Rightarrow> string \<Rightarrow> string \<Rightarrow> userinfo option) \<Rightarrow> string \<Rightarrow> uuid \<Rightarrow> uuid \<Rightarrow> string
     \<Rightarrow> string \<Rightarrow> string \<Rightarrow> oauth_session \<Rightarrow> redirect \<times> oauth_session" where
  "google_callback E gc exchange callback_url uid rid raw state code x =
     (if \<not> use_postgres (e_st E) \<or> state = [] \<or> code = [] then (OAuthFailed, x)
      else
        (case find (\<lambda>k. o_state_hash k = hash_token (e_ext E) state) (oa_work x) of
           None \<Rightarrow> (OAuthFailed, x)
         | Some pending \<Rightarrow>
             if o_expires_at pending < e_now E then (OAuthFailed, oa_commit (delete_oauth_state pending x))
             else
               (let y = delete_oauth_state pending x in
                case exchange code (oauth_redirect_uri gc callback_url) (o_pkce_verifier pending) of
                  None \<Rightarrow> (OAuthFailed, x)
                | Some ui \<Rightarrow>
                    if info ui ''sub'' = [] then (OAuthFailed, y)
                    else
                      (case upsert_google_user uid (e_db_now E) ui (oa_db y) of
                         (Inl e, s) \<Rightarrow> (OAuthFailed, x)
                       | (Inr user, s) \<Rightarrow>
                           (case create_refresh_token rid (e_db_now E) user (hash_token (e_ext E) raw) (e_now E + days 30) s of
                              (Inl e, s) \<Rightarrow> (OAuthFailed, x)
                            | (Inr _, s) \<Rightarrow>
                                (let z = oa_commit (y\<lparr>oa_db := s\<rparr>) in
                                 case create_access_token (e_ext E) (e_st E) (e_now E) user of
                                   Inl e \<Rightarrow> (OAuthFailed, z)
                                 | Inr at \<Rightarrow>
                                     (SignedIn \<lparr>t_access_token = at, t_cookie = set_refresh_cookie (e_st E) raw\<rparr>, z)))))))"

section \<open>Requests in sequence\<close>

text \<open>
  A login or a callback with what it runs under, or any other request, which may leave any
  database behind but does not know the pending logins.
\<close>

datatype oauth_event =
    StartLogin env google_config string uuid string string
  | Callback env google_config "string \<Rightarrow> string \<Rightarrow> string \<Rightarrow> userinfo option" string uuid uuid string string string
  | Elsewhere database

fun oauth_step ::
  "(string \<Rightarrow> nat list) \<Rightarrow> database \<times> oauth_state list \<Rightarrow> oauth_event \<Rightarrow> database \<times> oauth_state list" where
  "oauth_step sha256 d (StartLogin E gc cb nid state ver) =
     oa_close (snd (google_login E gc sha256 cb nid state ver (oa_open d)))"
| "oauth_step sha256 d (Callback E gc exchange cb uid rid raw state code) =
     oa_close (snd (google_callback E gc exchange cb uid rid raw state code (oa_open d)))"
| "oauth_step sha256 d (Elsewhere d') = (d', snd d)"

lemma oa_simps [simp]:
  "oa_work (oa_open d) = snd d" "oa_committed (oa_open d) = snd d" "oa_db (oa_open d) = open_session (fst d)"
  "oa_work (oa_commit x) = oa_work x" "oa_committed (oa_commit x) = oa_work x" "oa_db (oa_commit x) = commit (oa_db x)"
  "oa_close x = (committed (oa_db x), oa_committed x)"
  "oa_work (delete_oauth_state k x) = filter (\<lambda>j. o_id j \<noteq> o_id k) (oa_work x)"
  "oa_committed (delete_oauth_state k x) = oa_committed x" "oa_db (delete_oauth_state k x) = oa_db x"
  by (simp_all add: oa_open_def oa_commit_def oa_close_def delete_oauth_state_def)

lemma google_login_states:
  "snd (oa_close (snd (google_login E gc sha cb nid state ver (oa_open d)))) =
     (if use_postgres (e_st E) \<and> \<not> list_ex (\<lambda>k. o_id k = nid \<or> o_state_hash k = hash_token (e_ext E) state) (snd d)
      then snd d @ [\<lparr>o_id = nid, o_state_hash = hash_token (e_ext E) state, o_pkce_verifier = ver,
                     o_expires_at = e_now E + minutes 5\<rparr>]
      else snd d)"
  by (simp add: google_login_def add_oauth_state_def)

lemma google_login_db [simp]:
  "committed (oa_db (snd (google_login E gc sha cb nid state ver (oa_open d)))) = fst d"
  by (simp add: google_login_def add_oauth_state_def)

text \<open>A callback removes the pending login it found, or none.\<close>

lemma google_callback_states:
  "snd (oa_close (snd (google_callback E gc exchange cb uid rid raw state code (oa_open d)))) = snd d
   \<or> (\<exists>pending. find (\<lambda>k. o_state_hash k = hash_token (e_ext E) state) (snd d) = Some pending
        \<and> snd (oa_close (snd (google_callback E gc exchange cb uid rid raw state code (oa_open d))))
            = filter (\<lambda>j. o_id j \<noteq> o_id pending) (snd d))"
  by (auto simp: google_callback_def Let_def split: option.split prod.split sum.split)

lemma signed_in:
  assumes "google_callback E gc exchange cb uid rid raw state code (oa_open d) = (SignedIn t, x)"
  obtains pending ui user s s' r at where
    "use_postgres (e_st E)"
    "find (\<lambda>k. o_state_hash k = hash_token (e_ext E) state) (snd d) = Some pending"
    "e_now E \<le> o_expires_at pending"
    "exchange code (oauth_redirect_uri gc cb) (o_pkce_verifier pending) = Some ui" "info ui ''sub'' \<noteq> []"
    "upsert_google_user uid (e_db_now E) ui (open_session (fst d)) = (Inr user, s)"
    "create_refresh_token rid (e_db_now E) user (hash_token (e_ext E) raw) (e_now E + days 30) s = (Inr r, s')"
    "create_access_token (e_ext E) (e_st E) (e_now E) user = Inr at"
    "oa_close x = (work s', filter (\<lambda>j. o_id j \<noteq> o_id pending) (snd d))"
    "t = \<lparr>t_access_token = at, t_cookie = set_refresh_cookie (e_st E) raw\<rparr>"
  using assms
  by (auto simp: google_callback_def Let_def split: if_splits option.splits prod.splits sum.splits)

section \<open>A state is used once\<close>

definition no_pending :: "string \<Rightarrow> database \<times> oauth_state list \<Rightarrow> bool" where
  "no_pending th d = (th \<notin> o_state_hash ` set (snd d))"

fun draws_other :: "string \<Rightarrow> oauth_event \<Rightarrow> bool" where
  "draws_other th (StartLogin E gc cb nid state ver) = (hash_token (e_ext E) state \<noteq> th)"
| "draws_other th (Callback E gc exchange cb uid rid raw state code) = True"
| "draws_other th (Elsewhere d) = True"

lemma no_pending_step:
  assumes "no_pending th d" "draws_other th e"
  shows "no_pending th (oauth_step sha d e)"
proof (cases e)
  case (StartLogin E gc cb nid state ver)
  with assms show ?thesis
    using google_login_states [of E gc sha cb nid state ver d] by (auto simp: no_pending_def)
next
  case (Callback E gc exchange cb uid rid raw state code)
  with assms show ?thesis
    using google_callback_states [of E gc exchange cb uid rid raw state code d] by (auto simp: no_pending_def)
next
  case (Elsewhere d')
  with assms show ?thesis by (simp add: no_pending_def)
qed

interpretation used_state: request_system "oauth_step sha" "draws_other th" "no_pending th" for sha th
  by unfold_locales (rule no_pending_step)

lemma callback_refused:
  assumes "no_pending (hash_token (e_ext E) state) d"
  shows "google_callback E gc exchange cb uid rid raw state code (oa_open d) = (OAuthFailed, oa_open d)"
proof -
  have "find (\<lambda>k. o_state_hash k = hash_token (e_ext E) state) (snd d) = None"
    using assms by (simp add: no_pending_def find_None_iff) (metis imageI)
  then show ?thesis by (simp add: google_callback_def)
qed

text \<open>
  C21. A state opens one session. After a callback has signed somebody in, no later callback with
  the same state succeeds or changes anything, whatever requests come in between, as long as no
  later login draws the same random state again.
\<close>

theorem oauth_state_single_use:
  assumes "google_callback E gc exchange cb uid rid raw state code (oa_open d) = (SignedIn t, x)"
    and "distinct (map o_state_hash (snd d))"
    and "list_all (draws_other (hash_token (e_ext E) state)) es"
    and "later = foldl (oauth_step sha) (oa_close x) es" and "e_ext E' = e_ext E"
  shows "google_callback E' gc' exchange' cb' uid' rid' raw' state code' (oa_open later) = (OAuthFailed, oa_open later)"
proof -
  from assms(1) obtain pending
    where pending: "find (\<lambda>k. o_state_hash k = hash_token (e_ext E) state) (snd d) = Some pending"
      and left: "snd (oa_close x) = filter (\<lambda>j. o_id j \<noteq> o_id pending) (snd d)"
    by (rule signed_in) (rule that, simp_all)
  from find_Some_in [OF pending] have p: "pending \<in> set (snd d)" "o_state_hash pending = hash_token (e_ext E) state"
    by auto
  have "j = pending" if "j \<in> set (snd d)" "o_state_hash j = hash_token (e_ext E) state" for j
    using key_unique [OF assms(2) that(1) p(1)] that(2) p(2) by simp
  then have "no_pending (hash_token (e_ext E) state) (oa_close x)"
    unfolding no_pending_def left by auto
  then have "no_pending (hash_token (e_ext E) state) later"
    unfolding assms(4) using assms(3) by (rule used_state.run_keeps)
  then show ?thesis using assms(5) by (intro callback_refused) simp
qed

definition demo_google :: google_config where
  "demo_google = \<lparr>gc_client_id = Some ''id'', gc_redirect_uri = None\<rparr>"

definition demo_pending :: oauth_state where
  "demo_pending = \<lparr>o_id = 1, o_state_hash = ''#st'', o_pkce_verifier = ''v'', o_expires_at = 1000 + minutes 5\<rparr>"

definition demo_exchange :: "string \<Rightarrow> string \<Rightarrow> string \<Rightarrow> userinfo option" where
  "demo_exchange code uri ver = (if ver = ''v'' then Some [''sub'' \<mapsto> ''g1'', ''email'' \<mapsto> ''Ann@x.org''] else None)"

abbreviation demo_sign_in :: "redirect \<times> oauth_session" where
  "demo_sign_in \<equiv> google_callback demo_env demo_google demo_exchange ''cb'' 3 7 ''ra'' ''st'' ''c''
     (oa_open (demo_db, [demo_pending]))"

lemma demo_sign_in_ok: "\<exists>t x. demo_sign_in = (SignedIn t, x)"
  by (simp add: google_callback_def demo_env_def demo_settings_def demo_externals_def demo_google_def
      demo_pending_def demo_exchange_def oauth_redirect_uri_def truthy_def hash_token_def info_def
      upsert_google_user_def Let_def get_by_google_sub_def create_user_def create_refresh_token_def
      create_access_token_def demo_db_def demo_user_def time_defs nat_str.simps digit_char_def)

theorem oauth_state_single_use_witness:
  "fst (google_callback demo_env demo_google demo_exchange ''cb'' 4 8 ''rb'' ''st'' ''d''
     (oa_open (oauth_step (\<lambda>t. []) (oa_close (snd demo_sign_in)) (StartLogin demo_env demo_google ''cb'' 2 ''su'' ''w''))))
   = OAuthFailed"
proof -
  obtain t x where run: "demo_sign_in = (SignedIn t, x)" using demo_sign_in_ok by blast
  have "list_all (draws_other (hash_token (e_ext demo_env) ''st'')) [StartLogin demo_env demo_google ''cb'' 2 ''su'' ''w'']"
    by (simp add: hash_token_def demo_env_def demo_externals_def)
  from oauth_state_single_use [OF run _ this refl refl, where sha = "\<lambda>t. []"] run show ?thesis by simp
qed

section \<open>A session follows a login\<close>

lemma states_from_logins:
  "k \<in> set (snd (foldl (oauth_step sha) (d0, []) es)) \<Longrightarrow>
     \<exists>E gc cb nid state ver. StartLogin E gc cb nid state ver \<in> set es
       \<and> o_state_hash k = hash_token (e_ext E) state \<and> o_pkce_verifier k = ver
       \<and> o_expires_at k = e_now E + minutes 5"
proof (induction es rule: rev_induct)
  case (snoc e es)
  let ?d = "foldl (oauth_step sha) (d0, []) es"
  have "k \<in> set (snd ?d) \<or> (\<exists>E gc cb nid state ver. e = StartLogin E gc cb nid state ver
       \<and> o_state_hash k = hash_token (e_ext E) state \<and> o_pkce_verifier k = ver
       \<and> o_expires_at k = e_now E + minutes 5)"
  proof (cases e)
    case (StartLogin E gc cb nid state ver)
    with snoc.prems show ?thesis
      using google_login_states [of E gc sha cb nid state ver ?d] by (auto split: if_splits)
  next
    case (Callback E gc exchange cb uid rid raw state code)
    with snoc.prems show ?thesis
      using google_callback_states [of E gc exchange cb uid rid raw state code ?d] by auto
  next
    case (Elsewhere d')
    with snoc.prems show ?thesis by simp
  qed
  then show ?case using snoc.IH by (metis Un_iff list.set_intros(1) set_append)
qed simp

text \<open>
  C22. A session is opened only for a login that this application started at most five minutes
  before, with the state of that login and the verifier that was drawn for it.
\<close>

theorem sign_in_follows_login:
  assumes "d = foldl (oauth_step sha) (d0, []) es"
    and "google_callback E gc exchange cb uid rid raw state code (oa_open d) = (SignedIn t, x)"
  shows "\<exists>E' gc' cb' nid state' ver. StartLogin E' gc' cb' nid state' ver \<in> set es
    \<and> hash_token (e_ext E') state' = hash_token (e_ext E) state
    \<and> e_now E \<le> e_now E' + minutes 5
    \<and> exchange code (oauth_redirect_uri gc cb) ver \<noteq> None"
proof -
  from assms(2) obtain pending ui
    where p: "find (\<lambda>k. o_state_hash k = hash_token (e_ext E) state) (snd d) = Some pending"
      "e_now E \<le> o_expires_at pending"
      "exchange code (oauth_redirect_uri gc cb) (o_pkce_verifier pending) = Some ui"
    by (rule signed_in) (rule that)
  from find_Some_in [OF p(1)] have k: "pending \<in> set (snd d)" "o_state_hash pending = hash_token (e_ext E) state"
    by auto
  from states_from_logins [OF k(1) [unfolded assms(1)]] k(2) p(2,3) show ?thesis by fastforce
qed

theorem sign_in_follows_login_witness:
  "\<exists>E' gc' cb' nid state' ver.
     StartLogin E' gc' cb' nid state' ver \<in> {StartLogin demo_env demo_google ''cb'' 1 ''st'' ''v''}
     \<and> hash_token (e_ext E') state' = ''#st''"
proof -
  have start: "foldl (oauth_step (\<lambda>t. [])) (demo_db, []) [StartLogin demo_env demo_google ''cb'' 1 ''st'' ''v'']
      = (demo_db, [demo_pending])"
    by (simp add: google_login_def add_oauth_state_def demo_env_def demo_settings_def demo_externals_def
        demo_pending_def hash_token_def)
  obtain t x where run: "demo_sign_in = (SignedIn t, x)" using demo_sign_in_ok by blast
  have "hash_token (e_ext demo_env) ''st'' = ''#st''" by (simp add: hash_token_def demo_env_def demo_externals_def)
  with sign_in_follows_login [OF start [symmetric] run] show ?thesis by fastforce
qed

section \<open>What a session is\<close>

lemma upsert_google_user_result:
  assumes "upsert_google_user nid db_now ui s = (Inr user, s')"
  shows "\<exists>u. user = u_id u \<and> u \<in> set (users (work s')) \<and> (u_google_sub u = Some (info ui ''sub''))
    \<and> filter (\<lambda>v. u_id v \<noteq> u_id u) (users (work s')) = filter (\<lambda>v. u_id v \<noteq> u_id u) (users (work s))
    \<and> work s' = (work s)\<lparr>users := users (work s')\<rparr>
    \<and> (case get_by_google_sub s (info ui ''sub'') of
         None \<Rightarrow> u_id u = nid \<and> nid \<notin> u_id ` set (users (work s)) \<and> u_password_hash u = None
                 \<and> u_active_household_id u = None
       | Some old \<Rightarrow> u_id u = u_id old \<and> u_password_hash u = u_password_hash old
                 \<and> u_username u = u_username old \<and> u_active_household_id u = u_active_household_id old)"
proof (cases "get_by_google_sub s (info ui ''sub'')")
  case None
  then obtain u where u: "create_user nid db_now None None (Some (info ui ''sub'')) (nonempty (lower (info ui ''email'')))
      (if info ui ''name'' \<noteq> [] then info ui ''name''
       else if lower (info ui ''email'') \<noteq> [] then lower (info ui ''email'') else info ui ''sub'')
      (nonempty (info ui ''picture'')) s = (Inr u, s')" "user = u_id u"
    using assms by (auto simp: upsert_google_user_def Let_def andthen_def split: prod.splits sum.splits)
  have fresh: "filter (\<lambda>v. u_id v \<noteq> nid) (users (work s)) = users (work s)"
    if "\<forall>x \<in> set (users (work s)). u_id x \<noteq> nid"
    using that by (simp add: filter_id_conv)
  from u None fresh show ?thesis
    by (auto simp: create_user_def Let_def list_ex_iff split: if_splits)
next
  case (Some old)
  let ?f = "\<lambda>v. v\<lparr>u_email := or_else (lower (info ui ''email'')) (u_email old),
    u_display_name := (if info ui ''name'' \<noteq> [] then info ui ''name'' else u_display_name old),
    u_picture_url := or_else (info ui ''picture'') (u_picture_url old), u_last_seen_at := db_now\<rparr>"
  from Some assms have s': "s' = map_user (u_id old) ?f s" "user = u_id old"
    by (auto simp: upsert_google_user_def Let_def)
  from find_Some_in [OF Some [unfolded get_by_google_sub_def]]
  have old: "old \<in> set (users (work s))" "u_google_sub old = Some (info ui ''sub'')" by auto
  have "?f old \<in> set (users (work s'))"
    using old(1) by (force simp: s' users_map_user set_update_where)
  moreover have "filter (\<lambda>v. u_id v \<noteq> u_id old) (users (work s')) = filter (\<lambda>v. u_id v \<noteq> u_id old) (users (work s))"
    unfolding s' users_map_user by (subst filter_update_where) (auto intro: update_where_none)
  moreover have "work s' = (work s)\<lparr>users := users (work s')\<rparr>"
    by (simp add: s' map_user_def)
  ultimately show ?thesis using Some old s'(2) by (intro exI [of _ "?f old"]) simp
qed

text \<open>
  A callback that signs in commits one user and one refresh token. The user has the Google
  account of the profile: the one that had it, with password, name and selection unchanged, or
  a new one without password; the access token is that user's, the refresh token is good for
  thirty days, and no other row of any table is touched.
\<close>

theorem google_sign_in_result:
  assumes "google_callback E gc exchange cb uid rid raw state code (oa_open d) = (SignedIn t, x)"
    and "after = fst (oa_close x)"
  shows "\<exists>ver ui u r. exchange code (oauth_redirect_uri gc cb) ver = Some ui
    \<and> u \<in> set (users after) \<and> u_google_sub u = Some (info ui ''sub'')
    \<and> (case get_by_google_sub (open_session (fst d)) (info ui ''sub'') of
         None \<Rightarrow> u_id u = uid \<and> uid \<notin> u_id ` set (users (fst d)) \<and> u_password_hash u = None
                 \<and> u_active_household_id u = None
       | Some old \<Rightarrow> u_id u = u_id old \<and> u_password_hash u = u_password_hash old
                 \<and> u_username u = u_username old \<and> u_active_household_id u = u_active_household_id old)
    \<and> filter (\<lambda>v. u_id v \<noteq> u_id u) (users after) = filter (\<lambda>v. u_id v \<noteq> u_id u) (users (fst d))
    \<and> refresh_tokens after = refresh_tokens (fst d) @ [r]
    \<and> r_user_id r = u_id u \<and> r_token_hash r = hash_token (e_ext E) raw \<and> \<not> r_revoked r
    \<and> r_expires_at r = e_now E + days 30
    \<and> create_access_token (e_ext E) (e_st E) (e_now E) (u_id u) = Inr (t_access_token t)
    \<and> after = (fst d)\<lparr>users := users after, refresh_tokens := refresh_tokens after\<rparr>"
proof -
  from assms(1) obtain pending :: oauth_state and ui user s s' r at where
    ui: "exchange code (oauth_redirect_uri gc cb) (o_pkce_verifier pending) = Some ui"
    and up: "upsert_google_user uid (e_db_now E) ui (open_session (fst d)) = (Inr user, s)"
    and rt: "create_refresh_token rid (e_db_now E) user (hash_token (e_ext E) raw) (e_now E + days 30) s = (Inr r, s')"
    and at: "create_access_token (e_ext E) (e_st E) (e_now E) user = Inr at"
      "t = \<lparr>t_access_token = at, t_cookie = set_refresh_cookie (e_st E) raw\<rparr>"
    and x: "oa_close x = (work s', filter (\<lambda>j. o_id j \<noteq> o_id pending) (snd d))"
    by (rule signed_in) (rule that)
  from rt have r: "work s' = (work s)\<lparr>refresh_tokens := refresh_tokens (work s) @ [r]\<rparr>" "r_user_id r = user"
    "r_token_hash r = hash_token (e_ext E) raw" "\<not> r_revoked r" "r_expires_at r = e_now E + days 30"
    by (auto simp: create_refresh_token_def Let_def split: if_splits)
  have after: "after = (work s)\<lparr>refresh_tokens := refresh_tokens (work s) @ [r]\<rparr>"
    using assms(2) x r(1) by simp
  from upsert_google_user_result [OF up, unfolded session_simps] obtain u where u: "user = u_id u" "u \<in> set (users (work s))"
    "u_google_sub u = Some (info ui ''sub'')"
    "filter (\<lambda>v. u_id v \<noteq> u_id u) (users (work s)) = filter (\<lambda>v. u_id v \<noteq> u_id u) (users (fst d))"
    "work s = (fst d)\<lparr>users := users (work s)\<rparr>"
    "case get_by_google_sub (open_session (fst d)) (info ui ''sub'') of
         None \<Rightarrow> u_id u = uid \<and> uid \<notin> u_id ` set (users (fst d)) \<and> u_password_hash u = None
                 \<and> u_active_household_id u = None
       | Some old \<Rightarrow> u_id u = u_id old \<and> u_password_hash u = u_password_hash old
                 \<and> u_username u = u_username old \<and> u_active_household_id u = u_active_household_id old"
    by blast
  have tokens: "refresh_tokens (work s) = refresh_tokens (fst d)"
    by (subst u(5)) simp
  have frame: "after = (fst d)\<lparr>users := users after, refresh_tokens := refresh_tokens after\<rparr>"
    unfolding after by (subst u(5)) simp
  show ?thesis
    using ui u r(2-5) at tokens frame
    by (intro exI [of _ "o_pkce_verifier pending"] exI [of _ ui] exI [of _ u] exI [of _ r]) (simp add: after)
qed

theorem google_sign_in_result_witness:
  "\<exists>t x u. demo_sign_in = (SignedIn t, x) \<and> u \<in> set (users (fst (oa_close x))) \<and> u_google_sub u = Some ''g1''"
proof -
  obtain t x where run: "demo_sign_in = (SignedIn t, x)" using demo_sign_in_ok by blast
  from google_sign_in_result [OF run refl] obtain ver ui u where
    u: "demo_exchange ''c'' (oauth_redirect_uri demo_google ''cb'') ver = Some ui"
    "u \<in> set (users (fst (oa_close x)))" "u_google_sub u = Some (info ui ''sub'')" by blast
  from u(1) have "info ui ''sub'' = ''g1''" by (auto simp: demo_exchange_def info_def split: if_splits)
  with run u show ?thesis by auto
qed

end
