(* ===== verification/Config.thy ===== *)
theory Config
  imports AuthService Importer
begin

text \<open>
  The loading of the settings (\<^verbatim>\<open>app/config.py\<close>): the values of the environment, the secrets of
  the JSON blob behind them, the field and model validators. The coercions of values to the
  types of the fields are those of the settings library and parameters, as are \<open>json.loads\<close>
  and the answer of the metadata server.
\<close>

section \<open>The settings\<close>

record config = settings +
  log_level :: string
  gcp_project_id :: string
  spreadsheet_id :: string
  google_oauth_client_id :: "string option"
  google_oauth_client_secret :: "string option"
  allowlist_emails :: "string option"
  oauth_redirect_uri_setting :: "string option"
  anthropic_api_key :: "string option"
  llm_api_key :: "string option"
  database_url :: "string option"
  app_secrets :: "string option"

text \<open>A \<open>ValidationError\<close> refuses the settings; other errors escape the validator.\<close>

datatype config_error = ValidationError string | EscapedTypeError | EscapedAttributeError

type_synonym 'a configured = "config_error + 'a"

type_synonym env_data = "(string \<times> json) list"

definition setting_names :: "string list" where
  "setting_names = [''app_env'', ''log_level'', ''gcp_project_id'', ''spreadsheet_id'', ''session_secret'',
     ''google_oauth_client_id'', ''google_oauth_client_secret'', ''allowlist_emails'', ''oauth_redirect_uri'',
     ''jwt_secret'', ''jwt_secret_previous'', ''link_token_fernet_keys'', ''access_token_expire_seconds'',
     ''anthropic_api_key'', ''llm_api_key'', ''database_url'', ''use_postgres'', ''brew_log_sync_alert'', ''app_secrets'']"

section \<open>The blob\<close>

definition blank_json :: "json option \<Rightarrow> bool" where
  "blank_json v = (v = None \<or> v = Some JNull \<or> v = Some (JString []))"

definition add_secret :: "env_data \<Rightarrow> string \<times> json \<Rightarrow> env_data" where
  "add_secret d kv = (if blank_json (map_of d (lower (fst kv))) then AList.update (lower (fst kv)) (snd kv) d else d)"

text \<open>\<open>not blob\<close> for a value that is no text: other empty values of JSON are false as well.\<close>

definition falsy_json :: "json option \<Rightarrow> bool" where
  "falsy_json v =
     (case v of None \<Rightarrow> True | Some JNull \<Rightarrow> True | Some (JBool b) \<Rightarrow> \<not> b
      | Some (JNumber t) \<Rightarrow> t \<in> {''0'', ''0.0'', ''-0'', ''-0.0''} | Some (JString t) \<Rightarrow> t = []
      | Some (JArray xs) \<Rightarrow> xs = [] | Some (JObject kvs) \<Rightarrow> kvs = [])"

definition load_app_secrets :: "json_parser \<Rightarrow> env_data \<Rightarrow> env_data configured" where
  "load_app_secrets loads d =
     (if falsy_json (map_of d ''app_secrets'') then Inr d
      else
        (case map_of d ''app_secrets'' of
           Some (JString blob) \<Rightarrow>
             (case loads blob of
                None \<Rightarrow> Inl (ValidationError ''APP_SECRETS must be a valid JSON object string.'')
              | Some (JObject kvs) \<Rightarrow> Inr (foldl add_secret d kvs)
              | Some (JArray xs) \<Rightarrow> Inl EscapedAttributeError
              | Some (JString t) \<Rightarrow> Inl EscapedAttributeError
              | Some _ \<Rightarrow> Inl EscapedTypeError)
         | _ \<Rightarrow> Inl (ValidationError ''APP_SECRETS must be a valid JSON object string.'')))"

section \<open>Fields\<close>

record coercions =
  co_str :: "json \<Rightarrow> string option"
  co_bool :: "json \<Rightarrow> bool option"
  co_int :: "json \<Rightarrow> int option"

definition field :: "(json \<Rightarrow> 'a option) \<Rightarrow> string \<Rightarrow> 'a \<Rightarrow> env_data \<Rightarrow> 'a configured" where
  "field coerce name dflt d =
     (case map_of d name of
        None \<Rightarrow> Inr dflt
      | Some v \<Rightarrow> (case coerce v of None \<Rightarrow> Inl (ValidationError name) | Some x \<Rightarrow> Inr x))"

definition opt_str :: "coercions \<Rightarrow> json \<Rightarrow> string option option" where
  "opt_str co v = (if v = JNull then Some None else map_option Some (co_str co v))"

definition bind_ok :: "'a configured \<Rightarrow> ('a \<Rightarrow> 'b configured) \<Rightarrow> 'b configured" where
  "bind_ok m f = (case m of Inl e \<Rightarrow> Inl e | Inr x \<Rightarrow> f x)"

definition validate_jwt_secret :: "string \<Rightarrow> string configured" where
  "validate_jwt_secret v =
     (if v \<noteq> [] \<and> length v < 32 then Inl (ValidationError ''JWT_SECRET must be at least 32 characters'') else Inr v)"

definition validate_jwt_secret_previous :: "string option \<Rightarrow> string option configured" where
  "validate_jwt_secret_previous v =
     (if truthy v \<and> length (the v) < 32
      then Inl (ValidationError ''JWT_SECRET_PREVIOUS must be at least 32 characters'') else Inr v)"

text \<open>
  The fields of the model. A key of the data that is no field is refused; so is a missing
  \<open>spreadsheet_id\<close>.
\<close>

definition settings_fields :: "coercions \<Rightarrow> env_data \<Rightarrow> config configured" where
  "settings_fields co d =
     (let str = (\<lambda>name. field (co_str co) name [] d); opt = (\<lambda>name. field (opt_str co) name None d) in
      if \<not> list_all (\<lambda>(k, v). k \<in> set setting_names) d then Inl (ValidationError ''Extra inputs are not permitted'')
      else if map_of d ''spreadsheet_id'' = None then Inl (ValidationError ''Field required'')
      else
      bind_ok (field (co_str co) ''app_env'' ''development'' d) (\<lambda>env.
      bind_ok (field (co_str co) ''log_level'' ''INFO'' d) (\<lambda>level.
      bind_ok (str ''gcp_project_id'') (\<lambda>project.
      bind_ok (str ''spreadsheet_id'') (\<lambda>sheet.
      bind_ok (str ''session_secret'') (\<lambda>session.
      bind_ok (opt ''google_oauth_client_id'') (\<lambda>client.
      bind_ok (opt ''google_oauth_client_secret'') (\<lambda>client_secret.
      bind_ok (opt ''allowlist_emails'') (\<lambda>allowlist.
      bind_ok (opt ''oauth_redirect_uri'') (\<lambda>redirect.
      bind_ok (bind_ok (str ''jwt_secret'') validate_jwt_secret) (\<lambda>jwt.
      bind_ok (bind_ok (opt ''jwt_secret_previous'') validate_jwt_secret_previous) (\<lambda>previous.
      bind_ok (opt ''link_token_fernet_keys'') (\<lambda>keys.
      bind_ok (field (co_int co) ''access_token_expire_seconds'' 900 d) (\<lambda>expire.
      bind_ok (opt ''anthropic_api_key'') (\<lambda>anthropic.
      bind_ok (opt ''llm_api_key'') (\<lambda>llm.
      bind_ok (opt ''database_url'') (\<lambda>url.
      bind_ok (field (co_bool co) ''use_postgres'' False d) (\<lambda>pg.
      bind_ok (field (co_bool co) ''brew_log_sync_alert'' False d) (\<lambda>alert.
      bind_ok (opt ''app_secrets'') (\<lambda>secrets.
      Inr \<lparr>use_postgres = pg, app_env = env, session_secret = session, jwt_secret = jwt,
           jwt_secret_previous = previous, link_token_fernet_keys = keys, access_token_expire_seconds = expire,
           brew_log_sync_alert = alert, log_level = level, gcp_project_id = project, spreadsheet_id = sheet,
           google_oauth_client_id = client, google_oauth_client_secret = client_secret,
           allowlist_emails = allowlist, oauth_redirect_uri_setting = redirect, anthropic_api_key = anthropic,
           llm_api_key = llm, database_url = url, app_secrets = secrets\<rparr>))))))))))))))))))))"

section \<open>The model\<close>

definition auto_detect_gcp_project :: "string \<Rightarrow> config \<Rightarrow> config" where
  "auto_detect_gcp_project detected c =
     (if gcp_project_id c = [] \<and> detected \<noteq> [] then c\<lparr>gcp_project_id := detected\<rparr> else c)"

definition missing_in_production :: "config \<Rightarrow> string list" where
  "missing_in_production c =
     map fst (filter (\<lambda>(name, value). \<not> truthy value)
       ([(''GOOGLE_OAUTH_CLIENT_ID'', google_oauth_client_id c),
         (''GOOGLE_OAUTH_CLIENT_SECRET'', google_oauth_client_secret c),
         (''JWT_SECRET'', Some (jwt_secret c))]
        @ (if use_postgres c then [] else [(''ALLOWLIST_EMAILS'', allowlist_emails c)])))"

definition require_secrets_in_production :: "config \<Rightarrow> config configured" where
  "require_secrets_in_production c =
     (if app_env c = ''production'' then
        (if missing_in_production c \<noteq> []
         then Inl (ValidationError (''Missing required environment variables for production: ''
                     @ sep_by '', '' (missing_in_production c)))
         else Inr c)
      else if session_secret c \<noteq> [] \<and> length (session_secret c) < 32
      then Inl (ValidationError ''SESSION_SECRET must be at least 32 characters when set.'')
      else Inr c)"

definition load_settings :: "json_parser \<Rightarrow> coercions \<Rightarrow> string \<Rightarrow> env_data \<Rightarrow> config configured" where
  "load_settings loads co detected d =
     bind_ok (load_app_secrets loads d) (\<lambda>d.
     bind_ok (settings_fields co d) (\<lambda>c.
       require_secrets_in_production (auto_detect_gcp_project detected c)))"

section \<open>Properties\<close>

lemma bind_okE:
  assumes "bind_ok m f = Inr y"
  obtains x where "m = Inr x" "f x = Inr y"
  using assms by (auto simp: bind_ok_def split: sum.splits)

lemma add_secret_at:
  "map_of (add_secret d (key, v)) k = (if lower key = k \<and> blank_json (map_of d k) then Some v else map_of d k)"
  by (auto simp: add_secret_def update_conv')

lemma add_secrets_keep:
  "\<not> blank_json (map_of d k) \<Longrightarrow> map_of (foldl add_secret d kvs) k = map_of d k"
  by (induction kvs arbitrary: d) (auto simp: add_secret_at)

lemma add_secrets_origin:
  "map_of (foldl add_secret d kvs) k = map_of d k
   \<or> (\<exists>key v. (key, v) \<in> set kvs \<and> lower key = k \<and> map_of (foldl add_secret d kvs) k = Some v)"
proof (induction kvs rule: rev_induct)
  case (snoc kv kvs)
  then show ?case by (cases kv) (auto simp: add_secret_at)
qed simp

lemma add_secrets_complete:
  "(key, v) \<in> set kvs \<Longrightarrow> \<not> blank_json (Some v) \<Longrightarrow> \<not> blank_json (map_of (foldl add_secret d kvs) (lower key))"
proof (induction kvs rule: rev_induct)
  case (snoc kv kvs)
  show ?case
  proof (cases "kv = (key, v)")
    case True
    with snoc.prems(2) show ?thesis by (simp add: add_secret_at)
  next
    case False
    with snoc show ?thesis by (cases kv) (auto simp: add_secret_at)
  qed
qed simp

text \<open>
  The environment goes before the blob. A value that the environment sets is never replaced
  by one of the blob; a secret of the blob takes effect wherever the environment has nothing,
  and every effective value comes from one of the two.
\<close>

theorem environment_before_blob:
  assumes "load_app_secrets loads d = Inr d'" "map_of d ''app_secrets'' = Some (JString blob)"
    and "loads blob = Some (JObject secrets)" "blob \<noteq> []"
  shows "(\<not> blank_json (map_of d k) \<longrightarrow> map_of d' k = map_of d k)
    \<and> ((\<exists>key v. (key, v) \<in> set secrets \<and> lower key = k \<and> \<not> blank_json (Some v)) \<longrightarrow> \<not> blank_json (map_of d' k))
    \<and> (map_of d' k = map_of d k
       \<or> (\<exists>key v. (key, v) \<in> set secrets \<and> lower key = k \<and> map_of d' k = Some v))"
proof -
  have d': "d' = foldl add_secret d secrets"
    using assms by (simp add: load_app_secrets_def falsy_json_def)
  show ?thesis
    using add_secrets_keep [of d k secrets] add_secrets_complete [of _ _ secrets d] add_secrets_origin [of d secrets k]
    unfolding d' by blast
qed

theorem environment_before_blob_witness:
  "map_of (foldl add_secret [(''jwt_secret'', JString ''own''), (''app_secrets'', JString ''b'')]
     [(''JWT_SECRET'', JString ''theirs'')]) ''jwt_secret'' = Some (JString ''own'')"
proof -
  let ?d = "[(''jwt_secret'', JString ''own''), (''app_secrets'', JString ''b'')]"
  let ?loads = "\<lambda>t. Some (JObject [(''JWT_SECRET'', JString ''theirs'')])"
  have "load_app_secrets ?loads ?d = Inr (foldl add_secret ?d [(''JWT_SECRET'', JString ''theirs'')])"
    by (simp add: load_app_secrets_def falsy_json_def)
  from environment_before_blob [OF this, of "''b''" "[(''JWT_SECRET'', JString ''theirs'')]" "''jwt_secret''"]
  show ?thesis by (simp add: blank_json_def)
qed

lemma settings_fields_secrets:
  assumes "settings_fields co d = Inr c"
  shows "jwt_secret c = [] \<or> 32 \<le> length (jwt_secret c)"
    and "\<not> truthy (jwt_secret_previous c) \<or> 32 \<le> length (the (jwt_secret_previous c))"
  using assms
  by (auto simp: settings_fields_def Let_def validate_jwt_secret_def validate_jwt_secret_previous_def
      elim!: bind_okE split: if_splits)

text \<open>
  Accepted settings are safe to run with. A signing key, and a previous one, is absent or has
  at least 32 characters. In production the key is present, so that an access token can always be
  signed, with the client of the Google sign-in, and without Postgres a list of allowed addresses;
  elsewhere a session secret is absent or long enough.
\<close>

theorem accepted_settings:
  assumes "load_settings loads co detected d = Inr c"
  shows "(jwt_secret c = [] \<or> 32 \<le> length (jwt_secret c))
    \<and> (\<not> truthy (jwt_secret_previous c) \<or> 32 \<le> length (the (jwt_secret_previous c)))
    \<and> (if is_production (settings.truncate c)
       then truthy (google_oauth_client_id c) \<and> truthy (google_oauth_client_secret c)
            \<and> (use_postgres c \<or> truthy (allowlist_emails c))
            \<and> (\<forall>X now uid. \<exists>t. create_access_token X (settings.truncate c) now uid = Inr t)
       else session_secret c = [] \<or> 32 \<le> length (session_secret c))"
proof -
  obtain d' c' where c': "settings_fields co d' = Inr c'"
    and c: "require_secrets_in_production (auto_detect_gcp_project detected c') = Inr c"
    using assms by (auto simp: load_settings_def elim!: bind_okE)
  have same: "c = auto_detect_gcp_project detected c'"
    using c by (simp add: require_secrets_in_production_def split: if_splits)
  have keys: "jwt_secret c = jwt_secret c'" "jwt_secret_previous c = jwt_secret_previous c'"
    by (simp_all add: same auto_detect_gcp_project_def)
  note secrets = settings_fields_secrets [OF c', folded keys]
  show ?thesis
  proof (cases "app_env c = ''production''")
    case True
    with c same have "missing_in_production c = []"
      by (simp add: require_secrets_in_production_def split: if_splits)
    then have "truthy (google_oauth_client_id c)" "truthy (google_oauth_client_secret c)"
      "jwt_secret c \<noteq> []" "use_postgres c \<or> truthy (allowlist_emails c)"
      by (auto simp: missing_in_production_def truthy_def split: if_splits)
    with True secrets show ?thesis
      by (simp add: is_production_def settings.defs create_access_token_def)
  next
    case False
    with c same secrets show ?thesis
      by (auto simp: is_production_def settings.defs require_secrets_in_production_def split: if_splits)
  qed
qed

definition demo_coercions :: coercions where
  "demo_coercions = \<lparr>co_str = (\<lambda>v. case v of JString t \<Rightarrow> Some t | _ \<Rightarrow> None),
     co_bool = (\<lambda>v. case v of JString t \<Rightarrow> Some (t = ''true'') | _ \<Rightarrow> None), co_int = (\<lambda>v. None)\<rparr>"

definition demo_production :: env_data where
  "demo_production = [(''app_env'', JString ''production''), (''spreadsheet_id'', JString ''s''),
     (''google_oauth_client_id'', JString ''i''), (''google_oauth_client_secret'', JString ''k''),
     (''use_postgres'', JString ''true''), (''jwt_secret'', JString (replicate 40 CHR ''j''))]"

lemma demo_production_loads:
  "\<exists>c. load_settings (\<lambda>t. None) demo_coercions [] demo_production = Inr c
     \<and> is_production (settings.truncate c) \<and> link_token_fernet_keys c = None"
  by (simp add: load_settings_def load_app_secrets_def falsy_json_def demo_production_def bind_ok_def
      settings_fields_def Let_def setting_names_def field_def opt_str_def demo_coercions_def validate_jwt_secret_def
      validate_jwt_secret_previous_def truthy_def auto_detect_gcp_project_def require_secrets_in_production_def
      missing_in_production_def is_production_def settings.defs)

theorem accepted_settings_witness:
  "\<exists>c. load_settings (\<lambda>t. None) demo_coercions [] demo_production = Inr c
     \<and> truthy (google_oauth_client_id c) \<and> 32 \<le> length (jwt_secret c)"
proof -
  obtain c where c: "load_settings (\<lambda>t. None) demo_coercions [] demo_production = Inr c"
    "is_production (settings.truncate c)" using demo_production_loads by blast
  from accepted_settings [OF c(1)] c(2) have "truthy (google_oauth_client_id c)" by simp
  moreover have "32 \<le> length (jwt_secret c)"
  proof -
    from accepted_settings [OF c(1)] c(2)
    have "\<exists>t. create_access_token demo_externals (settings.truncate c) 0 0 = Inr t" by simp
    then show ?thesis by (auto simp: create_access_token_def settings.defs split: if_splits)
  qed
  ultimately show ?thesis using c(1) by blast
qed

text \<open>
  Production settings are accepted without keys for the link tokens, and then no link token can be
  stored for display.
\<close>

lemma production_without_link_keys:
  "\<exists>c. load_settings (\<lambda>t. None) demo_coercions [] demo_production = Inr c
     \<and> (\<forall>X raw. encrypt_display_token X (settings.truncate c) raw = Inl RuntimeError)"
  using demo_production_loads
  by (auto simp: encrypt_display_token_def fernet_key_material_def truthy_def is_production_def settings.defs)

end
