(* ===== verification/SheetsClient.thy ===== *)
theory SheetsClient
  imports DualWrite Caches
begin

text \<open>
  The client of the spreadsheet (\<^verbatim>\<open>app/repos/sheets_client.py\<close>), the in-memory client of the
  end-to-end tests (\<^verbatim>\<open>app/testing/fake_sheets.py\<close>) and the writes of the Sheets repositories. The
  spreadsheet service is a record of operations on an abstract state; every call to it can be
  refused, or its answer can get lost after it took effect. The cached handle of the spreadsheet
  and the locks of the tabs are left out: one request at a time writes to a tab.
\<close>

section \<open>The service\<close>

record 's worksheet =
  ws_row1 :: "'s \<Rightarrow> string list"
  ws_col :: "nat \<Rightarrow> 's \<Rightarrow> string list"
  ws_values :: "'s \<Rightarrow> string list list"
  ws_records :: "'s \<Rightarrow> dict list"
  ws_append :: "pyval list \<Rightarrow> 's \<Rightarrow> 's"
  ws_append_raw :: "pyval list list \<Rightarrow> 's \<Rightarrow> 's"
  ws_update :: "nat \<Rightarrow> pyval list \<Rightarrow> 's \<Rightarrow> 's"
  ws_delete :: "nat \<Rightarrow> nat \<Rightarrow> 's \<Rightarrow> 's"

datatype answer = Fine | Refused "int option" | Lost "int option"

datatype sheets_error = APIError "int option" | SheetsKeyError

type_synonym 's world = "'s \<times> answer list"
type_synonym ('s, 'a) call = "'s world \<Rightarrow> (sheets_error + 'a) \<times> 's world"

text \<open>A call to the service with the next answer; when none is left, all is fine.\<close>

definition remote :: "('s \<Rightarrow> 'a \<times> 's) \<Rightarrow> ('s, 'a) call" where
  "remote f w =
     (case snd w of
        [] \<Rightarrow> (Inr (fst (f (fst w))), snd (f (fst w)), [])
      | Fine # as \<Rightarrow> (Inr (fst (f (fst w))), snd (f (fst w)), as)
      | Refused status # as \<Rightarrow> (Inl (APIError status), fst w, as)
      | Lost status # as \<Rightarrow> (Inl (APIError status), snd (f (fst w)), as))"

definition reading :: "('s \<Rightarrow> 'a) \<Rightarrow> ('s, 'a) call" where
  "reading f = remote (\<lambda>s. (f s, s))"

definition writing :: "('s \<Rightarrow> 's) \<Rightarrow> ('s, unit) call" where
  "writing f = remote (\<lambda>s. ((), f s))"

definition then_call :: "('s, 'a) call \<Rightarrow> ('a \<Rightarrow> ('s, 'b) call) \<Rightarrow> ('s, 'b) call" where
  "then_call m k w = (case m w of (Inl e, w) \<Rightarrow> (Inl e, w) | (Inr x, w) \<Rightarrow> k x w)"

definition result :: "(sheets_error + 'a) \<Rightarrow> ('s, 'a) call" where
  "result r w = (r, w)"

section \<open>Retries\<close>

definition retriable :: "sheets_error \<Rightarrow> bool" where
  "retriable e = (case e of APIError (Some status) \<Rightarrow> status \<in> {429, 500, 502, 503, 504} | _ \<Rightarrow> False)"

text \<open>
  The attempts that are left after this one, its number, and the seconds slept after failed
  attempts. The last attempt raises whatever it raised.
\<close>

fun retry_from ::
  "nat \<Rightarrow> nat \<Rightarrow> ('w \<Rightarrow> (sheets_error + 'a) \<times> 'w) \<Rightarrow> 'w \<Rightarrow> (sheets_error + 'a) \<times> 'w \<times> nat list" where
  "retry_from 0 attempt fn w = (case fn w of (r, w') \<Rightarrow> (r, w', []))"
| "retry_from (Suc left) attempt fn w =
     (case fn w of
        (Inr x, w') \<Rightarrow> (Inr x, w', [])
      | (Inl e, w') \<Rightarrow>
          if \<not> retriable e then (Inl e, w', [])
          else (case retry_from left (attempt + 1) fn w' of (r, w'', ss) \<Rightarrow> (r, w'', 2 ^ attempt # ss)))"

definition with_retry :: "('w \<Rightarrow> (sheets_error + 'a) \<times> 'w) \<Rightarrow> 'w \<Rightarrow> (sheets_error + 'a) \<times> 'w \<times> nat list" where
  "with_retry fn w = retry_from 2 1 fn w"

definition retrying :: "('s, 'a) call \<Rightarrow> ('s, 'a) call" where
  "retrying fn w = (case with_retry fn w of (r, w', ss) \<Rightarrow> (r, w'))"

section \<open>The client\<close>

text \<open>A row to write is a dict in the order of its keys.\<close>

type_synonym ordered_row = "(string \<times> pyval) list"

definition worksheet_call :: "('s, unit) call" where
  "worksheet_call = retrying (reading (\<lambda>s. ()))"

definition client_get_all_records :: "'s worksheet \<Rightarrow> ('s, dict list) call" where
  "client_get_all_records S = then_call worksheet_call (\<lambda>_. retrying (reading (ws_records S)))"

definition column_index :: "string \<Rightarrow> string list \<Rightarrow> nat" where
  "column_index col headers = length (takeWhile (\<lambda>h. h \<noteq> col) headers) + 1"

definition key_present :: "'s worksheet \<Rightarrow> string \<Rightarrow> ordered_row \<Rightarrow> ('s, bool) call" where
  "key_present S col row =
     (case map_of row col of
        None \<Rightarrow> result (Inl SheetsKeyError)
      | Some v \<Rightarrow>
          then_call (reading (ws_row1 S)) (\<lambda>headers.
            if col \<in> set headers
            then then_call (reading (ws_col S (column_index col headers)))
                   (\<lambda>vals. result (Inr (v \<in> PStr ` set (tl vals))))
            else result (Inr False)))"

definition do_append :: "'s worksheet \<Rightarrow> string option \<Rightarrow> ordered_row \<Rightarrow> ('s, unit) call" where
  "do_append S pk_col row =
     then_call (case pk_col of None \<Rightarrow> result (Inr False) | Some col \<Rightarrow> key_present S col row) (\<lambda>present.
       if present then result (Inr ())
       else
         then_call (reading (ws_row1 S)) (\<lambda>headers.
           then_call (if headers = [] then writing (ws_append S (map (PStr \<circ> fst) row)) else result (Inr ()))
             (\<lambda>_. writing (ws_append S (map snd row)))))"

definition client_append_row :: "'s worksheet \<Rightarrow> string option \<Rightarrow> ordered_row \<Rightarrow> ('s, unit) call" where
  "client_append_row S pk_col row = then_call worksheet_call (\<lambda>_. retrying (do_append S pk_col row))"

text \<open>The physical row of the record with the key; blank rows are skipped, short rows padded.\<close>

definition row_matches :: "string list \<Rightarrow> string \<Rightarrow> string \<Rightarrow> string list \<Rightarrow> bool" where
  "row_matches headers pk_col pk_val raw =
     (list_ex (\<lambda>c. c \<noteq> []) raw
      \<and> map_of (rev (zip headers (raw @ replicate (length headers - length raw) []))) pk_col = Some pk_val)"

definition physical_row :: "string list \<Rightarrow> string \<Rightarrow> string \<Rightarrow> string list list \<Rightarrow> nat option" where
  "physical_row headers pk_col pk_val vals =
     map_option fst (find (\<lambda>(i, raw). row_matches headers pk_col pk_val raw)
       (zip [2..<2 + length (tl vals)] (tl vals)))"

definition client_update_row :: "'s worksheet \<Rightarrow> string \<Rightarrow> string \<Rightarrow> dict \<Rightarrow> ('s, unit) call" where
  "client_update_row S pk_col pk_val row =
     then_call worksheet_call (\<lambda>_.
     then_call (retrying (reading (ws_row1 S))) (\<lambda>headers.
       if headers = [] then result (Inl SheetsKeyError)
       else
         then_call (retrying (reading (ws_values S))) (\<lambda>vals.
           case physical_row headers pk_col pk_val vals of
             None \<Rightarrow> result (Inl SheetsKeyError)
           | Some i \<Rightarrow> retrying (writing (ws_update S i (map (\<lambda>h. py_get_or row h (PStr [])) headers))))))"

definition client_append_rows :: "'s worksheet \<Rightarrow> pyval list list \<Rightarrow> ('s, unit) call" where
  "client_append_rows S vals =
     then_call worksheet_call (\<lambda>_. retrying (writing (ws_append_raw S vals)))"

definition client_delete_rows :: "'s worksheet \<Rightarrow> nat \<Rightarrow> nat \<Rightarrow> ('s, unit) call" where
  "client_delete_rows S from to = then_call worksheet_call (\<lambda>_. retrying (writing (ws_delete S from to)))"

section \<open>The in-memory client\<close>

definition fake_append_row :: "string option \<Rightarrow> ordered_row \<Rightarrow> ordered_row list \<Rightarrow> ordered_row list res" where
  "fake_append_row pk_col row rows =
     (case pk_col of
        None \<Rightarrow> Inr (rows @ [row])
      | Some col \<Rightarrow>
          (case map_of row col of
             None \<Rightarrow> Inl KeyError
           | Some v \<Rightarrow> if list_ex (\<lambda>r. map_of r col = Some v) rows then Inr rows else Inr (rows @ [row])))"

fun fake_replace :: "string list \<Rightarrow> string \<Rightarrow> pyval \<Rightarrow> ordered_row \<Rightarrow> ordered_row list \<Rightarrow> ordered_row list res" where
  "fake_replace headers pk_col pk_val row [] = Inl KeyError"
| "fake_replace headers pk_col pk_val row (r # rs) =
     (if map_of r pk_col = Some pk_val
      then Inr (map (\<lambda>h. (h, case map_of row h of None \<Rightarrow> PStr [] | Some v \<Rightarrow> v)) headers # rs)
      else map_sum id (\<lambda>rs. r # rs) (fake_replace headers pk_col pk_val row rs))"

definition fake_update_row :: "string \<Rightarrow> pyval \<Rightarrow> ordered_row \<Rightarrow> ordered_row list \<Rightarrow> ordered_row list res" where
  "fake_update_row pk_col pk_val row rows =
     fake_replace (map fst (case rows of [] \<Rightarrow> row | r # rs \<Rightarrow> r)) pk_col pk_val row rows"

definition fake_append_rows :: "pyval list list \<Rightarrow> ordered_row list \<Rightarrow> ordered_row list" where
  "fake_append_rows vals rows =
     (let headers = (case rows of r # _ \<Rightarrow> map fst r
                     | [] \<Rightarrow> map nat_str [0..<(case vals of [] \<Rightarrow> 0 | v # _ \<Rightarrow> length v)])
      in rows @ map (zip headers) vals)"

text \<open>Spreadsheet rows count from the header, which is row 1; the end 0 becomes the slice end -1.\<close>

definition fake_delete_rows :: "nat \<Rightarrow> nat \<Rightarrow> ordered_row list \<Rightarrow> ordered_row list" where
  "fake_delete_rows from to rows =
     (let first = from - 2; stop = (if to = 0 then length rows - 1 else to - 1)
      in take first rows @ drop (max first stop) rows)"

section \<open>The writes of the repositories\<close>

text \<open>A row in the order of the columns; missing columns are empty.\<close>

definition normalised :: "string list \<Rightarrow> dict \<Rightarrow> ordered_row" where
  "normalised columns row = map (\<lambda>c. (c, py_get_or row c (PStr []))) columns"

definition brew_log_columns :: "string list" where
  "brew_log_columns = [''Shot_ID'', ''Date'', ''Bag_ID'', ''Machine_ID'', ''Grinder_ID'', ''Basket_ID'', ''Dose_In_g'',
     ''Yield_Out_g'', ''Time_Sec'', ''Grind_Setting'', ''Shot_Eligibility'', ''Taste_Summary'', ''User_Notes'',
     ''AI_Feedback'', ''Storage_Method'']"

text \<open>A write that returns invalidates the keys of the cache.\<close>

type_synonym 's cached_world = "'s world \<times> tab ttl_cache"

definition invalidating ::
  "string list \<Rightarrow> ('s, unit) call \<Rightarrow> 's cached_world \<Rightarrow> (sheets_error + unit) \<times> 's cached_world" where
  "invalidating keys m wc =
     (case m (fst wc) of
        (Inl e, w) \<Rightarrow> (Inl e, w, snd wc)
      | (Inr _, w) \<Rightarrow> (Inr (), w, foldr cache_invalidate keys (snd wc)))"

definition sheets_brew_add ::
  "'s worksheet \<Rightarrow> dict \<Rightarrow> 's cached_world \<Rightarrow> (sheets_error + unit) \<times> 's cached_world" where
  "sheets_brew_add S row =
     invalidating [''brew_log:recent''] (client_append_row S (Some ''Shot_ID'') (normalised brew_log_columns row))"

definition sheets_fetch_cached ::
  "int \<Rightarrow> 's worksheet \<Rightarrow> string \<Rightarrow> 's cached_world \<Rightarrow> (sheets_error + tab) \<times> 's cached_world" where
  "sheets_fetch_cached now S key wc =
     (case cache_get now key (snd wc) of
        Some rows \<Rightarrow> (Inr rows, wc)
      | None \<Rightarrow>
          (case client_get_all_records S (fst wc) of
             (Inl e, w) \<Rightarrow> (Inl e, w, snd wc)
           | (Inr rows, w) \<Rightarrow> (Inr rows, w, cache_set now key rows (snd wc))))"

definition sheets_brew_update_feedback ::
  "int \<Rightarrow> 's worksheet \<Rightarrow> string \<Rightarrow> string \<Rightarrow> 's cached_world \<Rightarrow> (sheets_error + unit) \<times> 's cached_world" where
  "sheets_brew_update_feedback now S shot_id feedback wc =
     (case sheets_fetch_cached now S ''brew_log:recent'' wc of
        (Inl e, wc) \<Rightarrow> (Inl e, wc)
      | (Inr rows, wc) \<Rightarrow>
          (case sheets_brew_get shot_id rows of
             None \<Rightarrow> (Inl SheetsKeyError, wc)
           | Some row \<Rightarrow>
               invalidating [''brew_log:recent'']
                 (client_update_row S ''Shot_ID'' shot_id (row(''AI_Feedback'' \<mapsto> PStr feedback))) wc))"

text \<open>
  The upsert of the other repositories: whether the key is there is read without the cache and
  without the guard of \<open>append_row\<close>. The row is a dict in order.
\<close>

definition sheets_upsert ::
  "'s worksheet \<Rightarrow> string \<Rightarrow> string list \<Rightarrow> ordered_row \<Rightarrow> 's cached_world \<Rightarrow> (sheets_error + unit) \<times> 's cached_world" where
  "sheets_upsert S pk keys row wc =
     (case map_of row pk of
        Some (PStr pk_val) \<Rightarrow>
          (case client_get_all_records S (fst wc) of
             (Inl e, w) \<Rightarrow> (Inl e, w, snd wc)
           | (Inr existing, w) \<Rightarrow>
               invalidating keys
                 (if list_ex (\<lambda>r. py_get r pk = PStr pk_val) existing
                  then client_update_row S pk pk_val (map_of row) else client_append_row S None row)
                 (w, snd wc))
      | _ \<Rightarrow> (Inl SheetsKeyError, wc))"

definition sheets_catalog_upsert ::
  "'s worksheet \<Rightarrow> ordered_row \<Rightarrow> 's cached_world \<Rightarrow> (sheets_error + unit) \<times> 's cached_world" where
  "sheets_catalog_upsert S row = sheets_upsert S ''Catalog_ID'' [''catalog:all''] row"

definition sheets_inventory_upsert ::
  "'s worksheet \<Rightarrow> ordered_row \<Rightarrow> 's cached_world \<Rightarrow> (sheets_error + unit) \<times> 's cached_world" where
  "sheets_inventory_upsert S row = sheets_upsert S ''Bag_ID'' [''inventory:active'', ''inventory:all''] row"

definition sheets_hardware_upsert ::
  "'s worksheet \<Rightarrow> ordered_row \<Rightarrow> 's cached_world \<Rightarrow> (sheets_error + unit) \<times> 's cached_world" where
  "sheets_hardware_upsert S row = sheets_upsert S ''Hardware_ID'' [''all_hardware''] row"

definition sheets_maintenance_add ::
  "'s worksheet \<Rightarrow> ordered_row \<Rightarrow> 's cached_world \<Rightarrow> (sheets_error + unit) \<times> 's cached_world" where
  "sheets_maintenance_add S row = invalidating [''all_maintenance''] (client_append_row S None row)"

text \<open>\<open>add_many\<close>: the hardware and maintenance repositories invalidate, the others do not.\<close>

definition sheets_add_many ::
  "'s worksheet \<Rightarrow> string list \<Rightarrow> string list \<Rightarrow> dict list \<Rightarrow> 's cached_world \<Rightarrow> (sheets_error + unit) \<times> 's cached_world" where
  "sheets_add_many S columns keys rows wc =
     (if rows = [] then (Inr (), wc)
      else invalidating keys (client_append_rows S (map (map snd \<circ> normalised columns) rows)) wc)"

definition sheets_delete_by_pk ::
  "'s worksheet \<Rightarrow> string list \<Rightarrow> string \<Rightarrow> pyval \<Rightarrow> 's cached_world \<Rightarrow> (sheets_error + unit) \<times> 's cached_world" where
  "sheets_delete_by_pk S keys pk_col pk_val wc =
     (case client_get_all_records S (fst wc) of
        (Inl e, w) \<Rightarrow> (Inl e, w, snd wc)
      | (Inr rows, w) \<Rightarrow>
          (let i = length (takeWhile (\<lambda>r. r pk_col \<noteq> Some pk_val) rows)
           in if i < length rows then invalidating keys (client_delete_rows S (i + 2) (i + 2)) (w, snd wc)
              else (Inr (), w, snd wc)))"

section \<open>Properties\<close>

lemma retry_from_spec:
  assumes "retry_from left attempt fn w = (r, w', sleeps)"
  shows "\<exists>k \<le> left. (\<forall>j < k. \<exists>e. fst (fn (((snd \<circ> fn) ^^ j) w)) = Inl e \<and> retriable e)
    \<and> fn (((snd \<circ> fn) ^^ k) w) = (r, w')
    \<and> (k = left \<or> (\<forall>e. r = Inl e \<longrightarrow> \<not> retriable e))
    \<and> sleeps = map (\<lambda>i. 2 ^ (attempt + i)) [0..<k]"
  using assms
proof (induction left arbitrary: attempt w sleeps)
  case 0
  then show ?case by (auto split: prod.splits)
next
  case (Suc left)
  show ?case
  proof (cases "\<exists>e w1. fn w = (Inl e, w1) \<and> retriable e")
    case False
    with Suc.prems show ?thesis
      by (intro exI [of _ 0]) (auto split: prod.splits sum.splits)
  next
    case True
    then obtain e w1 where fail: "fn w = (Inl e, w1)" "retriable e" by blast
    with Suc.prems obtain ss where ss: "retry_from left (attempt + 1) fn w1 = (r, w', ss)"
      "sleeps = 2 ^ attempt # ss" by (auto split: prod.splits)
    from Suc.IH [OF ss(1)] obtain k where k: "k \<le> left"
      "\<forall>j < k. \<exists>e. fst (fn (((snd \<circ> fn) ^^ j) w1)) = Inl e \<and> retriable e"
      "fn (((snd \<circ> fn) ^^ k) w1) = (r, w')" "k = left \<or> (\<forall>e. r = Inl e \<longrightarrow> \<not> retriable e)"
      "ss = map (\<lambda>i. 2 ^ (attempt + 1 + i)) [0..<k]" by blast
    have shift: "((snd \<circ> fn) ^^ Suc j) w = ((snd \<circ> fn) ^^ j) w1" for j
      using fail by (simp add: funpow_Suc_right del: funpow.simps)
    have "\<exists>e. fst (fn (((snd \<circ> fn) ^^ j) w)) = Inl e \<and> retriable e" if "j < Suc k" for j
      using that k(2) fail shift by (cases j) auto
    moreover have "sleeps = map (\<lambda>i. 2 ^ (attempt + i)) [0..<Suc k]"
      unfolding ss(2) k(5) by (subst upt_conv_Cons) (simp_all flip: map_Suc_upt add: comp_def del: upt_Suc)
    moreover have "fn (((snd \<circ> fn) ^^ Suc k) w) = (r, w')" unfolding shift by (rule k(3))
    moreover have "Suc k \<le> Suc left" "Suc k = Suc left \<or> (\<forall>e. r = Inl e \<longrightarrow> \<not> retriable e)"
      using k(1,4) by auto
    ultimately show ?thesis by blast
  qed
qed

text \<open>
  C30. A call to the spreadsheet is tried at most three times. There is a last attempt among the
  first three whose outcome, a result or an error, is the outcome of the whole; all attempts
  before failed with a transient status, an error that is not transient ends the loop at once,
  and the sleeps between are two and four seconds.
\<close>

theorem retry_ends:
  "\<exists>k r w'. k \<le> 2 \<and> with_retry fn w = (r, w', map (\<lambda>i. 2 ^ (i + 1)) [0..<k])
    \<and> fn (((snd \<circ> fn) ^^ k) w) = (r, w')
    \<and> (\<forall>j < k. \<exists>e. fst (fn (((snd \<circ> fn) ^^ j) w)) = Inl e \<and> retriable e)
    \<and> (k = 2 \<or> (\<forall>e. r = Inl e \<longrightarrow> \<not> retriable e))"
proof -
  obtain r w' sleeps where run: "retry_from 2 1 fn w = (r, w', sleeps)" by (metis prod_cases3)
  from retry_from_spec [OF run] obtain k where "k \<le> 2"
    "\<forall>j < k. \<exists>e. fst (fn (((snd \<circ> fn) ^^ j) w)) = Inl e \<and> retriable e"
    "fn (((snd \<circ> fn) ^^ k) w) = (r, w')" "k = 2 \<or> (\<forall>e. r = Inl e \<longrightarrow> \<not> retriable e)"
    "sleeps = map (\<lambda>i. 2 ^ (1 + i)) [0..<k]" by blast
  with run show ?thesis
    by (intro exI [of _ k] exI [of _ r] exI [of _ w']) (simp add: with_retry_def add.commute)
qed

theorem retry_ends_witness:
  "\<exists>k n. k \<le> 2 \<and> with_retry (\<lambda>n :: nat. (Inl (APIError (Some 503)) :: sheets_error + unit, n + 1)) 0
     = (Inl (APIError (Some 503)), n, map (\<lambda>i. 2 ^ (i + 1)) [0..<k])"
  using retry_ends [of "\<lambda>n :: nat. (Inl (APIError (Some 503)) :: sheets_error + unit, n + 1)" 0] by fastforce

lemma retrying_keeps:
  assumes "retrying fn w = (r, w')" "I w" "\<And>w r w'. I w \<Longrightarrow> fn w = (r, w') \<Longrightarrow> I w'"
    and "\<And>w x w'. I w \<Longrightarrow> fn w = (Inr x, w') \<Longrightarrow> Q w'"
  shows "I w' \<and> (\<forall>x. r = Inr x \<longrightarrow> Q w')"
proof -
  obtain sleeps where run: "retry_from 2 1 fn w = (r, w', sleeps)"
    using assms(1) by (auto simp: retrying_def with_retry_def split: prod.splits)
  from retry_from_spec [OF run] obtain k where k: "fn (((snd \<circ> fn) ^^ k) w) = (r, w')" by blast
  have "I (((snd \<circ> fn) ^^ k) w)" for k
    by (induction k) (use assms(2,3) in \<open>auto, metis prod.collapse\<close>)
  with k assms(3,4) show ?thesis by blast
qed

lemma remote_outcome:
  assumes "remote f (s, as) = (r, s', as')"
  shows "s' = s \<or> s' = snd (f s)" and "r = Inr x \<Longrightarrow> x = fst (f s) \<and> s' = snd (f s)"
  using assms by (auto simp: remote_def split: list.splits answer.splits)

lemma reading_outcome:
  assumes "reading f (s, as) = (r, s', as')"
  shows "s' = s" and "r = Inr x \<Longrightarrow> x = f s"
  using remote_outcome [of "\<lambda>s. (f s, s)", folded reading_def, OF assms] by auto

lemma writing_outcome:
  assumes "writing f (s, as) = (r, s', as')"
  shows "s' = s \<or> s' = f s" and "r = Inr x \<Longrightarrow> s' = f s"
  using remote_outcome [of "\<lambda>s. ((), f s)", folded writing_def, OF assms] by auto

lemma then_call_cases:
  assumes "then_call m k w = (r, w')"
  obtains e where "m w = (Inl e, w')" "r = Inl e" | x w1 where "m w = (Inr x, w1)" "k x w1 = (r, w')"
  using assms by (auto simp: then_call_def split: prod.splits sum.splits)

lemma worksheet_keeps:
  assumes "worksheet_call (s, as) = (r, s', as')"
  shows "s' = s"
proof -
  have "fst w' = s" if "fst w = s" "reading (\<lambda>s. ()) w = (r, w')" for w w' r
    using that by (cases w, cases w') (auto dest: reading_outcome(1))
  then show ?thesis
    using retrying_keeps [OF assms [unfolded worksheet_call_def], of "\<lambda>w. fst w = s" "\<lambda>w. True"] by simp
qed

text \<open>The keys that the column of the key shows below the header.\<close>

definition shown_keys :: "'s worksheet \<Rightarrow> string \<Rightarrow> ordered_row \<Rightarrow> 's \<Rightarrow> string set" where
  "shown_keys S pk row s = set (tl (ws_col S (column_index pk (map fst row)) s))"

lemma key_present_outcome:
  assumes "key_present S pk row (s, as) = (r, s', as')"
    and "ws_row1 S s = map fst row" "map_of row pk = Some (PStr v)"
  shows "s' = s" and "r = Inr b \<Longrightarrow> b = (v \<in> shown_keys S pk row s)"
proof -
  have pk: "pk \<in> set (map fst row)" using assms(3) by (force dest: map_of_SomeD)
  have call: "then_call (reading (ws_row1 S)) (\<lambda>headers.
      if pk \<in> set headers
      then then_call (reading (ws_col S (column_index pk headers))) (\<lambda>vals. result (Inr (PStr v \<in> PStr ` set (tl vals))))
      else result (Inr False)) (s, as) = (r, s', as')"
    using assms(1,3) by (simp add: key_present_def)
  from call have both: "s' = s \<and> (r = Inr b \<longrightarrow> b = (v \<in> shown_keys S pk row s))" for b
  proof (cases rule: then_call_cases)
    case (2 headers w1)
    obtain s1 as1 where w1: "w1 = (s1, as1)" by (cases w1)
    from reading_outcome [OF 2(1) [unfolded w1]] have h: "s1 = s" "headers = map fst row"
      using assms(2) by simp_all
    from 2(2) have "then_call (reading (ws_col S (column_index pk (map fst row))))
        (\<lambda>vals. result (Inr (PStr v \<in> PStr ` set (tl vals)))) (s, as1) = (r, s', as')"
      using h pk w1 by simp
    then show ?thesis
      by (cases rule: then_call_cases) (auto simp: result_def shown_keys_def dest: reading_outcome)
  qed (auto dest: reading_outcome)
  then show "s' = s" and "r = Inr b \<Longrightarrow> b = (v \<in> shown_keys S pk row s)" by blast+
qed

lemma do_append_outcome:
  assumes "do_append S (Some pk) row (s, as) = (r, s', as')"
    and "ws_row1 S s = map fst row" "map_of row pk = Some (PStr v)" "row \<noteq> []"
  shows "(s' = s \<or> (v \<notin> shown_keys S pk row s \<and> s' = ws_append S (map snd row) s))
    \<and> (\<forall>x. r = Inr x \<longrightarrow> v \<in> shown_keys S pk row s \<or> s' = ws_append S (map snd row) s)"
proof -
  from assms(1) show ?thesis
    unfolding do_append_def option.case
  proof (cases rule: then_call_cases)
    case (1 e)
    with key_present_outcome(1) [OF 1(1) assms(2,3)] show ?thesis by simp
  next
    case (2 present w1)
    obtain s1 as1 where w1: "w1 = (s1, as1)" by (cases w1)
    from key_present_outcome [OF 2(1) [unfolded w1] assms(2,3)]
    have p: "s1 = s" "present = (v \<in> shown_keys S pk row s)" by simp_all
    show ?thesis
    proof (cases present)
      case True
      with 2(2) p w1 show ?thesis by (simp add: result_def)
    next
      case False
      with 2(2) w1 p(1) have "then_call (reading (ws_row1 S)) (\<lambda>headers.
          then_call (if headers = [] then writing (ws_append S (map (PStr \<circ> fst) row)) else result (Inr ()))
            (\<lambda>_. writing (ws_append S (map snd row)))) (s, as1) = (r, s', as')" by simp
      then show ?thesis
      proof (cases rule: then_call_cases)
        case (1 e)
        with reading_outcome [OF 1(1)] show ?thesis by simp
      next
        case (2 headers w2)
        obtain s2 as2 where w2: "w2 = (s2, as2)" by (cases w2)
        from reading_outcome [OF 2(1) [unfolded w2]] assms(2) have "s2 = s" "headers = map fst row" by simp_all
        with 2(2) w2 assms(4) have "writing (ws_append S (map snd row)) (s, as2) = (r, s', as')"
          by (simp add: then_call_def result_def)
        from writing_outcome [OF this] False p(2) show ?thesis by auto
      qed
    qed
  qed
qed

text \<open>
  C29. Adding a shot to the spreadsheet writes its row at most once. Whatever calls are refused,
  and whatever answers get lost after the service has written, the sheet afterwards is the old
  one, or the old one with the row appended where it did not show the key; when the call
  returns, the sheet shows the key. The service is used with what it documents: an appended row
  keeps the header and puts its key below the column of the key.
\<close>

theorem append_at_most_once:
  assumes "client_append_row S (Some pk) row (s, as) = (r, s', as')"
    and "ws_row1 S s = map fst row" "map_of row pk = Some (PStr v)"
    and "ws_row1 S (ws_append S (map snd row) s) = map fst row"
    and "shown_keys S pk row (ws_append S (map snd row) s) = insert v (shown_keys S pk row s)"
  shows "(s' = s \<or> (v \<notin> shown_keys S pk row s \<and> s' = ws_append S (map snd row) s))
    \<and> (\<forall>x. r = Inr x \<longrightarrow> v \<in> shown_keys S pk row s')"
proof -
  let ?ap = "ws_append S (map snd row)" and ?keys = "shown_keys S pk row"
  have row: "row \<noteq> []" using assms(3) by auto
  from assms(1) show ?thesis
    unfolding client_append_row_def
  proof (cases rule: then_call_cases)
    case (1 e)
    with worksheet_keeps [OF 1(1)] show ?thesis by simp
  next
    case (2 x w1)
    obtain s1 as1 where w1: "w1 = (s1, as1)" by (cases w1)
    have s1: "s1 = s" by (rule worksheet_keeps [OF 2(1) [unfolded w1]])
    let ?I = "\<lambda>w. fst w = s \<or> (v \<notin> ?keys s \<and> fst w = ?ap s)"
    have keep: "?I w' \<and> (\<forall>x. r = Inr x \<longrightarrow> v \<in> ?keys (fst w'))"
      if "?I w" "do_append S (Some pk) row w = (r, w')" for w r w'
    proof -
      obtain t bs t' bs' where w: "w = (t, bs)" "w' = (t', bs')" by (cases w, cases w')
      have "ws_row1 S t = map fst row" using that(1) assms(2,4) w by auto
      from do_append_outcome [OF that(2) [unfolded w] this assms(3) row] that(1) assms(5) w
      show ?thesis by auto
    qed
    have "retrying (do_append S (Some pk) row) (s, as1) = (r, s', as')"
      using 2(2) w1 s1 by simp
    from retrying_keeps [OF this, of ?I "\<lambda>w. v \<in> ?keys (fst w)"] keep show ?thesis by auto
  qed
qed

text \<open>A sheet as the list of its rows, for the witness.\<close>

definition demo_worksheet :: "string list list worksheet" where
  "demo_worksheet =
     (let text_of = (\<lambda>v. case py_text v of None \<Rightarrow> [] | Some t \<Rightarrow> t) in
      \<lparr>ws_row1 = (\<lambda>s. case s of [] \<Rightarrow> [] | r # rs \<Rightarrow> r), ws_col = (\<lambda>i. map (\<lambda>r. r ! (i - 1))), ws_values = id,
       ws_records = (\<lambda>s. map (\<lambda>r. map_of (zip (hd s) (map PStr r))) (tl s)),
       ws_append = (\<lambda>vs s. s @ [map text_of vs]), ws_append_raw = (\<lambda>vss s. s @ map (map text_of) vss),
       ws_update = (\<lambda>i vs s. s[i - 1 := map text_of vs]), ws_delete = (\<lambda>a b s. take (a - 1) s @ drop b s)\<rparr>)"

theorem append_at_most_once_witness:
  "\<exists>w. client_append_row demo_worksheet (Some ''Shot_ID'') [(''Shot_ID'', PStr ''S1''), (''Date'', PStr ''d'')]
      ([[''Shot_ID'', ''Date'']], [Fine, Fine, Fine, Fine, Lost (Some 503)]) = (Inr (), w)
    \<and> ''S1'' \<in> shown_keys demo_worksheet ''Shot_ID'' [(''Shot_ID'', PStr ''S1''), (''Date'', PStr ''d'')] (fst w)"
proof -
  let ?row = "[(''Shot_ID'', PStr ''S1''), (''Date'', PStr ''d'')]"
  let ?s = "[[''Shot_ID'', ''Date'']]"
  have run: "client_append_row demo_worksheet (Some ''Shot_ID'') ?row (?s, [Fine, Fine, Fine, Fine, Lost (Some 503)])
      = (Inr (), [[''Shot_ID'', ''Date''], [''S1'', ''d'']], [])"
    by (simp add: client_append_row_def then_call_def worksheet_call_def retrying_def with_retry_def
        reading_def writing_def remote_def do_append_def key_present_def result_def column_index_def
        demo_worksheet_def retriable_def Let_def numeral_2_eq_2)
  have "shown_keys demo_worksheet ''Shot_ID'' ?row (ws_append demo_worksheet (map snd ?row) ?s)
      = insert ''S1'' (shown_keys demo_worksheet ''Shot_ID'' ?row ?s)"
    by (simp add: shown_keys_def demo_worksheet_def column_index_def Let_def)
  from append_at_most_once [OF run _ _ _ this] show ?thesis
    unfolding run by (simp add: demo_worksheet_def Let_def)
qed

text \<open>Without the guard a lost answer makes the retry write the row again.\<close>

lemma lost_answer_duplicates:
  assumes "ws_row1 S s \<noteq> []" "ws_row1 S (ws_append S (map snd row) s) \<noteq> []"
  shows "client_append_row S None row (s, [Fine, Fine, Lost (Some 503)])
    = (Inr (), ws_append S (map snd row) (ws_append S (map snd row) s), [])"
  using assms
  by (simp add: client_append_row_def then_call_def worksheet_call_def retrying_def with_retry_def
      reading_def writing_def remote_def do_append_def result_def retriable_def numeral_2_eq_2)

end
