(* ===== verification/SheetsMapping.thy ===== *)
theory SheetsMapping
  imports TenantRepos Importer
begin

text \<open>
  The row mappers of the migration scripts (\<^verbatim>\<open>scripts/_mapping.py\<close>): a raw row of a tab becomes a
  dict of column values, or a \<open>ValueError\<close>; the checksum of such a row. Numbers and dates are
  parsed by the standard library, a parameter; a float is kept as the text Python prints.
\<close>

section \<open>Values\<close>

datatype sqlval = VNull | VText string | VFloat string | VDecimal string | VInt int
  | VDate string | VDatetime instant | VUuid uuid

type_synonym sql_row = "(string \<times> sqlval) list"

text \<open>
  \<open>mc_round1\<close> is \<open>round(x, 1)\<close>, \<open>mc_date\<close> gives the ISO text of a date that parses, \<open>mc_utc\<close>
  the instant of a time taken as UTC and \<open>mc_isoformat\<close> its text, \<open>mc_fixed6\<close> prints a number with six decimals.
\<close>

record mapping_conversions =
  mc_float :: "string \<Rightarrow> string option"
  mc_round1 :: "string \<Rightarrow> string"
  mc_int :: "string \<Rightarrow> int option"
  mc_date :: "string \<Rightarrow> string option"
  mc_utc :: "string \<Rightarrow> instant option"
  mc_isoformat :: "instant \<Rightarrow> string"
  mc_fixed6 :: "string \<Rightarrow> string"
  mc_uuid_str :: "uuid \<Rightarrow> string"

definition roast_level_enum :: "string list" where
  "roast_level_enum = [''Light'', ''Light / Medium'', ''Medium'', ''Medium / Dark'', ''Dark'']"

definition inventory_status_enum :: "string list" where
  "inventory_status_enum = [''Active'', ''Finished'']"

definition storage_method_enum :: "string list" where
  "storage_method_enum = [''Freezer'', ''Fridge'', ''Pantry'', ''Airtight Container'', ''Valve Bag'', ''Open Bag'', ''Mylar Bag'',
     ''Frozen '' @ em_dash @ '' Bag'', ''Frozen '' @ em_dash @ '' Glass Tube'', ''Frozen '' @ em_dash @ '' Plastic Tube'',
     ''Ambient '' @ em_dash @ '' Glass Tube'', ''Ambient '' @ em_dash @ '' Plastic Tube'',
     ''Frozen '' @ em_dash @ '' Knodos Glass Tube'', ''Ambient '' @ em_dash @ '' Bag'',
     ''Ambient '' @ em_dash @ '' Airtight Container'']"

definition hardware_category_enum :: "string list" where
  "hardware_category_enum = [''Machine'', ''Grinder'', ''Basket'', ''Storage'']"

definition maintenance_action_enum :: "string list" where
  "maintenance_action_enum = [''Re-zero'', ''Backflush'', ''Descale'', ''Steam Wand Clean'']"

definition shot_eligibility_enum :: "string list" where
  "shot_eligibility_enum = [''Reject'', ''Passable'', ''Good Espresso'', ''God Shot'']"

definition taste_summary_enum :: "string list" where
  "taste_summary_enum = [''Sour'', ''Bitter'', ''Balanced'', ''Fruity'', ''Nutty'', ''Chocolatey'', ''Floral'', ''Weak & Sour'',
     ''Sweet & Balanced'', ''Salty / Channeled'', ''Harsh & Bitter'', ''Strong & Muddy'']"

section \<open>Helpers\<close>

definition nullable :: "string \<Rightarrow> sqlval" where
  "nullable val = (if val = [] then VNull else VText val)"

definition validate_enum :: "string \<Rightarrow> string list \<Rightarrow> string res" where
  "validate_enum val enum_set =
     (if val \<in> set enum_set then Inr val
      else (case find (\<lambda>v. lower v = lower val) enum_set of None \<Rightarrow> Inl ValueError | Some v \<Rightarrow> Inr v))"

definition validate_enum_nullable :: "string \<Rightarrow> string list \<Rightarrow> sqlval res" where
  "validate_enum_nullable val enum_set =
     (if val = [] then Inr VNull else map_sum id VText (validate_enum val enum_set))"

definition parse_float :: "mapping_conversions \<Rightarrow> string \<Rightarrow> string option res" where
  "parse_float C val =
     (if val = [] then Inr None else (case mc_float C val of None \<Rightarrow> Inl ValueError | Some t \<Rightarrow> Inr (Some t)))"

definition parse_float_1dp :: "mapping_conversions \<Rightarrow> string \<Rightarrow> sqlval res" where
  "parse_float_1dp C val =
     map_sum id (\<lambda>r. case r of None \<Rightarrow> VNull | Some t \<Rightarrow> VFloat (mc_round1 C t)) (parse_float C val)"

definition parse_int :: "mapping_conversions \<Rightarrow> string \<Rightarrow> sqlval res" where
  "parse_int C val =
     (if val = [] then Inr VNull else (case mc_int C val of None \<Rightarrow> Inl ValueError | Some i \<Rightarrow> Inr (VInt i)))"

text \<open>\<open>str(row.get(k, "")).strip()\<close>: a cell that is \<open>None\<close> prints as such.\<close>

definition cell_of :: "dict \<Rightarrow> string \<Rightarrow> string" where
  "cell_of row k =
     strip (case row k of None \<Rightarrow> [] | Some v \<Rightarrow> (case py_text v of None \<Rightarrow> ''None'' | Some t \<Rightarrow> t))"

definition let_res :: "'a res \<Rightarrow> ('a \<Rightarrow> 'b res) \<Rightarrow> 'b res" where
  "let_res m f = (case m of Inl e \<Rightarrow> Inl e | Inr x \<Rightarrow> f x)"

definition required :: "dict \<Rightarrow> string \<Rightarrow> string res" where
  "required row k = (if cell_of row k = [] then Inl ValueError else Inr (cell_of row k))"

definition parsed :: "'a option \<Rightarrow> 'a res" where
  "parsed v = (case v of None \<Rightarrow> Inl ValueError | Some t \<Rightarrow> Inr t)"

section \<open>The mappers\<close>

definition from_sheets_dict_catalog :: "uuid \<Rightarrow> dict \<Rightarrow> sql_row res" where
  "from_sheets_dict_catalog hid row =
     let_res (required row ''Catalog_ID'') (\<lambda>sheets_id.
     let_res (required row ''Roaster'') (\<lambda>roaster.
     let_res (required row ''Bean_Name'') (\<lambda>bean_name.
     let_res (validate_enum (cell_of row ''Roast_Level'') roast_level_enum) (\<lambda>roast_level.
       Inr [(''sheets_id'', VText sheets_id), (''household_id'', VUuid hid), (''roaster'', VText roaster),
            (''bean_name'', VText bean_name), (''roast_level'', VText roast_level),
            (''product_url'', nullable (cell_of row ''Product_URL'')),
            (''local_image_path'', nullable (cell_of row ''Local_Image_Path'')),
            (''origin'', nullable (cell_of row ''Origin'')), (''process'', nullable (cell_of row ''Process'')),
            (''notes'', nullable (cell_of row ''Notes''))]))))"

definition from_sheets_dict_inventory ::
  "mapping_conversions \<Rightarrow> (string \<Rightarrow> uuid option) \<Rightarrow> uuid \<Rightarrow> dict \<Rightarrow> sql_row res" where
  "from_sheets_dict_inventory C cat_uuids hid row =
     let_res (required row ''Bag_ID'') (\<lambda>sheets_id.
     let_res (required row ''Beans'') (\<lambda>beans.
     let_res (let_res (required row ''RoastDate'') (\<lambda>t. parsed (mc_date C t))) (\<lambda>roast_date.
     let_res (validate_enum (cell_of row ''RoastLevel'') roast_level_enum) (\<lambda>roast_level.
     let_res (required row ''Display_Name'') (\<lambda>display_name.
     let_res (validate_enum (cell_of row ''Status'') inventory_status_enum) (\<lambda>status.
     let_res (validate_enum_nullable (cell_of row ''Storage_Method'') storage_method_enum) (\<lambda>storage_method.
       Inr [(''sheets_id'', VText sheets_id), (''household_id'', VUuid hid), (''beans'', VText beans),
            (''roast_date'', VDate roast_date), (''roast_level'', VText roast_level),
            (''display_name'', VText display_name),
            (''catalog_id'', case cat_uuids (cell_of row ''Catalog_ID'') of None \<Rightarrow> VNull | Some u \<Rightarrow> VUuid u),
            (''status'', VText status), (''storage_method'', storage_method)])))))))"

definition from_sheets_dict_hardware :: "uuid \<Rightarrow> dict \<Rightarrow> sql_row res" where
  "from_sheets_dict_hardware hid row =
     let_res (required row ''Hardware_ID'') (\<lambda>sheets_id.
     let_res (validate_enum (cell_of row ''Category'') hardware_category_enum) (\<lambda>category.
     let_res (required row ''Name'') (\<lambda>name.
       Inr [(''sheets_id'', VText sheets_id), (''household_id'', VUuid hid), (''category'', VText category),
            (''name'', VText name), (''product_url'', nullable (cell_of row ''Product_URL'')),
            (''local_image_path'', nullable (cell_of row ''Local_Image_Path''))])))"

definition from_sheets_dict_maintenance ::
  "mapping_conversions \<Rightarrow> (string \<Rightarrow> uuid option) \<Rightarrow> uuid \<Rightarrow> dict \<Rightarrow> sql_row res" where
  "from_sheets_dict_maintenance C hw_uuids hid row =
     let_res (required row ''Maintenance_ID'') (\<lambda>sheets_id.
     let_res (let_res (required row ''Date'') (\<lambda>t. parsed (mc_utc C t))) (\<lambda>performed_at.
     let_res (validate_enum (cell_of row ''Action_Type'') maintenance_action_enum) (\<lambda>action.
       Inr [(''sheets_id'', VText sheets_id), (''household_id'', VUuid hid),
            (''hardware_id'', case hw_uuids (cell_of row ''Hardware_ID'') of None \<Rightarrow> VNull | Some u \<Rightarrow> VUuid u),
            (''performed_at'', VDatetime performed_at), (''action'', VText action),
            (''notes'', nullable (cell_of row ''Notes''))])))"

definition from_sheets_dict_brew_log :: "mapping_conversions \<Rightarrow> uuid \<Rightarrow> dict \<Rightarrow> sql_row res" where
  "from_sheets_dict_brew_log C hid row =
     let_res (required row ''Shot_ID'') (\<lambda>sheets_id.
     let_res (let_res (required row ''Date'') (\<lambda>t. parsed (mc_utc C t))) (\<lambda>brewed_at.
     let_res (validate_enum_nullable (cell_of row ''Storage_Method'') storage_method_enum) (\<lambda>storage_method.
     let_res (parse_float_1dp C (cell_of row ''Dose_In_g'')) (\<lambda>dose_g.
     let_res (parse_float_1dp C (cell_of row ''Yield_Out_g'')) (\<lambda>yield_g.
     let_res (parse_int C (cell_of row ''Time_Sec'')) (\<lambda>time_sec.
     let_res (parse_float_1dp C (cell_of row ''Grind_Setting'')) (\<lambda>grind_setting.
     let_res (validate_enum (cell_of row ''Shot_Eligibility'') shot_eligibility_enum) (\<lambda>eligibility.
     let_res (validate_enum_nullable (cell_of row ''Taste_Summary'') taste_summary_enum) (\<lambda>taste.
       Inr [(''sheets_id'', VText sheets_id), (''household_id'', VUuid hid), (''brewed_at'', VDatetime brewed_at),
            (''bag_id'', nullable (cell_of row ''Bag_ID'')), (''machine_id'', nullable (cell_of row ''Machine_ID'')),
            (''grinder_id'', nullable (cell_of row ''Grinder_ID'')), (''basket_id'', nullable (cell_of row ''Basket_ID'')),
            (''dose_g'', dose_g), (''yield_g'', yield_g), (''time_sec'', time_sec), (''grind_setting'', grind_setting),
            (''shot_eligibility'', VText eligibility), (''taste_summary'', taste),
            (''notes'', nullable (cell_of row ''User_Notes'')), (''ai_feedback'', nullable (cell_of row ''AI_Feedback'')),
            (''storage_method'', storage_method), (''catalog_id'', VNull)])))))))))"

section \<open>The checksum\<close>

definition checksum_exclude :: "string list" where
  "checksum_exclude = [''id'', ''household_id'', ''sheets_id'', ''created_at'']"

fun checksum_part :: "mapping_conversions \<Rightarrow> sqlval \<Rightarrow> string" where
  "checksum_part C VNull = ''NULL''"
| "checksum_part C (VFloat t) = mc_fixed6 C t"
| "checksum_part C (VDecimal t) = mc_fixed6 C t"
| "checksum_part C (VDate t) = t"
| "checksum_part C (VDatetime t) = mc_isoformat C t"
| "checksum_part C (VUuid u) = mc_uuid_str C u"
| "checksum_part C (VText t) = t"
| "checksum_part C (VInt i) = int_str i"

definition checksum_text :: "mapping_conversions \<Rightarrow> sql_row \<Rightarrow> string" where
  "checksum_text C row =
     sep_by ''|'' (map (\<lambda>k. case map_of row k of None \<Rightarrow> [] | Some v \<Rightarrow> checksum_part C v)
       (sort (filter (\<lambda>k. k \<notin> set checksum_exclude) (map fst row))))"

definition row_checksum :: "(string \<Rightarrow> string) \<Rightarrow> mapping_conversions \<Rightarrow> sql_row \<Rightarrow> string" where
  "row_checksum sha256hex C row = sha256hex (checksum_text C row)"

section \<open>What a mapped row holds\<close>

definition has_text :: "sql_row \<Rightarrow> string \<Rightarrow> (string \<Rightarrow> bool) \<Rightarrow> bool" where
  "has_text r k P = (\<exists>t. map_of r k = Some (VText t) \<and> P t)"

definition has_text_or_null :: "sql_row \<Rightarrow> string \<Rightarrow> (string \<Rightarrow> bool) \<Rightarrow> bool" where
  "has_text_or_null r k P = (map_of r k = Some VNull \<or> has_text r k P)"

lemma let_resE:
  assumes "let_res m f = Inr y"
  obtains x where "m = Inr x" "f x = Inr y"
  using assms by (auto simp: let_res_def split: sum.splits)

lemma required_nonempty: "required row k = Inr t \<Longrightarrow> t \<noteq> [] \<and> t = cell_of row k"
  by (auto simp: required_def split: if_splits)

lemma validate_enum_in: "validate_enum val E = Inr v \<Longrightarrow> v \<in> set E \<and> lower v = lower val"
  by (auto simp: validate_enum_def split: if_splits option.splits dest: find_Some_in)

lemma validate_enum_nullable_in:
  "validate_enum_nullable val E = Inr v \<Longrightarrow> v = VNull \<or> (\<exists>t \<in> set E. v = VText t)"
  by (cases "validate_enum val E") (auto simp: validate_enum_nullable_def split: if_splits dest: validate_enum_in)

lemma validate_enum_accepts: "is_ok (validate_enum val E) \<longleftrightarrow> (\<exists>v \<in> set E. lower v = lower val)"
proof (cases "find (\<lambda>v. lower v = lower val) E")
  case None
  then have "\<not> (\<exists>v \<in> set E. lower v = lower val)" by (simp add: find_None_all)
  with None show ?thesis by (auto simp: validate_enum_def)
next
  case (Some v)
  with find_Some_in [OF Some] show ?thesis by (auto simp: validate_enum_def)
qed

text \<open>
  C27. What the migration writes is clean. Every mapped row has a nonempty identifier and its
  required texts, its enum columns hold canonical values only, and the optional ones a canonical
  value or nothing. A catalog row is accepted exactly when its required cells are not blank and
  its roast level is a known one in any case.
\<close>

theorem mapped_rows_clean:
  "(from_sheets_dict_catalog hid row = Inr c \<longrightarrow>
      has_text c ''sheets_id'' (\<lambda>t. t \<noteq> []) \<and> has_text c ''roaster'' (\<lambda>t. t \<noteq> [])
      \<and> has_text c ''bean_name'' (\<lambda>t. t \<noteq> []) \<and> has_text c ''roast_level'' (\<lambda>t. t \<in> set roast_level_enum))
   \<and> (from_sheets_dict_inventory C cat_uuids hid row = Inr v \<longrightarrow>
      has_text v ''sheets_id'' (\<lambda>t. t \<noteq> []) \<and> has_text v ''beans'' (\<lambda>t. t \<noteq> [])
      \<and> has_text v ''display_name'' (\<lambda>t. t \<noteq> []) \<and> has_text v ''roast_level'' (\<lambda>t. t \<in> set roast_level_enum)
      \<and> has_text v ''status'' (\<lambda>t. t \<in> set inventory_status_enum)
      \<and> has_text_or_null v ''storage_method'' (\<lambda>t. t \<in> set storage_method_enum))
   \<and> (from_sheets_dict_hardware hid row = Inr w \<longrightarrow>
      has_text w ''sheets_id'' (\<lambda>t. t \<noteq> []) \<and> has_text w ''category'' (\<lambda>t. t \<in> set hardware_category_enum)
      \<and> has_text w ''name'' (\<lambda>t. t \<noteq> []))
   \<and> (from_sheets_dict_maintenance C hw_uuids hid row = Inr n \<longrightarrow>
      has_text n ''sheets_id'' (\<lambda>t. t \<noteq> []) \<and> has_text n ''action'' (\<lambda>t. t \<in> set maintenance_action_enum))
   \<and> (from_sheets_dict_brew_log C hid row = Inr b \<longrightarrow>
      has_text b ''sheets_id'' (\<lambda>t. t \<noteq> []) \<and> has_text b ''shot_eligibility'' (\<lambda>t. t \<in> set shot_eligibility_enum)
      \<and> has_text_or_null b ''taste_summary'' (\<lambda>t. t \<in> set taste_summary_enum)
      \<and> has_text_or_null b ''storage_method'' (\<lambda>t. t \<in> set storage_method_enum))
   \<and> (is_ok (from_sheets_dict_catalog hid row) \<longleftrightarrow>
      cell_of row ''Catalog_ID'' \<noteq> [] \<and> cell_of row ''Roaster'' \<noteq> [] \<and> cell_of row ''Bean_Name'' \<noteq> []
      \<and> (\<exists>level \<in> set roast_level_enum. lower level = lower (cell_of row ''Roast_Level'')))"
proof (intro conjI impI, goal_cases)
  case 20
  show ?case
    using validate_enum_accepts [of "cell_of row ''Roast_Level''" roast_level_enum]
    by (auto simp: from_sheets_dict_catalog_def let_res_def required_def split: sum.split)
qed (auto simp: from_sheets_dict_catalog_def from_sheets_dict_inventory_def from_sheets_dict_hardware_def
       from_sheets_dict_maintenance_def from_sheets_dict_brew_log_def has_text_def has_text_or_null_def
     elim!: let_resE dest!: required_nonempty validate_enum_in validate_enum_nullable_in)

theorem mapped_rows_clean_witness:
  "has_text [(''sheets_id'', VText ''G01''), (''household_id'', VUuid 5), (''category'', VText ''Grinder''),
     (''name'', VText ''Mill''), (''product_url'', VNull), (''local_image_path'', VNull)] ''category''
     (\<lambda>t. t \<in> set hardware_category_enum)"
proof -
  let ?row = "[''Hardware_ID'' \<mapsto> PStr ''G01'', ''Category'' \<mapsto> PStr ''grinder'', ''Name'' \<mapsto> PStr ''Mill'']"
  have "from_sheets_dict_hardware 5 ?row = Inr [(''sheets_id'', VText ''G01''), (''household_id'', VUuid 5),
      (''category'', VText ''Grinder''), (''name'', VText ''Mill''), (''product_url'', VNull), (''local_image_path'', VNull)]"
    by code_simp
  from mapped_rows_clean [THEN conjunct2, THEN conjunct2, THEN conjunct1, rule_format, OF this] show ?thesis by blast
qed

section \<open>Tastes of the import and of the migration\<close>

text \<open>
  Two of the canonical tastes of the import are refused by the migration: a shot that the
  import accepts with the taste "Acidic & Bright" or "Complex & Syrupy" is skipped, the others
  pass.
\<close>

theorem imported_tastes_refused:
  "filter (\<lambda>t. \<not> is_ok (validate_enum_nullable t taste_summary_enum)) (canonical_enum_values ''Taste_Summary'')
     = [''Acidic & Bright'', ''Complex & Syrupy'']
   \<and> (cell_of row ''Taste_Summary'' \<in> {''Acidic & Bright'', ''Complex & Syrupy''}
      \<longrightarrow> \<not> is_ok (from_sheets_dict_brew_log C hid row))"
proof
  show "filter (\<lambda>t. \<not> is_ok (validate_enum_nullable t taste_summary_enum)) (canonical_enum_values ''Taste_Summary'')
     = [''Acidic & Bright'', ''Complex & Syrupy'']" by code_simp
  have "\<not> is_ok (validate_enum_nullable ''Acidic & Bright'' taste_summary_enum)"
    "\<not> is_ok (validate_enum_nullable ''Complex & Syrupy'' taste_summary_enum)" by code_simp+
  then show "cell_of row ''Taste_Summary'' \<in> {''Acidic & Bright'', ''Complex & Syrupy''}
      \<longrightarrow> \<not> is_ok (from_sheets_dict_brew_log C hid row)"
    by (auto simp: from_sheets_dict_brew_log_def let_res_def is_ok_def split: sum.splits)
qed

section \<open>What the checksum sees\<close>

lemma append_sep_inj:
  assumes "c \<notin> set x" "c \<notin> set y" "x @ c # xs = y @ c # ys"
  shows "x = y \<and> xs = ys"
  using assms
proof (induction x arbitrary: y)
  case Nil
  then show ?case by (cases y) auto
next
  case (Cons a x)
  then show ?case by (cases y) auto
qed

lemma sep_by_Cons: "xs \<noteq> [] \<Longrightarrow> sep_by sep (x # xs) = x @ sep @ sep_by sep xs"
  by (cases xs) simp_all

lemma sep_by_inj:
  assumes "length xs = length ys" "\<forall>x \<in> set xs \<union> set ys. CHR ''|'' \<notin> set x"
    and "sep_by ''|'' xs = sep_by ''|'' ys"
  shows "xs = ys"
  using assms
proof (induction xs ys rule: list_induct2)
  case (Cons x xs y ys)
  show ?case
  proof (cases "xs = []")
    case True
    with Cons show ?thesis by simp
  next
    case False
    with Cons.hyps have ys: "ys \<noteq> []" by auto
    from Cons.prems(2) have "x @ CHR ''|'' # sep_by ''|'' xs = y @ CHR ''|'' # sep_by ''|'' ys"
      by (simp add: sep_by_Cons False ys)
    from append_sep_inj [OF _ _ this] Cons.prems(1) Cons.IH show ?thesis by auto
  qed
qed simp

text \<open>The texts of a row that go into the checksum, by column.\<close>

definition part_at :: "mapping_conversions \<Rightarrow> sql_row \<Rightarrow> string \<Rightarrow> string" where
  "part_at C row k = (case map_of row k of None \<Rightarrow> [] | Some v \<Rightarrow> checksum_part C v)"

definition checked_columns :: "sql_row \<Rightarrow> string list" where
  "checked_columns row = sort (filter (\<lambda>k. k \<notin> set checksum_exclude) (map fst row))"

lemma checksum_text_parts: "checksum_text C row = sep_by ''|'' (map (part_at C row) (checked_columns row))"
  by (simp add: checksum_text_def part_at_def [abs_def] checked_columns_def)

text \<open>
  Where the separator occurs in no value, the checksum tells rows apart: two rows over the
  same columns with equal checksums print equally in every column but the excluded ones, unless
  the hash itself collides on their texts.
\<close>

theorem checksum_detects:
  assumes "row_checksum sha256hex C r = row_checksum sha256hex C q"
    and "checked_columns r = checked_columns q"
    and "\<forall>k \<in> set (checked_columns r). CHR ''|'' \<notin> set (part_at C r k) \<and> CHR ''|'' \<notin> set (part_at C q k)"
    and "sha256hex (checksum_text C r) = sha256hex (checksum_text C q) \<longrightarrow> checksum_text C r = checksum_text C q"
    and "k \<in> fst ` set r" "k \<notin> {''id'', ''household_id'', ''sheets_id'', ''created_at''}"
  shows "part_at C r k = part_at C q k"
proof -
  have "sep_by ''|'' (map (part_at C r) (checked_columns r)) = sep_by ''|'' (map (part_at C q) (checked_columns r))"
    using assms(1,2,4) by (simp add: row_checksum_def checksum_text_parts)
  moreover have "\<forall>x \<in> set (map (part_at C r) (checked_columns r)) \<union> set (map (part_at C q) (checked_columns r)). CHR ''|'' \<notin> set x"
    using assms(3) by (simp add: ball_Un)
  ultimately have "map (part_at C r) (checked_columns r) = map (part_at C q) (checked_columns r)"
    by (intro sep_by_inj) simp_all
  moreover have "k \<in> set (checked_columns r)"
    using assms(5,6) by (simp add: checked_columns_def checksum_exclude_def)
  ultimately show ?thesis by simp
qed

definition demo_mapping :: mapping_conversions where
  "demo_mapping = \<lparr>mc_float = Some, mc_round1 = id, mc_int = (\<lambda>t. None), mc_date = Some, mc_utc = (\<lambda>t. None), mc_isoformat = (\<lambda>i. []),
     mc_fixed6 = id, mc_uuid_str = nat_str\<rparr>"

theorem checksum_detects_witness:
  "part_at demo_mapping [(''sheets_id'', VText ''G01''), (''name'', VText ''Mill'')] ''name''
   = part_at demo_mapping [(''sheets_id'', VText ''G02''), (''name'', VText ''Mill'')] ''name''"
  by (rule checksum_detects [where sha256hex = id])
    (simp_all add: row_checksum_def checksum_text_def checked_columns_def checksum_exclude_def part_at_def)

lemma catalog_columns_sorted:
  "sort [''roaster'', ''bean_name'', ''roast_level'', ''product_url'', ''local_image_path'', ''origin'', ''process'', ''notes'']
   = [''bean_name'', ''local_image_path'', ''notes'', ''origin'', ''process'', ''product_url'', ''roast_level'', ''roaster'']"
  by code_simp

abbreviation demo_bean :: "string \<Rightarrow> string \<Rightarrow> dict" where
  "demo_bean notes origin \<equiv> [''Catalog_ID'' \<mapsto> PStr ''CAT1'', ''Roaster'' \<mapsto> PStr ''R'', ''Bean_Name'' \<mapsto> PStr ''B'',
     ''Roast_Level'' \<mapsto> PStr ''Dark'', ''Notes'' \<mapsto> PStr notes, ''Origin'' \<mapsto> PStr origin]"

text \<open>
  A separator inside a value deceives the checksum: whatever the hash function, there are two
  catalog rows that the mapper accepts, with the same identifier and different notes and origin,
  whose checksums are equal.
\<close>

theorem checksum_collision:
  "\<exists>row1 row2 r1 r2. from_sheets_dict_catalog hid row1 = Inr r1 \<and> from_sheets_dict_catalog hid row2 = Inr r2
     \<and> map_of r1 ''sheets_id'' = map_of r2 ''sheets_id''
     \<and> map_of r1 ''notes'' \<noteq> map_of r2 ''notes'' \<and> map_of r1 ''origin'' \<noteq> map_of r2 ''origin''
     \<and> row_checksum sha256hex C r1 = row_checksum sha256hex C r2"
proof -
  define r where "r = (\<lambda>notes origin. [(''sheets_id'', VText ''CAT1''), (''household_id'', VUuid hid),
    (''roaster'', VText ''R''), (''bean_name'', VText ''B''), (''roast_level'', VText ''Dark''), (''product_url'', VNull),
    (''local_image_path'', VNull), (''origin'', VText origin), (''process'', VNull), (''notes'', VText notes)])"
  have ok: "from_sheets_dict_catalog hid (demo_bean ''a|b'' ''c'') = Inr (r ''a|b'' ''c'')"
    "from_sheets_dict_catalog hid (demo_bean ''a'' ''b|c'') = Inr (r ''a'' ''b|c'')"
    by (simp_all add: from_sheets_dict_catalog_def let_res_def required_def cell_of_def strip_def lstrip_def
        py_space_def validate_enum_def roast_level_enum_def nullable_def r_def)
  have same: "checksum_text C (r ''a|b'' ''c'') = checksum_text C (r ''a'' ''b|c'')"
    by (simp add: checksum_text_parts checked_columns_def checksum_exclude_def r_def catalog_columns_sorted part_at_def
        del: sort_key_simps)
  show ?thesis
    by (rule exI [of _ "demo_bean ''a|b'' ''c''"], rule exI [of _ "demo_bean ''a'' ''b|c''"],
        rule exI [of _ "r ''a|b'' ''c''"], rule exI [of _ "r ''a'' ''b|c''"])
      (use same in \<open>simp add: ok row_checksum_def\<close>, simp add: r_def)
qed

end
