(* ===== verification/Migration.thy ===== *)
theory Migration
  imports SheetsMapping
begin

text \<open>
  The migration of the spreadsheet to Postgres (\<^verbatim>\<open>scripts/_mapping.py\<close>: \<open>bulk_upsert\<close>,
  \<^verbatim>\<open>scripts/_seed.py\<close>, \<^verbatim>\<open>scripts/migrate_sheets_to_postgres.py\<close>) and its validation
  (\<^verbatim>\<open>scripts/validate_migration.py\<close>). A table is a list of rows with the operations the upsert
  needs of it; the statement runs under the row-level security of its household.
\<close>

section \<open>Columns of a mapped row\<close>

definition text_at :: "sql_row \<Rightarrow> string \<Rightarrow> string option" where
  "text_at r k = (case map_of r k of Some (VText t) \<Rightarrow> Some t | _ \<Rightarrow> None)"

definition uuid_at :: "sql_row \<Rightarrow> string \<Rightarrow> uuid option" where
  "uuid_at r k = (case map_of r k of Some (VUuid u) \<Rightarrow> Some u | _ \<Rightarrow> None)"

definition date_at :: "sql_row \<Rightarrow> string \<Rightarrow> string option" where
  "date_at r k = (case map_of r k of Some (VDate t) \<Rightarrow> Some t | _ \<Rightarrow> None)"

definition time_at :: "sql_row \<Rightarrow> string \<Rightarrow> instant option" where
  "time_at r k = (case map_of r k of Some (VDatetime i) \<Rightarrow> Some i | _ \<Rightarrow> None)"

definition float_at :: "sql_row \<Rightarrow> string \<Rightarrow> string option" where
  "float_at r k = (case map_of r k of Some (VFloat t) \<Rightarrow> Some t | _ \<Rightarrow> None)"

definition int_at :: "sql_row \<Rightarrow> string \<Rightarrow> int option" where
  "int_at r k = (case map_of r k of Some (VInt i) \<Rightarrow> Some i | _ \<Rightarrow> None)"

section \<open>Tables\<close>

text \<open>
  \<open>t_set\<close> writes the columns of a mapped row into a row of the table, unless a value is missing
  or does not fit; \<open>t_blank\<close> is a row with the defaults of the table.
\<close>

record 'r table_ops =
  t_sid :: "'r \<Rightarrow> string option"
  t_hid :: "'r \<Rightarrow> uuid option"
  t_set :: "sql_row \<Rightarrow> 'r \<Rightarrow> 'r option"
  t_blank :: "uuid \<Rightarrow> 'r"

definition catalog_set :: "sql_row \<Rightarrow> catalog_row \<Rightarrow> catalog_row option" where
  "catalog_set r k =
     (case (text_at r ''roaster'', text_at r ''bean_name'', text_at r ''roast_level'') of
        (Some roaster, Some bean, Some level) \<Rightarrow>
          Some (k\<lparr>c_sheets_id := text_at r ''sheets_id'', c_household_id := uuid_at r ''household_id'',
                  c_roaster := roaster, c_bean_name := bean, c_roast_level := Some level,
                  c_product_url := text_at r ''product_url'', c_local_image_path := text_at r ''local_image_path'',
                  c_origin := text_at r ''origin'', c_process := text_at r ''process'', c_notes := text_at r ''notes''\<rparr>)
      | _ \<Rightarrow> None)"

definition catalog_table :: "catalog_row table_ops" where
  "catalog_table = \<lparr>t_sid = c_sheets_id, t_hid = c_household_id, t_set = catalog_set,
     t_blank = (\<lambda>n. \<lparr>c_id = n, c_household_id = None, c_roaster = [], c_bean_name = [], c_origin = None,
       c_process = None, c_roast_level = None, c_notes = None, c_sheets_id = None, c_product_url = None,
       c_local_image_path = None\<rparr>)\<rparr>"

definition inventory_set :: "sql_row \<Rightarrow> inventory_row \<Rightarrow> inventory_row option" where
  "inventory_set r k =
     Some (k\<lparr>v_sheets_id := text_at r ''sheets_id'', v_household_id := uuid_at r ''household_id'',
             v_beans := text_at r ''beans'', v_roast_date := date_at r ''roast_date'',
             v_roast_level := text_at r ''roast_level'', v_display_name := text_at r ''display_name'',
             v_catalog_id := uuid_at r ''catalog_id'', v_status := text_at r ''status'',
             v_storage_method := text_at r ''storage_method''\<rparr>)"

definition inventory_table :: "inventory_row table_ops" where
  "inventory_table = \<lparr>t_sid = v_sheets_id, t_hid = v_household_id, t_set = inventory_set,
     t_blank = (\<lambda>n. \<lparr>v_id = n, v_household_id = None, v_catalog_id = None, v_roast_date = None, v_notes = None,
       v_sheets_id = None, v_sheets_catalog_id = None, v_beans = None, v_display_name = None,
       v_roast_level = None, v_status = None, v_storage_method = None\<rparr>)\<rparr>"

definition hardware_set :: "sql_row \<Rightarrow> hardware_row \<Rightarrow> hardware_row option" where
  "hardware_set r k =
     (case (text_at r ''name'', text_at r ''category'') of
        (Some name, Some category) \<Rightarrow>
          Some (k\<lparr>w_sheets_id := text_at r ''sheets_id'', w_household_id := uuid_at r ''household_id'',
                  w_name := name, w_category := category, w_product_url := text_at r ''product_url'',
                  w_local_image_path := text_at r ''local_image_path''\<rparr>)
      | _ \<Rightarrow> None)"

definition hardware_table :: "hardware_row table_ops" where
  "hardware_table = \<lparr>t_sid = w_sheets_id, t_hid = w_household_id, t_set = hardware_set,
     t_blank = (\<lambda>n. \<lparr>w_id = n, w_household_id = None, w_name = [], w_category = [], w_notes = None,
       w_sheets_id = None, w_product_url = None, w_local_image_path = None\<rparr>)\<rparr>"

definition maintenance_set :: "sql_row \<Rightarrow> maintenance_row \<Rightarrow> maintenance_row option" where
  "maintenance_set r k =
     (case (text_at r ''action'', time_at r ''performed_at'') of
        (Some action, Some performed) \<Rightarrow>
          Some (k\<lparr>n_sheets_id := text_at r ''sheets_id'', n_household_id := uuid_at r ''household_id'',
                  n_hardware_id := uuid_at r ''hardware_id'', n_action := action, n_performed_at := performed,
                  n_notes := text_at r ''notes''\<rparr>)
      | _ \<Rightarrow> None)"

definition maintenance_table :: "maintenance_row table_ops" where
  "maintenance_table = \<lparr>t_sid = n_sheets_id, t_hid = n_household_id, t_set = maintenance_set,
     t_blank = (\<lambda>n. \<lparr>n_id = n, n_household_id = None, n_hardware_id = None, n_action = [], n_performed_at = 0,
       n_notes = None, n_sheets_id = None, n_sheets_hardware_id = None\<rparr>)\<rparr>"

text \<open>The shot's decimals and whole numbers have to fit their columns, as for the application.\<close>

definition brew_columns :: "sql_row \<Rightarrow> instant \<Rightarrow> brew_log_row \<Rightarrow> brew_log_row" where
  "brew_columns r brewed k =
     k\<lparr>b_sheets_id := text_at r ''sheets_id'', b_household_id := uuid_at r ''household_id'',
       b_brewed_at := brewed, b_bag_id := text_at r ''bag_id'', b_machine_id := text_at r ''machine_id'',
       b_grinder_id := text_at r ''grinder_id'', b_basket_id := text_at r ''basket_id'',
       b_dose_g := float_at r ''dose_g'', b_yield_g := float_at r ''yield_g'', b_time_sec := int_at r ''time_sec'',
       b_grind_setting := float_at r ''grind_setting'', b_shot_eligibility := text_at r ''shot_eligibility'',
       b_taste_summary := text_at r ''taste_summary'', b_notes := text_at r ''notes'',
       b_ai_feedback := text_at r ''ai_feedback'', b_storage_method := text_at r ''storage_method'',
       b_catalog_id := uuid_at r ''catalog_id''\<rparr>"

definition brew_set :: "conversions \<Rightarrow> sql_row \<Rightarrow> brew_log_row \<Rightarrow> brew_log_row option" where
  "brew_set C r k =
     (case time_at r ''brewed_at'' of
        None \<Rightarrow> None
      | Some brewed \<Rightarrow> (case fit_brew_row C (brew_columns r brewed k) of Inl e \<Rightarrow> None | Inr k' \<Rightarrow> Some k'))"

definition brew_table :: "conversions \<Rightarrow> brew_log_row table_ops" where
  "brew_table C = \<lparr>t_sid = b_sheets_id, t_hid = b_household_id, t_set = brew_set C,
     t_blank = (\<lambda>n. \<lparr>b_id = n, b_household_id = None, b_catalog_id = None, b_brew_method = None, b_dose_g = None,
       b_yield_g = None, b_time_sec = None, b_rating = None, b_notes = None, b_sheets_id = None, b_bag_id = None,
       b_machine_id = None, b_grinder_id = None, b_basket_id = None, b_grind_setting = None,
       b_shot_eligibility = None, b_taste_summary = None, b_ai_feedback = None, b_storage_method = None,
       b_idempotency_key = None, b_idempotency_request_hash = None, b_brewed_at = 0\<rparr>)\<rparr>"

section \<open>The upsert\<close>

datatype upsert_error = SeveralHouseholds | RowRefused | HouseholdMissing | TouchedTwice | BadValue

text \<open>
  \<open>INSERT .. ON CONFLICT (sheets_id) DO UPDATE\<close> of one row: the policy's check of the new row, then
  insert, or update of the conflicting row, which the policy has to show. A row that the command
  has inserted or updated already cannot be updated again.
\<close>

definition upsert_row ::
  "'r table_ops \<Rightarrow> uuid option \<Rightarrow> (sql_row \<Rightarrow> uuid) \<Rightarrow> string option list \<Rightarrow> sql_row \<Rightarrow> 'r list \<Rightarrow> upsert_error + 'r list" where
  "upsert_row T own fresh touched r t =
     (if own = None \<or> uuid_at r ''household_id'' \<noteq> own then Inl RowRefused
      else
        (case find (\<lambda>k. t_sid T k = text_at r ''sheets_id'') t of
           None \<Rightarrow> (case t_set T r (t_blank T (fresh r)) of None \<Rightarrow> Inl BadValue | Some k \<Rightarrow> Inr (t @ [k]))
         | Some old \<Rightarrow>
             if text_at r ''sheets_id'' \<in> set touched then Inl TouchedTwice
             else if t_hid T old \<noteq> own then Inl RowRefused
             else (case t_set T r old of
                     None \<Rightarrow> Inl BadValue
                   | Some k \<Rightarrow> Inr (map (\<lambda>j. if t_sid T j = text_at r ''sheets_id'' then k else j) t))))"

fun upsert_rows ::
  "'r table_ops \<Rightarrow> uuid option \<Rightarrow> (sql_row \<Rightarrow> uuid) \<Rightarrow> string option list \<Rightarrow> sql_row list \<Rightarrow> 'r list \<Rightarrow> upsert_error + 'r list" where
  "upsert_rows T own fresh touched [] t = Inr t"
| "upsert_rows T own fresh touched (r # rs) t =
     (case upsert_row T own fresh touched r t of
        Inl e \<Rightarrow> Inl e
      | Inr t' \<Rightarrow> upsert_rows T own fresh (text_at r ''sheets_id'' # touched) rs t')"

definition single_household_id :: "sql_row list \<Rightarrow> upsert_error + uuid option" where
  "single_household_id rows =
     (case remdups (List.map_filter (\<lambda>r. uuid_at r ''household_id'') rows) of
        [] \<Rightarrow> Inr None
      | [h] \<Rightarrow> Inr (Some h)
      | _ \<Rightarrow> Inl SeveralHouseholds)"

definition bulk_upsert ::
  "'r table_ops \<Rightarrow> uuid set \<Rightarrow> (sql_row \<Rightarrow> uuid) \<Rightarrow> sql_row list \<Rightarrow> 'r list \<Rightarrow> upsert_error + nat \<times> 'r list" where
  "bulk_upsert T known fresh rows t =
     (if rows = [] then Inr (0, t)
      else
        (case single_household_id rows of
           Inl e \<Rightarrow> Inl e
         | Inr own \<Rightarrow>
             if (case own of None \<Rightarrow> False | Some h \<Rightarrow> h \<notin> known) then Inl HouseholdMissing
             else map_sum id (\<lambda>t'. (length rows, t')) (upsert_rows T own fresh [] rows t)))"

section \<open>Seeding\<close>

definition ensure_system_user :: "uuid \<Rightarrow> instant \<Rightarrow> database \<Rightarrow> uuid res \<times> database" where
  "ensure_system_user nid db_now d =
     (case find (\<lambda>u. u_username u = Some ''__migration_system__'') (users d) of
        Some u \<Rightarrow> (Inr (u_id u), d)
      | None \<Rightarrow>
          (case create_user nid db_now (Some ''__migration_system__'') None None None ''Migration System'' None (open_session d) of
             (Inl e, s) \<Rightarrow> (Inl e, d)
           | (Inr u, s) \<Rightarrow> (Inr (u_id u), close_session (commit s))))"

text \<open>The first household of that name, whoever created it and whether deleted or not.\<close>

definition ensure_default_household :: "uuid \<Rightarrow> instant \<Rightarrow> uuid \<Rightarrow> database \<Rightarrow> uuid \<times> database" where
  "ensure_default_household nid db_now system_user d =
     (case find (\<lambda>h. h_name h = ''default'') (households d) of
        Some h \<Rightarrow> (h_id h, d)
      | None \<Rightarrow>
          (nid, d\<lparr>households := households d @
             [\<lparr>h_id = nid, h_name = ''default'', h_created_at = db_now, h_created_by = system_user,
               h_is_guest_accessible = False, h_deleted_at = None\<rparr>]\<rparr>))"

section \<open>The migration\<close>

record entity_result =
  er_mapped :: nat
  er_upserted :: nat
  er_errors :: nat

definition migrate_entity ::
  "'r table_ops \<Rightarrow> bool \<Rightarrow> uuid set \<Rightarrow> (sql_row \<Rightarrow> uuid) \<Rightarrow> (dict \<Rightarrow> sql_row res) \<Rightarrow> dict list \<Rightarrow> 'r list
     \<Rightarrow> entity_result \<times> 'r list" where
  "migrate_entity T dry known fresh mapper raw t =
     (let rows = List.map_filter (\<lambda>r. case mapper r of Inl e \<Rightarrow> None | Inr m \<Rightarrow> Some m) raw;
          errors = length raw - length rows
      in if dry then (\<lparr>er_mapped = length rows, er_upserted = 0, er_errors = errors\<rparr>, t)
         else
           (case bulk_upsert T known fresh rows t of
              Inl e \<Rightarrow> (\<lparr>er_mapped = length rows, er_upserted = 0, er_errors = errors + 1\<rparr>, t)
            | Inr (n, t') \<Rightarrow> (\<lparr>er_mapped = length rows, er_upserted = n, er_errors = errors\<rparr>, t')))"

text \<open>The lookups run under the household's setting, but without one in a dry run.\<close>

definition uuid_lookup :: "'r table_ops \<Rightarrow> ('r \<Rightarrow> uuid) \<Rightarrow> uuid option \<Rightarrow> 'r list \<Rightarrow> string \<Rightarrow> uuid option" where
  "uuid_lookup T key own t sid =
     map_option key (find (\<lambda>k. own \<noteq> None \<and> t_hid T k = own \<and> t_sid T k = Some sid) (rev t))"

record migration_env =
  me_map :: mapping_conversions
  me_db :: conversions
  me_now :: instant
  me_fresh :: "sql_row \<Rightarrow> uuid"
  me_tabs :: "string \<Rightarrow> dict list"

definition wanted :: "string list \<Rightarrow> string \<Rightarrow> bool" where
  "wanted entities name = (entities = [] \<or> name \<in> set entities)"

definition optional_step :: "bool \<Rightarrow> string \<Rightarrow> ('r list \<Rightarrow> entity_result \<times> 'r list) \<Rightarrow> 'r list
    \<Rightarrow> (string \<times> entity_result) list \<times> 'r list" where
  "optional_step on name step t = (if on then (case step t of (r, t') \<Rightarrow> ([(name, r)], t')) else ([], t))"

definition migrate_tables ::
  "migration_env \<Rightarrow> bool \<Rightarrow> string list \<Rightarrow> uuid \<Rightarrow> database \<Rightarrow> (string \<times> entity_result) list \<times> database" where
  "migrate_tables M dry entities hid d =
     (let known = h_id ` set (households d); C = me_map M; fresh = me_fresh M;
          own = (if dry then None else Some hid);
          (rc, cat) = optional_step (wanted entities ''Catalog'') ''Catalog''
             (migrate_entity catalog_table dry known fresh (from_sheets_dict_catalog hid) (me_tabs M ''Catalog'')) (catalog d);
          cat_uuids = uuid_lookup catalog_table c_id own cat;
          (ri, inv) = optional_step (wanted entities ''Inventory'') ''Inventory''
             (migrate_entity inventory_table dry known fresh (from_sheets_dict_inventory C cat_uuids hid) (me_tabs M ''Inventory''))
             (inventory_bags d);
          (rh, hw) = optional_step (wanted entities ''Hardware'') ''Hardware''
             (migrate_entity hardware_table dry known fresh (from_sheets_dict_hardware hid) (me_tabs M ''Hardware'')) (hardware d);
          hw_uuids = uuid_lookup hardware_table w_id own hw;
          (rm, mnt) = optional_step (wanted entities ''Maintenance'') ''Maintenance''
             (migrate_entity maintenance_table dry known fresh (from_sheets_dict_maintenance C hw_uuids hid) (me_tabs M ''Maintenance''))
             (maintenance_log d);
          (rb, shots) = optional_step (wanted entities ''Brew_Log'') ''Brew_Log''
             (migrate_entity (brew_table (me_db M)) dry known fresh (from_sheets_dict_brew_log C hid) (me_tabs M ''Brew_Log''))
             (brew_log d)
      in (rc @ ri @ rh @ rm @ rb,
          d\<lparr>catalog := cat, inventory_bags := inv, hardware := hw, maintenance_log := mnt, brew_log := shots\<rparr>))"

text \<open>
  The script: in a dry run with the zero uuid, else with the default household. It is complete when
  no entity has errors. An exception of the seeding ends it.
\<close>

definition migrate_main ::
  "migration_env \<Rightarrow> bool \<Rightarrow> string list \<Rightarrow> uuid \<Rightarrow> uuid \<Rightarrow> database \<Rightarrow> (bool \<times> (string \<times> entity_result) list) res \<times> database" where
  "migrate_main M dry entities uid hid d =
     (let finish = (\<lambda>(results, d). (Inr (list_all (\<lambda>(n, r). er_errors r = 0) results, results), d))
      in if dry then finish (migrate_tables M True entities 0 d)
         else
           (case ensure_system_user uid (me_now M) d of
              (Inl e, d) \<Rightarrow> (Inl e, d)
            | (Inr system_user, d) \<Rightarrow>
                (case ensure_default_household hid (me_now M) system_user d of
                   (household, d) \<Rightarrow> finish (migrate_tables M False entities household d))))"

section \<open>Upserts on any table\<close>

definition distinct_ids :: "'r table_ops \<Rightarrow> 'r list \<Rightarrow> bool" where
  "distinct_ids T t = distinct (filter (\<lambda>x. x \<noteq> None) (map (t_sid T) t))"

text \<open>Some row of the table has all the values of the mapped row.\<close>

definition carries :: "'r table_ops \<Rightarrow> sql_row \<Rightarrow> 'r list \<Rightarrow> bool" where
  "carries T r t = (\<exists>k \<in> set t. t_set T r k = Some k)"

definition identified :: "sql_row \<Rightarrow> bool" where
  "identified r = (text_at r ''sheets_id'' \<noteq> None)"

lemma distinct_ids_unique:
  "distinct_ids T t \<Longrightarrow> j \<in> set t \<Longrightarrow> k \<in> set t \<Longrightarrow> t_sid T j = t_sid T k \<Longrightarrow> t_sid T k \<noteq> None \<Longrightarrow> j = k"
  by (induction t) (auto simp: distinct_ids_def image_iff split: if_splits)

locale sheets_table =
  fixes T :: "'r table_ops"
  assumes set_sid: "t_set T r k = Some k' \<Longrightarrow> t_sid T k' = text_at r ''sheets_id''"
    and set_hid: "t_set T r k = Some k' \<Longrightarrow> t_hid T k' = uuid_at r ''household_id''"
    and set_idem: "t_set T r k = Some k' \<Longrightarrow> t_set T r k' = Some k'"
begin

lemma upsert_row_ok:
  assumes "upsert_row T own fresh touched r t = Inr t'" "distinct_ids T t" "identified r"
  shows "distinct_ids T t'" "carries T r t'" "own \<noteq> None" "uuid_at r ''household_id'' = own"
    and "filter (\<lambda>k. t_hid T k \<noteq> own) t' = filter (\<lambda>k. t_hid T k \<noteq> own) t"
    and "text_at q ''sheets_id'' \<noteq> text_at r ''sheets_id'' \<Longrightarrow> carries T q t \<Longrightarrow> carries T q t'"
    and "text_at r ''sheets_id'' \<in> set touched \<Longrightarrow> \<exists>k \<in> set t. t_sid T k = text_at r ''sheets_id'' \<Longrightarrow> False"
proof -
  let ?sid = "text_at r ''sheets_id''"
  show own: "own \<noteq> None" "uuid_at r ''household_id'' = own"
    using assms(1) by (auto simp: upsert_row_def split: if_splits)
  have "distinct_ids T t' \<and> carries T r t'
    \<and> filter (\<lambda>k. t_hid T k \<noteq> own) t' = filter (\<lambda>k. t_hid T k \<noteq> own) t
    \<and> (\<forall>q. text_at q ''sheets_id'' \<noteq> ?sid \<longrightarrow> carries T q t \<longrightarrow> carries T q t')
    \<and> (?sid \<in> set touched \<longrightarrow> (\<forall>k \<in> set t. t_sid T k \<noteq> ?sid))"
  proof (cases "find (\<lambda>k. t_sid T k = ?sid) t")
    case None
    then have new: "\<forall>k \<in> set t. t_sid T k \<noteq> ?sid" by (simp add: find_None_all)
    from None assms(1) own obtain k where k: "t_set T r (t_blank T (fresh r)) = Some k" "t' = t @ [k]"
      by (auto simp: upsert_row_def split: option.splits)
    from set_sid [OF k(1)] set_hid [OF k(1)] set_idem [OF k(1)] own new assms(2) k(2) show ?thesis
      by (auto simp: distinct_ids_def carries_def)
  next
    case (Some old)
    from find_Some_in [OF Some] have old: "old \<in> set t" "t_sid T old = ?sid" by auto
    from Some assms(1) own obtain k where k: "t_set T r old = Some k" "?sid \<notin> set touched" "t_hid T old = own"
      "t' = map (\<lambda>j. if t_sid T j = ?sid then k else j) t"
      by (auto simp: upsert_row_def split: if_splits option.splits)
    have only: "j = old" if "j \<in> set t" "t_sid T j = ?sid" for j
      using distinct_ids_unique [OF assms(2) that(1) old(1)] that(2) old(2) assms(3) by (simp add: identified_def)
    have "map (t_sid T) t' = map (t_sid T) t"
      using set_sid [OF k(1)] by (simp add: k(4))
    then have "distinct_ids T t'" using assms(2) by (simp add: distinct_ids_def)
    moreover have "carries T r t'"
      using old set_idem [OF k(1)] by (force simp: carries_def k(4))
    moreover have "filter (\<lambda>k. t_hid T k \<noteq> own) t' = filter (\<lambda>k. t_hid T k \<noteq> own) t"
      unfolding k(4) using only k(3) set_hid [OF k(1)] own(2)
      by (induction t) (auto split: if_splits)
    moreover have "carries T q t'" if "text_at q ''sheets_id'' \<noteq> ?sid" "carries T q t" for q
    proof -
      from that(2) obtain j where "j \<in> set t" "t_set T q j = Some j" by (auto simp: carries_def)
      with that(1) set_sid [of q j j] show ?thesis by (force simp: carries_def k(4))
    qed
    ultimately show ?thesis using k(2) by blast
  qed
  then show "distinct_ids T t'" "carries T r t'"
    "filter (\<lambda>k. t_hid T k \<noteq> own) t' = filter (\<lambda>k. t_hid T k \<noteq> own) t"
    "text_at q ''sheets_id'' \<noteq> ?sid \<Longrightarrow> carries T q t \<Longrightarrow> carries T q t'"
    "?sid \<in> set touched \<Longrightarrow> \<exists>k \<in> set t. t_sid T k = ?sid \<Longrightarrow> False"
    by blast+
qed

lemma carries_sid: "carries T q t \<Longrightarrow> \<exists>k \<in> set t. t_sid T k = text_at q ''sheets_id''"
  using set_sid by (force simp: carries_def)

lemma upsert_rows_ok:
  assumes "upsert_rows T own fresh touched rows t = Inr t'" "distinct_ids T t" "list_all identified rows"
  shows "distinct_ids T t' \<and> (\<forall>r \<in> set rows. carries T r t' \<and> uuid_at r ''household_id'' = own \<and> own \<noteq> None)
    \<and> filter (\<lambda>k. t_hid T k \<noteq> own) t' = filter (\<lambda>k. t_hid T k \<noteq> own) t
    \<and> (\<forall>q. text_at q ''sheets_id'' \<in> set touched \<and> carries T q t \<longrightarrow>
          carries T q t' \<and> text_at q ''sheets_id'' \<notin> (\<lambda>r. text_at r ''sheets_id'') ` set rows)
    \<and> distinct (map (\<lambda>r. text_at r ''sheets_id'') rows)"
  using assms
proof (induction rows arbitrary: touched t)
  case (Cons r rs)
  let ?sid = "text_at r ''sheets_id''"
  obtain t1 where t1: "upsert_row T own fresh touched r t = Inr t1"
    "upsert_rows T own fresh (?sid # touched) rs t1 = Inr t'"
    using Cons.prems(1) by (auto split: sum.splits)
  have r: "identified r" "list_all identified rs" using Cons.prems(3) by simp_all
  note row = upsert_row_ok [OF t1(1) Cons.prems(2) r(1)]
  note rest = Cons.IH [OF t1(2) row(1) r(2)]
  have later: "carries T q t' \<and> text_at q ''sheets_id'' \<notin> (\<lambda>r. text_at r ''sheets_id'') ` set (r # rs)"
    if q: "text_at q ''sheets_id'' \<in> set touched" "carries T q t" for q
  proof -
    have "text_at q ''sheets_id'' \<noteq> ?sid"
      using row(7) carries_sid [OF q(2)] q(1) by metis
    with row(6) [OF this q(2)] rest q(1) show ?thesis by auto
  qed
  have fresh_sid: "?sid \<notin> (\<lambda>r. text_at r ''sheets_id'') ` set rs" "carries T r t'"
    using rest row(2) by auto
  show ?case
    using rest row(3-5) later fresh_sid by auto
qed simp

lemma upsert_rows_again:
  assumes "\<forall>r \<in> set rows. carries T r t \<and> uuid_at r ''household_id'' = own" "own \<noteq> None"
    and "distinct (map (\<lambda>r. text_at r ''sheets_id'') rows)"
    and "set touched \<inter> (\<lambda>r. text_at r ''sheets_id'') ` set rows = {}"
    and "distinct_ids T t" "list_all identified rows"
  shows "upsert_rows T own fresh touched rows t = Inr t"
  using assms
proof (induction rows arbitrary: touched)
  case (Cons r rs)
  let ?sid = "text_at r ''sheets_id''"
  obtain k where k: "k \<in> set t" "t_set T r k = Some k" using Cons.prems(1) by (auto simp: carries_def)
  have sid: "t_sid T k = ?sid" "?sid \<noteq> None" using set_sid [OF k(2)] Cons.prems(6) by (simp_all add: identified_def)
  have only: "j = k" if "j \<in> set t" "t_sid T j = ?sid" for j
    using distinct_ids_unique [OF Cons.prems(5) that(1) k(1)] that(2) sid by simp
  obtain old where "find (\<lambda>k. t_sid T k = ?sid) t = Some old"
    using k(1) sid(1) by (cases "find (\<lambda>k. t_sid T k = ?sid) t") (auto simp: find_None_all)
  moreover from find_Some_in [OF this] only have "old = k" by auto
  moreover have "map (\<lambda>j. if t_sid T j = ?sid then k else j) t = t"
    using only by (intro map_idI) auto
  ultimately have "upsert_row T own fresh touched r t = Inr t"
    using Cons.prems(1,2,4) k(2) set_hid [OF k(2)] by (auto simp: upsert_row_def)
  moreover have "upsert_rows T own fresh (?sid # touched) rs t = Inr t"
    using Cons.prems by (intro Cons.IH) auto
  ultimately show ?case by simp
qed simp

end

context sheets_table
begin

lemma bulk_upsert_ok:
  assumes "bulk_upsert T known fresh rows t = Inr (n, t')" "distinct_ids T t" "list_all identified rows"
  shows "n = length rows" "distinct_ids T t'" "\<forall>r \<in> set rows. carries T r t'"
    and "filter (\<lambda>k. t_hid T k \<notin> (\<lambda>r. uuid_at r ''household_id'') ` set rows) t'
       = filter (\<lambda>k. t_hid T k \<notin> (\<lambda>r. uuid_at r ''household_id'') ` set rows) t"
    and "bulk_upsert T known fresh' rows t' = Inr (n, t')"
proof -
  have "n = length rows \<and> distinct_ids T t' \<and> (\<forall>r \<in> set rows. carries T r t')
    \<and> filter (\<lambda>k. t_hid T k \<notin> (\<lambda>r. uuid_at r ''household_id'') ` set rows) t'
       = filter (\<lambda>k. t_hid T k \<notin> (\<lambda>r. uuid_at r ''household_id'') ` set rows) t
    \<and> bulk_upsert T known fresh' rows t' = Inr (n, t')"
  proof (cases "rows = []")
    case True
    with assms show ?thesis by (simp add: bulk_upsert_def)
  next
    case False
    with assms(1) obtain own where own: "single_household_id rows = Inr own"
      "\<not> (case own of None \<Rightarrow> False | Some h \<Rightarrow> h \<notin> known)"
      "upsert_rows T own fresh [] rows t = Inr t'" "n = length rows"
      by (auto simp: bulk_upsert_def map_sum_eq_Inr split: sum.splits if_splits)
    note ok = upsert_rows_ok [OF own(3) assms(2,3)]
    from False ok have some: "own \<noteq> None" by (cases rows) auto
    from False ok have hids: "(\<lambda>r. uuid_at r ''household_id'') ` set rows = {own}" by (cases rows) auto
    have "upsert_rows T own fresh' [] rows t' = Inr t'"
      using ok some assms(3) by (intro upsert_rows_again) auto
    then have "bulk_upsert T known fresh' rows t' = Inr (n, t')"
      using False own by (simp add: bulk_upsert_def)
    with ok own(4) hids show ?thesis by simp
  qed
  then show "n = length rows" "distinct_ids T t'" "\<forall>r \<in> set rows. carries T r t'"
    "filter (\<lambda>k. t_hid T k \<notin> (\<lambda>r. uuid_at r ''household_id'') ` set rows) t'
       = filter (\<lambda>k. t_hid T k \<notin> (\<lambda>r. uuid_at r ''household_id'') ` set rows) t"
    "bulk_upsert T known fresh' rows t' = Inr (n, t')"
    by blast+
qed

text \<open>A step of the migration without errors: run again, it finds everything in place.\<close>

lemma migrate_entity_again:
  assumes "migrate_entity T False known fresh mapper raw t = (res, t')" "er_errors res = 0" "distinct_ids T t"
    and "\<And>r m. mapper r = Inr m \<Longrightarrow> identified m"
  shows "migrate_entity T False known fresh' mapper raw t' = (res, t')"
proof -
  let ?rows = "List.map_filter (\<lambda>r. case mapper r of Inl e \<Rightarrow> None | Inr m \<Rightarrow> Some m) raw"
  have ids: "list_all identified ?rows"
  proof -
    have "(case mapper r of Inl e \<Rightarrow> None | Inr m \<Rightarrow> Some m) = Some m \<longleftrightarrow> mapper r = Inr m" for r m
      by (cases "mapper r") auto
    then show ?thesis using assms(4) by (auto simp: list_all_iff set_map_filter)
  qed
  from assms(1,2) obtain n where n: "bulk_upsert T known fresh ?rows t = Inr (n, t')"
    "res = \<lparr>er_mapped = length ?rows, er_upserted = n, er_errors = length raw - length ?rows\<rparr>"
    by (auto simp: migrate_entity_def Let_def split: sum.splits)
  from bulk_upsert_ok(5) [OF n(1) assms(3) ids, of fresh'] n(2) show ?thesis
    by (simp add: migrate_entity_def Let_def)
qed

lemma optional_step_again:
  assumes "optional_step on name (migrate_entity T False known fresh mapper raw) t = (res, t')"
    and "list_all (\<lambda>(n, r). er_errors r = 0) res" "distinct_ids T t"
    and "\<And>r m. mapper r = Inr m \<Longrightarrow> identified m"
  shows "optional_step on name (migrate_entity T False known fresh' mapper raw) t' = (res, t')"
proof (cases on)
  case True
  with assms(1) obtain r where r: "migrate_entity T False known fresh mapper raw t = (r, t')" "res = [(name, r)]"
    by (auto simp: optional_step_def split: prod.splits)
  with assms(2) have "er_errors r = 0" by simp
  from migrate_entity_again [OF r(1) this assms(3,4)] True r(2) show ?thesis
    by (simp add: optional_step_def)
qed (use assms(1) in \<open>simp add: optional_step_def\<close>)

end

interpretation catalog_t: sheets_table catalog_table
  by unfold_locales (auto simp: catalog_table_def catalog_set_def split: option.splits)

interpretation inventory_t: sheets_table inventory_table
  by unfold_locales (auto simp: inventory_table_def inventory_set_def)

interpretation hardware_t: sheets_table hardware_table
  by unfold_locales (auto simp: hardware_table_def hardware_set_def split: option.splits)

interpretation maintenance_t: sheets_table maintenance_table
  by unfold_locales (auto simp: maintenance_table_def maintenance_set_def split: option.splits)

lemma fit_brew_row_fields:
  assumes "fit_brew_row C k = Inr k'"
  shows "\<exists>d y g t. k' = k\<lparr>b_dose_g := d, b_yield_g := y, b_grind_setting := g, b_time_sec := t\<rparr>"
proof -
  from assms obtain d y g t q where
    "k' = k\<lparr>b_dose_g := d, b_yield_g := y, b_grind_setting := g, b_time_sec := t, b_rating := q\<rparr>" "fit_int 16 (b_rating k) = Inr q"
    by (auto simp: fit_brew_row_def split: sum.splits)
  moreover from this(2) have "q = b_rating k" by (auto simp: fit_int_def split: option.splits if_splits)
  ultimately show ?thesis by auto
qed

lemma brew_columns_again:
  assumes "fit_brew_row C (brew_columns r i k) = Inr k'"
  shows "brew_columns r i k' = brew_columns r i k" "b_sheets_id k' = text_at r ''sheets_id''"
    "b_household_id k' = uuid_at r ''household_id''"
  using fit_brew_row_fields [OF assms] by (auto simp: brew_columns_def)

interpretation brew_t: sheets_table "brew_table C" for C
  by unfold_locales
    (auto simp: brew_table_def brew_set_def brew_columns_again split: option.splits sum.splits)

section \<open>The migration run again\<close>

definition distinct_tables :: "conversions \<Rightarrow> database \<Rightarrow> bool" where
  "distinct_tables C d =
     (distinct_ids catalog_table (catalog d) \<and> distinct_ids inventory_table (inventory_bags d)
      \<and> distinct_ids hardware_table (hardware d) \<and> distinct_ids maintenance_table (maintenance_log d)
      \<and> distinct_ids (brew_table C) (brew_log d))"

text \<open>What every mapper sets.\<close>

definition mapped_for :: "uuid \<Rightarrow> sql_row \<Rightarrow> bool" where
  "mapped_for hid m = (identified m \<and> uuid_at m ''household_id'' = Some hid)"

lemma mappers_identify:
  "from_sheets_dict_catalog hid row = Inr m \<Longrightarrow> mapped_for hid m"
  "from_sheets_dict_inventory C cat_uuids hid row = Inr m \<Longrightarrow> mapped_for hid m"
  "from_sheets_dict_hardware hid row = Inr m \<Longrightarrow> mapped_for hid m"
  "from_sheets_dict_maintenance C hw_uuids hid row = Inr m \<Longrightarrow> mapped_for hid m"
  "from_sheets_dict_brew_log C hid row = Inr m \<Longrightarrow> mapped_for hid m"
  by (auto simp: mapped_for_def from_sheets_dict_catalog_def from_sheets_dict_inventory_def from_sheets_dict_hardware_def
      from_sheets_dict_maintenance_def from_sheets_dict_brew_log_def identified_def text_at_def uuid_at_def elim!: let_resE)

lemma mapped_forD: "mapped_for hid m \<Longrightarrow> identified m"
  by (simp add: mapped_for_def)

text \<open>The five steps of a migration that is no dry run.\<close>

definition table_steps ::
  "migration_env \<Rightarrow> string list \<Rightarrow> uuid \<Rightarrow> database \<Rightarrow> (string \<times> entity_result) list list \<Rightarrow> database \<Rightarrow> bool" where
  "table_steps M entities hid d rs d' \<longleftrightarrow>
     (let known = h_id ` set (households d); C = me_map M; fresh = me_fresh M
      in \<exists>rc ri rh rm rb. rs = [rc, ri, rh, rm, rb]
         \<and> optional_step (wanted entities ''Catalog'') ''Catalog''
             (migrate_entity catalog_table False known fresh (from_sheets_dict_catalog hid) (me_tabs M ''Catalog'')) (catalog d) = (rc, catalog d')
         \<and> optional_step (wanted entities ''Inventory'') ''Inventory''
             (migrate_entity inventory_table False known fresh
               (from_sheets_dict_inventory C (uuid_lookup catalog_table c_id (Some hid) (catalog d')) hid) (me_tabs M ''Inventory''))
             (inventory_bags d) = (ri, inventory_bags d')
         \<and> optional_step (wanted entities ''Hardware'') ''Hardware''
             (migrate_entity hardware_table False known fresh (from_sheets_dict_hardware hid) (me_tabs M ''Hardware'')) (hardware d) = (rh, hardware d')
         \<and> optional_step (wanted entities ''Maintenance'') ''Maintenance''
             (migrate_entity maintenance_table False known fresh
               (from_sheets_dict_maintenance C (uuid_lookup hardware_table w_id (Some hid) (hardware d')) hid) (me_tabs M ''Maintenance''))
             (maintenance_log d) = (rm, maintenance_log d')
         \<and> optional_step (wanted entities ''Brew_Log'') ''Brew_Log''
             (migrate_entity (brew_table (me_db M)) False known fresh (from_sheets_dict_brew_log C hid) (me_tabs M ''Brew_Log''))
             (brew_log d) = (rb, brew_log d'))
     \<and> d' = d\<lparr>catalog := catalog d', inventory_bags := inventory_bags d', hardware := hardware d',
             maintenance_log := maintenance_log d', brew_log := brew_log d'\<rparr>"

lemma migrate_tables_steps:
  assumes "migrate_tables M False entities hid d = (results, d')"
  shows "\<exists>rs. table_steps M entities hid d rs d' \<and> results = concat rs"
proof -
  obtain rc cat where c: "optional_step (wanted entities ''Catalog'') ''Catalog''
    (migrate_entity catalog_table False (h_id ` set (households d)) (me_fresh M) (from_sheets_dict_catalog hid)
      (me_tabs M ''Catalog'')) (catalog d) = (rc, cat)" by fastforce
  obtain ri inv where i: "optional_step (wanted entities ''Inventory'') ''Inventory''
    (migrate_entity inventory_table False (h_id ` set (households d)) (me_fresh M)
      (from_sheets_dict_inventory (me_map M) (uuid_lookup catalog_table c_id (Some hid) cat) hid)
      (me_tabs M ''Inventory'')) (inventory_bags d) = (ri, inv)" by fastforce
  obtain rh hw where h: "optional_step (wanted entities ''Hardware'') ''Hardware''
    (migrate_entity hardware_table False (h_id ` set (households d)) (me_fresh M) (from_sheets_dict_hardware hid)
      (me_tabs M ''Hardware'')) (hardware d) = (rh, hw)" by fastforce
  obtain rm mnt where m: "optional_step (wanted entities ''Maintenance'') ''Maintenance''
    (migrate_entity maintenance_table False (h_id ` set (households d)) (me_fresh M)
      (from_sheets_dict_maintenance (me_map M) (uuid_lookup hardware_table w_id (Some hid) hw) hid)
      (me_tabs M ''Maintenance'')) (maintenance_log d) = (rm, mnt)" by fastforce
  obtain rb shots where b: "optional_step (wanted entities ''Brew_Log'') ''Brew_Log''
    (migrate_entity (brew_table (me_db M)) False (h_id ` set (households d)) (me_fresh M)
      (from_sheets_dict_brew_log (me_map M) hid) (me_tabs M ''Brew_Log'')) (brew_log d) = (rb, shots)" by fastforce
  have "results = concat [rc, ri, rh, rm, rb]"
    "d' = d\<lparr>catalog := cat, inventory_bags := inv, hardware := hw, maintenance_log := mnt, brew_log := shots\<rparr>"
    using assms c i h m b by (auto simp: migrate_tables_def)
  with c i h m b show ?thesis
    by (intro exI [of _ "[rc, ri, rh, rm, rb]"]) (simp add: table_steps_def)
qed

lemma steps_migrate_tables:
  assumes "table_steps M entities hid d rs d'"
  shows "migrate_tables M False entities hid d = (concat rs, d')"
proof -
  have "d\<lparr>catalog := catalog d', inventory_bags := inventory_bags d', hardware := hardware d',
      maintenance_log := maintenance_log d', brew_log := brew_log d'\<rparr> = d'"
    using assms by (simp add: table_steps_def)
  with assms show ?thesis
    unfolding table_steps_def by (auto simp: migrate_tables_def Let_def)
qed

lemma table_steps_households: "table_steps M entities hid d rs d' \<Longrightarrow>
    households d' = households d \<and> users d' = users d"
proof -
  assume "table_steps M entities hid d rs d'"
  then have "d' = d\<lparr>catalog := catalog d', inventory_bags := inventory_bags d', hardware := hardware d',
      maintenance_log := maintenance_log d', brew_log := brew_log d'\<rparr>" by (simp add: table_steps_def)
  from arg_cong [OF this, of households] arg_cong [OF this, of users] show ?thesis by simp
qed

lemma table_steps_again:
  assumes "table_steps M entities hid d rs d'" "list_all (\<lambda>(n, r). er_errors r = 0) (concat rs)"
    and "distinct_tables (me_db M) d"
  shows "table_steps (M\<lparr>me_fresh := f, me_now := now\<rparr>) entities hid d' rs d'"
proof -
  note same = table_steps_households [OF assms(1), THEN conjunct1]
  show ?thesis
    using assms
    unfolding table_steps_def Let_def same distinct_tables_def
    by (auto intro!: catalog_t.optional_step_again inventory_t.optional_step_again hardware_t.optional_step_again
        maintenance_t.optional_step_again brew_t.optional_step_again mapped_forD dest: mappers_identify)
qed

lemma seeds_found:
  assumes "ensure_system_user uid now d = (Inr su, d1)" "ensure_default_household hid now su d1 = (hh, d2)"
  shows "ensure_system_user uid' now' d2 = (Inr su, d2)" "ensure_default_household hid' now' su d2 = (hh, d2)"
proof -
  have u: "\<exists>u. find (\<lambda>u. u_username u = Some ''__migration_system__'') (users d1) = Some u \<and> u_id u = su"
    using assms(1)
    by (auto simp: ensure_system_user_def create_user_def Let_def find_append
        split: option.splits prod.splits sum.splits if_splits)
  have "users d2 = users d1"
    using assms(2) by (auto simp: ensure_default_household_def split: option.splits)
  with u show "ensure_system_user uid' now' d2 = (Inr su, d2)"
    by (auto simp: ensure_system_user_def)
  show "ensure_default_household hid' now' su d2 = (hh, d2)"
    using assms(2) by (auto simp: ensure_default_household_def find_append split: option.splits)
qed

lemma seeds_tables:
  assumes "ensure_system_user uid now d = (Inr su, d1)" "ensure_default_household hid now su d1 = (hh, d2)"
  shows "catalog d2 = catalog d" "inventory_bags d2 = inventory_bags d" "hardware d2 = hardware d"
    "maintenance_log d2 = maintenance_log d" "brew_log d2 = brew_log d"
  using assms
  by (auto simp: ensure_system_user_def ensure_default_household_def create_user_def Let_def
      split: option.splits prod.splits sum.splits if_splits)

lemma seeds_stay:
  assumes "users d' = users d2" "households d' = households d2"
    and "ensure_system_user uid now d2 = (Inr su, d2)" "ensure_default_household hid now su d2 = (hh, d2)"
    and "\<exists>u. find (\<lambda>u. u_username u = Some ''__migration_system__'') (users d2) = Some u"
    and "\<exists>h. find (\<lambda>h. h_name h = ''default'') (households d2) = Some h"
  shows "ensure_system_user uid now d' = (Inr su, d')" "ensure_default_household hid now su d' = (hh, d')"
  using assms by (auto simp: ensure_system_user_def ensure_default_household_def)

lemma seeds_there:
  assumes "ensure_system_user uid now d = (Inr su, d1)" "ensure_default_household hid now su d1 = (hh, d2)"
  shows "\<exists>u. find (\<lambda>u. u_username u = Some ''__migration_system__'') (users d2) = Some u"
    and "\<exists>h. find (\<lambda>h. h_name h = ''default'') (households d2) = Some h"
  using assms
  by (auto simp: ensure_system_user_def ensure_default_household_def create_user_def Let_def find_append
      split: option.splits prod.splits sum.splits if_splits)

lemma migrate_main_runs:
  assumes "migrate_main M False entities uid hid d = (Inr (ok, results), d')"
  obtains su d1 hh d2 rs where "ensure_system_user uid (me_now M) d = (Inr su, d1)"
    "ensure_default_household hid (me_now M) su d1 = (hh, d2)" "table_steps M entities hh d2 rs d'"
    "results = concat rs" "ok = list_all (\<lambda>(n, r). er_errors r = 0) results"
proof -
  from assms obtain su d1 where s: "ensure_system_user uid (me_now M) d = (Inr su, d1)"
    by (auto simp: migrate_main_def Let_def split: prod.splits sum.splits)
  obtain hh d2 where h: "ensure_default_household hid (me_now M) su d1 = (hh, d2)" by fastforce
  from assms s h have run: "migrate_tables M False entities hh d2 = (results, d')"
    "ok = list_all (\<lambda>(n, r). er_errors r = 0) results"
    by (auto simp: migrate_main_def Let_def split: prod.splits)
  from migrate_tables_steps [OF run(1)] s h run(2) that show thesis by blast
qed

text \<open>
  C16. The migration can be repeated. After a complete run, another one with the same sheets and
  any new identifiers and clock changes nothing: it finds the user and the household it seeded,
  reports the same counts, and leaves every row of every table as it is.
\<close>

theorem migration_repeatable:
  assumes "migrate_main M False entities uid hid d = (Inr (True, results), d')"
    and "distinct_tables (me_db M) d"
  shows "migrate_main (M\<lparr>me_fresh := f, me_now := now\<rparr>) False entities uid' hid' d' = (Inr (True, results), d')"
proof -
  from assms(1) obtain su d1 hh d2 rs where s: "ensure_system_user uid (me_now M) d = (Inr su, d1)"
    and h: "ensure_default_household hid (me_now M) su d1 = (hh, d2)" and steps: "table_steps M entities hh d2 rs d'"
    and results: "results = concat rs" "list_all (\<lambda>(n, r). er_errors r = 0) results"
    by (rule migrate_main_runs) auto
  have "distinct_tables (me_db M) d2"
    using assms(2) by (simp add: distinct_tables_def seeds_tables [OF s h])
  from table_steps_again [OF steps _ this] results
  have again: "table_steps (M\<lparr>me_fresh := f, me_now := now\<rparr>) entities hh d' rs d'" by simp
  note kept = table_steps_households [OF steps]
  note seeds = seeds_stay [OF _ _ seeds_found [OF s h] seeds_there [OF s h], of d']
  show ?thesis
    using seeds kept steps_migrate_tables [OF again] results
    by (simp add: migrate_main_def Let_def)
qed

section \<open>What a complete migration leaves\<close>

lemma map_filter_short: "length (List.map_filter f xs) \<le> length xs"
  by (induction xs) (auto simp: List.map_filter_simps split: option.split intro: le_SucI)

lemma map_filter_full: "length (List.map_filter f xs) = length xs \<Longrightarrow> x \<in> set xs \<Longrightarrow> f x \<noteq> None"
proof (induction xs)
  case (Cons a xs)
  with map_filter_short [of f xs] show ?case
    by (cases "f a") (auto simp: List.map_filter_simps)
qed simp

context sheets_table
begin

lemma migrate_entity_complete:
  assumes "migrate_entity T False known fresh mapper raw t = (res, t')" "er_errors res = 0" "distinct_ids T t"
    and "\<And>r m. mapper r = Inr m \<Longrightarrow> mapped_for hid m"
  shows "(\<forall>r \<in> set raw. \<exists>m. mapper r = Inr m \<and> carries T m t')
    \<and> filter (\<lambda>k. t_hid T k \<noteq> Some hid) t' = filter (\<lambda>k. t_hid T k \<noteq> Some hid) t"
proof -
  let ?f = "\<lambda>r. case mapper r of Inl e \<Rightarrow> None | Inr m \<Rightarrow> Some m"
  let ?rows = "List.map_filter ?f raw"
  have f: "?f r = Some m \<longleftrightarrow> mapper r = Inr m" for r m by (cases "mapper r") auto
  have for_hid: "\<forall>m \<in> set ?rows. mapped_for hid m"
    using assms(4) f by (auto simp: set_map_filter)
  from assms(1,2) obtain n where n: "bulk_upsert T known fresh ?rows t = Inr (n, t')"
    "length raw - length ?rows = 0"
    by (auto simp: migrate_entity_def Let_def split: sum.splits)
  have ids: "list_all identified ?rows" using for_hid by (auto simp: list_all_iff mapped_for_def)
  note ok = bulk_upsert_ok [OF n(1) assms(3) ids]
  have "length ?rows = length raw" using n(2) map_filter_short [of ?f raw] by simp
  from map_filter_full [OF this] have "\<exists>m. mapper r = Inr m \<and> carries T m t'" if r: "r \<in> set raw" for r
  proof -
    from \<open>\<And>x. x \<in> set raw \<Longrightarrow> ?f x \<noteq> None\<close> [OF r] obtain m where m: "mapper r = Inr m"
      by (cases "mapper r") auto
    with r f have "m \<in> set ?rows" by (auto simp: set_map_filter)
    with ok(3) m show ?thesis by blast
  qed
  moreover have "filter (\<lambda>k. t_hid T k \<noteq> Some hid) t' = filter (\<lambda>k. t_hid T k \<noteq> Some hid) t"
  proof (cases "?rows = []")
    case True
    with n(1) show ?thesis by (simp add: bulk_upsert_def)
  next
    case False
    with for_hid have "(\<lambda>r. uuid_at r ''household_id'') ` set ?rows = {Some hid}"
      by (cases ?rows) (auto simp: mapped_for_def)
    with ok(4) show ?thesis by simp
  qed
  ultimately show ?thesis by blast
qed

end

lemma optional_step_on: "optional_step True name step t = (res, t') \<longleftrightarrow> (\<exists>r. step t = (r, t') \<and> res = [(name, r)])"
  by (auto simp: optional_step_def split: prod.splits)

text \<open>
  C15. A complete migration has moved everything. Every row of every tab was accepted, and the
  default household has a row with all its values, where references to catalog entries and
  hardware are the uuids of the rows migrated before; rows of other households are untouched in
  all five tables.
\<close>

theorem migration_complete:
  assumes "migrate_main M False [] uid hid d = (Inr (True, results), d')"
    and "distinct_tables (me_db M) d"
  shows "\<exists>hh. (\<exists>h \<in> set (households d'). h_id h = hh \<and> h_name h = ''default'')
    \<and> (\<forall>r \<in> set (me_tabs M ''Catalog''). \<exists>m. from_sheets_dict_catalog hh r = Inr m \<and> carries catalog_table m (catalog d'))
    \<and> (\<forall>r \<in> set (me_tabs M ''Inventory''). \<exists>m.
          from_sheets_dict_inventory (me_map M) (uuid_lookup catalog_table c_id (Some hh) (catalog d')) hh r = Inr m
          \<and> carries inventory_table m (inventory_bags d'))
    \<and> (\<forall>r \<in> set (me_tabs M ''Hardware''). \<exists>m. from_sheets_dict_hardware hh r = Inr m \<and> carries hardware_table m (hardware d'))
    \<and> (\<forall>r \<in> set (me_tabs M ''Maintenance''). \<exists>m.
          from_sheets_dict_maintenance (me_map M) (uuid_lookup hardware_table w_id (Some hh) (hardware d')) hh r = Inr m
          \<and> carries maintenance_table m (maintenance_log d'))
    \<and> (\<forall>r \<in> set (me_tabs M ''Brew_Log''). \<exists>m. from_sheets_dict_brew_log (me_map M) hh r = Inr m
          \<and> carries (brew_table (me_db M)) m (brew_log d'))
    \<and> filter (\<lambda>k. c_household_id k \<noteq> Some hh) (catalog d') = filter (\<lambda>k. c_household_id k \<noteq> Some hh) (catalog d)
    \<and> filter (\<lambda>k. v_household_id k \<noteq> Some hh) (inventory_bags d') = filter (\<lambda>k. v_household_id k \<noteq> Some hh) (inventory_bags d)
    \<and> filter (\<lambda>k. w_household_id k \<noteq> Some hh) (hardware d') = filter (\<lambda>k. w_household_id k \<noteq> Some hh) (hardware d)
    \<and> filter (\<lambda>k. n_household_id k \<noteq> Some hh) (maintenance_log d') = filter (\<lambda>k. n_household_id k \<noteq> Some hh) (maintenance_log d)
    \<and> filter (\<lambda>k. b_household_id k \<noteq> Some hh) (brew_log d') = filter (\<lambda>k. b_household_id k \<noteq> Some hh) (brew_log d)"
proof -
  from assms(1) obtain su d1 hh d2 rs where s: "ensure_system_user uid (me_now M) d = (Inr su, d1)"
    and h: "ensure_default_household hid (me_now M) su d1 = (hh, d2)" and steps: "table_steps M [] hh d2 rs d'"
    and results: "results = concat rs" "list_all (\<lambda>(n, r). er_errors r = 0) results"
    by (rule migrate_main_runs) auto
  let ?known = "h_id ` set (households d2)" and ?C = "me_map M"
  have distinct: "distinct_tables (me_db M) d2"
    using assms(2) by (simp add: distinct_tables_def seeds_tables [OF s h])
  have default: "\<exists>h \<in> set (households d'). h_id h = hh \<and> h_name h = ''default''"
    using h table_steps_households [OF steps]
    by (auto simp: ensure_default_household_def split: option.splits dest: find_Some_in)
  from steps results obtain rc ri rh rm rb where
    c: "migrate_entity catalog_table False ?known (me_fresh M) (from_sheets_dict_catalog hh) (me_tabs M ''Catalog'') (catalog d2) = (rc, catalog d')" "er_errors rc = 0"
    and i: "migrate_entity inventory_table False ?known (me_fresh M)
      (from_sheets_dict_inventory ?C (uuid_lookup catalog_table c_id (Some hh) (catalog d')) hh) (me_tabs M ''Inventory'') (inventory_bags d2) = (ri, inventory_bags d')" "er_errors ri = 0"
    and w: "migrate_entity hardware_table False ?known (me_fresh M) (from_sheets_dict_hardware hh) (me_tabs M ''Hardware'') (hardware d2) = (rh, hardware d')" "er_errors rh = 0"
    and m: "migrate_entity maintenance_table False ?known (me_fresh M)
      (from_sheets_dict_maintenance ?C (uuid_lookup hardware_table w_id (Some hh) (hardware d')) hh) (me_tabs M ''Maintenance'') (maintenance_log d2) = (rm, maintenance_log d')" "er_errors rm = 0"
    and b: "migrate_entity (brew_table (me_db M)) False ?known (me_fresh M) (from_sheets_dict_brew_log ?C hh) (me_tabs M ''Brew_Log'') (brew_log d2) = (rb, brew_log d')" "er_errors rb = 0"
    unfolding table_steps_def Let_def wanted_def by (auto simp: optional_step_on)
  note D = distinct [unfolded distinct_tables_def]
  note tabs = seeds_tables [OF s h]
  show ?thesis
    using default catalog_t.migrate_entity_complete [OF c _ mappers_identify(1)] inventory_t.migrate_entity_complete [OF i _ mappers_identify(2)]
      hardware_t.migrate_entity_complete [OF w _ mappers_identify(3)] maintenance_t.migrate_entity_complete [OF m _ mappers_identify(4)]
      brew_t.migrate_entity_complete [OF b _ mappers_identify(5)] D
    by (intro exI [of _ hh]) (simp add: tabs catalog_table_def inventory_table_def hardware_table_def maintenance_table_def brew_table_def)
qed

definition no_conversions :: conversions where
  "no_conversions = \<lparr>cv_float = Some, cv_int = (\<lambda>t. None), cv_trunc = (\<lambda>t. Inr 0), cv_numeric = Some,
     cv_datetime = (\<lambda>t. None), cv_date = (\<lambda>i. []), cv_uuid = (\<lambda>t. None), cv_iso_date = Some,
     cv_ordinal = (\<lambda>t. None)\<rparr>"

definition demo_migration :: "conversions \<Rightarrow> migration_env" where
  "demo_migration C = \<lparr>me_map = demo_mapping, me_db = C, me_now = 5, me_fresh = (\<lambda>r. 900),
     me_tabs = (\<lambda>tab. if tab = ''Hardware''
       then [[''Hardware_ID'' \<mapsto> PStr ''G01'', ''Category'' \<mapsto> PStr ''grinder'', ''Name'' \<mapsto> PStr ''Mill'']] else [])\<rparr>"

lemma demo_migration_complete:
  "\<exists>results d'. migrate_main (demo_migration C) False [] 80 81 demo_db = (Inr (True, results), d')"
proof -
  have row: "from_sheets_dict_hardware 81 [''Hardware_ID'' \<mapsto> PStr ''G01'', ''Category'' \<mapsto> PStr ''grinder'', ''Name'' \<mapsto> PStr ''Mill'']
      = Inr [(''sheets_id'', VText ''G01''), (''household_id'', VUuid 81), (''category'', VText ''Grinder''),
             (''name'', VText ''Mill''), (''product_url'', VNull), (''local_image_path'', VNull)]"
    by code_simp
  show ?thesis
    by (simp add: migrate_main_def Let_def ensure_system_user_def demo_migration_def demo_db_def demo_user_def
        create_user_def ensure_default_household_def demo_household_def migrate_tables_def wanted_def optional_step_def
        migrate_entity_def bulk_upsert_def row List.map_filter_simps single_household_id_def uuid_at_def text_at_def
        upsert_row_def hardware_table_def hardware_set_def)
qed

lemma demo_tables_distinct: "distinct_tables C demo_db"
  by (simp add: distinct_tables_def distinct_ids_def demo_db_def)

theorem migration_repeatable_witness:
  "\<exists>results d'. migrate_main (demo_migration no_conversions\<lparr>me_fresh := (\<lambda>r. 901), me_now := 6\<rparr>) False [] 90 91 d'
     = (Inr (True, results), d')"
proof -
  obtain results d' where run: "migrate_main (demo_migration no_conversions) False [] 80 81 demo_db = (Inr (True, results), d')"
    using demo_migration_complete by blast
  from migration_repeatable [OF run demo_tables_distinct] show ?thesis by blast
qed

theorem migration_complete_witness:
  "\<exists>results d' hh m. migrate_main (demo_migration no_conversions) False [] 80 81 demo_db = (Inr (True, results), d')
     \<and> from_sheets_dict_hardware hh [''Hardware_ID'' \<mapsto> PStr ''G01'', ''Category'' \<mapsto> PStr ''grinder'', ''Name'' \<mapsto> PStr ''Mill''] = Inr m
     \<and> carries hardware_table m (hardware d')"
proof -
  obtain results d' where run: "migrate_main (demo_migration no_conversions) False [] 80 81 demo_db = (Inr (True, results), d')"
    using demo_migration_complete by blast
  from migration_complete [OF run demo_tables_distinct] obtain hh
    where "\<forall>r \<in> set (me_tabs (demo_migration no_conversions) ''Hardware''). \<exists>m. from_sheets_dict_hardware hh r = Inr m \<and> carries hardware_table m (hardware d')"
    by blast
  with run show ?thesis by (auto simp: demo_migration_def)
qed

end
