(* ===== verification/Validation.thy ===== *)
theory Validation
  imports Migration
begin

text \<open>
  The validation of a migration (\<^verbatim>\<open>scripts/validate_migration.py\<close>): per tab, the mapped rows
  against the rows of the table by number and checksum. The connection has no household setting,
  so it sees what the row-level security shows then.
\<close>

section \<open>Rows read back\<close>

definition text_val :: "string option \<Rightarrow> sqlval" where
  "text_val v = (case v of None \<Rightarrow> VNull | Some t \<Rightarrow> VText t)"

definition uuid_val :: "uuid option \<Rightarrow> sqlval" where
  "uuid_val v = (case v of None \<Rightarrow> VNull | Some u \<Rightarrow> VUuid u)"

definition decimal_val :: "string option \<Rightarrow> sqlval" where
  "decimal_val v = (case v of None \<Rightarrow> VNull | Some t \<Rightarrow> VDecimal t)"

definition catalog_read :: "catalog_row \<Rightarrow> sql_row" where
  "catalog_read k = [(''id'', VUuid (c_id k)), (''household_id'', uuid_val (c_household_id k)),
     (''roaster'', VText (c_roaster k)), (''bean_name'', VText (c_bean_name k)), (''origin'', text_val (c_origin k)),
     (''process'', text_val (c_process k)), (''roast_level'', text_val (c_roast_level k)), (''notes'', text_val (c_notes k)),
     (''sheets_id'', text_val (c_sheets_id k)), (''product_url'', text_val (c_product_url k)),
     (''local_image_path'', text_val (c_local_image_path k))]"

definition inventory_read :: "inventory_row \<Rightarrow> sql_row" where
  "inventory_read k = [(''id'', VUuid (v_id k)), (''household_id'', uuid_val (v_household_id k)),
     (''catalog_id'', uuid_val (v_catalog_id k)),
     (''roast_date'', case v_roast_date k of None \<Rightarrow> VNull | Some t \<Rightarrow> VDate t), (''notes'', text_val (v_notes k)),
     (''sheets_id'', text_val (v_sheets_id k)), (''beans'', text_val (v_beans k)),
     (''display_name'', text_val (v_display_name k)), (''roast_level'', text_val (v_roast_level k)),
     (''status'', text_val (v_status k)), (''storage_method'', text_val (v_storage_method k))]"

definition hardware_read :: "hardware_row \<Rightarrow> sql_row" where
  "hardware_read k = [(''id'', VUuid (w_id k)), (''household_id'', uuid_val (w_household_id k)), (''name'', VText (w_name k)),
     (''category'', VText (w_category k)), (''notes'', text_val (w_notes k)), (''sheets_id'', text_val (w_sheets_id k)),
     (''product_url'', text_val (w_product_url k)), (''local_image_path'', text_val (w_local_image_path k))]"

definition maintenance_read :: "maintenance_row \<Rightarrow> sql_row" where
  "maintenance_read k = [(''id'', VUuid (n_id k)), (''household_id'', uuid_val (n_household_id k)),
     (''hardware_id'', uuid_val (n_hardware_id k)), (''action'', VText (n_action k)),
     (''performed_at'', VDatetime (n_performed_at k)), (''notes'', text_val (n_notes k)),
     (''sheets_id'', text_val (n_sheets_id k))]"

definition brew_read :: "brew_log_row \<Rightarrow> sql_row" where
  "brew_read k = [(''id'', VUuid (b_id k)), (''household_id'', uuid_val (b_household_id k)),
     (''catalog_id'', uuid_val (b_catalog_id k)), (''brew_method'', text_val (b_brew_method k)),
     (''dose_g'', decimal_val (b_dose_g k)), (''yield_g'', decimal_val (b_yield_g k)),
     (''time_sec'', case b_time_sec k of None \<Rightarrow> VNull | Some i \<Rightarrow> VInt i),
     (''rating'', case b_rating k of None \<Rightarrow> VNull | Some i \<Rightarrow> VInt i), (''notes'', text_val (b_notes k)),
     (''brewed_at'', VDatetime (b_brewed_at k)), (''sheets_id'', text_val (b_sheets_id k)),
     (''bag_id'', text_val (b_bag_id k)), (''machine_id'', text_val (b_machine_id k)),
     (''grinder_id'', text_val (b_grinder_id k)), (''basket_id'', text_val (b_basket_id k)),
     (''grind_setting'', decimal_val (b_grind_setting k)), (''shot_eligibility'', text_val (b_shot_eligibility k)),
     (''taste_summary'', text_val (b_taste_summary k)), (''ai_feedback'', text_val (b_ai_feedback k)),
     (''storage_method'', text_val (b_storage_method k))]"

section \<open>One tab\<close>

text \<open>The mapped rows by identifier, the number of rows that do not map, and of duplicates.\<close>

definition scan_row ::
  "(dict \<Rightarrow> sql_row res) \<Rightarrow> (string \<times> sql_row) list \<times> nat \<times> nat \<Rightarrow> dict \<Rightarrow> (string \<times> sql_row) list \<times> nat \<times> nat" where
  "scan_row mapper acc r =
     (case acc of (found, errors, duplicates) \<Rightarrow>
       (case mapper r of
          Inl e \<Rightarrow> (found, errors + 1, duplicates)
        | Inr m \<Rightarrow>
            (case text_at m ''sheets_id'' of
               None \<Rightarrow> (found, errors, duplicates)
             | Some sid \<Rightarrow> if sid \<in> fst ` set found then (found, errors, duplicates + 1)
                           else (found @ [(sid, m)], errors, duplicates))))"

definition scan_rows :: "(dict \<Rightarrow> sql_row res) \<Rightarrow> dict list \<Rightarrow> (string \<times> sql_row) list \<times> nat \<times> nat" where
  "scan_rows mapper raw = foldl (scan_row mapper) ([], 0, 0) raw"

definition pg_rows_by_id :: "('r \<Rightarrow> string option) \<Rightarrow> 'r list \<Rightarrow> (string \<times> 'r) list" where
  "pg_rows_by_id sid rows = List.map_filter (\<lambda>k. map_option (\<lambda>t. (t, k)) (sid k)) rows"

text \<open>Of the row in Postgres only the columns that the mapper sets.\<close>

definition managed :: "sql_row \<Rightarrow> sql_row \<Rightarrow> sql_row" where
  "managed m q = filter (\<lambda>(k, v). k \<in> fst ` set m \<and> k \<notin> set checksum_exclude) q"

definition row_verified ::
  "(string \<Rightarrow> string) \<Rightarrow> mapping_conversions \<Rightarrow> ('r \<Rightarrow> sql_row) \<Rightarrow> (string \<times> 'r) list \<Rightarrow> string \<times> sql_row \<Rightarrow> bool" where
  "row_verified sha256hex C read pg entry =
     (case map_of (rev pg) (fst entry) of
        None \<Rightarrow> False
      | Some k \<Rightarrow> row_checksum sha256hex C (snd entry) = row_checksum sha256hex C (managed (snd entry) (read k)))"

definition validate_entity ::
  "(string \<Rightarrow> string) \<Rightarrow> mapping_conversions \<Rightarrow> ('r \<Rightarrow> string option) \<Rightarrow> ('r \<Rightarrow> sql_row) \<Rightarrow> (dict \<Rightarrow> sql_row res)
     \<Rightarrow> dict list \<Rightarrow> 'r list \<Rightarrow> bool" where
  "validate_entity sha256hex C sid read mapper raw rows =
     (case scan_rows mapper raw of (found, errors, duplicates) \<Rightarrow>
        (let pg = pg_rows_by_id sid rows;
             count_match = (length found = card (fst ` set pg));
             checksum_errors = length (filter (\<lambda>e. \<not> row_verified sha256hex C read pg e) found)
         in count_match \<and> checksum_errors = 0 \<and> errors = 0 \<and> duplicates = 0))"

section \<open>The script\<close>

definition id_lookup :: "('r \<Rightarrow> string option) \<Rightarrow> ('r \<Rightarrow> uuid) \<Rightarrow> 'r list \<Rightarrow> string \<Rightarrow> uuid option" where
  "id_lookup sid key rows t = map_option key (map_of (rev (pg_rows_by_id sid rows)) t)"

definition validate_main :: "(string \<Rightarrow> string) \<Rightarrow> mapping_conversions \<Rightarrow> (string \<Rightarrow> dict list) \<Rightarrow> database \<Rightarrow> bool" where
  "validate_main sha256hex C tabs d =
     (let s = open_session d;
          cat_uuids = id_lookup c_sheets_id c_id (visible_catalog s);
          hw_uuids = id_lookup w_sheets_id w_id (visible_hardware s)
      in validate_entity sha256hex C c_sheets_id catalog_read (from_sheets_dict_catalog 0) (tabs ''Catalog'') (visible_catalog s)
         \<and> validate_entity sha256hex C v_sheets_id inventory_read (from_sheets_dict_inventory C cat_uuids 0) (tabs ''Inventory'') (visible_inventory s)
         \<and> validate_entity sha256hex C w_sheets_id hardware_read (from_sheets_dict_hardware 0) (tabs ''Hardware'') (visible_hardware s)
         \<and> validate_entity sha256hex C n_sheets_id maintenance_read (from_sheets_dict_maintenance C hw_uuids 0) (tabs ''Maintenance'') (visible_maintenance s)
         \<and> validate_entity sha256hex C b_sheets_id brew_read (from_sheets_dict_brew_log C 0) (tabs ''Brew_Log'') (visible_brew_log s))"

section \<open>Properties\<close>

text \<open>A scan without errors and duplicates has found every row under its own identifier.\<close>

lemma scan_rows_clean:
  assumes "\<And>r m. mapper r = Inr m \<Longrightarrow> identified m" "scan_rows mapper raw = (found, 0, 0)"
  shows "length found = length raw \<and> distinct (map fst found)
    \<and> (\<forall>r \<in> set raw. \<exists>m sid. mapper r = Inr m \<and> text_at m ''sheets_id'' = Some sid \<and> (sid, m) \<in> set found)"
  using assms(2) unfolding scan_rows_def
proof (induction raw arbitrary: found rule: rev_induct)
  case (snoc r raw)
  obtain found0 errors duplicates where before: "foldl (scan_row mapper) ([], 0, 0) raw = (found0, errors, duplicates)"
    by (metis prod_cases3)
  with snoc.prems have step: "scan_row mapper (found0, errors, duplicates) r = (found, 0, 0)" by simp
  then obtain m where m: "mapper r = Inr m" by (auto simp: scan_row_def split: sum.splits)
  with assms(1) obtain sid where sid: "text_at m ''sheets_id'' = Some sid" by (auto simp: identified_def)
  with step m have f: "sid \<notin> fst ` set found0" "found = found0 @ [(sid, m)]" "errors = 0" "duplicates = 0"
    by (auto simp: scan_row_def split: if_splits)
  have "length found0 = length raw \<and> distinct (map fst found0)
    \<and> (\<forall>r \<in> set raw. \<exists>m sid. mapper r = Inr m \<and> text_at m ''sheets_id'' = Some sid \<and> (sid, m) \<in> set found0)"
    using snoc.IH before f(3,4) by simp
  with f m sid show ?case by auto
qed simp

lemma scan_found:
  assumes "scan_rows mapper raw = (found, errors, duplicates)" "(t, m) \<in> set found"
  shows "text_at m ''sheets_id'' = Some t \<and> (\<exists>r \<in> set raw. mapper r = Inr m)"
  using assms unfolding scan_rows_def
proof (induction raw arbitrary: found errors duplicates rule: rev_induct)
  case (snoc r raw)
  obtain found0 errors0 duplicates0 where before: "foldl (scan_row mapper) ([], 0, 0) raw = (found0, errors0, duplicates0)"
    by (metis prod_cases3)
  with snoc.prems have "scan_row mapper (found0, errors0, duplicates0) r = (found, errors, duplicates)" by simp
  then have "(t, m) \<in> set found0 \<or> (mapper r = Inr m \<and> text_at m ''sheets_id'' = Some t)"
    using snoc.prems(2) by (auto simp: scan_row_def split: sum.splits option.splits if_splits)
  with snoc.IH [OF before] show ?case by auto
qed simp

lemma validate_entity_empty:
  assumes "\<And>r m. mapper r = Inr m \<Longrightarrow> identified m"
  shows "validate_entity sha256hex C sid read mapper raw [] \<longleftrightarrow> raw = []"
proof
  assume "validate_entity sha256hex C sid read mapper raw []"
  then obtain found where scan: "scan_rows mapper raw = (found, 0, 0)" and "found = []"
    by (auto simp: validate_entity_def Let_def pg_rows_by_id_def List.map_filter_simps split: prod.splits)
  with scan_rows_clean [OF assms scan] show "raw = []" by simp
next
  assume "raw = []"
  then show "validate_entity sha256hex C sid read mapper raw []"
    by (simp add: validate_entity_def scan_rows_def pg_rows_by_id_def List.map_filter_simps)
qed

text \<open>
  Under the row-level security the validation says nothing about the migration. It has no
  household setting and sees no row, so it passes exactly when every tab of the spreadsheet is
  empty, whatever the database holds.
\<close>

theorem validation_passes_only_empty:
  "validate_main sha256hex C tabs d
     \<longleftrightarrow> tabs ''Catalog'' = [] \<and> tabs ''Inventory'' = [] \<and> tabs ''Hardware'' = [] \<and> tabs ''Maintenance'' = []
       \<and> tabs ''Brew_Log'' = []"
proof -
  have hidden: "visible_catalog (open_session d) = []" "visible_inventory (open_session d) = []"
    "visible_hardware (open_session d) = []" "visible_maintenance (open_session d) = []"
    "visible_brew_log (open_session d) = []"
    by (simp_all add: visible_catalog_def visible_inventory_def visible_hardware_def visible_maintenance_def visible_brew_log_def)
  note ids = mappers_identify [THEN mapped_forD]
  show ?thesis
    unfolding validate_main_def Let_def hidden
    by (simp add: validate_entity_empty [OF ids(1)] validate_entity_empty [OF ids(2)] validate_entity_empty [OF ids(3)]
        validate_entity_empty [OF ids(4)] validate_entity_empty [OF ids(5)])
qed

text \<open>
  C28. Where the rows can be seen, a validated tab has been moved. Every row of the sheet maps, no
  identifier occurs twice, each has a row in Postgres with the same checksum over the columns that
  the migration manages, and Postgres has no identifiers beyond.
\<close>

theorem validated_tab_moved:
  assumes "validate_entity sha256hex C sid read mapper raw rows"
    and "\<And>r m. mapper r = Inr m \<Longrightarrow> identified m"
  shows "(\<forall>r \<in> set raw. \<exists>m k. mapper r = Inr m \<and> k \<in> set rows \<and> sid k = text_at m ''sheets_id''
      \<and> row_checksum sha256hex C m = row_checksum sha256hex C (managed m (read k)))
    \<and> {t. \<exists>k \<in> set rows. sid k = Some t} = {t. \<exists>r \<in> set raw. \<exists>m. mapper r = Inr m \<and> text_at m ''sheets_id'' = Some t}
    \<and> card {t. \<exists>k \<in> set rows. sid k = Some t} = length raw"
proof -
  let ?pg = "pg_rows_by_id sid rows"
  obtain found where scan: "scan_rows mapper raw = (found, 0, 0)" and count: "length found = card (fst ` set ?pg)"
    and ok: "\<forall>e \<in> set found. row_verified sha256hex C read ?pg e"
    using assms(1) by (auto simp: validate_entity_def Let_def filter_empty_conv split: prod.splits)
  have clean: "length found = length raw \<and> distinct (map fst found)
    \<and> (\<forall>r \<in> set raw. \<exists>m sid. mapper r = Inr m \<and> text_at m ''sheets_id'' = Some sid \<and> (sid, m) \<in> set found)"
    by (rule scan_rows_clean [OF _ scan]) (rule assms(2))
  have pg: "(t, k) \<in> set ?pg \<longleftrightarrow> k \<in> set rows \<and> sid k = Some t" for t k
    by (auto simp: pg_rows_by_id_def set_map_filter)
  then have ids: "fst ` set ?pg = {t. \<exists>k \<in> set rows. sid k = Some t}" by (force simp: image_iff)
  have row: "\<exists>k. k \<in> set rows \<and> sid k = Some t
      \<and> row_checksum sha256hex C m = row_checksum sha256hex C (managed m (read k))" if "(t, m) \<in> set found" for t m
  proof -
    from ok that obtain k where "map_of (rev ?pg) t = Some k"
      "row_checksum sha256hex C m = row_checksum sha256hex C (managed m (read k))"
      by (auto simp: row_verified_def split: option.splits)
    with pg [of t k] map_of_SomeD [of "rev ?pg" t k] show ?thesis by auto
  qed
  have sub: "fst ` set found \<subseteq> fst ` set ?pg"
  proof
    fix t assume "t \<in> fst ` set found"
    then obtain m where "(t, m) \<in> set found" by auto
    from row [OF this] show "t \<in> fst ` set ?pg" unfolding ids by blast
  qed
  have "card (fst ` set found) = length found" using clean distinct_card [of "map fst found"] by simp
  then have all: "fst ` set found = fst ` set ?pg" using sub count by (intro card_subset_eq) auto
  have named: "text_at m ''sheets_id'' = Some t \<and> (\<exists>r \<in> set raw. mapper r = Inr m)" if "(t, m) \<in> set found" for t m
    using that scan_found [OF scan] by blast
  show ?thesis
  proof (intro conjI ballI)
    fix r assume "r \<in> set raw"
    with clean obtain m t where m: "mapper r = Inr m" "text_at m ''sheets_id'' = Some t" "(t, m) \<in> set found" by blast
    with row [OF m(3)] show "\<exists>m k. mapper r = Inr m \<and> k \<in> set rows \<and> sid k = text_at m ''sheets_id''
      \<and> row_checksum sha256hex C m = row_checksum sha256hex C (managed m (read k))" by auto
  next
    show "{t. \<exists>k \<in> set rows. sid k = Some t} = {t. \<exists>r \<in> set raw. \<exists>m. mapper r = Inr m \<and> text_at m ''sheets_id'' = Some t}"
      (is "?L = ?R")
    proof
      show "?L \<subseteq> ?R"
      proof
        fix t assume "t \<in> ?L"
        then have "t \<in> fst ` set found" using ids all by simp
        then obtain m where "(t, m) \<in> set found" by auto
        from named [OF this] show "t \<in> ?R" by blast
      qed
      show "?R \<subseteq> ?L"
      proof
        fix t assume "t \<in> ?R"
        then obtain r m where "r \<in> set raw" "mapper r = Inr m" "text_at m ''sheets_id'' = Some t" by blast
        with clean have "(t, m) \<in> set found" by fastforce
        from row [OF this] show "t \<in> ?L" by blast
      qed
    qed
    show "card {t. \<exists>k \<in> set rows. sid k = Some t} = length raw"
      using count clean ids by simp
  qed
qed

definition demo_mill :: hardware_row where
  "demo_mill = \<lparr>w_id = 31, w_household_id = Some 5, w_name = ''Mill'', w_category = ''Grinder'', w_notes = None,
     w_sheets_id = Some ''G01'', w_product_url = None, w_local_image_path = None\<rparr>"

theorem validated_tab_moved_witness:
  "\<exists>m. from_sheets_dict_hardware 0 [''Hardware_ID'' \<mapsto> PStr ''G01'', ''Category'' \<mapsto> PStr ''grinder'', ''Name'' \<mapsto> PStr ''Mill''] = Inr m
     \<and> w_sheets_id demo_mill = text_at m ''sheets_id''
     \<and> row_checksum id demo_mapping m = row_checksum id demo_mapping (managed m (hardware_read demo_mill))"
proof -
  let ?row = "[''Hardware_ID'' \<mapsto> PStr ''G01'', ''Category'' \<mapsto> PStr ''grinder'', ''Name'' \<mapsto> PStr ''Mill'']"
  have valid: "validate_entity id demo_mapping w_sheets_id hardware_read (from_sheets_dict_hardware 0) [?row] [demo_mill]"
    by code_simp
  have "identified m" if "from_sheets_dict_hardware 0 r = Inr m" for r m
    using mappers_identify(3) [OF that] by (rule mapped_forD)
  from validated_tab_moved [OF valid this] show ?thesis by auto
qed

end
