(* ===== verification/ImportWizard.thy ===== *)
theory ImportWizard
  imports Importer AuthProps Interfaces "HOL-Library.Product_Lexorder" "HOL-Library.List_Lexorder"
begin

text \<open>
  The import wizard (\<^verbatim>\<open>app/routers/import_wizard.py\<close>): the preview of a normalised import, the
  pictures for imported catalog rows, and the sessions that keep the state of the wizard in the
  database for two hours, for their creator only.
\<close>

section \<open>The state\<close>

definition confirmed_maps :: "import_state \<Rightarrow> enum_maps" where
  "confirmed_maps st col = map_option map_of (map_of (st_confirmed st) col)"

section \<open>The preview\<close>

text \<open>\<open>fresh\<close> gives the random part of a new shot identifier for the row with that number.\<close>

fun normalize_shots ::
  "(nat \<Rightarrow> string) \<Rightarrow> nat \<Rightarrow> column_mapping \<Rightarrow> enum_maps \<Rightarrow> row list \<Rightarrow> out_row list imported" where
  "normalize_shots fresh i mapping confirmed [] = Inr []"
| "normalize_shots fresh i mapping confirmed (r # rs) =
     (case normalize_brew_log_row (fresh i) r mapping confirmed of
        Inl e \<Rightarrow> Inl e
      | Inr out \<Rightarrow> map_sum id (\<lambda>outs. out # outs) (normalize_shots fresh (i + 1) mapping confirmed rs))"

fun migrate_calibrations :: "nat \<Rightarrow> row list \<Rightarrow> out_row list imported" where
  "migrate_calibrations n [] = Inr []"
| "migrate_calibrations n (r # rs) =
     (case migrate_grinder_calibration_row r n of
        Inl e \<Rightarrow> Inl e
      | Inr out \<Rightarrow> map_sum id (\<lambda>outs. out # outs) (migrate_calibrations (n + 1) rs))"

definition normalize_section ::
  "(nat \<Rightarrow> string) \<Rightarrow> import_state \<Rightarrow> string \<Rightarrow> row list \<Rightarrow> out_row list imported option" where
  "normalize_section fresh st name rows =
     (let mapping = (case map_of (st_column_mappings st) name of None \<Rightarrow> [] | Some m \<Rightarrow> m);
          confirmed = confirmed_maps st
      in if name = ''Brew_Log'' then Some (normalize_shots fresh 0 mapping confirmed rows)
         else if name = ''Catalog'' then Some (Inr (map (\<lambda>r. normalize_catalog_row r mapping confirmed) rows))
         else if name = ''Hardware'' then Some (Inr (map (\<lambda>r. normalize_hardware_row r mapping) rows))
         else if name = ''Inventory'' then Some (Inr (map (\<lambda>r. normalize_inventory_row r mapping confirmed) rows))
         else None)"

fun preview_sections ::
  "(nat \<Rightarrow> string) \<Rightarrow> import_state \<Rightarrow> sections \<Rightarrow> (string \<times> out_row list) list \<Rightarrow> (string \<times> out_row list) list imported" where
  "preview_sections fresh st [] preview = Inr preview"
| "preview_sections fresh st ((name, rows) # rest) preview =
     (case normalize_section fresh st name rows of
        None \<Rightarrow> preview_sections fresh st rest preview
      | Some (Inl e) \<Rightarrow> Inl e
      | Some (Inr outs) \<Rightarrow> preview_sections fresh st rest (AList.update name outs preview))"

definition compute_dry_run :: "(nat \<Rightarrow> string) \<Rightarrow> import_state \<Rightarrow> (string \<times> out_row list) list imported" where
  "compute_dry_run fresh st =
     (case preview_sections fresh st (st_sections st) [] of
        Inl e \<Rightarrow> Inl e
      | Inr preview \<Rightarrow>
          (case map_of (st_sections st) ''Grinder_Calibration'' of
             Some (r # rs) \<Rightarrow>
               map_sum id (\<lambda>outs. AList.update ''Maintenance'' outs preview) (migrate_calibrations 1 (r # rs))
           | _ \<Rightarrow> Inr preview))"

section \<open>Pictures\<close>

definition has_fresh_local_image_path :: "out_row \<Rightarrow> bool" where
  "has_fresh_local_image_path row =
     (let t = strip (case map_of row ''Local_Image_Path'' of
                       None \<Rightarrow> [] | Some CNone \<Rightarrow> [] | Some (CRest []) \<Rightarrow> [] | Some v \<Rightarrow> py_str v)
      in starts_with ''http://'' t \<or> starts_with ''https://'' t)"

text \<open>The files that a row's picture is written to, by name with their contents.\<close>

definition enrich_one :: "network \<Rightarrow> llm_client \<Rightarrow> string \<Rightarrow> out_row \<Rightarrow> (string \<times> string) list" where
  "enrich_one N llm import_id row =
     (let roaster = cell_text (map_of row ''Roaster''); bean = cell_text (map_of row ''Bean_Name'');
          url = cell_text (map_of row ''Product_URL''); cid = cell_text (map_of row ''Catalog_ID'');
          name = ''coffee_import_'' @ import_id @ ''_img_'' @ cid
      in if has_fresh_local_image_path row \<or> (roaster = [] \<and> bean = []) then []
         else
           (let image_url = source_bean_image N llm roaster bean url None in
            if image_url = [] then []
            else
              (case fetch_image_bytes N image_url of
                 None \<Rightarrow> []
               | Some (content, content_type) \<Rightarrow>
                   if cid = [] then [] else [(name @ ''.bin'', content), (name @ ''.ct'', content_type)])))"

text \<open>The rows come back as they were.\<close>

definition enrich_catalog_images ::
  "network \<Rightarrow> llm_client \<Rightarrow> string \<Rightarrow> out_row list \<Rightarrow> out_row list \<times> (string \<times> string) list" where
  "enrich_catalog_images N llm import_id rows = (rows, concat (map (enrich_one N llm import_id) rows))"

section \<open>Sessions\<close>

text \<open>
  A stored state is JSON: a row's key \<open>None\<close> comes back as the text \<open>null\<close>, and the members of every
  object in the order of the column type, by length and then by bytes. A session begins with an
  empty object, from which no state can be built.
\<close>

definition jsonb_members :: "(string \<times> 'v) list \<Rightarrow> (string \<times> 'v) list" where
  "jsonb_members kvs = sort_key (\<lambda>(k, v). (length k, k)) kvs"

definition json_row :: "row \<Rightarrow> row" where
  "json_row r =
     map (\<lambda>(k, v). (Some k, v)) (jsonb_members
       (foldl (\<lambda>d (k, v). AList.update (case k of None \<Rightarrow> ''null'' | Some t \<Rightarrow> t) v d) [] r))"

definition json_state :: "import_state \<Rightarrow> import_state" where
  "json_state st =
     \<lparr>st_sections = jsonb_members (map (\<lambda>(n, rows). (n, map json_row rows)) (st_sections st)),
      st_column_mappings = jsonb_members (map (\<lambda>(n, m). (n, jsonb_members m)) (st_column_mappings st)),
      st_enum_divergences = jsonb_members (st_enum_divergences st),
      st_confirmed = jsonb_members (map (\<lambda>(n, m). (n, jsonb_members m)) (st_confirmed st)),
      st_preview = jsonb_members (map (\<lambda>(n, rows). (n, map jsonb_members rows)) (st_preview st))\<rparr>"

definition create_import_session ::
  "uuid \<Rightarrow> instant \<Rightarrow> household_member \<Rightarrow> import_session list \<Rightarrow> import_session \<times> import_session list" where
  "create_import_session nid now m t =
     (let k = \<lparr>is_id = nid, is_household_id = m_household_id m, is_created_by = m_user_id m, is_state = None,
               is_expires_at = now + hours 2\<rparr>
      in (k, t @ [k]))"

definition get_import_session ::
  "(string \<Rightarrow> uuid option) \<Rightarrow> instant \<Rightarrow> string option \<Rightarrow> household_member \<Rightarrow> import_session list \<Rightarrow> import_session option" where
  "get_import_session uuid_of db_now cookie m t =
     (if \<not> truthy cookie then None
      else
        (case uuid_of (the cookie) of
           None \<Rightarrow> None
         | Some sid \<Rightarrow>
             find (\<lambda>k. is_id k = sid \<and> is_household_id k = m_household_id m \<and> is_created_by k = m_user_id m
                       \<and> db_now < is_expires_at k) t))"

definition load_state ::
  "(string \<Rightarrow> uuid option) \<Rightarrow> instant \<Rightarrow> string option \<Rightarrow> household_member \<Rightarrow> import_session list \<Rightarrow> import_state option" where
  "load_state uuid_of db_now cookie m t = Option.bind (get_import_session uuid_of db_now cookie m t) is_state"

definition save_state :: "uuid \<Rightarrow> import_state \<Rightarrow> import_session list \<Rightarrow> import_session list" where
  "save_state sid st t = update_where (\<lambda>k. is_id k = sid) (\<lambda>k. k\<lparr>is_state := Some (json_state st)\<rparr>) t"

definition clear_state :: "uuid \<Rightarrow> import_session list \<Rightarrow> import_session list" where
  "clear_state sid t = filter (\<lambda>k. is_id k \<noteq> sid) t"

text \<open>The endpoint, behind the check for administrators; the cookie is sent to \<open>/import\<close> only.\<close>

definition start_import_wizard ::
  "env \<Rightarrow> string option \<Rightarrow> uuid \<Rightarrow> session \<Rightarrow> cookie res \<times> session" where
  "start_import_wizard E token nid s =
     (case require_admin E token s of
        (Inl e, s) \<Rightarrow> (Inl e, s)
      | (Inr m, s) \<Rightarrow>
          if \<not> use_postgres (e_st E) then (Inl (HTTPException 503 ''Database unavailable''), s)
          else if list_ex (\<lambda>k. is_id k = nid) (import_sessions (work s)) then (Inl IntegrityError, s)
          else
            (case create_import_session nid (e_now E) m (import_sessions (work s)) of
               (k, t) \<Rightarrow>
                 (Inr \<lparr>ck_value = x_str_of_uuid (e_ext E) (is_id k), ck_httponly = True, ck_samesite = ''lax'',
                       ck_secure = True, ck_path = ''/import'', ck_max_age = 7200\<rparr>,
                  commit (upd_work (\<lambda>d. d\<lparr>import_sessions := t\<rparr>) s))))"

section \<open>Properties\<close>

datatype wizard_event = StartWizard household_member instant uuid | SaveState uuid import_state | ClearState uuid

fun wizard_step :: "import_session list \<Rightarrow> wizard_event \<Rightarrow> import_session list" where
  "wizard_step t (StartWizard m now nid) = snd (create_import_session nid now m t)"
| "wizard_step t (SaveState sid st) = save_state sid st t"
| "wizard_step t (ClearState sid) = clear_state sid t"

lemma session_origin:
  "k \<in> set (foldl wizard_step [] es) \<Longrightarrow>
     (\<exists>m0 start. StartWizard m0 start (is_id k) \<in> set es \<and> m_user_id m0 = is_created_by k
        \<and> m_household_id m0 = is_household_id k \<and> is_expires_at k = start + hours 2)
     \<and> (\<forall>st. is_state k = Some st \<longrightarrow> (\<exists>st0. SaveState (is_id k) st0 \<in> set es \<and> st = json_state st0))"
proof (induction es arbitrary: k rule: rev_induct)
  case (snoc e es)
  let ?t = "foldl wizard_step [] es"
  show ?case
  proof (cases e)
    case (StartWizard m now nid)
    with snoc.prems have "k \<in> set ?t \<or> k = \<lparr>is_id = nid, is_household_id = m_household_id m,
        is_created_by = m_user_id m, is_state = None, is_expires_at = now + hours 2\<rparr>"
      by (auto simp: create_import_session_def Let_def)
    then show ?thesis
    proof
      assume "k \<in> set ?t"
      from snoc.IH [OF this] show ?thesis by auto
    qed (auto simp: StartWizard)
  next
    case (SaveState sid st)
    with snoc.prems obtain k0 where k0: "k0 \<in> set ?t" "k = (if is_id k0 = sid then k0\<lparr>is_state := Some (json_state st)\<rparr> else k0)"
      by (auto simp: save_state_def set_update_where)
    from snoc.IH [OF k0(1)] k0(2) SaveState show ?thesis by (auto split: if_splits)
  next
    case (ClearState sid)
    with snoc.prems have "k \<in> set ?t" by (simp add: clear_state_def)
    from snoc.IH [OF this] show ?thesis by auto
  qed
qed simp

text \<open>
  C23. The state of an import is private and short-lived. Whatever wizards were started, saved and
  cleared by whomever, a state that a request loads was saved in a session that the same user
  started for the same household less than two hours before.
\<close>

theorem import_state_private:
  assumes "t = foldl wizard_step [] es" "load_state uuid_of now cookie m t = Some st"
  shows "\<exists>m0 start sid st0. StartWizard m0 start sid \<in> set es
    \<and> m_user_id m0 = m_user_id m \<and> m_household_id m0 = m_household_id m
    \<and> now < start + hours 2 \<and> uuid_of (the cookie) = Some sid
    \<and> SaveState sid st0 \<in> set es \<and> st = json_state st0"
proof -
  from assms(2) obtain k where k: "get_import_session uuid_of now cookie m t = Some k" "is_state k = Some st"
    by (auto simp: load_state_def bind_eq_Some_conv)
  from k(1) obtain sid where sid: "uuid_of (the cookie) = Some sid"
    "find (\<lambda>k. is_id k = sid \<and> is_household_id k = m_household_id m \<and> is_created_by k = m_user_id m
       \<and> now < is_expires_at k) t = Some k"
    by (auto simp: get_import_session_def split: if_splits option.splits)
  from find_Some_in [OF sid(2)] have f: "k \<in> set t" "is_id k = sid" "is_household_id k = m_household_id m"
    "is_created_by k = m_user_id m" "now < is_expires_at k" by auto
  from session_origin [OF f(1) [unfolded assms(1)]] f(2-5) k(2) sid(1) show ?thesis by metis
qed

abbreviation demo_import :: import_state where
  "demo_import \<equiv> \<lparr>st_sections = [(''Brew_Log'', [])], st_column_mappings = [], st_enum_divergences = [],
     st_confirmed = [], st_preview = []\<rparr>"

theorem import_state_private_witness:
  "\<exists>m0 start. StartWizard m0 start 7 \<in> {StartWizard (demo_member 1 5 1 Admin) 0 7}
     \<and> m_user_id m0 = 1 \<and> 100 < start + hours 2"
proof -
  let ?es = "[StartWizard (demo_member 1 5 1 Admin) 0 7, SaveState 7 demo_import]"
  have load: "load_state (\<lambda>t. Some 7) 100 (Some ''7'') (demo_member 1 5 1 Admin) (foldl wizard_step [] ?es)
      = Some (json_state demo_import)"
    by (simp add: load_state_def get_import_session_def truthy_def create_import_session_def save_state_def
        demo_member_def time_defs Let_def)
  from import_state_private [OF refl load] show ?thesis by (auto simp: demo_member_def)
qed

text \<open>Lookups do not depend on the order of the members.\<close>

lemma map_of_jsonb: "distinct (map fst kvs) \<Longrightarrow> map_of (jsonb_members kvs) = map_of kvs"
  by (subst map_of_inject_set) (simp_all add: jsonb_members_def distinct_map)

definition plain_row :: "row \<Rightarrow> bool" where
  "plain_row r = (distinct (map fst r) \<and> None \<notin> fst ` set r)"

lemma json_row_members:
  assumes "plain_row r"
  shows "map_of (foldl (\<lambda>d (k, v). AList.update (case k of None \<Rightarrow> ''null'' | Some t \<Rightarrow> t) v d) [] r) l = map_of r (Some l)"
    and "distinct (map fst (foldl (\<lambda>d (k, v). AList.update (case k of None \<Rightarrow> ''null'' | Some t \<Rightarrow> t) v d) [] r))"
proof -
  let ?f = "\<lambda>d (k, v). AList.update (case k of None \<Rightarrow> ''null'' | Some t \<Rightarrow> t) v d"
  have "map_of (foldl ?f [] r) l = map_of r (Some l) \<and> distinct (map fst (foldl ?f [] r))"
    using assms
  proof (induction r rule: rev_induct)
    case (snoc kv r)
    obtain k v where kv: "kv = (Some k, v)" using snoc.prems by (cases kv, cases "fst kv") (auto simp: plain_row_def)
    have plain: "plain_row r" using snoc.prems by (auto simp: plain_row_def)
    have "map_of r (Some k) = None" using snoc.prems kv by (auto simp: plain_row_def map_of_eq_None_iff)
    with snoc.IH [OF plain] show ?case
      by (auto simp: kv update_conv' map_add_Some_iff distinct_update map_of_append split: option.splits)
        (auto simp: map_add_def split: option.splits)
  qed simp
  then show "map_of (foldl ?f [] r) l = map_of r (Some l)" "distinct (map fst (foldl ?f [] r))" by blast+
qed

lemma cell_get_json_row: "plain_row r \<Longrightarrow> cell_get (json_row r) = cell_get r"
proof (rule ext)
  fix l assume p: "plain_row r"
  let ?d = "foldl (\<lambda>d (k, v). AList.update (case k of None \<Rightarrow> ''null'' | Some t \<Rightarrow> t) v d) [] r"
  have "map_of (map (\<lambda>(k, v). (Some k, v)) kvs) (Some l) = map_of kvs l" for kvs :: "(string \<times> cell) list"
    by (induction kvs) auto
  then show "cell_get (json_row r) l = cell_get r l"
    by (simp add: cell_get_def json_row_def map_of_jsonb [OF json_row_members(2) [OF p]] json_row_members(1) [OF p])
qed

text \<open>Dicts with distinct keys, and rows without surplus fields.\<close>

definition plain_import :: "import_state \<Rightarrow> bool" where
  "plain_import st =
     (distinct (map fst (st_sections st)) \<and> (\<forall>(n, rows) \<in> set (st_sections st). \<forall>r \<in> set rows. plain_row r)
      \<and> distinct (map fst (st_column_mappings st)) \<and> (\<forall>(n, m) \<in> set (st_column_mappings st). distinct (map fst m))
      \<and> distinct (map fst (st_enum_divergences st))
      \<and> distinct (map fst (st_confirmed st)) \<and> (\<forall>(n, m) \<in> set (st_confirmed st). distinct (map fst m))
      \<and> distinct (map fst (st_preview st)) \<and> (\<forall>(n, rows) \<in> set (st_preview st). \<forall>r \<in> set rows. distinct (map fst r)))"

definition same_import :: "import_state \<Rightarrow> import_state \<Rightarrow> bool" where
  "same_import st st' =
     (\<forall>n. map_option (map cell_get) (map_of (st_sections st') n) = map_option (map cell_get) (map_of (st_sections st) n)
        \<and> map_option map_of (map_of (st_column_mappings st') n) = map_option map_of (map_of (st_column_mappings st) n)
        \<and> map_of (st_enum_divergences st') n = map_of (st_enum_divergences st) n
        \<and> confirmed_maps st' n = confirmed_maps st n
        \<and> map_option (map map_of) (map_of (st_preview st') n) = map_option (map map_of) (map_of (st_preview st) n))"

lemma map_of_values: "map_of (map (\<lambda>(n, v). (n, f v)) kvs) n = map_option f (map_of kvs n)"
  by (induction kvs) auto

lemma fst_values: "map fst (map (\<lambda>(n, v). (n, f v)) kvs) = map fst kvs"
  by (induction kvs) auto

lemma stored_dict:
  assumes "distinct (map fst kvs)" "\<And>n v. (n, v) \<in> set kvs \<Longrightarrow> g (f v) = g v"
  shows "map_option g (map_of (jsonb_members (map (\<lambda>(n, v). (n, f v)) kvs)) n) = map_option g (map_of kvs n)"
proof -
  have "map_of (jsonb_members (map (\<lambda>(n, v). (n, f v)) kvs)) n = map_option f (map_of kvs n)"
    by (subst map_of_jsonb) (simp_all only: fst_values assms(1) map_of_values)
  with assms(2) show ?thesis by (cases "map_of kvs n") (auto dest: map_of_SomeD)
qed

lemma json_state_same: "plain_import st \<Longrightarrow> same_import st (json_state st)"
  unfolding same_import_def
proof (intro allI conjI, goal_cases)
  case (1 n)
  then show ?case
    unfolding json_state_def import_state.select_convs
    by (intro stored_dict) (auto simp: plain_import_def cell_get_json_row)
next
  case (2 n)
  then show ?case
    unfolding json_state_def import_state.select_convs
    by (intro stored_dict) (auto simp: plain_import_def map_of_jsonb)
next
  case (3 n)
  then show ?case by (simp add: json_state_def plain_import_def map_of_jsonb)
next
  case (4 n)
  then show ?case
    unfolding confirmed_maps_def json_state_def import_state.select_convs
    by (intro stored_dict) (auto simp: plain_import_def map_of_jsonb)
next
  case (5 n)
  then show ?case
    unfolding json_state_def import_state.select_convs
    by (intro stored_dict) (auto simp: plain_import_def map_of_jsonb)
qed

text \<open>
  C24. A saved state comes back. Loading with the cookie of a live session what was saved in it
  gives a state with the same sections, mappings, confirmed values and preview under every name
  and column, for rows without surplus fields; the sessions of others are as before.
\<close>

theorem saved_state_loaded:
  assumes "get_import_session uuid_of now cookie m t = Some k" "plain_import st"
  shows "\<exists>st'. load_state uuid_of now cookie m (save_state (is_id k) st t) = Some st' \<and> same_import st st'
    \<and> filter (\<lambda>j. is_id j \<noteq> is_id k) (save_state (is_id k) st t) = filter (\<lambda>j. is_id j \<noteq> is_id k) t"
proof -
  let ?p = "\<lambda>sid k. is_id k = sid \<and> is_household_id k = m_household_id m \<and> is_created_by k = m_user_id m
    \<and> now < is_expires_at k"
  obtain sid where sid: "truthy cookie" "uuid_of (the cookie) = Some sid" "find (?p sid) t = Some k"
    using assms(1) by (auto simp: get_import_session_def split: if_splits option.splits)
  have k: "is_id k = sid" using find_Some_in [OF sid(3)] by simp
  have "find (?p sid) (save_state sid st t) = Some (k\<lparr>is_state := Some (json_state st)\<rparr>)"
    unfolding save_state_def by (subst find_update_where) (simp_all add: sid(3) k)
  then have "load_state uuid_of now cookie m (save_state (is_id k) st t) = Some (json_state st)"
    using sid k by (simp add: load_state_def get_import_session_def)
  moreover have "filter (\<lambda>j. is_id j \<noteq> is_id k) (save_state (is_id k) st t) = filter (\<lambda>j. is_id j \<noteq> is_id k) t"
    unfolding save_state_def by (induction t) auto
  ultimately show ?thesis using json_state_same [OF assms(2)] by blast
qed

theorem saved_state_loaded_witness:
  "\<exists>st'. load_state (\<lambda>t. Some 7) 100 (Some ''7'') (demo_member 1 5 1 Admin)
       (save_state 7 demo_import (wizard_step [] (StartWizard (demo_member 1 5 1 Admin) 0 7))) = Some st'
     \<and> same_import demo_import st'"
proof -
  let ?t = "wizard_step [] (StartWizard (demo_member 1 5 1 Admin) 0 7)"
  obtain k where k: "get_import_session (\<lambda>t. Some 7) 100 (Some ''7'') (demo_member 1 5 1 Admin) ?t = Some k" "is_id k = 7"
    by (simp add: get_import_session_def truthy_def create_import_session_def demo_member_def time_defs Let_def)
  have "plain_import demo_import" by (simp add: plain_import_def)
  from saved_state_loaded [OF k(1) this] k(2) show ?thesis by auto
qed

section \<open>What the preview holds\<close>

lemma normalize_shots_length: "normalize_shots fresh i mapping confirmed rows = Inr outs \<Longrightarrow> length outs = length rows"
  by (induction rows arbitrary: i outs) (auto simp: map_sum_eq_Inr split: sum.splits)

lemma migrate_calibrations_length: "migrate_calibrations n rows = Inr outs \<Longrightarrow> length outs = length rows"
  by (induction rows arbitrary: n outs) (auto simp: map_sum_eq_Inr split: sum.splits)

lemma normalize_section_length:
  "normalize_section fresh st name rows = Some (Inr outs) \<Longrightarrow> length outs = length rows"
  by (auto simp: normalize_section_def Let_def normalize_shots_length split: if_splits)

lemma preview_sections_at:
  assumes "preview_sections fresh st secs preview = Inr p" "distinct (map fst secs)"
  shows "map_of p name =
    (case map_of secs name of
       None \<Rightarrow> map_of preview name
     | Some rows \<Rightarrow> (case normalize_section fresh st name rows of Some (Inr outs) \<Rightarrow> Some outs | _ \<Rightarrow> map_of preview name))"
  using assms
proof (induction secs arbitrary: preview)
  case (Cons sec secs)
  obtain n rows where sec: "sec = (n, rows)" by (cases sec)
  have n: "map_of secs n = None" using Cons.prems(2) sec by (simp add: map_of_eq_None_iff)
  have rec: "distinct (map fst secs)" using Cons.prems(2) by simp
  show ?case
  proof (cases "normalize_section fresh st n rows")
    case None
    with Cons.IH [OF _ rec, of preview] Cons.prems(1) n show ?thesis by (auto simp: sec split: option.splits)
  next
    case (Some r)
    with Cons.prems(1) obtain outs where outs: "r = Inr outs"
      "preview_sections fresh st secs (AList.update n outs preview) = Inr p"
      by (cases r) (auto simp: sec)
    from Cons.IH [OF outs(2) rec] Some outs(1) n show ?thesis
      by (auto simp: sec update_conv' split: option.splits sum.splits)
  qed
qed simp

lemma preview_section_ok:
  assumes "preview_sections fresh st secs preview = Inr p" "(name, rows) \<in> set secs"
    and "normalize_section fresh st name rows = Some r"
  shows "\<exists>outs. r = Inr outs"
  using assms by (induction fresh st secs preview rule: preview_sections.induct) (auto split: option.splits sum.splits)

lemma update_keys_set: "fst ` set (AList.update k v d) = insert k (fst ` set d)"
  by (induction d) auto

text \<open>
  The preview shows every shot, catalog entry, item and bag of the import, each section under
  its name with as many rows as were read, and the calibrations as maintenance; sections of
  other names, a maintenance section too, are not in it.
\<close>

theorem preview_complete:
  assumes "compute_dry_run fresh st = Inr p" "distinct (map fst (st_sections st))"
  shows "(\<forall>name \<in> {''Brew_Log'', ''Catalog'', ''Hardware'', ''Inventory''}.
       map_option length (map_of p name) = map_option length (map_of (st_sections st) name))
    \<and> (case map_of (st_sections st) ''Grinder_Calibration'' of
         Some (r # rs) \<Rightarrow> map_option length (map_of p ''Maintenance'') = Some (length (r # rs))
       | _ \<Rightarrow> map_of p ''Maintenance'' = None)
    \<and> fst ` set p \<subseteq> {''Brew_Log'', ''Catalog'', ''Hardware'', ''Inventory'', ''Maintenance''}"
proof -
  obtain q where q: "preview_sections fresh st (st_sections st) [] = Inr q"
    "(case map_of (st_sections st) ''Grinder_Calibration'' of
        Some (r # rs) \<Rightarrow> map_sum id (\<lambda>outs. AList.update ''Maintenance'' outs q) (migrate_calibrations 1 (r # rs))
      | _ \<Rightarrow> Inr q) = Inr p"
    using assms(1) by (auto simp: compute_dry_run_def split: sum.splits)
  note at = preview_sections_at [OF q(1) assms(2)]
  have main: "map_option length (map_of q name) = map_option length (map_of (st_sections st) name)"
    if name: "name \<in> {''Brew_Log'', ''Catalog'', ''Hardware'', ''Inventory''}" for name
  proof (cases "map_of (st_sections st) name")
    case None
    then show ?thesis by (simp only: at option.case option.map map_of.simps)
  next
    case (Some rows)
    obtain r where r: "normalize_section fresh st name rows = Some r"
      using name by (auto simp: normalize_section_def Let_def)
    obtain outs where outs: "r = Inr outs"
      using preview_section_ok [OF q(1) map_of_SomeD [OF Some] r] by blast
    have "map_of q name = Some outs" by (simp only: at Some r outs option.case sum.case)
    with Some normalize_section_length [OF r [unfolded outs]] show ?thesis by simp
  qed
  have other: "map_of q name = None" if name: "name \<notin> {''Brew_Log'', ''Catalog'', ''Hardware'', ''Inventory''}" for name
  proof -
    have "normalize_section fresh st name rows = None" for rows
      using name by (simp add: normalize_section_def)
    then show ?thesis by (simp add: at split: option.split del: preview_sections.simps)
  qed
  have dom: "fst ` set q \<subseteq> {''Brew_Log'', ''Catalog'', ''Hardware'', ''Inventory''}"
  proof
    fix name assume "name \<in> fst ` set q"
    then have "map_of q name \<noteq> None" by (simp add: map_of_eq_None_iff)
    then show "name \<in> {''Brew_Log'', ''Catalog'', ''Hardware'', ''Inventory''}" by (rule contrapos_np) (rule other)
  qed
  show ?thesis
  proof (cases "\<exists>r rs. map_of (st_sections st) ''Grinder_Calibration'' = Some (r # rs)")
    case True
    then obtain r rs where cal: "map_of (st_sections st) ''Grinder_Calibration'' = Some (r # rs)" by blast
    with q(2) obtain outs where outs: "migrate_calibrations 1 (r # rs) = Inr outs" "p = AList.update ''Maintenance'' outs q"
      by (auto simp: map_sum_eq_Inr simp del: migrate_calibrations.simps)
    have same: "map_of p name = map_of q name" if "name \<noteq> ''Maintenance''" for name
      using that by (simp add: outs(2) update_conv')
    have "map_of p ''Maintenance'' = Some outs" by (simp add: outs(2) update_conv')
    moreover have "fst ` set p = insert ''Maintenance'' (fst ` set q)" by (simp add: outs(2) update_keys_set)
    ultimately show ?thesis
      using dom by (simp add: same main cal migrate_calibrations_length [OF outs(1)]) auto
  next
    case False
    with q(2) have p: "p = q" by (auto split: option.splits list.splits)
    have "case map_of (st_sections st) ''Grinder_Calibration'' of
        Some (r # rs) \<Rightarrow> map_option length (map_of p ''Maintenance'') = Some (length (r # rs))
      | _ \<Rightarrow> map_of p ''Maintenance'' = None"
      using False other [of "''Maintenance''"] p by (simp split: option.split list.split)
    moreover have "fst ` set p \<subseteq> {''Brew_Log'', ''Catalog'', ''Hardware'', ''Inventory'', ''Maintenance''}"
      unfolding p by (rule subset_trans [OF dom]) simp
    ultimately show ?thesis by (simp add: p main)
  qed
qed

theorem preview_complete_witness:
  "\<exists>st p. st_sections st = [(''Hardware'', [[(Some ''Hardware_ID'', CText ''G1'')]]), (''Grinder_Calibration'', [[(Some ''Grinder_ID'', CText ''G1''), (Some ''Date'', CText ''2026-05-01'')]])]
     \<and> compute_dry_run (\<lambda>_. []) st = Inr p \<and> map_option length (map_of p ''Hardware'') = Some 1
     \<and> map_option length (map_of p ''Maintenance'') = Some 1 \<and> map_of p ''Catalog'' = None"
proof -
  define secs where secs: "secs = [(''Hardware'', [[(Some ''Hardware_ID'', CText ''G1'')]]),
    (''Grinder_Calibration'', [[(Some ''Grinder_ID'', CText ''G1''), (Some ''Date'', CText ''2026-05-01'')]])]"
  define st where st: "st = \<lparr>st_sections = secs, st_column_mappings = [], st_enum_divergences = [], st_confirmed = [], st_preview = []\<rparr>"
  obtain p where p: "compute_dry_run (\<lambda>_. []) st = Inr p"
    by (auto simp: compute_dry_run_def st secs normalize_section_def migrate_grinder_calibration_row_def cell_get_def)
  have "distinct (map fst (st_sections st))" by (simp add: st secs)
  from preview_complete [OF p this] p show ?thesis
    by (intro exI [of _ st] exI [of _ p]) (simp add: st secs)
qed

end
