(* ===== verification/Reconcile.thy ===== *)
theory Reconcile
  imports BrewLogRepo
begin

text \<open>
  The reconciliation of the brew log with its spreadsheet (\<^verbatim>\<open>scripts/brew_log_reconcile.py\<close>):
  the rows of the sheet in a span of days or with given identifiers, those of them that Postgres
  lacks, and their insertion. The rows come from the sheet's client, the days of the span as the
  numbers that \<open>cv_ordinal\<close> gives to ISO dates.
\<close>

section \<open>The rows of the sheet\<close>

text \<open>\<open>str(row.get(k) or "")\<close>\<close>

definition str_or_empty :: "dict \<Rightarrow> string \<Rightarrow> string" where
  "str_or_empty row k = (case py_text (py_or (py_get row k) (PStr [])) of None \<Rightarrow> [] | Some t \<Rightarrow> t)"

definition row_wanted ::
  "conversions \<Rightarrow> int option \<Rightarrow> int option \<Rightarrow> string list \<Rightarrow> dict \<Rightarrow> bool res" where
  "row_wanted C since until shot_ids row =
     (let shot_id = strip (str_or_empty row ''Shot_ID'')
      in if shot_id = [] then Inr False
         else if shot_ids \<noteq> [] \<and> shot_id \<notin> set shot_ids then Inr False
         else if since = None \<and> until = None then Inr True
         else (case cv_ordinal C (take 10 (strip (str_or_empty row ''Date''))) of
                 None \<Rightarrow> Inl ValueError
               | Some day \<Rightarrow>
                   Inr ((case since of None \<Rightarrow> True | Some t \<Rightarrow> t \<le> day)
                      \<and> (case until of None \<Rightarrow> True | Some t \<Rightarrow> day \<le> t))))"

fun filter_rows ::
  "conversions \<Rightarrow> int option \<Rightarrow> int option \<Rightarrow> string list \<Rightarrow> dict list \<Rightarrow> dict list res" where
  "filter_rows C since until shot_ids [] = Inr []"
| "filter_rows C since until shot_ids (row # rows) =
     (case row_wanted C since until shot_ids row of
        Inl e \<Rightarrow> Inl e
      | Inr b \<Rightarrow> map_sum id (\<lambda>kept. if b then row # kept else kept) (filter_rows C since until shot_ids rows))"

definition missing_rows :: "string list \<Rightarrow> dict list \<Rightarrow> dict list" where
  "missing_rows postgres_ids rows = filter (\<lambda>row. str_or_empty row ''Shot_ID'' \<notin> set postgres_ids) rows"

section \<open>The insertion\<close>

text \<open>
  Each row is inserted and committed for itself. A flush that the database refuses leaves the
  session in a state in which every further statement raises, since nothing rolls it back:
  \<open>broken\<close>. A household identifier that does not parse raises before the session is used.
\<close>

fun apply_missing ::
  "conversions \<Rightarrow> (nat \<Rightarrow> uuid) \<Rightarrow> instant \<Rightarrow> bool \<Rightarrow> dict list \<Rightarrow> session \<Rightarrow> nat \<times> session" where
  "apply_missing C fresh db_now broken [] s = (0, s)"
| "apply_missing C fresh db_now broken (row # rows) s =
     (case row_household_id C row of
        Inl e \<Rightarrow> map_prod Suc id (apply_missing C fresh db_now broken rows s)
      | Inr hid \<Rightarrow>
          if broken then map_prod Suc id (apply_missing C fresh db_now broken rows s)
          else (case brew_add C (fresh (length rows)) db_now True row s of
                  (Inl e, s') \<Rightarrow> map_prod Suc id (apply_missing C fresh db_now True rows (rollback s'))
                | (Inr _, s') \<Rightarrow> apply_missing C fresh db_now False rows s'))"

section \<open>The script\<close>

text \<open>The exit code, or the exception that ends the script, and the database it leaves.\<close>

definition get_database_url :: "string option \<Rightarrow> string \<Rightarrow> nat + string" where
  "get_database_url env_url settings_url =
     (let url = (case env_url of Some u \<Rightarrow> if u \<noteq> [] then u else settings_url | None \<Rightarrow> settings_url)
      in if url = [] then Inl 2 else Inr url)"

definition reconcile_session ::
  "conversions \<Rightarrow> (nat \<Rightarrow> uuid) \<Rightarrow> instant \<Rightarrow> bool \<Rightarrow> dict list \<Rightarrow> session \<Rightarrow> nat \<times> session" where
  "reconcile_session C fresh db_now do_apply sheets_rows s =
     (let missing = missing_rows (brew_existing_ids s) sheets_rows
      in if missing = [] then (0, s)
         else if \<not> do_apply then (1, s)
         else (case apply_missing C fresh db_now False missing s of
                 (failures, s') \<Rightarrow> (if failures > 0 then 1 else 0, s')))"

definition reconcile_run ::
  "conversions \<Rightarrow> (nat \<Rightarrow> uuid) \<Rightarrow> instant \<Rightarrow> string option \<Rightarrow> string \<Rightarrow> int option \<Rightarrow> int option
     \<Rightarrow> string list \<Rightarrow> bool \<Rightarrow> dict list \<Rightarrow> database \<Rightarrow> nat res \<times> database" where
  "reconcile_run C fresh db_now env_url settings_url since until shot_ids do_apply tab d =
     (case get_database_url env_url settings_url of
        Inl code \<Rightarrow> (Inr code, d)
      | Inr _ \<Rightarrow>
          (case filter_rows C since until shot_ids tab of
             Inl e \<Rightarrow> (Inl e, d)
           | Inr rows \<Rightarrow>
               (case reconcile_session C fresh db_now do_apply rows (open_session d) of
                  (code, s) \<Rightarrow> (Inr code, close_session s))))"

section \<open>Properties\<close>

lemma filter_rows_spec:
  "filter_rows C since until shot_ids rows = Inr kept \<Longrightarrow>
     kept = filter (\<lambda>r. row_wanted C since until shot_ids r = Inr True) rows
     \<and> (\<forall>r \<in> set rows. \<exists>b. row_wanted C since until shot_ids r = Inr b)"
proof (induction rows arbitrary: kept)
  case (Cons r rows)
  then obtain b rest where "row_wanted C since until shot_ids r = Inr b"
    "filter_rows C since until shot_ids rows = Inr rest" "kept = (if b then r # rest else rest)"
    by (auto simp: map_sum_eq_Inr split: sum.splits)
  with Cons.IH show ?case by auto
qed simp

text \<open>Without a household in the session's settings the policy refuses every insert.\<close>

lemma add_refused:
  assumes "guc s = None"
  shows "\<exists>e. brew_add C bid db_now c row s = (Inl e, s)"
  using assms
  by (auto simp: brew_add_def insert_brew_def rls_pass_def andthen_def split: sum.splits option.splits)

lemma apply_missing_refused:
  assumes "guc s = None" "work s = committed s"
  shows "apply_missing C fresh db_now broken rows s = (length rows, s)"
  using assms
proof (induction rows arbitrary: broken)
  case (Cons row rows)
  have same: "rollback s = s" using Cons.prems by (simp add: rollback_def)
  with Cons add_refused [of s C "fresh (length rows)" db_now True row] show ?case
    by (auto simp: same split: sum.split)
qed simp

text \<open>
  Under the row-level security the reconciliation neither sees nor inserts a row. The
  script names no household: a dry run reports every row it considers as missing, whatever
  Postgres holds, and a run that applies fails for each of them; the exit code is 1 unless no
  row was considered, and the database stays as it was.
\<close>

theorem reconcile_changes_nothing:
  "reconcile_run C fresh db_now env_url settings_url since until shot_ids do_apply tab d =
     ((case get_database_url env_url settings_url of
         Inl code \<Rightarrow> Inr code
       | Inr _ \<Rightarrow> map_sum id (\<lambda>rows. if rows = [] then 0 else 1) (filter_rows C since until shot_ids tab)), d)"
proof -
  let ?s = "open_session d"
  have "brew_existing_ids ?s = []"
    by (simp add: brew_existing_ids_def visible_brew_log_def rls_pass_def open_session_def List.map_filter_simps)
  then have missing: "missing_rows (brew_existing_ids ?s) rows = rows" for rows by (simp add: missing_rows_def)
  have "apply_missing C fresh db_now False rows ?s = (length rows, ?s)" for rows
    by (rule apply_missing_refused) (simp_all add: open_session_def)
  then have "reconcile_session C fresh db_now do_apply rows ?s = (if rows = [] then 0 else 1, ?s)" for rows
    by (simp add: reconcile_session_def missing)
  then show ?thesis
    by (simp add: reconcile_run_def close_session_def open_session_def split: sum.split)
qed

end
