(* ===== verification/TestSupport.thy ===== *)
theory TestSupport
  imports WriteIsolation ApiAuth
begin

text \<open>
  The endpoints that support the end-to-end tests (\<^verbatim>\<open>app/routers/api_e2e.py\<close>): the cleanup, the
  seeded user with a household, the rows of specification 039 and sessions without a login. Their
  SQL statements are written against the tables with the policy, the unique columns and the
  foreign keys of the schema; a statement that violates one ends the request.

  The environment holds the bypass flag and \<open>APP_ENV\<close>, whether a database is configured, the
  uuids the database draws, and the first eight characters that its \<open>md5\<close> gives to a text.
\<close>

section \<open>The environment\<close>

record e2e_env =
  ee_bypass :: bool
  ee_app_env :: "string option"
  ee_db :: bool
  ee_env :: env
  ee_fresh :: "nat \<Rightarrow> uuid"
  ee_md5_8 :: "string \<Rightarrow> string"

definition e2e_user_id :: uuid where
  "e2e_user_id = 1"

definition e2e_household_id :: uuid where
  "e2e_household_id = 2"

definition permitted_e2e_cleanup_envs :: "string set" where
  "permitted_e2e_cleanup_envs = {''local'', ''test''}"

definition e2e_household_cleanup_enabled :: "e2e_env \<Rightarrow> bool" where
  "e2e_household_cleanup_enabled E \<longleftrightarrow>
     ee_bypass E \<and> (case ee_app_env E of None \<Rightarrow> False | Some v \<Rightarrow> v \<in> permitted_e2e_cleanup_envs)"

definition e2e_not_found :: err where
  "e2e_not_found = HTTPException 404 ''Not found''"

text \<open>The check of the environment, and that of the database behind it.\<close>

definition require_e2e_local_or_test :: "e2e_env \<Rightarrow> unit res" where
  "require_e2e_local_or_test E = (if e2e_household_cleanup_enabled E then Inr () else Inl e2e_not_found)"

definition e2e_guarded :: "e2e_env \<Rightarrow> (session \<Rightarrow> 'a res \<times> session) \<Rightarrow> session \<Rightarrow> 'a res \<times> session" where
  "e2e_guarded E k s =
     (case require_e2e_local_or_test E of
        Inl e \<Rightarrow> (Inl e, s)
      | Inr _ \<Rightarrow> if \<not> ee_db E then (Inl (HTTPException 503 ''Database unavailable''), s) else k s)"

section \<open>The household of the tests\<close>

definition delete_households :: "(household \<Rightarrow> bool) \<Rightarrow> session \<Rightarrow> unit res \<times> session" where
  "delete_households p s =
     (let gone = map h_id (filter p (households (work s)))
      in if stranded gone (work s) then (Inl IntegrityError, s)
         else (Inr (), upd_work (foldr cascade_household gone) s))"

definition reset_e2e_household_state :: "e2e_env \<Rightarrow> session \<Rightarrow> unit res \<times> session" where
  "reset_e2e_household_state E s =
     (if \<not> ee_db E \<or> \<not> e2e_household_cleanup_enabled E then (Inr (), s)
      else
        (let s1 = map_user e2e_user_id (\<lambda>u. u\<lparr>u_active_household_id := None\<rparr>) s;
             s2 = upd_work (\<lambda>d. d\<lparr>members := filter
                    (\<lambda>m. \<not> (m_user_id m = e2e_user_id \<or> m_household_id m = e2e_household_id)) (members d)\<rparr>) s1
         in andthen (delete_households (\<lambda>h. h_id h = e2e_household_id \<or> h_created_by h = e2e_user_id) s2)
              (\<lambda>_ s. (Inr (), commit s))))"

text \<open>\<open>delete_by_pk\<close> of the dual-write repositories only writes to the log.\<close>

definition dual_delete_by_pk :: "string \<Rightarrow> string \<Rightarrow> session \<Rightarrow> session" where
  "dual_delete_by_pk pk_col pk_val s = s"

definition api_e2e_cleanup ::
  "e2e_env \<Rightarrow> string option \<Rightarrow> string option \<Rightarrow> bool \<Rightarrow> session \<Rightarrow> unit res \<times> session" where
  "api_e2e_cleanup E catalog_id bag_id reset_household s =
     (let s1 = (if truthy bag_id then dual_delete_by_pk ''Bag_ID'' (the bag_id) s else s);
          s2 = (if truthy catalog_id then dual_delete_by_pk ''Catalog_ID'' (the catalog_id) s1 else s1)
      in if reset_household then reset_e2e_household_state E s2 else (Inr (), s2))"

section \<open>The user of the tests\<close>

text \<open>A user is deleted with the refresh tokens; the other references to users have no action.\<close>

definition user_referenced :: "database \<Rightarrow> uuid \<Rightarrow> bool" where
  "user_referenced d uid \<longleftrightarrow>
     list_ex (\<lambda>h. h_created_by h = uid) (households d)
   \<or> list_ex (\<lambda>m. m_user_id m = uid) (members d)
   \<or> list_ex (\<lambda>i. i_invited_by_user_id i = uid) (invitations d)
   \<or> list_ex (\<lambda>g. g_created_by_user_id g = uid) (guest_tokens d)
   \<or> list_ex (\<lambda>k. is_created_by k = uid) (import_sessions d)"

definition delete_users :: "(user \<Rightarrow> bool) \<Rightarrow> session \<Rightarrow> unit res \<times> session" where
  "delete_users p s =
     (let gone = map u_id (filter p (users (work s)))
      in if list_ex (user_referenced (work s)) gone then (Inl IntegrityError, s)
         else (Inr (), upd_work (\<lambda>d. d\<lparr>
                users := filter (\<lambda>u. \<not> p u) (users d),
                refresh_tokens := filter (\<lambda>r. r_user_id r \<notin> set gone) (refresh_tokens d),
                members := update_where (\<lambda>m. case m_invited_by m of None \<Rightarrow> False | Some u \<Rightarrow> u \<in> set gone)
                             (\<lambda>m. m\<lparr>m_invited_by := None\<rparr>) (members d)\<rparr>) s))"

text \<open>The three \<open>INSERT .. ON CONFLICT DO UPDATE\<close> statements.\<close>

definition upsert_e2e_user :: "e2e_env \<Rightarrow> string \<Rightarrow> session \<Rightarrow> unit res \<times> session" where
  "upsert_e2e_user E pwd_hash s =
     (if list_ex (\<lambda>u. u_id u = e2e_user_id) (users (work s))
      then if list_ex (\<lambda>u. u_id u \<noteq> e2e_user_id \<and> u_username u = Some ''user'') (users (work s))
           then (Inl IntegrityError, s)
           else (Inr (), map_user e2e_user_id (\<lambda>u. u\<lparr>u_username := Some ''user'', u_email := Some ''user@localhost'',
                   u_display_name := ''E2E User'', u_password_hash := Some pwd_hash\<rparr>) s)
      else map_prod (map_sum id (\<lambda>_. ())) id
             (create_user e2e_user_id (e_db_now (ee_env E)) (Some ''user'') (Some pwd_hash) None
                (Some ''user@localhost'') ''E2E User'' None s))"

definition upsert_e2e_household :: "e2e_env \<Rightarrow> session \<Rightarrow> session" where
  "upsert_e2e_household E =
     upd_work (\<lambda>d. if list_ex (\<lambda>h. h_id h = e2e_household_id) (households d)
       then d\<lparr>households := update_where (\<lambda>h. h_id h = e2e_household_id)
              (\<lambda>h. h\<lparr>h_name := ''E2E Household'', h_created_by := e2e_user_id, h_deleted_at := None\<rparr>) (households d)\<rparr>
       else d\<lparr>households := households d @ [\<lparr>h_id = e2e_household_id, h_name = ''E2E Household'',
              h_created_at = e_db_now (ee_env E), h_created_by = e2e_user_id, h_is_guest_accessible = False,
              h_deleted_at = None\<rparr>]\<rparr>)"

definition is_e2e_membership :: "household_member \<Rightarrow> bool" where
  "is_e2e_membership m \<longleftrightarrow> m_household_id m = e2e_household_id \<and> m_user_id m = e2e_user_id"

definition upsert_e2e_membership :: "e2e_env \<Rightarrow> session \<Rightarrow> session" where
  "upsert_e2e_membership E =
     upd_work (\<lambda>d. if list_ex is_e2e_membership (members d)
       then d\<lparr>members := update_where is_e2e_membership (\<lambda>m. m\<lparr>m_role := Admin\<rparr>) (members d)\<rparr>
       else d\<lparr>members := members d @ [\<lparr>m_id = ee_fresh E 0, m_household_id = e2e_household_id,
              m_user_id = e2e_user_id, m_role = Admin, m_invited_by = None, m_invited_at = None,
              m_accepted_at = None, m_joined_at = e_db_now (ee_env E)\<rparr>]\<rparr>)"

definition seed_user_rows :: "e2e_env \<Rightarrow> string \<Rightarrow> session \<Rightarrow> (uuid \<times> uuid) res \<times> session" where
  "seed_user_rows E pwd_hash s =
     andthen (delete_users (\<lambda>u. u_username u = Some ''user'' \<and> u_id u \<noteq> e2e_user_id) s) (\<lambda>_ s.
       andthen (upsert_e2e_user E pwd_hash s) (\<lambda>_ s.
         (Inr (e2e_user_id, e2e_household_id),
          commit (map_user e2e_user_id (\<lambda>u. u\<lparr>u_active_household_id := Some e2e_household_id\<rparr>)
            (upsert_e2e_membership E (upsert_e2e_household E s))))))"

definition api_e2e_seed_user :: "e2e_env \<Rightarrow> session \<Rightarrow> (uuid \<times> uuid) res \<times> session" where
  "api_e2e_seed_user E =
     e2e_guarded E (\<lambda>s. case hash_password (e_ext (ee_env E)) ''password'' of
        Inl e \<Rightarrow> (Inl e, s)
      | Inr pwd_hash \<Rightarrow> seed_user_rows E pwd_hash s)"

section \<open>The synthetic rows\<close>

text \<open>SQL \<open>LIKE\<close> without an escape character; a NULL matches nothing.\<close>

function sql_like :: "string \<Rightarrow> string \<Rightarrow> bool" where
  "sql_like [] t = (t = [])"
| "sql_like (c # cs) t =
     (if c = CHR ''%'' then sql_like cs t \<or> (case t of [] \<Rightarrow> False | _ # t' \<Rightarrow> sql_like (c # cs) t')
      else (case t of [] \<Rightarrow> False | x # t' \<Rightarrow> (c = CHR ''_'' \<or> x = c) \<and> sql_like cs t'))"
  by pat_completeness auto

termination by (relation "measure (\<lambda>(p, t). length p + length t)") auto

definition like :: "string option \<Rightarrow> string \<Rightarrow> bool" where
  "like v pat = (case v of None \<Rightarrow> False | Some t \<Rightarrow> sql_like pat t)"

definition seed_text :: "string option \<Rightarrow> bool" where
  "seed_text v \<longleftrightarrow> like v ''SPEC039_%'' \<or> like v ''PW_TEST_SPEC039_%''"

text \<open>The rows of the household under its policy.\<close>

definition e2e_catalog :: "session \<Rightarrow> catalog_row list" where
  "e2e_catalog s = filter (\<lambda>k. c_household_id k = Some e2e_household_id) (visible_catalog s)"

definition e2e_inventory :: "session \<Rightarrow> inventory_row list" where
  "e2e_inventory s = filter (\<lambda>k. v_household_id k = Some e2e_household_id) (visible_inventory s)"

definition synthetic_bean :: "catalog_row \<Rightarrow> bool" where
  "synthetic_bean k \<longleftrightarrow> like (c_sheets_id k) ''CAT039_%'' \<or> seed_text (Some (c_roaster k)) \<or> seed_text (Some (c_bean_name k))"

definition synthetic_bag :: "session \<Rightarrow> inventory_row \<Rightarrow> bool" where
  "synthetic_bag s k \<longleftrightarrow>
     like (v_sheets_id k) ''BAG039_%'' \<or> like (v_sheets_catalog_id k) ''CAT039_%''
   \<or> seed_text (v_beans k) \<or> seed_text (v_display_name k)
   \<or> (v_sheets_catalog_id k \<noteq> None \<and> v_sheets_catalog_id k \<in> c_sheets_id ` set (filter synthetic_bean (e2e_catalog s)))"

definition synthetic_shot :: "session \<Rightarrow> brew_log_row \<Rightarrow> bool" where
  "synthetic_shot s k \<longleftrightarrow>
     like (b_sheets_id k) ''SHOT039_%'' \<or> seed_text (b_idempotency_key k) \<or> seed_text (b_notes k)
   \<or> seed_text (b_taste_summary k)
   \<or> (b_bag_id k \<noteq> None \<and> b_bag_id k \<in> v_sheets_id ` set (filter (synthetic_bag s) (e2e_inventory s)))
   \<or> (case b_catalog_id k of None \<Rightarrow> False
      | Some c \<Rightarrow> c \<in> c_id ` set (filter synthetic_bean (e2e_catalog s)))"

definition synthetic_item :: "hardware_row \<Rightarrow> bool" where
  "synthetic_item k \<longleftrightarrow> like (w_sheets_id k) ''HW039_%'' \<or> sql_like ''SPEC039_%'' (w_name k)"

text \<open>
  The four \<open>DELETE\<close> statements under the policy. The foreign keys to the catalog and to the
  hardware have no action, and see every row.
\<close>

definition own_row :: "session \<Rightarrow> uuid option \<Rightarrow> bool" where
  "own_row s h \<longleftrightarrow> rls_pass s h \<and> h = Some e2e_household_id"

definition delete_synthetic_shots :: "session \<Rightarrow> session" where
  "delete_synthetic_shots s = upd_work (\<lambda>d. d\<lparr>brew_log :=
     filter (\<lambda>k. \<not> (own_row s (b_household_id k) \<and> synthetic_shot s k)) (brew_log d)\<rparr>) s"

definition delete_synthetic_bags :: "session \<Rightarrow> session" where
  "delete_synthetic_bags s = upd_work (\<lambda>d. d\<lparr>inventory_bags :=
     filter (\<lambda>k. \<not> (own_row s (v_household_id k) \<and> synthetic_bag s k)) (inventory_bags d)\<rparr>) s"

definition delete_synthetic_beans :: "session \<Rightarrow> unit res \<times> session" where
  "delete_synthetic_beans s =
     (let gone = map c_id (filter (\<lambda>k. own_row s (c_household_id k) \<and> synthetic_bean k) (catalog (work s)));
          used = (\<lambda>c. case c of None \<Rightarrow> False | Some u \<Rightarrow> u \<in> set gone)
      in if list_ex (\<lambda>b. used (b_catalog_id b)) (brew_log (work s))
            \<or> list_ex (\<lambda>v. used (v_catalog_id v)) (inventory_bags (work s))
         then (Inl IntegrityError, s)
         else (Inr (), upd_work (\<lambda>d. d\<lparr>catalog :=
                filter (\<lambda>k. \<not> (own_row s (c_household_id k) \<and> synthetic_bean k)) (catalog d)\<rparr>) s))"

definition delete_synthetic_hardware :: "session \<Rightarrow> unit res \<times> session" where
  "delete_synthetic_hardware s =
     (let gone = map w_id (filter (\<lambda>k. own_row s (w_household_id k) \<and> synthetic_item k) (hardware (work s)))
      in if list_ex (\<lambda>n. case n_hardware_id n of None \<Rightarrow> False | Some u \<Rightarrow> u \<in> set gone) (maintenance_log (work s))
         then (Inl IntegrityError, s)
         else (Inr (), upd_work (\<lambda>d. d\<lparr>hardware :=
                filter (\<lambda>k. \<not> (own_row s (w_household_id k) \<and> synthetic_item k)) (hardware d)\<rparr>) s))"

definition cleanup_spec039_rows :: "session \<Rightarrow> unit res \<times> session" where
  "cleanup_spec039_rows s =
     andthen (delete_synthetic_beans (delete_synthetic_bags (delete_synthetic_shots
       (set_household_context e2e_household_id s)))) (\<lambda>_ s. delete_synthetic_hardware s)"

definition api_e2e_spec039_cleanup :: "e2e_env \<Rightarrow> session \<Rightarrow> unit res \<times> session" where
  "api_e2e_spec039_cleanup E =
     e2e_guarded E (\<lambda>s. andthen (cleanup_spec039_rows s) (\<lambda>_ s. (Inr (), commit s)))"

section \<open>The seeded rows\<close>

definition seed_items :: "e2e_env \<Rightarrow> hardware_row list" where
  "seed_items E = map (\<lambda>(i, sid, name, cat). \<lparr>w_id = ee_fresh E i, w_household_id = Some e2e_household_id,
       w_name = name, w_category = cat, w_notes = None, w_sheets_id = Some sid, w_product_url = None,
       w_local_image_path = None\<rparr>)
     [(1, ''HW039_MACHINE'', ''SPEC039_Machine'', ''Machine''), (2, ''HW039_GRINDER'', ''SPEC039_Grinder'', ''Grinder''),
      (3, ''HW039_BASKET'', ''SPEC039_Basket'', ''Basket''), (4, ''HW039_STORAGE'', ''SPEC039_Storage'', ''Storage'')]"

definition seed_beans :: "e2e_env \<Rightarrow> catalog_row list" where
  "seed_beans E = map (\<lambda>(i, sid, roaster, bean, level). \<lparr>c_id = ee_fresh E i, c_household_id = Some e2e_household_id,
       c_roaster = roaster, c_bean_name = bean, c_origin = None, c_process = None, c_roast_level = Some level,
       c_notes = None, c_sheets_id = Some sid, c_product_url = Some [], c_local_image_path = Some []\<rparr>)
     [(5, ''CAT039_LOCKED'', ''SPEC039_Roaster_Locked'', ''SPEC039_Locked_Bean'', ''Medium''),
      (6, ''CAT039_EMPTY_ROAST'', ''SPEC039_Roaster_Open'', ''SPEC039_Open_Bean'', '''')]"

definition seed_bean_name :: string where
  "seed_bean_name = ''SPEC039_Roaster_Locked '' @ em_dash @ '' SPEC039_Locked_Bean''"

definition seed_bags :: "e2e_env \<Rightarrow> uuid \<Rightarrow> inventory_row list" where
  "seed_bags E locked = map (\<lambda>(i, sid, roasted, status). \<lparr>v_id = ee_fresh E i, v_household_id = Some e2e_household_id,
       v_catalog_id = Some locked, v_roast_date = Some roasted, v_notes = None, v_sheets_id = Some sid,
       v_sheets_catalog_id = Some ''CAT039_LOCKED'', v_beans = Some seed_bean_name, v_display_name = Some seed_bean_name,
       v_roast_level = Some ''Medium'', v_status = Some status, v_storage_method = Some ''Freezer''\<rparr>)
     [(7, ''BAG039_ACTIVE'', ''2026-01-02'', ''Active''), (8, ''BAG039_FINISHED'', ''2025-12-20'', ''Finished'')]"

text \<open>Noon of the first, second and third of February 2026, UTC.\<close>

definition seed_day :: "int \<Rightarrow> instant" where
  "seed_day n = seconds 1769947200 + days n"

definition seed_shot ::
  "e2e_env \<Rightarrow> uuid \<Rightarrow> nat \<Rightarrow> string \<Rightarrow> string \<times> string \<times> int \<times> string \<times> string
     \<Rightarrow> string \<times> string \<times> string \<times> string \<times> string \<Rightarrow> int \<Rightarrow> brew_log_row" where
  "seed_shot E locked i sid numbers texts offset =
     (case numbers of (dose, yield_out, time, grind, eligibility) \<Rightarrow>
      case texts of (summary, notes, feedback, key, hash) \<Rightarrow>
      \<lparr>b_id = ee_fresh E i, b_household_id = Some e2e_household_id, b_catalog_id = Some locked, b_brew_method = None,
       b_dose_g = Some dose, b_yield_g = Some yield_out, b_time_sec = Some time, b_rating = None, b_notes = Some notes,
       b_sheets_id = Some sid, b_bag_id = Some ''BAG039_ACTIVE'', b_machine_id = Some ''HW039_MACHINE'',
       b_grinder_id = Some ''HW039_GRINDER'', b_basket_id = Some ''HW039_BASKET'', b_grind_setting = Some grind,
       b_shot_eligibility = Some eligibility, b_taste_summary = Some summary, b_ai_feedback = Some feedback,
       b_storage_method = Some ''Freezer'', b_idempotency_key = Some key, b_idempotency_request_hash = Some hash,
       b_brewed_at = seed_day offset\<rparr>)"

definition seed_shots :: "e2e_env \<Rightarrow> uuid \<Rightarrow> brew_log_row list" where
  "seed_shots E locked =
     [seed_shot E locked 9 ''SHOT039_TYPO'' (''18.0'', ''36.0'', 27, ''4.0'', ''Good Espresso'')
        (''SPEC039_typo_baseline'', ''SPEC039_typo_note_needs_correction'', [], ''SPEC039_TYPO_SEED'', ''SPEC039_HASH_TYPO'') 0,
      seed_shot E locked 10 ''SHOT039_AI_PRESENT'' (''18.5'', ''37.0'', 29, ''4.5'', ''Good Espresso'')
        (''SPEC039_ai_present_summary'', ''SPEC039_ai_present_note'',
         ''SPEC039_AI_PRESENT_'' @ ee_md5_8 E ''SHOT039_AI_PRESENT'', ''SPEC039_AI_PRESENT_SEED'', ''SPEC039_HASH_AI_PRESENT'') 1,
      seed_shot E locked 11 ''SHOT039_AI_EMPTY'' (''18.0'', ''36.0'', 28, ''4.0'', ''Passable'')
        (''SPEC039_ai_empty_summary'', ''SPEC039_ai_empty_note'', [], ''SPEC039_AI_EMPTY_SEED'', ''SPEC039_HASH_AI_EMPTY'') 2]"

fun insert_all :: "('r \<Rightarrow> session \<Rightarrow> unit res \<times> session) \<Rightarrow> 'r list \<Rightarrow> session \<Rightarrow> unit res \<times> session" where
  "insert_all f [] s = (Inr (), s)"
| "insert_all f (r # rs) s = andthen (f r s) (\<lambda>_ s. insert_all f rs s)"

definition insert_item :: "hardware_row \<Rightarrow> session \<Rightarrow> unit res \<times> session" where
  "insert_item r s =
     (case insert_refused s (w_household_id r) (w_id r) (map w_id (hardware (work s))) (w_sheets_id r)
             (map w_sheets_id (hardware (work s))) of
        Some e \<Rightarrow> (Inl e, s)
      | None \<Rightarrow> (Inr (), upd_work (\<lambda>d. d\<lparr>hardware := hardware d @ [r]\<rparr>) s))"

definition insert_bean :: "catalog_row \<Rightarrow> session \<Rightarrow> unit res \<times> session" where
  "insert_bean r s =
     (case insert_refused s (c_household_id r) (c_id r) (map c_id (catalog (work s))) (c_sheets_id r)
             (map c_sheets_id (catalog (work s))) of
        Some e \<Rightarrow> (Inl e, s)
      | None \<Rightarrow> (Inr (), upd_work (\<lambda>d. d\<lparr>catalog := catalog d @ [r]\<rparr>) s))"

definition insert_bag :: "inventory_row \<Rightarrow> session \<Rightarrow> unit res \<times> session" where
  "insert_bag r s =
     (case insert_refused s (v_household_id r) (v_id r) (map v_id (inventory_bags (work s))) (v_sheets_id r)
             (map v_sheets_id (inventory_bags (work s))) of
        Some e \<Rightarrow> (Inl e, s)
      | None \<Rightarrow> (Inr (), upd_work (\<lambda>d. d\<lparr>inventory_bags := inventory_bags d @ [r]\<rparr>) s))"

definition insert_shot :: "brew_log_row \<Rightarrow> session \<Rightarrow> unit res \<times> session" where
  "insert_shot r s =
     (if \<not> rls_pass s (b_household_id r) then (Inl ProgrammingError, s)
      else if list_ex (brew_conflict r) (brew_log (work s)) \<or> \<not> household_exists s (b_household_id r)
      then (Inl IntegrityError, s)
      else (Inr (), upd_work (\<lambda>d. d\<lparr>brew_log := brew_log d @ [r]\<rparr>) s))"

text \<open>\<open>scalar_one\<close>: exactly one row.\<close>

definition locked_catalog_id :: "session \<Rightarrow> uuid res" where
  "locked_catalog_id s =
     (case filter (\<lambda>k. c_sheets_id k = Some ''CAT039_LOCKED'') (e2e_catalog s) of
        [k] \<Rightarrow> Inr (c_id k) | [] \<Rightarrow> Inl InvalidRequestError | _ \<Rightarrow> Inl MultipleResultsFound)"

record seed_out =
  so_household_id :: uuid
  so_catalog_ids :: "(string \<times> string) list"
  so_bag_ids :: "(string \<times> string) list"
  so_shot_ids :: "(string \<times> string) list"
  so_hardware_ids :: "(string \<times> string) list"
  so_has_ai_feedback :: "(string \<times> bool) list"

definition seed_answer :: seed_out where
  "seed_answer = \<lparr>so_household_id = e2e_household_id,
     so_catalog_ids = [(''locked'', ''CAT039_LOCKED''), (''empty_roast'', ''CAT039_EMPTY_ROAST'')],
     so_bag_ids = [(''active'', ''BAG039_ACTIVE''), (''finished'', ''BAG039_FINISHED'')],
     so_shot_ids = [(''typo'', ''SHOT039_TYPO''), (''ai_present'', ''SHOT039_AI_PRESENT''), (''ai_empty'', ''SHOT039_AI_EMPTY'')],
     so_hardware_ids = [(''machine'', ''HW039_MACHINE''), (''grinder'', ''HW039_GRINDER''), (''basket'', ''HW039_BASKET''),
        (''storage'', ''HW039_STORAGE'')],
     so_has_ai_feedback = [(''SHOT039_AI_PRESENT'', True), (''SHOT039_AI_EMPTY'', False), (''SHOT039_TYPO'', False)]\<rparr>"

definition insert_seeds :: "e2e_env \<Rightarrow> session \<Rightarrow> unit res \<times> session" where
  "insert_seeds E s =
     andthen (insert_all insert_item (seed_items E) s) (\<lambda>_ s.
       andthen (insert_all insert_bean (seed_beans E) s) (\<lambda>_ s.
         case locked_catalog_id s of
           Inl e \<Rightarrow> (Inl e, s)
         | Inr locked \<Rightarrow>
             andthen (insert_all insert_bag (seed_bags E locked) s) (\<lambda>_ s.
               insert_all insert_shot (seed_shots E locked) s)))"

definition api_e2e_spec039_seed :: "e2e_env \<Rightarrow> session \<Rightarrow> seed_out res \<times> session" where
  "api_e2e_spec039_seed E =
     e2e_guarded E (\<lambda>s. andthen (api_e2e_seed_user E s) (\<lambda>_ s.
       andthen (cleanup_spec039_rows s) (\<lambda>_ s.
         andthen (insert_seeds E (set_household_context e2e_household_id s)) (\<lambda>_ s.
           (Inr seed_answer, commit s)))))"

section \<open>Sessions and rate limits\<close>

definition api_e2e_session :: "e2e_env \<Rightarrow> uuid \<Rightarrow> string \<Rightarrow> session \<Rightarrow> token_out res \<times> session" where
  "api_e2e_session E rid raw = e2e_guarded E (issue_tokens (ee_env E) rid raw e2e_user_id)"

text \<open>The counters of the rate limiter are a map from clients to numbers of requests.\<close>

definition api_e2e_reset_limiter :: "e2e_env \<Rightarrow> (string \<rightharpoonup> nat) \<Rightarrow> unit res \<times> (string \<rightharpoonup> nat)" where
  "api_e2e_reset_limiter E counters =
     (case require_e2e_local_or_test E of
        Inl e \<Rightarrow> (Inl e, counters)
      | Inr _ \<Rightarrow> (Inr (), Map.empty))"

section \<open>Properties\<close>

text \<open>Everything but the rows of the tests: their household's rows, and the tables of the users and households.\<close>

definition strangers :: "database \<Rightarrow> database" where
  "strangers d = outside e2e_household_id (d\<lparr>users := [], households := [], members := [], refresh_tokens := []\<rparr>)"

definition keeps :: "database \<Rightarrow> session \<Rightarrow> bool" where
  "keeps d s \<longleftrightarrow> strangers (work s) = d \<and> strangers (committed s) = d"

lemma keeps_basic:
  "keeps d s \<Longrightarrow> keeps d (commit s)"
  "keeps d s \<Longrightarrow> keeps d (set_household_context h s)"
  "keeps d s \<Longrightarrow> strangers (f (work s)) = strangers (work s) \<Longrightarrow> keeps d (upd_work f s)"
  by (simp_all add: keeps_def)

lemma keeps_andthen:
  assumes "keeps d (snd m)" "\<And>x s. m = (Inr x, s) \<Longrightarrow> keeps d s \<Longrightarrow> keeps d (snd (k x s))"
  shows "keeps d (snd (andthen m k))"
  using assms by (cases m; cases "fst m") auto

lemma strangers_frame [simp]:
  "strangers (d\<lparr>users := us\<rparr>) = strangers d" "strangers (d\<lparr>households := hs\<rparr>) = strangers d"
  "strangers (d\<lparr>members := ms\<rparr>) = strangers d" "strangers (d\<lparr>refresh_tokens := rs\<rparr>) = strangers d"
  by (simp_all add: strangers_def outside_def)

lemma keeps_map_user: "keeps d s \<Longrightarrow> keeps d (map_user u f s)"
  by (simp add: map_user_def keeps_basic)

lemma keeps_create_user: "keeps d s \<Longrightarrow> keeps d (snd (create_user i t un ph gs em dn pu s))"
  by (simp add: create_user_def Let_def keeps_basic)

lemma keeps_seed_user: "keeps d s \<Longrightarrow> keeps d (snd (seed_user_rows E ph s))"
  unfolding seed_user_rows_def
  by (intro keeps_andthen)
    (auto simp: delete_users_def upsert_e2e_user_def upsert_e2e_household_def upsert_e2e_membership_def Let_def
      intro!: keeps_basic keeps_map_user keeps_create_user)

lemma strangers_tables:
  "filter (\<lambda>r. b_household_id r \<noteq> Some e2e_household_id) bs = filter (\<lambda>r. b_household_id r \<noteq> Some e2e_household_id) (brew_log d)
     \<Longrightarrow> strangers (d\<lparr>brew_log := bs\<rparr>) = strangers d"
  "filter (\<lambda>r. c_household_id r \<noteq> Some e2e_household_id) cs = filter (\<lambda>r. c_household_id r \<noteq> Some e2e_household_id) (catalog d)
     \<Longrightarrow> strangers (d\<lparr>catalog := cs\<rparr>) = strangers d"
  "filter (\<lambda>r. v_household_id r \<noteq> Some e2e_household_id) vs = filter (\<lambda>r. v_household_id r \<noteq> Some e2e_household_id) (inventory_bags d)
     \<Longrightarrow> strangers (d\<lparr>inventory_bags := vs\<rparr>) = strangers d"
  "filter (\<lambda>r. w_household_id r \<noteq> Some e2e_household_id) ws = filter (\<lambda>r. w_household_id r \<noteq> Some e2e_household_id) (hardware d)
     \<Longrightarrow> strangers (d\<lparr>hardware := ws\<rparr>) = strangers d"
  by (simp_all add: strangers_def outside_def)

lemma filter_others: "(\<And>x. \<not> p x \<Longrightarrow> q x) \<Longrightarrow> filter (\<lambda>x. \<not> p x) (filter q xs) = filter (\<lambda>x. \<not> p x) xs"
  by (induction xs) auto

lemma keeps_deletions:
  assumes "keeps d s"
  shows "keeps d (delete_synthetic_shots s)" "keeps d (delete_synthetic_bags s)"
    "keeps d (snd (delete_synthetic_beans s))" "keeps d (snd (delete_synthetic_hardware s))"
proof -
  have own: "h \<noteq> Some e2e_household_id \<Longrightarrow> \<not> own_row s h" for h by (simp add: own_row_def)
  show "keeps d (delete_synthetic_shots s)"
    unfolding delete_synthetic_shots_def
    by (intro keeps_basic(3) strangers_tables filter_others assms) (simp add: own)
  show "keeps d (delete_synthetic_bags s)"
    unfolding delete_synthetic_bags_def
    by (intro keeps_basic(3) strangers_tables filter_others assms) (simp add: own)
  have "keeps d (upd_work (\<lambda>d. d\<lparr>catalog := filter (\<lambda>k. \<not> (own_row s (c_household_id k) \<and> synthetic_bean k)) (catalog d)\<rparr>) s)"
    by (intro keeps_basic(3) strangers_tables filter_others assms) (simp add: own)
  then show "keeps d (snd (delete_synthetic_beans s))" by (simp add: delete_synthetic_beans_def Let_def assms)
  have "keeps d (upd_work (\<lambda>d. d\<lparr>hardware := filter (\<lambda>k. \<not> (own_row s (w_household_id k) \<and> synthetic_item k)) (hardware d)\<rparr>) s)"
    by (intro keeps_basic(3) strangers_tables filter_others assms) (simp add: own)
  then show "keeps d (snd (delete_synthetic_hardware s))" by (simp add: delete_synthetic_hardware_def Let_def assms)
qed

lemma keeps_cleanup: "keeps d s \<Longrightarrow> keeps d (snd (cleanup_spec039_rows s))"
  unfolding cleanup_spec039_rows_def by (intro keeps_andthen keeps_deletions keeps_basic)

lemma keeps_insert_all:
  assumes "\<And>r s. r \<in> set rs \<Longrightarrow> keeps d s \<Longrightarrow> keeps d (snd (f r s))" "keeps d s"
  shows "keeps d (snd (insert_all f rs s))"
  using assms by (induction rs arbitrary: s) (auto intro!: keeps_andthen)

lemma keeps_inserts:
  assumes "keeps d s"
  shows "w_household_id w = Some e2e_household_id \<Longrightarrow> keeps d (snd (insert_item w s))"
    "c_household_id c = Some e2e_household_id \<Longrightarrow> keeps d (snd (insert_bean c s))"
    "v_household_id v = Some e2e_household_id \<Longrightarrow> keeps d (snd (insert_bag v s))"
    "b_household_id b = Some e2e_household_id \<Longrightarrow> keeps d (snd (insert_shot b s))"
  by (simp_all add: insert_item_def insert_bean_def insert_bag_def insert_shot_def assms keeps_basic strangers_tables
      split: option.split)

lemma seeds_own:
  "w \<in> set (seed_items E) \<Longrightarrow> w_household_id w = Some e2e_household_id"
  "c \<in> set (seed_beans E) \<Longrightarrow> c_household_id c = Some e2e_household_id"
  "v \<in> set (seed_bags E locked) \<Longrightarrow> v_household_id v = Some e2e_household_id"
  "b \<in> set (seed_shots E locked) \<Longrightarrow> b_household_id b = Some e2e_household_id"
  by (auto simp: seed_items_def seed_beans_def seed_bags_def seed_shots_def seed_shot_def)

lemma keeps_insert_seeds:
  assumes "keeps d s"
  shows "keeps d (snd (insert_seeds E s))"
proof -
  have shots: "keeps d (snd (case locked_catalog_id s of Inl e \<Rightarrow> (Inl e, s) | Inr locked \<Rightarrow>
      andthen (insert_all insert_bag (seed_bags E locked) s) (\<lambda>_ s. insert_all insert_shot (seed_shots E locked) s)))"
    if "keeps d s" for s
    using that by (auto intro!: keeps_andthen keeps_insert_all keeps_inserts seeds_own split: sum.split)
  show ?thesis
    unfolding insert_seeds_def
    by (intro keeps_andthen keeps_insert_all keeps_inserts seeds_own shots assms)
qed

lemma keeps_after: "keeps d (snd m) \<Longrightarrow> strangers (after_request m) = d"
  by (simp add: after_request_def close_session_def keeps_def)

lemma keeps_guarded: "keeps d s \<Longrightarrow> (keeps d s \<Longrightarrow> keeps d (snd (k s))) \<Longrightarrow> keeps d (snd (e2e_guarded E k s))"
  by (auto simp: e2e_guarded_def split: sum.split)

definition accounts :: "database \<Rightarrow> user list \<times> household list \<times> household_member list \<times> refresh_token list" where
  "accounts d = (users d, households d, members d, refresh_tokens d)"

lemma outside_accounts:
  "outside e2e_household_id d' = outside e2e_household_id d \<longleftrightarrow> strangers d' = strangers d \<and> accounts d' = accounts d"
  by (cases d; cases d') (auto simp: outside_def strangers_def accounts_def)

text \<open>
  The tests stay in their household. The cleanup changes nothing but rows of the household
  of the tests in the five tenant tables; the seeding, the seeded user and the session change
  besides these only the tables of users, households, memberships and refresh tokens.
\<close>

theorem test_rows_stay_home:
  "outside e2e_household_id (after_request (api_e2e_spec039_cleanup E (open_session d))) = outside e2e_household_id d
   \<and> strangers (after_request (api_e2e_spec039_seed E (open_session d))) = strangers d
   \<and> strangers (after_request (api_e2e_seed_user E (open_session d))) = strangers d
   \<and> strangers (after_request (api_e2e_session E rid raw (open_session d))) = strangers d"
proof -
  have start: "keeps (strangers d) (open_session d)" by (simp add: keeps_def open_session_def)
  have cleanup: "keeps (strangers d) (snd (api_e2e_spec039_cleanup E (open_session d)))"
    unfolding api_e2e_spec039_cleanup_def
    by (intro keeps_guarded start keeps_andthen) (simp_all add: keeps_cleanup keeps_basic)
  have user: "keeps (strangers d) (snd (api_e2e_seed_user E s))" if "keeps (strangers d) s" for s
    unfolding api_e2e_seed_user_def
    by (intro keeps_guarded that) (auto simp: keeps_seed_user split: sum.split)
  have seed: "keeps (strangers d) (snd (api_e2e_spec039_seed E (open_session d)))"
    unfolding api_e2e_spec039_seed_def
    by (intro keeps_guarded start keeps_andthen user keeps_cleanup keeps_insert_seeds keeps_basic)
      (simp_all add: keeps_basic)
  have session: "keeps (strangers d) (snd (api_e2e_session E rid raw (open_session d)))"
    unfolding api_e2e_session_def
    by (intro keeps_guarded start)
      (auto simp: issue_tokens_def create_refresh_token_def Let_def start keeps_basic split: prod.split sum.split)
  have frame: "accounts (work (snd (cleanup_spec039_rows s))) = accounts (work s)
      \<and> accounts (committed (snd (cleanup_spec039_rows s))) = accounts (committed s)" for s
    by (simp add: cleanup_spec039_rows_def delete_synthetic_shots_def delete_synthetic_bags_def
        delete_synthetic_beans_def delete_synthetic_hardware_def Let_def accounts_def)
  have "accounts (after_request (api_e2e_spec039_cleanup E (open_session d))) = accounts d"
    using frame [of "open_session d"]
    by (cases "cleanup_spec039_rows (open_session d)"; cases "fst (cleanup_spec039_rows (open_session d))")
      (auto simp: api_e2e_spec039_cleanup_def e2e_guarded_def after_request_def close_session_def open_session_def split: sum.split)
  with keeps_after [OF cleanup] keeps_after [OF seed] keeps_after [OF user [OF start]] keeps_after [OF session]
  show ?thesis by (simp add: outside_accounts)
qed

text \<open>
  Outside of the test environments there is no test support. Unless the process runs
  with the bypass and \<open>APP_ENV\<close> is \<open>local\<close> or \<open>test\<close>, every endpoint that could change
  something answers 404, and no endpoint, the unguarded cleanup included, changes anything.
\<close>

theorem test_support_guarded:
  assumes "\<not> e2e_household_cleanup_enabled E"
  shows "api_e2e_cleanup E cid bid reset s = (Inr (), s)
    \<and> api_e2e_seed_user E s = (Inl e2e_not_found, s)
    \<and> api_e2e_spec039_cleanup E s = (Inl e2e_not_found, s)
    \<and> api_e2e_spec039_seed E s = (Inl e2e_not_found, s)
    \<and> api_e2e_session E rid raw s = (Inl e2e_not_found, s)
    \<and> api_e2e_reset_limiter E counters = (Inl e2e_not_found, counters)"
  using assms
  by (simp add: api_e2e_cleanup_def reset_e2e_household_state_def dual_delete_by_pk_def api_e2e_seed_user_def
      api_e2e_spec039_cleanup_def api_e2e_spec039_seed_def api_e2e_session_def api_e2e_reset_limiter_def
      e2e_guarded_def require_e2e_local_or_test_def)

lemma seed_user_rows_frame:
  "hardware (work (snd (seed_user_rows E ph s))) = hardware (work s)"
  "maintenance_log (work (snd (seed_user_rows E ph s))) = maintenance_log (work s)"
  by (auto simp: seed_user_rows_def andthen_def delete_users_def upsert_e2e_user_def upsert_e2e_household_def
      upsert_e2e_membership_def create_user_def Let_def map_prod_def split: prod.splits sum.splits if_splits)

text \<open>
  A maintenance event of an item of the tests blocks cleanup and seeding. The cleanup
  deletes the items of the tests but no events: once an event refers to one of them, both
  endpoints fail from then on, and the cleanup deletes nothing at all.
\<close>

theorem maintenance_blocks_cleanup:
  assumes "n \<in> set (maintenance_log d)" "n_hardware_id n = Some (w_id w)"
    and "w \<in> set (hardware d)" "w_household_id w = Some e2e_household_id" "synthetic_item w"
  shows "after_request (api_e2e_spec039_cleanup E (open_session d)) = d
    \<and> (\<exists>e. fst (api_e2e_spec039_cleanup E (open_session d)) = Inl e)
    \<and> (\<exists>e. fst (api_e2e_spec039_seed E (open_session d)) = Inl e)"
proof -
  have blocked: "\<exists>e s'. cleanup_spec039_rows s = (Inl e, s') \<and> committed s' = committed s"
    if "hardware (work s) = hardware d" "maintenance_log (work s) = maintenance_log d" for s
  proof -
    let ?s = "delete_synthetic_bags (delete_synthetic_shots (set_household_context e2e_household_id s))"
    obtain r s1 where beans: "delete_synthetic_beans ?s = (r, s1)" by (cases "delete_synthetic_beans ?s")
    have s1: "hardware (work s1) = hardware d" "maintenance_log (work s1) = maintenance_log d"
      "committed s1 = committed s" "guc s1 = Some e2e_household_id"
      using beans that
      by (auto simp: delete_synthetic_beans_def delete_synthetic_bags_def delete_synthetic_shots_def Let_def
          set_household_context_def split: if_splits)
    have "own_row s1 (w_household_id w)" using s1(4) assms(4) by (simp add: own_row_def rls_pass_def)
    then have "w_id w \<in> set (map w_id (filter (\<lambda>k. own_row s1 (w_household_id k) \<and> synthetic_item k) (hardware (work s1))))"
      using assms(3,5) s1(1) by auto
    then have "delete_synthetic_hardware s1 = (Inl IntegrityError, s1)"
      using assms(1,2) s1(2) by (auto simp: delete_synthetic_hardware_def Let_def list_ex_iff split: option.splits)
    with beans s1(3) show ?thesis by (cases r) (auto simp: cleanup_spec039_rows_def)
  qed
  show ?thesis
  proof (intro conjI)
    obtain e s' where c: "cleanup_spec039_rows (open_session d) = (Inl e, s')" "committed s' = d"
      using blocked [of "open_session d"] by (auto simp: open_session_def)
    then show "after_request (api_e2e_spec039_cleanup E (open_session d)) = d"
      by (auto simp: api_e2e_spec039_cleanup_def e2e_guarded_def after_request_def close_session_def open_session_def
          split: sum.split)
    from c show "\<exists>e. fst (api_e2e_spec039_cleanup E (open_session d)) = Inl e"
      by (auto simp: api_e2e_spec039_cleanup_def e2e_guarded_def split: sum.split)
    show "\<exists>e. fst (api_e2e_spec039_seed E (open_session d)) = Inl e"
    proof (cases "api_e2e_seed_user E (open_session d)")
      case (Pair r s1)
      have "hardware (work s1) = hardware d \<and> maintenance_log (work s1) = maintenance_log d"
        using arg_cong [OF Pair, of snd]
        by (auto simp: api_e2e_seed_user_def e2e_guarded_def seed_user_rows_frame open_session_def split: sum.splits if_splits)
      with blocked obtain e s' where "cleanup_spec039_rows s1 = (Inl e, s')" by blast
      with Pair show ?thesis
        by (cases r) (auto simp: api_e2e_spec039_seed_def e2e_guarded_def split: sum.split)
    qed
  qed
qed

definition demo_e2e :: "string option \<Rightarrow> e2e_env" where
  "demo_e2e v = \<lparr>ee_bypass = True, ee_app_env = v, ee_db = True, ee_env = demo_env, ee_fresh = (\<lambda>i. 100 + i),
     ee_md5_8 = (\<lambda>_. ''0123abcd'')\<rparr>"

theorem test_support_guarded_witness:
  "api_e2e_session (demo_e2e (Some ''production'')) 7 ''raw'' (open_session demo_db) = (Inl e2e_not_found, open_session demo_db)"
proof -
  have "\<not> e2e_household_cleanup_enabled (demo_e2e (Some ''production''))" by code_simp
  from test_support_guarded [OF this] show ?thesis by blast
qed

definition demo_test_item :: hardware_row where
  "demo_test_item = (machine_of 2 ''HW039_MACHINE'' ''SPEC039_Machine'')"

definition demo_descaling :: maintenance_row where
  "demo_descaling = \<lparr>n_id = 71, n_household_id = Some 2, n_hardware_id = Some 31, n_action = ''Descale'',
     n_performed_at = 0, n_notes = None, n_sheets_id = None, n_sheets_hardware_id = None\<rparr>"

theorem maintenance_blocks_cleanup_witness:
  "\<exists>d. d = demo_db\<lparr>hardware := [demo_test_item], maintenance_log := [demo_descaling]\<rparr>
     \<and> after_request (api_e2e_spec039_cleanup (demo_e2e (Some ''test'')) (open_session d)) = d
     \<and> (\<exists>e. fst (api_e2e_spec039_seed (demo_e2e (Some ''test'')) (open_session d)) = Inl e)"
proof -
  let ?d = "demo_db\<lparr>hardware := [demo_test_item], maintenance_log := [demo_descaling]\<rparr>"
  have "demo_descaling \<in> set (maintenance_log ?d)" "n_hardware_id demo_descaling = Some (w_id demo_test_item)"
    "demo_test_item \<in> set (hardware ?d)" "w_household_id demo_test_item = Some e2e_household_id"
    by (simp_all add: demo_descaling_def demo_test_item_def machine_of_def blank_hardware_def e2e_household_id_def)
  moreover have "synthetic_item demo_test_item" by code_simp
  ultimately show ?thesis using maintenance_blocks_cleanup [of demo_descaling ?d demo_test_item] by blast
qed

lemma some_updated: "list_ex p xs \<Longrightarrow> (\<And>x. p x \<Longrightarrow> q (f x)) \<Longrightarrow> \<exists>y \<in> set (update_where p f xs). q y"
  by (induction xs) auto

lemma filter_update_others:
  "(\<And>x. p x \<Longrightarrow> \<not> q x \<and> \<not> q (f x)) \<Longrightarrow> filter q (update_where p f xs) = filter q xs"
  by (induction xs) auto

text \<open>
  A seeded user is ready for the tests. When the seeding of the user returns, the
  user of the tests is stored with the seeded password, holds the username alone, and is an
  admin of the live household of the tests, which is selected; all other users that do not
  have the username are as before.
\<close>

theorem seed_user_result:
  assumes "api_e2e_seed_user E (open_session d) = (Inr r, s)"
  shows "r = (e2e_user_id, e2e_household_id)
    \<and> (\<exists>u \<in> set (users (close_session s)). u_id u = e2e_user_id \<and> u_username u = Some ''user''
         \<and> u_password_hash u = Some (x_pwd_hash (e_ext (ee_env E)) ''password'')
         \<and> u_active_household_id u = Some e2e_household_id)
    \<and> (\<forall>u \<in> set (users (close_session s)). u_username u = Some ''user'' \<longrightarrow> u_id u = e2e_user_id)
    \<and> (\<exists>h \<in> set (households (close_session s)). h_id h = e2e_household_id \<and> h_deleted_at h = None)
    \<and> (\<exists>m \<in> set (members (close_session s)). is_e2e_membership m \<and> m_role m = Admin)
    \<and> filter (\<lambda>u. u_id u \<noteq> e2e_user_id) (users (close_session s))
        = filter (\<lambda>u. u_id u \<noteq> e2e_user_id \<and> u_username u \<noteq> Some ''user'') (users d)"
proof -
  define ph where ph: "ph = x_pwd_hash (e_ext (ee_env E)) ''password''"
  have "seed_user_rows E ph (open_session d) = (Inr r, s)"
    using assms by (auto simp: api_e2e_seed_user_def e2e_guarded_def hash_password_def ph split: sum.splits if_splits)
  then obtain x1 s1 x2 s2 where steps:
    "delete_users (\<lambda>u. u_username u = Some ''user'' \<and> u_id u \<noteq> e2e_user_id) (open_session d) = (Inr x1, s1)"
    "upsert_e2e_user E ph s1 = (Inr x2, s2)" "r = (e2e_user_id, e2e_household_id)"
    "s = commit (map_user e2e_user_id (\<lambda>u. u\<lparr>u_active_household_id := Some e2e_household_id\<rparr>)
            (upsert_e2e_membership E (upsert_e2e_household E s2)))"
    by (auto simp: seed_user_rows_def elim!: andthen_InrE)
  have u1: "users (work s1) = filter (\<lambda>u. \<not> (u_username u = Some ''user'' \<and> u_id u \<noteq> e2e_user_id)) (users d)"
    using steps(1) by (auto simp: delete_users_def Let_def open_session_def split: if_splits)
  let ?ready = "\<lambda>u. u_id u = e2e_user_id \<and> u_username u = Some ''user'' \<and> u_password_hash u = Some ph"
  have u2: "(\<exists>u \<in> set (users (work s2)). ?ready u)
      \<and> (\<forall>u \<in> set (users (work s2)). u_username u = Some ''user'' \<longrightarrow> u_id u = e2e_user_id)
      \<and> filter (\<lambda>u. u_id u \<noteq> e2e_user_id) (users (work s2)) = filter (\<lambda>u. u_id u \<noteq> e2e_user_id) (users (work s1))"
  proof (cases "list_ex (\<lambda>u. u_id u = e2e_user_id) (users (work s1))")
    case True
    with steps(2) have "users (work s2) = update_where (\<lambda>u. u_id u = e2e_user_id)
        (\<lambda>u. u\<lparr>u_username := Some ''user'', u_email := Some ''user@localhost'',
           u_display_name := ''E2E User'', u_password_hash := Some ph\<rparr>) (users (work s1))"
      by (auto simp: upsert_e2e_user_def users_map_user split: if_splits)
    moreover obtain u where "u \<in> set (users (work s1))" "u_id u = e2e_user_id"
      using True by (auto simp: list_ex_iff)
    moreover have "u_username v = Some ''user'' \<Longrightarrow> u_id v = e2e_user_id" if "v \<in> set (users (work s1))" for v
      using that u1 by auto
    ultimately show ?thesis
      by (intro conjI bexI [of _ "u\<lparr>u_username := Some ''user'', u_email := Some ''user@localhost'',
           u_display_name := ''E2E User'', u_password_hash := Some ph\<rparr>"])
        (auto simp: filter_update_others set_update_where)
  next
    case False
    with steps(2) u1 show ?thesis
      by (auto simp: upsert_e2e_user_def create_user_def Let_def list_ex_iff split: if_splits)
  qed
  have final: "users (close_session s) = update_where (\<lambda>u. u_id u = e2e_user_id)
      (\<lambda>u. u\<lparr>u_active_household_id := Some e2e_household_id\<rparr>) (users (work s2))"
    by (simp add: steps(4) close_session_def users_map_user upsert_e2e_membership_def upsert_e2e_household_def)
  have home: "\<exists>h \<in> set (households (close_session s)). h_id h = e2e_household_id \<and> h_deleted_at h = None"
    by (auto simp: steps(4) close_session_def upsert_e2e_membership_def upsert_e2e_household_def intro!: some_updated)
  have admin: "\<exists>m \<in> set (members (close_session s)). is_e2e_membership m \<and> m_role m = Admin"
    by (auto simp: steps(4) close_session_def upsert_e2e_membership_def upsert_e2e_household_def is_e2e_membership_def
        intro!: some_updated)
  have others: "filter (\<lambda>u. u_id u \<noteq> e2e_user_id) (users (close_session s))
      = filter (\<lambda>u. u_id u \<noteq> e2e_user_id \<and> u_username u \<noteq> Some ''user'') (users d)"
    using u2 u1 unfolding final by (simp add: filter_update_others conj_commute cong: conj_cong)
  from u2 obtain u where u: "u \<in> set (users (work s2))" "?ready u" by blast
  then have "\<exists>u \<in> set (users (close_session s)). ?ready u \<and> u_active_household_id u = Some e2e_household_id"
    unfolding final by (intro bexI [of _ "u\<lparr>u_active_household_id := Some e2e_household_id\<rparr>"]) (auto simp: set_update_where)
  moreover from u2 have "\<forall>u \<in> set (users (close_session s)). u_username u = Some ''user'' \<longrightarrow> u_id u = e2e_user_id"
    unfolding final by (auto simp: set_update_where)
  ultimately show ?thesis using steps(3) home admin others unfolding ph by blast
qed

theorem seed_user_result_witness:
  "\<exists>s. api_e2e_seed_user (demo_e2e (Some ''test'')) (open_session demo_db) = (Inr (1, 2), s)
     \<and> (\<exists>m \<in> set (members (close_session s)). is_e2e_membership m \<and> m_role m = Admin)"
proof -
  have "fst (api_e2e_seed_user (demo_e2e (Some ''test'')) (open_session demo_db)) = Inr (1, 2)" by code_simp
  then obtain s where s: "api_e2e_seed_user (demo_e2e (Some ''test'')) (open_session demo_db) = (Inr (1, 2), s)"
    by (metis prod.collapse)
  with seed_user_result [OF s] show ?thesis by blast
qed

end
