(* ===== verification/Schema.thy ===== *)
theory Schema
  imports Prelude
begin

text \<open>
  A database schema with its rows, and the statements that the schema migrations of
  \<^verbatim>\<open>src/alembic/versions\<close> use. A statement fails, as \<open>None\<close>, where Postgres refuses it: a name that
  is taken or missing, a constraint that existing rows violate, a table or column that a foreign
  key of another table or a policy still needs. Constraints without a name get the one that
  Postgres gives them.
\<close>

section \<open>Tables\<close>

datatype dval = DNull | DText string | DTime int | DBool bool

datatype col_default = GenRandomUuid | Now | NowPlus int | Const dval | EmptyJson

record col_def =
  k_type :: string
  k_nullable :: bool
  k_default :: "col_default option"

text \<open>\<open>c IN (..)\<close>, and that one of some columns is not NULL.\<close>

datatype row_check = OneOf string "string list" | SomeSet "string list"

datatype on_delete = NoAction | Cascade | SetNull

datatype sql_constraint =
    Primary "string list"
  | Unique "string list"
  | Foreign "string list" string "string list" on_delete
  | Check row_check

datatype index_key = Col string | LowerOf string

datatype index_where = IsNull string | IsNotNull string

record index_def =
  x_table :: string
  x_keys :: "index_key list"
  x_unique :: bool
  x_where :: "index_where option"

text \<open>
  \<open>household_id = current_setting('app.current_household_id', TRUE)::uuid\<close>, and the same with
  \<open>NULLIF(.., '')\<close> around the setting.
\<close>

datatype policy_expr = SettingCast | NullifCast

record policy =
  p_using :: policy_expr
  p_check :: "policy_expr option"

type_synonym drow = "(string \<times> dval) list"

record table_def =
  d_columns :: "(string \<times> col_def) list"
  d_constraints :: "(string \<times> sql_constraint) list"
  d_rls :: bool
  d_forced :: bool
  d_policies :: "(string \<times> policy) list"
  d_rows :: "drow list"

record catalogue =
  c_tables :: "(string \<times> table_def) list"
  c_indexes :: "(string \<times> index_def) list"
  c_roles :: "string list"

text \<open>The clock, the uuids that are drawn, and whether the connection may manage roles.\<close>

record ddl_env =
  de_now :: int
  de_fresh :: "nat \<Rightarrow> string"
  de_may_roles :: bool

type_synonym ddl = "catalogue \<Rightarrow> catalogue option"

text \<open>Statements one after the other; the migrations run in one transaction.\<close>

fun run_ddl :: "ddl list \<Rightarrow> ddl" where
  "run_ddl [] c = Some c"
| "run_ddl (st # sts) c = (case st c of None \<Rightarrow> None | Some c' \<Rightarrow> run_ddl sts c')"

section \<open>Rows\<close>

definition cell_at :: "drow \<Rightarrow> string \<Rightarrow> dval" where
  "cell_at r k = (case map_of r k of None \<Rightarrow> DNull | Some v \<Rightarrow> v)"

definition default_value :: "ddl_env \<Rightarrow> nat \<Rightarrow> col_default option \<Rightarrow> dval" where
  "default_value E i v =
     (case v of
        None \<Rightarrow> DNull
      | Some GenRandomUuid \<Rightarrow> DText (de_fresh E i)
      | Some Now \<Rightarrow> DTime (de_now E)
      | Some (NowPlus t) \<Rightarrow> DTime (de_now E + t)
      | Some (Const x) \<Rightarrow> x
      | Some EmptyJson \<Rightarrow> DText ''{}'')"

text \<open>A check that evaluates to NULL is passed.\<close>

definition check_passes :: "row_check \<Rightarrow> drow \<Rightarrow> bool" where
  "check_passes ck r =
     (case ck of
        OneOf k vs \<Rightarrow> cell_at r k = DNull \<or> cell_at r k \<in> DText ` set vs
      | SomeSet ks \<Rightarrow> list_ex (\<lambda>k. cell_at r k \<noteq> DNull) ks)"

text \<open>The key of a row under a unique constraint or index; a key with a NULL conflicts with none.\<close>

fun key_cell :: "drow \<Rightarrow> index_key \<Rightarrow> dval" where
  "key_cell r (Col k) = cell_at r k"
| "key_cell r (LowerOf k) = (case cell_at r k of DText t \<Rightarrow> DText (lower t) | v \<Rightarrow> v)"

definition keys_unique :: "index_key list \<Rightarrow> drow list \<Rightarrow> bool" where
  "keys_unique ks rows = distinct (filter (\<lambda>vs. DNull \<notin> set vs) (map (\<lambda>r. map (key_cell r) ks) rows))"

definition in_index :: "index_where option \<Rightarrow> drow \<Rightarrow> bool" where
  "in_index w r =
     (case w of
        None \<Rightarrow> True
      | Some (IsNull k) \<Rightarrow> cell_at r k = DNull
      | Some (IsNotNull k) \<Rightarrow> cell_at r k \<noteq> DNull)"

definition refers :: "string list \<Rightarrow> string list \<Rightarrow> drow list \<Rightarrow> drow \<Rightarrow> bool" where
  "refers ks ref_ks targets r =
     (let vs = map (cell_at r) ks
      in DNull \<in> set vs \<or> list_ex (\<lambda>t. map (cell_at t) ref_ks = vs) targets)"

section \<open>Names\<close>

definition joined_columns :: "string list \<Rightarrow> string" where
  "joined_columns ks = concat (map (\<lambda>k. CHR ''_'' # k) ks)"

fun given_name :: "string \<Rightarrow> sql_constraint \<Rightarrow> string" where
  "given_name t (Primary ks) = t @ ''_pkey''"
| "given_name t (Unique ks) = t @ joined_columns ks @ ''_key''"
| "given_name t (Foreign ks ref ref_ks act) = t @ joined_columns ks @ ''_fkey''"
| "given_name t (Check ck) = t @ ''_check''"

fun constraint_columns :: "sql_constraint \<Rightarrow> string list" where
  "constraint_columns (Primary ks) = ks"
| "constraint_columns (Unique ks) = ks"
| "constraint_columns (Foreign ks ref ref_ks act) = ks"
| "constraint_columns (Check (OneOf k vs)) = [k]"
| "constraint_columns (Check (SomeSet ks)) = ks"

fun key_column :: "index_key \<Rightarrow> string" where
  "key_column (Col k) = k"
| "key_column (LowerOf k) = k"

definition index_columns :: "index_def \<Rightarrow> string list" where
  "index_columns x = map key_column (x_keys x)
     @ (case x_where x of None \<Rightarrow> [] | Some (IsNull k) \<Rightarrow> [k] | Some (IsNotNull k) \<Rightarrow> [k])"

text \<open>Whether a constraint refers to a table, or to a column of it.\<close>

fun refers_to :: "string \<Rightarrow> sql_constraint \<Rightarrow> bool" where
  "refers_to t (Foreign ks ref ref_ks act) = (ref = t)"
| "refers_to t _ = False"

fun refers_to_column :: "string \<Rightarrow> string \<Rightarrow> sql_constraint \<Rightarrow> bool" where
  "refers_to_column t k (Foreign ks ref ref_ks act) = (ref = t \<and> k \<in> set ref_ks)"
| "refers_to_column t k _ = False"

section \<open>Statements\<close>

definition on_table :: "string \<Rightarrow> (table_def \<Rightarrow> table_def option) \<Rightarrow> ddl" where
  "on_table t f c =
     (case map_of (c_tables c) t of
        None \<Rightarrow> None
      | Some d \<Rightarrow> (case f d of
                     None \<Rightarrow> None
                   | Some d' \<Rightarrow> Some (c\<lparr>c_tables := map (\<lambda>(n, e). if n = t then (n, d') else (n, e)) (c_tables c)\<rparr>)))"

definition has_columns :: "table_def \<Rightarrow> string list \<Rightarrow> bool" where
  "has_columns d ks = list_all (\<lambda>k. k \<in> fst ` set (d_columns d)) ks"

text \<open>Whether the rows of a table satisfy a constraint of it.\<close>

fun constraint_valid :: "catalogue \<Rightarrow> table_def \<Rightarrow> sql_constraint \<Rightarrow> bool" where
  "constraint_valid c d (Primary ks) = (has_columns d ks \<and> keys_unique (map Col ks) (d_rows d))"
| "constraint_valid c d (Unique ks) = (has_columns d ks \<and> keys_unique (map Col ks) (d_rows d))"
| "constraint_valid c d (Foreign ks ref ref_ks act) =
     (has_columns d ks \<and>
      (case map_of (c_tables c) ref of
         None \<Rightarrow> False
       | Some e \<Rightarrow> has_columns e ref_ks \<and> list_all (refers ks ref_ks (d_rows e)) (d_rows d)))"
| "constraint_valid c d (Check ck) =
     (has_columns d (constraint_columns (Check ck)) \<and> list_all (check_passes ck) (d_rows d))"

definition add_constraint :: "string \<Rightarrow> string \<Rightarrow> sql_constraint \<Rightarrow> ddl" where
  "add_constraint name t k c =
     on_table t (\<lambda>d. if name \<in> fst ` set (d_constraints d) \<or> \<not> constraint_valid c d k then None
                     else Some (d\<lparr>d_constraints := d_constraints d @ [(name, k)]\<rparr>)) c"

definition create_unique_constraint :: "string \<Rightarrow> string \<Rightarrow> string list \<Rightarrow> ddl" where
  "create_unique_constraint name t ks = add_constraint name t (Unique ks)"

definition create_foreign_key :: "string \<Rightarrow> string \<Rightarrow> string \<Rightarrow> string list \<Rightarrow> string list \<Rightarrow> on_delete \<Rightarrow> ddl" where
  "create_foreign_key name t ref ks ref_ks act = add_constraint name t (Foreign ks ref ref_ks act)"

definition create_check_constraint :: "string \<Rightarrow> string \<Rightarrow> row_check \<Rightarrow> ddl" where
  "create_check_constraint name t ck = add_constraint name t (Check ck)"

definition drop_constraint :: "string \<Rightarrow> string \<Rightarrow> ddl" where
  "drop_constraint name t =
     on_table t (\<lambda>d. if name \<in> fst ` set (d_constraints d)
                     then Some (d\<lparr>d_constraints := filter (\<lambda>(n, k). n \<noteq> name) (d_constraints d)\<rparr>) else None)"

text \<open>A new table is empty; its constraints are added one after the other.\<close>

definition create_table :: "string \<Rightarrow> (string \<times> col_def) list \<Rightarrow> (string option \<times> sql_constraint) list \<Rightarrow> ddl" where
  "create_table t cols ks c =
     (if t \<in> fst ` set (c_tables c) then None
      else run_ddl (map (\<lambda>(name, k). add_constraint (case name of Some n \<Rightarrow> n | None \<Rightarrow> given_name t k) t k) ks)
             (c\<lparr>c_tables := c_tables c @ [(t, \<lparr>d_columns = cols, d_constraints = [], d_rls = False, d_forced = False,
                d_policies = [], d_rows = []\<rparr>)]\<rparr>))"

definition drop_table :: "string \<Rightarrow> ddl" where
  "drop_table t c =
     (if t \<notin> fst ` set (c_tables c)
         \<or> list_ex (\<lambda>(n, d). n \<noteq> t \<and> list_ex (\<lambda>(_, k). refers_to t k) (d_constraints d)) (c_tables c)
      then None
      else Some (c\<lparr>c_tables := filter (\<lambda>(n, d). n \<noteq> t) (c_tables c),
                   c_indexes := filter (\<lambda>(n, x). x_table x \<noteq> t) (c_indexes c)\<rparr>))"

definition add_column :: "ddl_env \<Rightarrow> string \<Rightarrow> string \<Rightarrow> col_def \<Rightarrow> ddl" where
  "add_column E t k col =
     on_table t (\<lambda>d.
       if k \<in> fst ` set (d_columns d) \<or> (\<not> k_nullable col \<and> k_default col = None \<and> d_rows d \<noteq> []) then None
       else Some (d\<lparr>d_columns := d_columns d @ [(k, col)],
                    d_rows := map (\<lambda>(i, r). r @ [(k, default_value E i (k_default col))]) (enumerate 0 (d_rows d))\<rparr>))"

text \<open>Dropping a column drops the constraints and indexes of its table that use it.\<close>

definition drop_column :: "string \<Rightarrow> string \<Rightarrow> ddl" where
  "drop_column t k c =
     (if list_ex (\<lambda>(n, d). n \<noteq> t \<and> list_ex (\<lambda>(_, q). refers_to_column t k q) (d_constraints d)) (c_tables c) then None
      else map_option (\<lambda>c. c\<lparr>c_indexes := filter (\<lambda>(n, x). \<not> (x_table x = t \<and> k \<in> set (index_columns x))) (c_indexes c)\<rparr>)
        (on_table t (\<lambda>d.
           if k \<notin> fst ` set (d_columns d) \<or> (k = ''household_id'' \<and> d_policies d \<noteq> [])
           then None
           else Some (d\<lparr>d_columns := filter (\<lambda>(n, col). n \<noteq> k) (d_columns d),
                        d_constraints := filter (\<lambda>(n, q). k \<notin> set (constraint_columns q) \<and> \<not> refers_to_column t k q) (d_constraints d),
                        d_rows := map (filter (\<lambda>(n, v). n \<noteq> k)) (d_rows d)\<rparr>)) c))"

definition map_column :: "string \<Rightarrow> (col_def \<Rightarrow> col_def) \<Rightarrow> table_def \<Rightarrow> table_def" where
  "map_column k f d = d\<lparr>d_columns := map (\<lambda>(n, col). if n = k then (n, f col) else (n, col)) (d_columns d)\<rparr>"

definition alter_nullable :: "string \<Rightarrow> string \<Rightarrow> bool \<Rightarrow> ddl" where
  "alter_nullable t k nullable =
     on_table t (\<lambda>d. if k \<notin> fst ` set (d_columns d) \<or> (\<not> nullable \<and> list_ex (\<lambda>r. cell_at r k = DNull) (d_rows d)) then None
                     else Some (map_column k (\<lambda>col. col\<lparr>k_nullable := nullable\<rparr>) d))"

definition alter_default :: "string \<Rightarrow> string \<Rightarrow> col_default option \<Rightarrow> ddl" where
  "alter_default t k v =
     on_table t (\<lambda>d. if k \<notin> fst ` set (d_columns d) then None else Some (map_column k (\<lambda>col. col\<lparr>k_default := v\<rparr>) d))"

definition create_index :: "string \<Rightarrow> index_def \<Rightarrow> ddl" where
  "create_index name x c =
     (case map_of (c_tables c) (x_table x) of
        None \<Rightarrow> None
      | Some d \<Rightarrow>
          if name \<in> fst ` set (c_indexes c) \<or> \<not> has_columns d (index_columns x)
             \<or> (x_unique x \<and> \<not> keys_unique (x_keys x) (filter (in_index (x_where x)) (d_rows d)))
          then None else Some (c\<lparr>c_indexes := c_indexes c @ [(name, x)]\<rparr>))"

definition drop_index :: "string \<Rightarrow> ddl" where
  "drop_index name c =
     (if name \<in> fst ` set (c_indexes c) then Some (c\<lparr>c_indexes := filter (\<lambda>(n, x). n \<noteq> name) (c_indexes c)\<rparr>) else None)"

definition set_rls :: "string \<Rightarrow> bool \<Rightarrow> ddl" where
  "set_rls t b = on_table t (\<lambda>d. Some (d\<lparr>d_rls := b\<rparr>))"

definition set_forced :: "string \<Rightarrow> bool \<Rightarrow> ddl" where
  "set_forced t b = on_table t (\<lambda>d. Some (d\<lparr>d_forced := b\<rparr>))"

definition create_policy :: "string \<Rightarrow> string \<Rightarrow> policy \<Rightarrow> ddl" where
  "create_policy name t p =
     on_table t (\<lambda>d. if name \<in> fst ` set (d_policies d) then None else Some (d\<lparr>d_policies := d_policies d @ [(name, p)]\<rparr>))"

definition create_policy_if_absent :: "string \<Rightarrow> string \<Rightarrow> policy \<Rightarrow> ddl" where
  "create_policy_if_absent name t p =
     on_table t (\<lambda>d. Some (if name \<in> fst ` set (d_policies d) then d else d\<lparr>d_policies := d_policies d @ [(name, p)]\<rparr>))"

definition drop_policy_if_exists :: "string \<Rightarrow> string \<Rightarrow> ddl" where
  "drop_policy_if_exists name t = on_table t (\<lambda>d. Some (d\<lparr>d_policies := filter (\<lambda>(n, p). n \<noteq> name) (d_policies d)\<rparr>))"

definition update_rows :: "string \<Rightarrow> (drow \<Rightarrow> bool) \<Rightarrow> (drow \<Rightarrow> drow) \<Rightarrow> ddl" where
  "update_rows t p f = on_table t (\<lambda>d. Some (d\<lparr>d_rows := map (\<lambda>r. if p r then f r else r) (d_rows d)\<rparr>))"

definition set_cell :: "string \<Rightarrow> dval \<Rightarrow> drow \<Rightarrow> drow" where
  "set_cell k v r = map (\<lambda>(n, w). if n = k then (n, v) else (n, w)) r"

text \<open>A role is created or dropped only with the privilege; without, a notice is raised instead.\<close>

definition create_role_if_absent :: "ddl_env \<Rightarrow> string \<Rightarrow> ddl" where
  "create_role_if_absent E name c =
     Some (c\<lparr>c_roles := (if name \<in> set (c_roles c) \<or> \<not> de_may_roles E then c_roles c else c_roles c @ [name])\<rparr>)"

definition drop_role_if_exists :: "ddl_env \<Rightarrow> string \<Rightarrow> ddl" where
  "drop_role_if_exists E name c =
     Some (c\<lparr>c_roles := (if de_may_roles E then filter (\<lambda>n. n \<noteq> name) (c_roles c) else c_roles c)\<rparr>)"

end
