(* ===== verification/Revisions.thy ===== *)
theory Revisions
  imports Schema
begin

text \<open>
  The schema migrations \<^verbatim>\<open>src/alembic/versions/0001\<close> to \<^verbatim>\<open>0015\<close> as lists of statements, the chain
  they form by \<open>down_revision\<close>, and the runs of \<^verbatim>\<open>src/alembic/env.py\<close> up and down that chain, each in
  one transaction. Numbers in defaults are their texts.
\<close>

definition column :: "string \<Rightarrow> bool \<Rightarrow> col_default option \<Rightarrow> col_def" where
  "column ty nullable v = \<lparr>k_type = ty, k_nullable = nullable, k_default = v\<rparr>"

abbreviation text_column :: col_def where
  "text_column \<equiv> column ''TEXT'' True None"

definition plain_index :: "string \<Rightarrow> string \<Rightarrow> string list \<Rightarrow> ddl" where
  "plain_index name t ks = create_index name \<lparr>x_table = t, x_keys = map Col ks, x_unique = False, x_where = None\<rparr>"

definition tenant_scoped_tables :: "string list" where
  "tenant_scoped_tables = [''brew_log'', ''catalog'', ''inventory_bags'', ''hardware'', ''maintenance_log'']"

section \<open>0001: the initial schema\<close>

definition create_users_table :: ddl where
  "create_users_table = create_table ''users''
     [(''id'', column ''UUID'' False (Some GenRandomUuid)), (''username'', column ''TEXT'' True None),
      (''password_hash'', column ''TEXT'' True None), (''google_sub'', column ''TEXT'' True None),
      (''email'', column ''TEXT'' True None), (''display_name'', column ''TEXT'' False None),
      (''picture_url'', column ''TEXT'' True None), (''created_at'', column ''TIMESTAMPTZ'' False (Some Now)),
      (''last_seen_at'', column ''TIMESTAMPTZ'' False (Some Now)),
      (''login_attempts'', column ''INTEGER'' False (Some (Const (DText ''0'')))),
      (''locked_until'', column ''TIMESTAMPTZ'' True None)]
     [(Some ''users_has_identity'', Check (SomeSet [''username'', ''google_sub''])), (None, Primary [''id'']),
      (None, Unique [''username'']), (None, Unique [''google_sub''])]"

definition create_households_table :: ddl where
  "create_households_table = create_table ''households''
     [(''id'', column ''UUID'' False (Some GenRandomUuid)), (''name'', column ''TEXT'' False None),
      (''created_at'', column ''TIMESTAMPTZ'' False (Some Now)), (''created_by'', column ''UUID'' False None)]
     [(None, Foreign [''created_by''] ''users'' [''id''] NoAction), (None, Primary [''id''])]"

definition create_household_members_table :: ddl where
  "create_household_members_table = create_table ''household_members''
     [(''id'', column ''UUID'' False (Some GenRandomUuid)), (''household_id'', column ''UUID'' False None),
      (''user_id'', column ''UUID'' False None), (''role'', column ''TEXT'' False None),
      (''invited_by'', column ''UUID'' True None), (''joined_at'', column ''TIMESTAMPTZ'' False (Some Now))]
     [(Some ''household_members_role_check'', Check (OneOf ''role'' [''admin'', ''member''])),
      (None, Foreign [''household_id''] ''households'' [''id''] Cascade),
      (None, Foreign [''user_id''] ''users'' [''id''] NoAction),
      (None, Foreign [''invited_by''] ''household_members'' [''id''] SetNull), (None, Primary [''id'']),
      (Some ''uq_household_members_household_user'', Unique [''household_id'', ''user_id''])]"

definition create_pending_invitations_table :: ddl where
  "create_pending_invitations_table = create_table ''pending_invitations''
     [(''id'', column ''UUID'' False (Some GenRandomUuid)), (''household_id'', column ''UUID'' False None),
      (''invited_email'', column ''TEXT'' True None), (''token'', column ''UUID'' False (Some GenRandomUuid)),
      (''invited_by_user_id'', column ''UUID'' False None),
      (''invited_at'', column ''TIMESTAMPTZ'' False (Some Now)),
      (''expires_at'', column ''TIMESTAMPTZ'' False (Some (NowPlus (hours 72)))),
      (''accepted_at'', column ''TIMESTAMPTZ'' True None)]
     [(None, Foreign [''household_id''] ''households'' [''id''] Cascade),
      (None, Foreign [''invited_by_user_id''] ''users'' [''id''] NoAction), (None, Primary [''id'']),
      (None, Unique [''token''])]"

definition create_guest_tokens_table :: ddl where
  "create_guest_tokens_table = create_table ''guest_tokens''
     [(''id'', column ''UUID'' False (Some GenRandomUuid)), (''household_id'', column ''UUID'' False None),
      (''token'', column ''UUID'' False (Some GenRandomUuid)),
      (''created_by_user_id'', column ''UUID'' False None),
      (''created_at'', column ''TIMESTAMPTZ'' False (Some Now)),
      (''revoked_at'', column ''TIMESTAMPTZ'' True None)]
     [(None, Foreign [''household_id''] ''households'' [''id''] Cascade),
      (None, Foreign [''created_by_user_id''] ''users'' [''id''] NoAction), (None, Primary [''id'']),
      (None, Unique [''token''])]"

definition create_refresh_tokens_table :: ddl where
  "create_refresh_tokens_table = create_table ''refresh_tokens''
     [(''id'', column ''UUID'' False (Some GenRandomUuid)), (''user_id'', column ''UUID'' False None),
      (''token_hash'', column ''TEXT'' False None), (''expires_at'', column ''TIMESTAMPTZ'' False None),
      (''revoked'', column ''BOOLEAN'' False (Some (Const (DBool False)))),
      (''created_at'', column ''TIMESTAMPTZ'' False (Some Now))]
     [(None, Foreign [''user_id''] ''users'' [''id''] Cascade), (None, Primary [''id'']),
      (None, Unique [''token_hash''])]"

definition create_catalog_table :: ddl where
  "create_catalog_table = create_table ''catalog''
     [(''id'', column ''UUID'' False (Some GenRandomUuid)), (''household_id'', column ''UUID'' False None),
      (''roaster'', column ''TEXT'' False None), (''bean_name'', column ''TEXT'' False None),
      (''origin'', column ''TEXT'' True None), (''process'', column ''TEXT'' True None),
      (''roast_level'', column ''TEXT'' True None), (''notes'', column ''TEXT'' True None),
      (''created_at'', column ''TIMESTAMPTZ'' False (Some Now))]
     [(None, Primary [''id''])]"

definition create_brew_log_table :: ddl where
  "create_brew_log_table = create_table ''brew_log''
     [(''id'', column ''UUID'' False (Some GenRandomUuid)), (''household_id'', column ''UUID'' False None),
      (''catalog_id'', column ''UUID'' True None), (''brew_method'', column ''TEXT'' True None),
      (''dose_g'', column ''NUMERIC(5,1)'' True None), (''yield_g'', column ''NUMERIC(5,1)'' True None),
      (''time_sec'', column ''INTEGER'' True None), (''rating'', column ''SMALLINT'' True None),
      (''notes'', column ''TEXT'' True None), (''brewed_at'', column ''TIMESTAMPTZ'' False (Some Now)),
      (''created_at'', column ''TIMESTAMPTZ'' False (Some Now))]
     [(None, Foreign [''catalog_id''] ''catalog'' [''id''] NoAction), (None, Primary [''id''])]"

definition create_inventory_bags_table :: ddl where
  "create_inventory_bags_table = create_table ''inventory_bags''
     [(''id'', column ''UUID'' False (Some GenRandomUuid)), (''household_id'', column ''UUID'' False None),
      (''catalog_id'', column ''UUID'' True None), (''roast_date'', column ''DATE'' True None),
      (''weight_g'', column ''NUMERIC(7,1)'' True None), (''purchase_url'', column ''TEXT'' True None),
      (''notes'', column ''TEXT'' True None), (''created_at'', column ''TIMESTAMPTZ'' False (Some Now))]
     [(None, Foreign [''catalog_id''] ''catalog'' [''id''] NoAction), (None, Primary [''id''])]"

definition create_hardware_table :: ddl where
  "create_hardware_table = create_table ''hardware''
     [(''id'', column ''UUID'' False (Some GenRandomUuid)), (''household_id'', column ''UUID'' False None),
      (''name'', column ''TEXT'' False None), (''category'', column ''TEXT'' False None),
      (''purchase_date'', column ''DATE'' True None), (''notes'', column ''TEXT'' True None),
      (''created_at'', column ''TIMESTAMPTZ'' False (Some Now))]
     [(None, Primary [''id''])]"

definition create_maintenance_log_table :: ddl where
  "create_maintenance_log_table = create_table ''maintenance_log''
     [(''id'', column ''UUID'' False (Some GenRandomUuid)), (''household_id'', column ''UUID'' False None),
      (''hardware_id'', column ''UUID'' True None), (''action'', column ''TEXT'' False None),
      (''performed_at'', column ''TIMESTAMPTZ'' False (Some Now)), (''notes'', column ''TEXT'' True None),
      (''created_at'', column ''TIMESTAMPTZ'' False (Some Now))]
     [(None, Foreign [''hardware_id''] ''hardware'' [''id''] NoAction), (None, Primary [''id''])]"

definition upgrade_0001 :: "ddl list" where
  "upgrade_0001 = [
     create_users_table,
     create_households_table,
     create_household_members_table,
     create_pending_invitations_table,
     create_guest_tokens_table,
     plain_index ''ix_guest_tokens_household_id'' ''guest_tokens'' [''household_id''],
     create_refresh_tokens_table,
     plain_index ''ix_refresh_tokens_user_id'' ''refresh_tokens'' [''user_id''],
     create_catalog_table,
     create_brew_log_table,
     create_inventory_bags_table,
     create_hardware_table,
     create_maintenance_log_table]"

definition downgrade_0001 :: "ddl list" where
  "downgrade_0001 = [drop_table ''maintenance_log'', drop_table ''hardware'', drop_table ''inventory_bags'',
     drop_table ''brew_log'', drop_table ''catalog'', drop_index ''ix_refresh_tokens_user_id'',
     drop_table ''refresh_tokens'', drop_index ''ix_guest_tokens_household_id'', drop_table ''guest_tokens'',
     drop_table ''pending_invitations'', drop_table ''household_members'', drop_table ''households'', drop_table ''users'']"

section \<open>0002 and 0003: the household of a row\<close>

definition household_fk :: "string \<Rightarrow> ddl" where
  "household_fk t = create_foreign_key (''fk_'' @ t @ ''_household_id'') t ''households'' [''household_id''] [''id''] Cascade"

definition upgrade_0002 :: "ddl list" where
  "upgrade_0002 = map household_fk [''catalog'', ''brew_log'', ''inventory_bags'', ''hardware'', ''maintenance_log'']"

definition downgrade_0002 :: "ddl list" where
  "downgrade_0002 = map (\<lambda>t. drop_constraint (''fk_'' @ t @ ''_household_id'') t)
     [''maintenance_log'', ''hardware'', ''inventory_bags'', ''brew_log'', ''catalog'']"

definition upgrade_0003 :: "ddl list" where
  "upgrade_0003 = map (\<lambda>t. alter_nullable t ''household_id'' True)
     [''catalog'', ''brew_log'', ''inventory_bags'', ''hardware'', ''maintenance_log'']"

definition downgrade_0003 :: "ddl list" where
  "downgrade_0003 = map (\<lambda>t. alter_nullable t ''household_id'' False)
     [''catalog'', ''brew_log'', ''inventory_bags'', ''hardware'', ''maintenance_log'']"

section \<open>0004 to 0006: identities of the spreadsheet\<close>

definition add_columns :: "ddl_env \<Rightarrow> string \<Rightarrow> (string \<times> col_def) list \<Rightarrow> ddl list" where
  "add_columns E t cols = map (\<lambda>(k, col). add_column E t k col) cols"

definition upgrade_0004 :: "ddl_env \<Rightarrow> ddl list" where
  "upgrade_0004 E =
     add_columns E ''catalog'' [(''sheets_id'', text_column), (''product_url'', text_column), (''local_image_path'', text_column)]
     @ [create_unique_constraint ''uq_catalog_sheets_id'' ''catalog'' [''sheets_id'']]
     @ add_columns E ''inventory_bags'' [(''sheets_id'', text_column), (''beans'', text_column),
         (''display_name'', text_column), (''roast_level'', text_column), (''status'', text_column),
         (''storage_method'', text_column)]
     @ [create_unique_constraint ''uq_inventory_bags_sheets_id'' ''inventory_bags'' [''sheets_id'']]
     @ add_columns E ''hardware'' [(''sheets_id'', text_column), (''product_url'', text_column),
         (''local_image_path'', text_column)]
     @ [create_unique_constraint ''uq_hardware_sheets_id'' ''hardware'' [''sheets_id'']]
     @ add_columns E ''maintenance_log'' [(''sheets_id'', text_column)]
     @ [create_unique_constraint ''uq_maintenance_log_sheets_id'' ''maintenance_log'' [''sheets_id'']]
     @ add_columns E ''brew_log'' [(''sheets_id'', text_column), (''bag_id'', text_column), (''machine_id'', text_column),
         (''grinder_id'', text_column), (''basket_id'', text_column), (''grind_setting'', column ''NUMERIC(5,1)'' True None),
         (''shot_eligibility'', text_column), (''taste_summary'', text_column), (''ai_feedback'', text_column),
         (''storage_method'', text_column)]
     @ [create_unique_constraint ''uq_brew_log_sheets_id'' ''brew_log'' [''sheets_id'']]"

definition drop_columns :: "string \<Rightarrow> string list \<Rightarrow> ddl list" where
  "drop_columns t ks = map (drop_column t) ks"

definition downgrade_0004 :: "ddl list" where
  "downgrade_0004 =
     [drop_constraint ''uq_brew_log_sheets_id'' ''brew_log'']
     @ drop_columns ''brew_log'' [''storage_method'', ''ai_feedback'', ''taste_summary'', ''shot_eligibility'',
         ''grind_setting'', ''basket_id'', ''grinder_id'', ''machine_id'', ''bag_id'', ''sheets_id'']
     @ [drop_constraint ''uq_maintenance_log_sheets_id'' ''maintenance_log'']
     @ drop_columns ''maintenance_log'' [''sheets_id'']
     @ [drop_constraint ''uq_hardware_sheets_id'' ''hardware'']
     @ drop_columns ''hardware'' [''local_image_path'', ''product_url'', ''sheets_id'']
     @ [drop_constraint ''uq_inventory_bags_sheets_id'' ''inventory_bags'']
     @ drop_columns ''inventory_bags'' [''storage_method'', ''status'', ''roast_level'', ''display_name'', ''beans'', ''sheets_id'']
     @ [drop_constraint ''uq_catalog_sheets_id'' ''catalog'']
     @ drop_columns ''catalog'' [''local_image_path'', ''product_url'', ''sheets_id'']"

definition upgrade_0005 :: "ddl_env \<Rightarrow> ddl list" where
  "upgrade_0005 E = [add_column E ''maintenance_log'' ''sheets_hardware_id'' text_column]"

definition downgrade_0005 :: "ddl list" where
  "downgrade_0005 = [drop_column ''maintenance_log'' ''sheets_hardware_id'']"

definition upgrade_0006 :: "ddl_env \<Rightarrow> ddl list" where
  "upgrade_0006 E = [add_column E ''inventory_bags'' ''sheets_catalog_id'' text_column]"

definition downgrade_0006 :: "ddl list" where
  "downgrade_0006 = [drop_column ''inventory_bags'' ''sheets_catalog_id'']"

section \<open>0007: token hashes, row-level security, sign-in states\<close>

definition hashed_token :: "ddl_env \<Rightarrow> string \<Rightarrow> string \<Rightarrow> string \<Rightarrow> ddl list" where
  "hashed_token E t uq other =
     [drop_column t ''token'',
      add_column E t ''token_hash'' (column ''TEXT'' False (Some (Const (DText [])))),
      create_unique_constraint uq t [''token_hash''],
      alter_default t ''token_hash'' None,
      add_column E t other (column ''TIMESTAMPTZ'' True None)]"

definition create_oauth_states_table :: ddl where
  "create_oauth_states_table = create_table ''oauth_states''
     [(''id'', column ''UUID'' False (Some GenRandomUuid)), (''state_hash'', column ''TEXT'' False None),
      (''pkce_verifier'', column ''TEXT'' False None), (''expires_at'', column ''TIMESTAMPTZ'' False None)]
     [(None, Primary [''id'']), (None, Unique [''state_hash''])]"

definition isolation :: "policy_expr \<Rightarrow> policy_expr option \<Rightarrow> policy" where
  "isolation e ck = \<lparr>p_using = e, p_check = ck\<rparr>"

definition upgrade_0007 :: "ddl_env \<Rightarrow> ddl list" where
  "upgrade_0007 E =
     hashed_token E ''pending_invitations'' ''uq_pending_invitations_token_hash'' ''revoked_at''
     @ [plain_index ''ix_pending_invitations_token_hash'' ''pending_invitations'' [''token_hash'']]
     @ hashed_token E ''guest_tokens'' ''uq_guest_tokens_token_hash'' ''expires_at''
     @ [plain_index ''ix_guest_tokens_token_hash'' ''guest_tokens'' [''token_hash''],
        add_column E ''households'' ''is_guest_accessible'' (column ''BOOLEAN'' False (Some (Const (DBool False)))),
        drop_constraint ''household_members_invited_by_fkey'' ''household_members'',
        create_foreign_key ''fk_household_members_invited_by_users'' ''household_members'' ''users'' [''invited_by''] [''id''] SetNull,
        create_oauth_states_table,
        plain_index ''ix_oauth_states_state_hash'' ''oauth_states'' [''state_hash'']]
     @ concat (map (\<lambda>t. [set_rls t True, set_forced t True]) tenant_scoped_tables)
     @ map (\<lambda>t. create_policy_if_absent ''household_isolation'' t (isolation SettingCast None)) tenant_scoped_tables
     @ [create_role_if_absent E ''app_admin'']"

text \<open>\<open>invited_by\<close> is emptied where it names no membership, before it refers to memberships again.\<close>

definition forget_inviters :: ddl where
  "forget_inviters c =
     (case map_of (c_tables c) ''household_members'' of
        None \<Rightarrow> None
      | Some d \<Rightarrow>
          update_rows ''household_members''
            (\<lambda>r. cell_at r ''invited_by'' \<noteq> DNull \<and> \<not> list_ex (\<lambda>m. cell_at m ''id'' = cell_at r ''invited_by'') (d_rows d))
            (set_cell ''invited_by'' DNull) c)"

definition plain_token :: "ddl_env \<Rightarrow> string \<Rightarrow> string \<Rightarrow> string \<Rightarrow> string \<Rightarrow> string \<Rightarrow> ddl list" where
  "plain_token E t ix uq other key =
     [drop_index ix, drop_constraint uq t, drop_column t ''token_hash'', drop_column t other,
      add_column E t ''token'' (column ''UUID'' False (Some GenRandomUuid)),
      create_unique_constraint key t [''token'']]"

definition downgrade_0007 :: "ddl_env \<Rightarrow> ddl list" where
  "downgrade_0007 E =
     [drop_role_if_exists E ''app_admin'']
     @ concat (map (\<lambda>t. [drop_policy_if_exists ''household_isolation'' t, set_forced t False, set_rls t False])
         tenant_scoped_tables)
     @ [drop_index ''ix_oauth_states_state_hash'', drop_table ''oauth_states'',
        drop_constraint ''fk_household_members_invited_by_users'' ''household_members'',
        forget_inviters,
        create_foreign_key ''household_members_invited_by_fkey'' ''household_members'' ''household_members'' [''invited_by''] [''id''] SetNull,
        drop_column ''households'' ''is_guest_accessible'']
     @ plain_token E ''guest_tokens'' ''ix_guest_tokens_token_hash'' ''uq_guest_tokens_token_hash'' ''expires_at''
         ''guest_tokens_token_key''
     @ plain_token E ''pending_invitations'' ''ix_pending_invitations_token_hash'' ''uq_pending_invitations_token_hash''
         ''revoked_at'' ''pending_invitations_token_key''"

section \<open>0008 to 0013\<close>

definition upgrade_0008 :: "ddl_env \<Rightarrow> ddl list" where
  "upgrade_0008 E =
     [add_column E ''pending_invitations'' ''invited_role'' (column ''TEXT'' False (Some (Const (DText ''member'')))),
      add_column E ''pending_invitations'' ''status'' (column ''TEXT'' False (Some (Const (DText ''pending'')))),
      create_check_constraint ''pending_invitations_invited_role_check'' ''pending_invitations''
        (OneOf ''invited_role'' [''admin'', ''member'']),
      create_check_constraint ''pending_invitations_status_check'' ''pending_invitations''
        (OneOf ''status'' [''pending'', ''accepted'', ''declined'', ''revoked'']),
      alter_default ''pending_invitations'' ''invited_role'' None,
      alter_default ''pending_invitations'' ''status'' None]"

definition downgrade_0008 :: "ddl list" where
  "downgrade_0008 =
     [drop_constraint ''pending_invitations_status_check'' ''pending_invitations'',
      drop_constraint ''pending_invitations_invited_role_check'' ''pending_invitations'',
      drop_column ''pending_invitations'' ''status'',
      drop_column ''pending_invitations'' ''invited_role'']"

definition upgrade_0009 :: "ddl_env \<Rightarrow> ddl list" where
  "upgrade_0009 E = [add_column E ''households'' ''deleted_at'' (column ''TIMESTAMPTZ'' True None)]"

definition downgrade_0009 :: "ddl list" where
  "downgrade_0009 = [drop_column ''households'' ''deleted_at'']"

definition upgrade_0010 :: "ddl list" where
  "upgrade_0010 = [create_table ''import_sessions''
     [(''id'', column ''UUID'' False (Some GenRandomUuid)), (''household_id'', column ''UUID'' False None),
      (''created_by'', column ''UUID'' False None), (''state'', column ''JSONB'' False (Some EmptyJson)),
      (''created_at'', column ''TIMESTAMPTZ'' False (Some Now)),
      (''expires_at'', column ''TIMESTAMPTZ'' False (Some (NowPlus (hours 2))))]
     [(None, Foreign [''created_by''] ''users'' [''id''] NoAction),
      (None, Foreign [''household_id''] ''households'' [''id''] Cascade), (None, Primary [''id''])]]"

definition downgrade_0010 :: "ddl list" where
  "downgrade_0010 = [drop_table ''import_sessions'']"

definition upgrade_0011 :: "ddl_env \<Rightarrow> ddl list" where
  "upgrade_0011 E =
     [add_column E ''household_members'' ''invited_at'' (column ''TIMESTAMPTZ'' True None),
      add_column E ''household_members'' ''accepted_at'' (column ''TIMESTAMPTZ'' True None),
      update_rows ''household_members'' (\<lambda>r. cell_at r ''invited_by'' \<noteq> DNull)
        (\<lambda>r. set_cell ''accepted_at'' (cell_at r ''joined_at'') (set_cell ''invited_at'' (cell_at r ''joined_at'') r))]"

definition downgrade_0011 :: "ddl list" where
  "downgrade_0011 = drop_columns ''household_members'' [''accepted_at'', ''invited_at'']"

definition upgrade_0012 :: "ddl_env \<Rightarrow> ddl list" where
  "upgrade_0012 E =
     [add_column E ''users'' ''active_household_id'' (column ''UUID'' True None),
      create_foreign_key ''fk_users_active_household_id_households'' ''users'' ''households'' [''active_household_id''] [''id''] SetNull]"

definition downgrade_0012 :: "ddl list" where
  "downgrade_0012 = [drop_constraint ''fk_users_active_household_id_households'' ''users'',
     drop_column ''users'' ''active_household_id'']"

definition upgrade_0013 :: "ddl_env \<Rightarrow> ddl list" where
  "upgrade_0013 E = [add_column E ''refresh_tokens'' ''rotated_at'' (column ''TIMESTAMPTZ'' True None)]"

definition downgrade_0013 :: "ddl list" where
  "downgrade_0013 = [drop_column ''refresh_tokens'' ''rotated_at'']"

section \<open>0014: idempotency keys and policies that fail closed\<close>

definition replace_household_policy :: "policy_expr \<Rightarrow> ddl list" where
  "replace_household_policy e =
     concat (map (\<lambda>t. [drop_policy_if_exists ''household_isolation'' t,
                      create_policy ''household_isolation'' t (isolation e (Some e))]) tenant_scoped_tables)"

definition upgrade_0014 :: "ddl_env \<Rightarrow> ddl list" where
  "upgrade_0014 E =
     [add_column E ''brew_log'' ''idempotency_key'' text_column,
      add_column E ''brew_log'' ''idempotency_request_hash'' text_column,
      create_index ''uq_brew_log_household_idempotency_key''
        \<lparr>x_table = ''brew_log'', x_keys = [Col ''household_id'', Col ''idempotency_key''], x_unique = True,
         x_where = Some (IsNotNull ''idempotency_key'')\<rparr>]
     @ replace_household_policy NullifCast"

definition downgrade_0014 :: "ddl list" where
  "downgrade_0014 =
     replace_household_policy SettingCast
     @ [drop_index ''uq_brew_log_household_idempotency_key'', drop_column ''brew_log'' ''idempotency_request_hash'',
        drop_column ''brew_log'' ''idempotency_key'']"

section \<open>0015: display tokens\<close>

text \<open>The declined invitations that are still open become pending again.\<close>

definition still_open :: "ddl_env \<Rightarrow> drow \<Rightarrow> bool" where
  "still_open E r \<longleftrightarrow>
     cell_at r ''status'' = DText ''declined''
   \<and> (case cell_at r ''expires_at'' of DTime t \<Rightarrow> de_now E < t | _ \<Rightarrow> False)
   \<and> cell_at r ''accepted_at'' = DNull \<and> cell_at r ''revoked_at'' = DNull"

definition upgrade_0015 :: "ddl_env \<Rightarrow> ddl list" where
  "upgrade_0015 E =
     [add_column E ''pending_invitations'' ''display_token_ciphertext'' text_column,
      add_column E ''guest_tokens'' ''display_token_ciphertext'' text_column,
      plain_index ''ix_pending_invitations_household_status_expires'' ''pending_invitations''
        [''household_id'', ''status'', ''expires_at''],
      create_index ''ix_pending_invitations_household_email_status''
        \<lparr>x_table = ''pending_invitations'', x_keys = [Col ''household_id'', LowerOf ''invited_email'', Col ''status''],
         x_unique = False, x_where = Some (IsNotNull ''invited_email'')\<rparr>,
      create_index ''uq_guest_tokens_active_household''
        \<lparr>x_table = ''guest_tokens'', x_keys = [Col ''household_id''], x_unique = True,
         x_where = Some (IsNull ''revoked_at'')\<rparr>,
      update_rows ''pending_invitations'' (still_open E) (set_cell ''status'' (DText ''pending''))]"

definition downgrade_0015 :: "ddl list" where
  "downgrade_0015 =
     [drop_index ''uq_guest_tokens_active_household'', drop_index ''ix_pending_invitations_household_email_status'',
      drop_index ''ix_pending_invitations_household_status_expires'',
      drop_column ''guest_tokens'' ''display_token_ciphertext'',
      drop_column ''pending_invitations'' ''display_token_ciphertext'']"

section \<open>The chain\<close>

record revision =
  rv_id :: string
  rv_down :: "string option"
  rv_upgrade :: "ddl list"
  rv_downgrade :: "ddl list"

definition revisions :: "ddl_env \<Rightarrow> revision list" where
  "revisions E = map (\<lambda>(i, d, u, v). \<lparr>rv_id = i, rv_down = d, rv_upgrade = u, rv_downgrade = v\<rparr>)
     [(''0001'', None, upgrade_0001, downgrade_0001),
      (''0002'', Some ''0001'', upgrade_0002, downgrade_0002),
      (''0003'', Some ''0002'', upgrade_0003, downgrade_0003),
      (''0004'', Some ''0003'', upgrade_0004 E, downgrade_0004),
      (''0005'', Some ''0004'', upgrade_0005 E, downgrade_0005),
      (''0006'', Some ''0005'', upgrade_0006 E, downgrade_0006),
      (''0007'', Some ''0006'', upgrade_0007 E, downgrade_0007 E),
      (''0008'', Some ''0007'', upgrade_0008 E, downgrade_0008),
      (''0009'', Some ''0008'', upgrade_0009 E, downgrade_0009),
      (''0010'', Some ''0009'', upgrade_0010, downgrade_0010),
      (''0011'', Some ''0010'', upgrade_0011 E, downgrade_0011),
      (''0012'', Some ''0011'', upgrade_0012 E, downgrade_0012),
      (''0013'', Some ''0012'', upgrade_0013 E, downgrade_0013),
      (''0014'', Some ''0013'', upgrade_0014 E, downgrade_0014),
      (''0015'', Some ''0014'', upgrade_0015 E, downgrade_0015)]"

text \<open>
  The revision after a revision, and the run up to the head: all statements in one transaction, the
  version is recorded with them. The number of revisions bounds the run.
\<close>

definition next_revision :: "ddl_env \<Rightarrow> string option \<Rightarrow> revision option" where
  "next_revision E v = find (\<lambda>r. rv_down r = v) (revisions E)"

fun upgrade_steps :: "ddl_env \<Rightarrow> nat \<Rightarrow> string option \<times> catalogue \<Rightarrow> (string option \<times> catalogue) option" where
  "upgrade_steps E 0 s = Some s"
| "upgrade_steps E (Suc n) s =
     (case next_revision E (fst s) of
        None \<Rightarrow> Some s
      | Some r \<Rightarrow> (case run_ddl (rv_upgrade r) (snd s) of
                     None \<Rightarrow> None
                   | Some c \<Rightarrow> upgrade_steps E n (Some (rv_id r), c)))"

definition upgrade_head :: "ddl_env \<Rightarrow> string option \<times> catalogue \<Rightarrow> string option \<times> catalogue" where
  "upgrade_head E s = (case upgrade_steps E (length (revisions E)) s of None \<Rightarrow> s | Some s' \<Rightarrow> s')"

text \<open>One revision down.\<close>

definition downgrade_one :: "ddl_env \<Rightarrow> string option \<times> catalogue \<Rightarrow> string option \<times> catalogue" where
  "downgrade_one E s =
     (case find (\<lambda>r. Some (rv_id r) = fst s) (revisions E) of
        None \<Rightarrow> s
      | Some r \<Rightarrow> (case run_ddl (rv_downgrade r) (snd s) of None \<Rightarrow> s | Some c \<Rightarrow> (rv_down r, c)))"

definition empty_catalogue :: catalogue where
  "empty_catalogue = \<lparr>c_tables = [], c_indexes = [], c_roles = []\<rparr>"

end
