(* ===== verification/SchemaProps.thy ===== *)
theory SchemaProps
  imports Revisions TenantRepos Deps
begin

text \<open>
  Properties of the schema that the migrations reach: its keys, references and policies, evaluated
  once for the comparison with the models in \<open>SchemaModels\<close>, and that its policy decides as \<open>rls_pass\<close>.
\<close>

section \<open>The schema at the head\<close>

text \<open>The keys that no two rows of a table share, and the tables whose rows refer to a table.\<close>

definition unique_keys :: "catalogue \<Rightarrow> string \<Rightarrow> (index_key list \<times> index_where option) list" where
  "unique_keys c t =
     (case map_of (c_tables c) t of
        None \<Rightarrow> []
      | Some d \<Rightarrow> List.map_filter (\<lambda>(_, k). case k of Primary ks \<Rightarrow> Some (map Col ks, None)
                                              | Unique ks \<Rightarrow> Some (map Col ks, None) | _ \<Rightarrow> None) (d_constraints d))
     @ List.map_filter (\<lambda>(_, x). if x_table x = t \<and> x_unique x then Some (x_keys x, x_where x) else None) (c_indexes c)"

definition references :: "catalogue \<Rightarrow> string \<Rightarrow> on_delete \<Rightarrow> (string \<times> string list) list" where
  "references c ref act = concat (map (\<lambda>(t, d). List.map_filter (\<lambda>(_, k). case k of
     Foreign ks r ref_ks a \<Rightarrow> if r = ref \<and> a = act then Some (t, ks) else None | _ \<Rightarrow> None) (d_constraints d)) (c_tables c))"

definition protection :: "catalogue \<Rightarrow> string \<Rightarrow> (bool \<times> bool \<times> (string \<times> policy) list) option" where
  "protection c t = map_option (\<lambda>d. (d_rls d, d_forced d, d_policies d)) (map_of (c_tables c) t)"

definition head :: "ddl_env \<Rightarrow> catalogue" where
  "head X = snd (upgrade_head X (None, empty_catalogue))"

definition head_tables :: "string list" where
  "head_tables = [''users'', ''households'', ''household_members'', ''pending_invitations'', ''guest_tokens'',
     ''refresh_tokens'', ''catalog'', ''brew_log'', ''inventory_bags'', ''hardware'', ''maintenance_log'',
     ''oauth_states'', ''import_sessions'']"

text \<open>What the schema at the head says of keys, references and policies, evaluated once.\<close>

definition schema_summary where
  "schema_summary s = (fst s, map fst (c_tables (snd s)), map (protection (snd s)) tenant_scoped_tables,
     references (snd s) ''households'' Cascade, references (snd s) ''households'' SetNull,
     map (\<lambda>t. references (snd s) t NoAction) head_tables, map (unique_keys (snd s)) head_tables)"

lemma head_summary:
  "schema_summary (upgrade_head X (None, empty_catalogue)) =
   (Some ''0015'', head_tables,
    replicate 5 (Some (True, True, [(''household_isolation'', isolation NullifCast (Some NullifCast))])),
    map (\<lambda>t. (t, [''household_id''])) [''household_members'', ''pending_invitations'', ''guest_tokens'', ''catalog'',
         ''brew_log'', ''inventory_bags'', ''hardware'', ''maintenance_log'', ''import_sessions''],
    [(''users'', [''active_household_id''])],
    [[(''households'', [''created_by'']), (''household_members'', [''user_id'']),
      (''pending_invitations'', [''invited_by_user_id'']), (''guest_tokens'', [''created_by_user_id'']),
      (''import_sessions'', [''created_by''])],
     [], [], [], [], [],
     [(''brew_log'', [''catalog_id'']), (''inventory_bags'', [''catalog_id''])],
     [], [], [(''maintenance_log'', [''hardware_id''])], [], [], []],
    [[([Col ''id''], None), ([Col ''username''], None), ([Col ''google_sub''], None)],
     [([Col ''id''], None)],
     [([Col ''id''], None), ([Col ''household_id'', Col ''user_id''], None)],
     [([Col ''id''], None), ([Col ''token_hash''], None)],
     [([Col ''id''], None), ([Col ''token_hash''], None), ([Col ''household_id''], Some (IsNull ''revoked_at''))],
     [([Col ''id''], None), ([Col ''token_hash''], None)],
     [([Col ''id''], None), ([Col ''sheets_id''], None)],
     [([Col ''id''], None), ([Col ''sheets_id''], None),
      ([Col ''household_id'', Col ''idempotency_key''], Some (IsNotNull ''idempotency_key''))],
     [([Col ''id''], None), ([Col ''sheets_id''], None)],
     [([Col ''id''], None), ([Col ''sheets_id''], None)],
     [([Col ''id''], None), ([Col ''sheets_id''], None)],
     [([Col ''id''], None), ([Col ''state_hash''], None)],
     [([Col ''id''], None)]])"
  by code_simp

lemma head_facts:
  shows head_policies: "map (protection (head X)) tenant_scoped_tables
      = replicate 5 (Some (True, True, [(''household_isolation'', isolation NullifCast (Some NullifCast))]))"
    and head_table_names: "map fst (c_tables (head X)) = head_tables"
    and head_cascade: "references (head X) ''households'' Cascade
      = map (\<lambda>t. (t, [''household_id''])) [''household_members'', ''pending_invitations'', ''guest_tokens'', ''catalog'',
         ''brew_log'', ''inventory_bags'', ''hardware'', ''maintenance_log'', ''import_sessions'']"
    and head_set_null: "references (head X) ''households'' SetNull = [(''users'', [''active_household_id''])]"
  using head_summary [of X] by (simp_all add: schema_summary_def head_def)

lemma head_keys:
  "unique_keys (head X) ''users'' = [([Col ''id''], None), ([Col ''username''], None), ([Col ''google_sub''], None)]"
  "unique_keys (head X) ''households'' = [([Col ''id''], None)]"
  "unique_keys (head X) ''household_members'' = [([Col ''id''], None), ([Col ''household_id'', Col ''user_id''], None)]"
  "unique_keys (head X) ''pending_invitations'' = [([Col ''id''], None), ([Col ''token_hash''], None)]"
  "unique_keys (head X) ''guest_tokens''
     = [([Col ''id''], None), ([Col ''token_hash''], None), ([Col ''household_id''], Some (IsNull ''revoked_at''))]"
  "unique_keys (head X) ''refresh_tokens'' = [([Col ''id''], None), ([Col ''token_hash''], None)]"
  "unique_keys (head X) ''catalog'' = [([Col ''id''], None), ([Col ''sheets_id''], None)]"
  "unique_keys (head X) ''brew_log'' = [([Col ''id''], None), ([Col ''sheets_id''], None),
      ([Col ''household_id'', Col ''idempotency_key''], Some (IsNotNull ''idempotency_key''))]"
  "unique_keys (head X) ''inventory_bags'' = [([Col ''id''], None), ([Col ''sheets_id''], None)]"
  "unique_keys (head X) ''hardware'' = [([Col ''id''], None), ([Col ''sheets_id''], None)]"
  "unique_keys (head X) ''maintenance_log'' = [([Col ''id''], None), ([Col ''sheets_id''], None)]"
  using head_summary [of X] by (simp_all add: schema_summary_def head_def head_tables_def)

lemma head_no_action:
  "map (\<lambda>t. (t, references (head X) t NoAction)) head_tables =
   [(''users'', [(''households'', [''created_by'']), (''household_members'', [''user_id'']),
      (''pending_invitations'', [''invited_by_user_id'']), (''guest_tokens'', [''created_by_user_id'']),
      (''import_sessions'', [''created_by''])]),
    (''households'', []), (''household_members'', []), (''pending_invitations'', []), (''guest_tokens'', []),
    (''refresh_tokens'', []), (''catalog'', [(''brew_log'', [''catalog_id'']), (''inventory_bags'', [''catalog_id''])]),
    (''brew_log'', []), (''inventory_bags'', []), (''hardware'', [(''maintenance_log'', [''hardware_id''])]),
    (''maintenance_log'', []), (''oauth_states'', []), (''import_sessions'', [])]"
  using head_summary [of X] by (simp add: schema_summary_def head_def head_tables_def)

section \<open>The policy\<close>

text \<open>
  What a policy says of a row, or that it raises: the setting is unset, a text, or the empty text
  that a transaction-local value leaves behind.
\<close>

definition policy_decides :: "(string \<Rightarrow> uuid option) \<Rightarrow> policy_expr \<Rightarrow> string option \<Rightarrow> uuid option \<Rightarrow> bool res" where
  "policy_decides uuid_of e setting row_household =
     (let cast = (\<lambda>t. case uuid_of t of None \<Rightarrow> Inl DataError | Some h \<Rightarrow> Inr (row_household = Some h))
      in case setting of
           None \<Rightarrow> Inr False
         | Some t \<Rightarrow> (case e of SettingCast \<Rightarrow> cast t | NullifCast \<Rightarrow> if t = [] then Inr False else cast t))"

text \<open>The setting of a transaction with the household of a session, in a fresh or a used connection.\<close>

definition setting_of :: "(uuid \<Rightarrow> string) \<Rightarrow> bool \<Rightarrow> session \<Rightarrow> string option" where
  "setting_of str_of_uuid used s =
     (case guc s of Some h \<Rightarrow> Some (str_of_uuid h) | None \<Rightarrow> if used then Some [] else None)"

text \<open>
  C18. The policy of the head decides as the models do. In every transaction, with a household or
  without, on a fresh connection or a used one, it never raises and passes exactly the rows that
  \<open>rls_pass\<close> passes; the policy before revision 0014 raised on a used connection without household.
\<close>

theorem policy_is_rls_pass:
  assumes "\<And>h. uuid_of (str_of_uuid h) = Some h" "\<And>h. str_of_uuid h \<noteq> []" "uuid_of [] = None"
  shows "policy_decides uuid_of NullifCast (setting_of str_of_uuid used s) row_household = Inr (rls_pass s row_household)
    \<and> policy_decides uuid_of SettingCast (setting_of str_of_uuid used s) row_household
        = (if guc s = None \<and> used then Inl DataError else Inr (rls_pass s row_household))"
  by (auto simp: policy_decides_def setting_of_def rls_pass_def Let_def assms split: option.splits)

theorem policy_is_rls_pass_witness:
  "policy_decides (\<lambda>t. if t = [] then None else Some (length t - 1)) NullifCast
     (setting_of (\<lambda>n. replicate (n + 1) CHR ''0'') True \<lparr>committed = demo_db, work = demo_db, guc = None\<rparr>) (Some 3) = Inr False"
  using policy_is_rls_pass [of "\<lambda>t. if t = [] then None else Some (length t - 1)" "\<lambda>n. replicate (n + 1) CHR ''0''"
      True "\<lparr>committed = demo_db, work = demo_db, guc = None\<rparr>" "Some 3"]
  by (simp add: rls_pass_def)

end
