(* ===== verification/SchemaModels.thy ===== *)
theory SchemaModels
  imports SchemaProps TenantRepos HouseholdRepo RefreshTokens
begin

text \<open>
  The schema that the migrations reach and the models of the tables: rows of the models as rows of
  the schema, the unique keys of the head against the checks of the inserts, and its references
  against what the deletion of a household erases.
\<close>

section \<open>Rows\<close>

text \<open>
  A row as the constraints of the head see it: the columns of its keys and references. \<open>U\<close> is the
  text of a uuid.
\<close>

definition opt_cell :: "string option \<Rightarrow> dval" where
  "opt_cell v = (case v of None \<Rightarrow> DNull | Some t \<Rightarrow> DText t)"
















lemma opt_cell_simps [simp]:
  "opt_cell None = DNull" "opt_cell (Some t) = DText t" "opt_cell v = DNull \<longleftrightarrow> v = None" "DNull = opt_cell v \<longleftrightarrow> v = None"
  "opt_cell v = DText t \<longleftrightarrow> v = Some t" "DText t = opt_cell v \<longleftrightarrow> v = Some t" "opt_cell v = opt_cell w \<longleftrightarrow> v = w"
  by (auto simp: opt_cell_def split: option.splits)

section \<open>Inserting\<close>



lemma map_option_same: "inj U \<Longrightarrow> map_option U v = map_option U w \<longleftrightarrow> v = w"
  by (cases v; cases w) (auto simp: inj_eq)





section \<open>Deleting a household\<close>












section \<open>The migrations reach the models\<close>




end
