(* ===== verification/SchemaRuns.thy ===== *)
theory SchemaRuns
  imports Revisions
begin

text \<open>
  Well-formed catalogues, in which constraints, indexes and rows name existing columns only; every
  statement keeps them, and the statements that create something are undone by those that drop it.
\<close>

definition columns_of :: "table_def \<Rightarrow> string set" where
  "columns_of d = fst ` set (d_columns d)"

fun target_exists :: "(string \<rightharpoonup> table_def) \<Rightarrow> sql_constraint \<Rightarrow> bool" where
  "target_exists ts (Foreign ks ref ref_ks act) = (\<exists>e. ts ref = Some e \<and> set ref_ks \<subseteq> columns_of e)"
| "target_exists ts _ = True"

definition wf_table :: "(string \<rightharpoonup> table_def) \<Rightarrow> table_def \<Rightarrow> bool" where
  "wf_table ts d \<longleftrightarrow>
     (\<forall>nq \<in> set (d_constraints d). set (constraint_columns (snd nq)) \<subseteq> columns_of d \<and> target_exists ts (snd nq))
   \<and> (\<forall>r \<in> set (d_rows d). fst ` set r \<subseteq> columns_of d)"

definition wf_index :: "(string \<rightharpoonup> table_def) \<Rightarrow> index_def \<Rightarrow> bool" where
  "wf_index ts x \<longleftrightarrow> (\<exists>d. ts (x_table x) = Some d \<and> set (index_columns x) \<subseteq> columns_of d)"

definition wf_catalogue :: "catalogue \<Rightarrow> bool" where
  "wf_catalogue c \<longleftrightarrow> distinct (map fst (c_tables c))
   \<and> (\<forall>td \<in> set (c_tables c). wf_table (map_of (c_tables c)) (snd td))
   \<and> (\<forall>nx \<in> set (c_indexes c). wf_index (map_of (c_tables c)) (snd nx))"

text \<open>Tables keep their columns from one catalogue to the next.\<close>

definition grows :: "(string \<rightharpoonup> table_def) \<Rightarrow> (string \<rightharpoonup> table_def) \<Rightarrow> bool" where
  "grows ts ts' \<longleftrightarrow> (\<forall>t d. ts t = Some d \<longrightarrow> (\<exists>d'. ts' t = Some d' \<and> columns_of d \<subseteq> columns_of d'))"

lemma growsD: "grows ts ts' \<Longrightarrow> ts t = Some d \<Longrightarrow> \<exists>d'. ts' t = Some d' \<and> columns_of d \<subseteq> columns_of d'"
  by (simp add: grows_def)

lemma target_grows: "grows ts ts' \<Longrightarrow> target_exists ts q \<Longrightarrow> target_exists ts' q"
proof (cases q)
  case (Foreign ks ref ref_ks act)
  assume g: "grows ts ts'" and "target_exists ts q"
  then obtain e where "ts ref = Some e" "set ref_ks \<subseteq> columns_of e" using Foreign by auto
  with growsD [OF g] show ?thesis by (fastforce simp: Foreign)
qed auto

lemma wf_table_grows: "grows ts ts' \<Longrightarrow> wf_table ts d \<Longrightarrow> wf_table ts' d"
  by (auto simp: wf_table_def target_grows)

lemma wf_index_grows: "grows ts ts' \<Longrightarrow> wf_index ts x \<Longrightarrow> wf_index ts' x"
  unfolding wf_index_def using growsD by fastforce

section \<open>Statements on one table\<close>

lemma map_of_replace:
  "map_of (map (\<lambda>(n, e). if n = t then (n, d') else (n, e)) ts) =
     (\<lambda>n. if n = t \<and> map_of ts n \<noteq> None then Some d' else map_of ts n)"
  by (induction ts) (auto simp: fun_eq_iff)

lemma on_tableE:
  assumes "on_table t f c = Some c'"
  obtains d d' where "map_of (c_tables c) t = Some d" "f d = Some d'"
    "c' = c\<lparr>c_tables := map (\<lambda>(n, e). if n = t then (n, d') else (n, e)) (c_tables c)\<rparr>"
    "map_of (c_tables c') = (map_of (c_tables c))(t \<mapsto> d')"
proof -
  from assms obtain d d' where d: "map_of (c_tables c) t = Some d" "f d = Some d'"
    "c' = c\<lparr>c_tables := map (\<lambda>(n, e). if n = t then (n, d') else (n, e)) (c_tables c)\<rparr>"
    by (auto simp: on_table_def split: option.splits)
  moreover have "map_of (c_tables c') = (map_of (c_tables c))(t \<mapsto> d')"
    using d by (auto simp: map_of_replace fun_eq_iff)
  ultimately show ?thesis by (rule that)
qed

lemma names_replace: "map fst (map (\<lambda>(n, e). if n = t then (n, d') else (n, e)) ts) = map fst ts"
  by (induction ts) auto

lemma wf_lookup: "wf_catalogue c \<Longrightarrow> map_of (c_tables c) t = Some d \<Longrightarrow> wf_table (map_of (c_tables c)) d"
  by (auto simp: wf_catalogue_def dest!: map_of_SomeD)

lemma wf_catalogueI:
  assumes "distinct (map fst (c_tables c))"
    and "\<And>t d. map_of (c_tables c) t = Some d \<Longrightarrow> wf_table (map_of (c_tables c)) d"
    and "\<And>n x. (n, x) \<in> set (c_indexes c) \<Longrightarrow> wf_index (map_of (c_tables c)) x"
  shows "wf_catalogue c"
  using assms by (auto simp: wf_catalogue_def)

lemma wf_on_table:
  assumes "wf_catalogue c" "on_table t f c = Some c'"
    and "\<And>d d'. map_of (c_tables c) t = Some d \<Longrightarrow> f d = Some d' \<Longrightarrow> wf_table (map_of (c_tables c)) d
          \<Longrightarrow> columns_of d \<subseteq> columns_of d' \<and> wf_table (map_of (c_tables c)) d'"
  shows "wf_catalogue c' \<and> grows (map_of (c_tables c)) (map_of (c_tables c'))"
proof -
  from assms(2) obtain d d' where d: "map_of (c_tables c) t = Some d" "f d = Some d'"
    "c' = c\<lparr>c_tables := map (\<lambda>(n, e). if n = t then (n, d') else (n, e)) (c_tables c)\<rparr>"
    and ts: "map_of (c_tables c') = (map_of (c_tables c))(t \<mapsto> d')"
    by (rule on_tableE)
  have d': "columns_of d \<subseteq> columns_of d'" "wf_table (map_of (c_tables c)) d'"
    using assms(3) [OF d(1,2) wf_lookup [OF assms(1) d(1)]] by auto
  have g: "grows (map_of (c_tables c)) (map_of (c_tables c'))" using d(1) d'(1) by (auto simp: grows_def ts)
  have "wf_catalogue c'"
  proof (rule wf_catalogueI)
    show "distinct (map fst (c_tables c'))" using assms(1) by (simp add: d(3) names_replace wf_catalogue_def del: map_map)
    fix t' e assume "map_of (c_tables c') t' = Some e"
    then have "wf_table (map_of (c_tables c)) e"
      using wf_lookup [OF assms(1)] d'(2) by (auto simp: ts split: if_splits)
    then show "wf_table (map_of (c_tables c')) e" by (rule wf_table_grows [OF g])
  next
    fix n x assume "(n, x) \<in> set (c_indexes c')"
    then have "wf_index (map_of (c_tables c)) x" using assms(1) by (auto simp: d(3) wf_catalogue_def)
    then show "wf_index (map_of (c_tables c')) x" by (rule wf_index_grows [OF g])
  qed
  with g show ?thesis by blast
qed

lemma wf_table_add_column:
  assumes "wf_table ts d" "d' = d\<lparr>d_columns := d_columns d @ [(k, col)],
      d_rows := map (\<lambda>(i, r). r @ [(k, f i)]) (enumerate n (d_rows d))\<rparr>"
  shows "columns_of d \<subseteq> columns_of d' \<and> wf_table ts d'"
proof -
  have cols: "columns_of d' = insert k (columns_of d)" by (simp add: assms(2) columns_of_def)
  have "fst ` set r' \<subseteq> insert k (columns_of d)" if "r' \<in> set (d_rows d')" for r'
  proof -
    from that obtain i r where "(i, r) \<in> set (enumerate n (d_rows d))" and r': "r' = r @ [(k, f i)]"
      by (auto simp: assms(2))
    then have "r \<in> set (d_rows d)" by (metis snd_conv in_set_zip enumerate_eq_zip nth_mem)
    with assms(1) have "fst ` set r \<subseteq> columns_of d" by (simp add: wf_table_def)
    then show ?thesis by (auto simp: r')
  qed
  moreover have "d_constraints d' = d_constraints d" by (simp add: assms(2))
  ultimately show ?thesis using assms(1) unfolding wf_table_def cols by auto
qed

lemma wf_add_column:
  assumes "wf_catalogue c" "add_column E t k col c = Some c'"
  shows "wf_catalogue c'"
  by (rule wf_on_table [OF assms(1) assms(2) [unfolded add_column_def], THEN conjunct1])
     (rule wf_table_add_column [where k = k and col = col and f = "\<lambda>i. default_value E i (k_default col)" and n = 0],
       simp_all split: if_splits)

lemma constraint_valid_columns:
  "constraint_valid c d q \<Longrightarrow> set (constraint_columns q) \<subseteq> columns_of d \<and> target_exists (map_of (c_tables c)) q"
  by (cases q) (auto simp: has_columns_def columns_of_def list_all_iff subset_iff split: option.splits)

lemma wf_add_constraint:
  assumes "wf_catalogue c" "add_constraint n t q c = Some c'"
  shows "wf_catalogue c'"
proof (rule wf_on_table [OF assms(1) assms(2) [unfolded add_constraint_def], THEN conjunct1])
  fix d d'
  assume d': "(if n \<in> fst ` set (d_constraints d) \<or> \<not> constraint_valid c d q then None
      else Some (d\<lparr>d_constraints := d_constraints d @ [(n, q)]\<rparr>)) = Some d'" and wf: "wf_table (map_of (c_tables c)) d"
  from d' have q: "constraint_valid c d q" and eq: "d' = d\<lparr>d_constraints := d_constraints d @ [(n, q)]\<rparr>"
    by (auto split: if_splits)
  have cols: "columns_of d' = columns_of d" by (simp add: eq columns_of_def)
  show "columns_of d \<subseteq> columns_of d' \<and> wf_table (map_of (c_tables c)) d'"
    using wf constraint_valid_columns [OF q] unfolding wf_table_def cols by (simp add: eq)
qed

lemma has_columns_subset: "has_columns d ks \<Longrightarrow> set ks \<subseteq> columns_of d"
  by (auto simp: has_columns_def columns_of_def list_all_iff)

lemma wf_create_index:
  assumes "wf_catalogue c" "create_index n x c = Some c'"
  shows "wf_catalogue c'"
proof (rule wf_catalogueI)
  from assms(2) obtain d where d: "map_of (c_tables c) (x_table x) = Some d" "has_columns d (index_columns x)"
    and c': "c' = c\<lparr>c_indexes := c_indexes c @ [(n, x)]\<rparr>"
    by (auto simp: create_index_def split: option.splits if_splits)
  show "distinct (map fst (c_tables c'))" using assms(1) by (simp add: c' wf_catalogue_def)
  show "map_of (c_tables c') t = Some e \<Longrightarrow> wf_table (map_of (c_tables c')) e" for t e
    using wf_lookup [OF assms(1)] by (simp add: c')
  fix m y assume "(m, y) \<in> set (c_indexes c')"
  then consider "(m, y) \<in> set (c_indexes c)" | "y = x" by (auto simp: c')
  then show "wf_index (map_of (c_tables c')) y"
  proof cases
    case 1 then show ?thesis using assms(1) by (auto simp: c' wf_catalogue_def)
  next
    case 2 then show ?thesis using d(1) has_columns_subset [OF d(2)] by (simp add: c' wf_index_def)
  qed
qed

section \<open>Undoing a statement\<close>

text \<open>A statement that another takes back, whatever the catalogue and its rows.\<close>

definition undone_by :: "ddl \<Rightarrow> ddl \<Rightarrow> bool" where
  "undone_by u d \<longleftrightarrow> (\<forall>c c'. wf_catalogue c \<longrightarrow> u c = Some c' \<longrightarrow> wf_catalogue c' \<and> d c' = Some c)"

lemma undone_byI: "(\<And>c c'. wf_catalogue c \<Longrightarrow> u c = Some c' \<Longrightarrow> wf_catalogue c' \<and> d c' = Some c) \<Longrightarrow> undone_by u d"
  by (simp add: undone_by_def)

lemma undone_byD: "undone_by u d \<Longrightarrow> wf_catalogue c \<Longrightarrow> u c = Some c' \<Longrightarrow> wf_catalogue c' \<and> d c' = Some c"
  by (simp add: undone_by_def)

lemma run_ddl_append: "run_ddl (us @ vs) c = (case run_ddl us c of None \<Rightarrow> None | Some c' \<Rightarrow> run_ddl vs c')"
  by (induction us arbitrary: c) (auto split: option.splits)

lemma run_undone:
  "list_all2 undone_by us ds \<Longrightarrow> wf_catalogue c \<Longrightarrow> run_ddl us c = Some c'
   \<Longrightarrow> wf_catalogue c' \<and> run_ddl (rev ds) c' = Some c"
proof (induction us ds arbitrary: c rule: list_all2_induct)
  case Nil then show ?case by simp
next
  case (Cons u us d ds)
  then obtain c1 where c1: "u c = Some c1" "run_ddl us c1 = Some c'" by (auto split: option.splits)
  from undone_byD [OF Cons.hyps(1) Cons.prems(1) c1(1)] have "wf_catalogue c1" "d c1 = Some c" by simp_all
  with Cons.IH [OF _ c1(2)] show ?case by (simp add: run_ddl_append)
qed

lemma replace_back:
  "distinct (map fst ts) \<Longrightarrow> map_of ts t = Some d
   \<Longrightarrow> map (\<lambda>(n, e). if n = t then (n, d) else (n, e)) (map (\<lambda>(n, e). if n = t then (n, d') else (n, e)) ts) = ts"
proof (induction ts)
  case (Cons x ts)
  then show ?case
  proof (cases "fst x = t")
    case True
    then have "t \<notin> fst ` set ts" using Cons.prems(1) by auto
    then have "map (\<lambda>(n, e). if n = t then (n, d) else (n, e)) (map (\<lambda>(n, e). if n = t then (n, d') else (n, e)) ts) = ts"
      by (intro map_idI [THEN trans [OF map_map]]) (auto simp: image_iff)
    with True Cons.prems(2) show ?thesis by (cases x) simp
  next
    case False with Cons show ?thesis by (cases x) simp
  qed
qed simp

lemma on_table_back:
  assumes "wf_catalogue c" "on_table t f c = Some c'"
    and "\<And>d d'. map_of (c_tables c) t = Some d \<Longrightarrow> f d = Some d' \<Longrightarrow> wf_table (map_of (c_tables c)) d \<Longrightarrow> g d' = Some d"
  shows "on_table t g c' = Some c"
proof -
  from assms(2) obtain d d' where d: "map_of (c_tables c) t = Some d" "f d = Some d'"
    and c': "c' = c\<lparr>c_tables := map (\<lambda>(n, e). if n = t then (n, d') else (n, e)) (c_tables c)\<rparr>"
    and ts: "map_of (c_tables c') = (map_of (c_tables c))(t \<mapsto> d')"
    by (rule on_tableE)
  have "g d' = Some d" by (rule assms(3) [OF d wf_lookup [OF assms(1) d(1)]])
  moreover have "map (\<lambda>(n, e). if n = t then (n, d) else (n, e)) (c_tables c') = c_tables c"
    using assms(1) d(1) by (simp add: c' wf_catalogue_def replace_back del: map_map)
  moreover have "c'\<lparr>c_tables := c_tables c\<rparr> = c" by (simp add: c')
  ultimately show ?thesis by (simp add: on_table_def ts del: map_map)
qed

lemma filter_fresh: "n \<notin> fst ` set xs \<Longrightarrow> filter (\<lambda>(m, y). m \<noteq> n) xs = xs"
  by (induction xs) auto

lemma undo_add_constraint: "undone_by (add_constraint n t q) (drop_constraint n t)"
proof (rule undone_byI, rule conjI)
  fix c c' assume c: "wf_catalogue c" "add_constraint n t q c = Some c'"
  then show "wf_catalogue c'" by (rule wf_add_constraint)
  show "drop_constraint n t c' = Some c"
    unfolding drop_constraint_def
    by (rule on_table_back [OF c(1) c(2) [unfolded add_constraint_def]])
       (auto simp: filter_fresh split: if_splits)
qed

lemma undo_create_index: "undone_by (create_index n x) (drop_index n)"
proof (rule undone_byI, rule conjI)
  fix c c' assume c: "wf_catalogue c" "create_index n x c = Some c'"
  then show "wf_catalogue c'" by (rule wf_create_index)
  from c(2) have "n \<notin> fst ` set (c_indexes c)" "c' = c\<lparr>c_indexes := c_indexes c @ [(n, x)]\<rparr>"
    by (auto simp: create_index_def split: option.splits if_splits)
  then show "drop_index n c' = Some c" by (simp add: drop_index_def filter_fresh)
qed

text \<open>Nothing uses a column that a table does not have, so taking a new column back drops nothing else.\<close>

lemma no_reference_to_new:
  assumes "wf_table ts d" "(n, q) \<in> set (d_constraints d)" "ts t = Some e" "k \<notin> columns_of e"
  shows "\<not> refers_to_column t k q"
proof (cases q)
  case (Foreign ks ref ref_ks act)
  from assms(1,2) have "target_exists ts q" by (auto simp: wf_table_def)
  with assms(3,4) show ?thesis by (auto simp: Foreign)
qed simp_all

lemma rows_back: "list_all (\<lambda>r. k \<notin> fst ` set r) rows
  \<Longrightarrow> map (filter (\<lambda>(n, v). n \<noteq> k)) (map (\<lambda>(i, r). r @ [(k, f i)]) (enumerate j rows)) = rows"
  by (induction rows arbitrary: j) (simp_all add: filter_fresh)

lemma undo_add_column:
  assumes "k \<noteq> ''household_id''"
  shows "undone_by (add_column E t k col) (drop_column t k)"
proof (rule undone_byI, rule conjI)
  fix c c' assume c: "wf_catalogue c" "add_column E t k col c = Some c'"
  then show wf': "wf_catalogue c'" by (rule wf_add_column)
  from c(2) obtain d d' where d: "map_of (c_tables c) t = Some d"
    and new: "k \<notin> columns_of d" and d': "d' = d\<lparr>d_columns := d_columns d @ [(k, col)],
        d_rows := map (\<lambda>(i, r). r @ [(k, default_value E i (k_default col))]) (enumerate 0 (d_rows d))\<rparr>"
    and c': "c' = c\<lparr>c_tables := map (\<lambda>(n, e). if n = t then (n, d') else (n, e)) (c_tables c)\<rparr>"
    unfolding add_column_def by (elim on_tableE) (auto simp: columns_of_def split: if_splits)
  have free: "\<not> refers_to_column t k q" if "(n, e) \<in> set (c_tables c)" "(m, q) \<in> set (d_constraints e)" for n e m q
  proof -
    from that(1) c(1) have "wf_table (map_of (c_tables c)) e" by (auto simp: wf_catalogue_def)
    then show ?thesis using that(2) d new by (rule no_reference_to_new)
  qed
  have 1: "\<not> list_ex (\<lambda>(n, e). n \<noteq> t \<and> list_ex (\<lambda>(_, q). refers_to_column t k q) (d_constraints e)) (c_tables c')"
    using free by (auto simp: c' list_ex_iff split: if_splits)
  have 2: "filter (\<lambda>(n, x). \<not> (x_table x = t \<and> k \<in> set (index_columns x))) (c_indexes c) = c_indexes c"
    using c(1) d new by (fastforce simp: filter_id_conv wf_catalogue_def wf_index_def)
  have 3: "on_table t (\<lambda>d. if k \<notin> fst ` set (d_columns d) \<or> (k = ''household_id'' \<and> d_policies d \<noteq> []) then None
      else Some (d\<lparr>d_columns := filter (\<lambda>(n, col). n \<noteq> k) (d_columns d),
        d_constraints := filter (\<lambda>(n, q). k \<notin> set (constraint_columns q) \<and> \<not> refers_to_column t k q) (d_constraints d),
        d_rows := map (filter (\<lambda>(n, v). n \<noteq> k)) (d_rows d)\<rparr>)) c' = Some c"
  proof (rule on_table_back [OF c(1) c(2) [unfolded add_column_def]])
    fix e e' assume "map_of (c_tables c) t = Some e"
      and "(if k \<in> fst ` set (d_columns e) \<or> (\<not> k_nullable col \<and> k_default col = None \<and> d_rows e \<noteq> []) then None
        else Some (e\<lparr>d_columns := d_columns e @ [(k, col)],
          d_rows := map (\<lambda>(i, r). r @ [(k, default_value E i (k_default col))]) (enumerate 0 (d_rows e))\<rparr>)) = Some e'"
      and wf: "wf_table (map_of (c_tables c)) e"
    with d d' have e: "e = d" "e' = d'" by (auto split: if_splits)
    have "filter (\<lambda>(n, q). k \<notin> set (constraint_columns q) \<and> \<not> refers_to_column t k q) (d_constraints d) = d_constraints d"
      using wf new free map_of_SomeD [OF d] by (fastforce simp: e filter_id_conv wf_table_def)
    moreover have "list_all (\<lambda>r. k \<notin> fst ` set r) (d_rows d)"
      using wf new unfolding list_all_iff e wf_table_def by blast
    ultimately show "(if k \<notin> fst ` set (d_columns e') \<or> (k = ''household_id'' \<and> d_policies e' \<noteq> []) then None
      else Some (e'\<lparr>d_columns := filter (\<lambda>(n, col). n \<noteq> k) (d_columns e'),
        d_constraints := filter (\<lambda>(n, q). k \<notin> set (constraint_columns q) \<and> \<not> refers_to_column t k q) (d_constraints e'),
        d_rows := map (filter (\<lambda>(n, v). n \<noteq> k)) (d_rows e')\<rparr>)) = Some e"
      using assms new by (simp add: e d' rows_back filter_fresh columns_of_def del: map_map)
  qed
  show "drop_column t k c' = Some c"
    unfolding drop_column_def 3 using 1 2 by simp
qed

lemma own_constraints:
  "wf_catalogue c \<Longrightarrow> c_tables c = ts @ [(t, d)] \<Longrightarrow> t \<notin> fst ` set ts
   \<Longrightarrow> run_ddl (map (\<lambda>(name, q). add_constraint (g name q) t q) ks) c = Some c'
   \<Longrightarrow> wf_catalogue c' \<and> (\<exists>d'. c' = c\<lparr>c_tables := ts @ [(t, d')]\<rparr>)"
proof (induction ks arbitrary: c d)
  case Nil then show ?case by (auto intro!: exI [of _ d] catalogue.equality)
next
  case (Cons nq ks)
  obtain name q where nq: "nq = (name, q)" by (cases nq)
  with Cons.prems(4) obtain c1 where c1: "add_constraint (g name q) t q c = Some c1"
    "run_ddl (map (\<lambda>(name, q). add_constraint (g name q) t q) ks) c1 = Some c'" by (auto split: option.splits)
  have wf: "wf_catalogue c1" by (rule wf_add_constraint [OF Cons.prems(1) c1(1)])
  have ts: "map (\<lambda>(n, e). if n = t then (n, x) else (n, e)) ts = ts" for x
    using Cons.prems(3) by (intro map_idI) (auto simp: image_iff)
  from c1(1) obtain d1 where "c1 = c\<lparr>c_tables := ts @ [(t, d1)]\<rparr>"
    unfolding add_constraint_def by (elim on_tableE) (simp add: Cons.prems(2) ts)
  with Cons.IH [OF wf _ Cons.prems(3) c1(2)] show ?case by auto
qed

lemma wf_new_table:
  assumes "wf_catalogue c" "t \<notin> fst ` set (c_tables c)" "d_constraints d = []" "d_rows d = []"
  shows "wf_catalogue (c\<lparr>c_tables := c_tables c @ [(t, d)]\<rparr>)"
proof (rule wf_catalogueI)
  let ?c = "c\<lparr>c_tables := c_tables c @ [(t, d)]\<rparr>"
  have none: "map_of (c_tables c) t = None" using assms(2) by (simp add: map_of_eq_None_iff)
  have ts: "map_of (c_tables ?c) = (map_of (c_tables c))(t \<mapsto> d)"
    using none by (auto simp: map_add_def fun_eq_iff split: option.splits)
  have g: "grows (map_of (c_tables c)) (map_of (c_tables ?c))" unfolding ts using none by (auto simp: grows_def)
  show "distinct (map fst (c_tables ?c))" using assms(1,2) by (simp add: wf_catalogue_def)
  show "wf_table (map_of (c_tables ?c)) e" if "map_of (c_tables ?c) u = Some e" for u e
  proof (cases "u = t")
    case True with that assms(3,4) show ?thesis unfolding ts by (simp add: wf_table_def)
  next
    case False
    with that have "map_of (c_tables c) u = Some e" unfolding ts by simp
    then show ?thesis by (intro wf_table_grows [OF g]) (rule wf_lookup [OF assms(1)])
  qed
  show "wf_index (map_of (c_tables ?c)) x" if "(n, x) \<in> set (c_indexes ?c)" for n x
    using that assms(1) by (intro wf_index_grows [OF g]) (auto simp: wf_catalogue_def)
qed

lemma undo_create_table: "undone_by (create_table t cols ks) (drop_table t)"
proof (rule undone_byI)
  fix c c' assume wf: "wf_catalogue c" and new: "create_table t cols ks c = Some c'"
  from new have t: "t \<notin> fst ` set (c_tables c)" unfolding create_table_def by (simp split: if_splits)
  let ?d = "\<lparr>d_columns = cols, d_constraints = [], d_rls = False, d_forced = False, d_policies = [], d_rows = []\<rparr>"
  from new t have run: "run_ddl (map (\<lambda>(name, q). add_constraint (case name of Some n \<Rightarrow> n | None \<Rightarrow> given_name t q) t q) ks)
        (c\<lparr>c_tables := c_tables c @ [(t, ?d)]\<rparr>) = Some c'"
    unfolding create_table_def by simp
  have wf1: "wf_catalogue (c\<lparr>c_tables := c_tables c @ [(t, ?d)]\<rparr>)" by (rule wf_new_table [OF wf t]) simp_all
  from own_constraints [OF wf1 _ t run] obtain d' where wf': "wf_catalogue c'"
    and c': "c' = c\<lparr>c_tables := c_tables c @ [(t, d')]\<rparr>" by auto
  have none: "map_of (c_tables c) t = None" using t by (simp add: map_of_eq_None_iff)
  have "\<not> refers_to t q" if "(n, e) \<in> set (c_tables c)" "(m, q) \<in> set (d_constraints e)" for n e m q
  proof (cases q)
    case (Foreign us ref vs act)
    from that wf have "target_exists (map_of (c_tables c)) q" by (fastforce simp: wf_catalogue_def wf_table_def)
    then show ?thesis using none by (auto simp: Foreign)
  qed simp_all
  then have refs: "\<not> list_ex (\<lambda>(n, e). n \<noteq> t \<and> list_ex (\<lambda>(_, q). refers_to t q) (d_constraints e)) (c_tables c')"
    by (auto simp: c' list_ex_iff)
  have "filter (\<lambda>(n, x). x_table x \<noteq> t) (c_indexes c) = c_indexes c"
    using wf none by (fastforce simp: filter_id_conv wf_catalogue_def wf_index_def)
  with refs have "drop_table t c' = Some c" by (simp add: drop_table_def c' filter_fresh [OF t])
  with wf' show "wf_catalogue c' \<and> drop_table t c' = Some c" by simp
qed

section \<open>Revisions that are taken back\<close>

lemmas undoes = undo_add_column undo_add_constraint undo_create_index undo_create_table

definition restored_revisions :: "string list" where
  "restored_revisions = [''0002'', ''0004'', ''0005'', ''0006'', ''0009'', ''0010'', ''0012'', ''0013'']"

lemma restored:
  "list_all (\<lambda>r. rv_id r \<in> set restored_revisions \<longrightarrow> list_all2 undone_by (rv_upgrade r) (rev (rv_downgrade r))) (revisions E)"
  by (simp add: revisions_def restored_revisions_def upgrade_0002_def downgrade_0002_def upgrade_0004_def downgrade_0004_def
    upgrade_0005_def downgrade_0005_def upgrade_0006_def downgrade_0006_def upgrade_0009_def downgrade_0009_def
    upgrade_0010_def downgrade_0010_def upgrade_0012_def downgrade_0012_def upgrade_0013_def downgrade_0013_def
    add_columns_def drop_columns_def create_unique_constraint_def create_foreign_key_def household_fk_def undoes)

lemma restored_member:
  "r \<in> set (revisions E) \<Longrightarrow> rv_id r \<in> set restored_revisions \<Longrightarrow> list_all2 undone_by (rv_upgrade r) (rev (rv_downgrade r))"
  using restored [of E] by (simp add: list_all_iff)

lemma restored_not_head:
  "v \<in> Some ` set restored_revisions \<Longrightarrow> \<exists>r. next_revision E v = Some r"
  by (auto simp: restored_revisions_def next_revision_def revisions_def)

lemma find_own_id:
  "distinct (map rv_id rs) \<Longrightarrow> r \<in> set rs \<Longrightarrow> find (\<lambda>q. Some (rv_id q) = Some (rv_id r)) rs = Some r"
  by (induction rs) (auto simp: image_iff)

lemma ids_distinct: "distinct (map rv_id (revisions E))"
  by (simp add: revisions_def)

text \<open>
  C19. A revision that only adds is taken back exactly. Eight of the fifteen revisions only add
  columns, constraints and tables; where such a revision has been applied, to any well-formed schema
  with any rows, one step down returns the database with all its rows as it was.
\<close>

theorem rollback_restores:
  assumes "wf_catalogue (snd s)" "upgrade_steps E 1 s = Some s'" "fst s' \<in> Some ` set restored_revisions"
  shows "downgrade_one E s' = s"
proof -
  obtain r where r: "next_revision E (fst s) = Some r"
  proof (cases "next_revision E (fst s)")
    case None with assms(2) have "s' = s" by simp
    with restored_not_head [OF assms(3), of E] None show ?thesis by simp
  qed (rule that)
  with assms(2) obtain c where c: "run_ddl (rv_upgrade r) (snd s) = Some c" "s' = (Some (rv_id r), c)"
    by (auto split: option.splits)
  from r have down: "rv_down r = fst s" and mem: "r \<in> set (revisions E)"
    by (auto simp: next_revision_def find_Some_iff in_set_conv_nth)
  from assms(3) c(2) have "list_all2 undone_by (rv_upgrade r) (rev (rv_downgrade r))"
    by (intro restored_member [OF mem]) auto
  from run_undone [OF this assms(1) c(1)] have "run_ddl (rv_downgrade r) c = Some (snd s)" by simp
  with down show ?thesis
    unfolding downgrade_one_def c(2) fst_conv find_own_id [OF ids_distinct mem] by (simp add: prod_eq_iff)
qed

text \<open>The schema and the rows of a single log.\<close>

definition one_log :: catalogue where
  "one_log = \<lparr>c_tables = [(''maintenance_log'', \<lparr>d_columns = [(''id'', text_column)], d_constraints = [], d_rls = False,
     d_forced = False, d_policies = [], d_rows = [[(''id'', DText ''a'')]]\<rparr>)], c_indexes = [], c_roles = []\<rparr>"

definition quiet_env :: ddl_env where
  "quiet_env = \<lparr>de_now = 0, de_fresh = \<lambda>i. replicate i CHR ''0'', de_may_roles = False\<rparr>"

theorem rollback_restores_witness:
  "map_option (\<lambda>s. (fst s, snd s = one_log, downgrade_one quiet_env s))
     (upgrade_steps quiet_env 1 (Some ''0004'', one_log)) = Some (Some ''0005'', False, (Some ''0004'', one_log))"
proof -
  have wf: "wf_catalogue (snd (Some ''0004'', one_log))"
    by (simp add: one_log_def wf_catalogue_def wf_table_def columns_of_def)
  have "case upgrade_steps quiet_env 1 (Some ''0004'', one_log) of None \<Rightarrow> False
    | Some s \<Rightarrow> fst s = Some ''0005'' \<and> snd s \<noteq> one_log" by code_simp
  then obtain s where s: "upgrade_steps quiet_env 1 (Some ''0004'', one_log) = Some s" "fst s = Some ''0005''" "snd s \<noteq> one_log"
    by (auto split: option.splits)
  moreover have "downgrade_one quiet_env s = (Some ''0004'', one_log)"
    by (rule rollback_restores [OF wf s(1)]) (simp add: s(2) restored_revisions_def)
  ultimately show ?thesis by simp
qed

section \<open>Rows that a revision refuses\<close>

lemma on_table_row:
  "on_table t f c = Some c' \<Longrightarrow> map_of (c_tables c) t = Some d \<Longrightarrow> \<exists>d'. f d = Some d' \<and> map_of (c_tables c') t = Some d'"
  by (elim on_tableE) simp

lemma on_table_other: "on_table t f c = Some c' \<Longrightarrow> u \<noteq> t \<Longrightarrow> map_of (c_tables c') u = map_of (c_tables c) u"
  by (elim on_tableE) simp

lemma drop_column_other: "drop_column t k c = Some c' \<Longrightarrow> u \<noteq> t \<Longrightarrow> map_of (c_tables c') u = map_of (c_tables c) u"
  by (auto simp: drop_column_def on_table_other split: if_splits)

lemma add_column_other: "add_column E t k col c = Some c' \<Longrightarrow> u \<noteq> t \<Longrightarrow> map_of (c_tables c') u = map_of (c_tables c) u"
  by (simp add: add_column_def on_table_other)

lemma add_constraint_other: "add_constraint n t q c = Some c' \<Longrightarrow> u \<noteq> t \<Longrightarrow> map_of (c_tables c') u = map_of (c_tables c) u"
  by (simp add: add_constraint_def on_table_other)

lemma alter_default_other: "alter_default t k v c = Some c' \<Longrightarrow> u \<noteq> t \<Longrightarrow> map_of (c_tables c') u = map_of (c_tables c) u"
  by (simp add: alter_default_def on_table_other)

lemma create_index_tables: "create_index n x c = Some c' \<Longrightarrow> c_tables c' = c_tables c"
  by (auto simp: create_index_def split: option.splits if_splits)

lemma hashed_token_other:
  "run_ddl (hashed_token E t uq other) c = Some c' \<Longrightarrow> u \<noteq> t \<Longrightarrow> map_of (c_tables c') u = map_of (c_tables c) u"
  by (simp add: hashed_token_def create_unique_constraint_def drop_column_other add_column_other add_constraint_other
      alter_default_other split: option.splits)

text \<open>Two rows of a table get the same hash.\<close>

lemma new_cell: "k \<notin> fst ` set r \<Longrightarrow> cell_at (r @ [(k, v)]) k = v"
proof -
  assume "k \<notin> fst ` set r"
  then have "map_of r k = None" by (simp add: map_of_eq_None_iff)
  then show ?thesis by (simp add: cell_at_def map_add_def)
qed

lemma same_hash:
  assumes "list_all (\<lambda>r. k \<notin> fst ` set r) rows" "2 \<le> length rows"
  shows "\<not> keys_unique [Col k] (map (\<lambda>(i, r). r @ [(k, DText v)]) (enumerate 0 rows))"
proof -
  from assms(2) obtain r1 r2 rs where rows: "rows = r1 # r2 # rs"
    by (cases rows; cases "tl rows") auto
  with assms(1) have "k \<notin> fst ` set r1" "k \<notin> fst ` set r2" by simp_all
  then show ?thesis by (simp add: rows keys_unique_def new_cell)
qed

lemma dropped_cells:
  assumes "wf_table ts d" "k' \<notin> fst ` set (filter (\<lambda>(n, col). n \<noteq> k) (d_columns d))"
  shows "list_all (\<lambda>r. k' \<notin> fst ` set r) (map (filter (\<lambda>(n, v). n \<noteq> k)) (d_rows d))"
proof -
  have "k' \<notin> fst ` set (filter (\<lambda>(n, v). n \<noteq> k) r)" if "r \<in> set (d_rows d)" for r
  proof (cases "k' = k")
    case False
    with assms(2) have "k' \<notin> columns_of d" by (force simp: columns_of_def)
    with assms(1) that show ?thesis unfolding wf_table_def by fastforce
  qed auto
  then show ?thesis by (simp add: list_all_iff)
qed

lemma hashed_token_refuses:
  assumes "wf_table ts d" "map_of (c_tables c) t = Some d" "2 \<le> length (d_rows d)"
  shows "run_ddl (hashed_token E t uq other) c = None"
proof (rule ccontr)
  assume "run_ddl (hashed_token E t uq other) c \<noteq> None"
  then obtain c1 c2 c3 where c1: "drop_column t ''token'' c = Some c1"
    and c2: "add_column E t ''token_hash'' (column ''TEXT'' False (Some (Const (DText [])))) c1 = Some c2"
    and c3: "add_constraint uq t (Unique [''token_hash'']) c2 = Some c3"
    by (auto simp: hashed_token_def create_unique_constraint_def split: option.splits)
  from c1 obtain d1 where d1: "map_of (c_tables c1) t = Some d1"
    "d_columns d1 = filter (\<lambda>(n, col). n \<noteq> ''token'') (d_columns d)" "d_rows d1 = map (filter (\<lambda>(n, v). n \<noteq> ''token'')) (d_rows d)"
    by (auto simp: drop_column_def assms(2) split: if_splits elim!: on_tableE)
  from on_table_row [OF c2 [unfolded add_column_def] d1(1)] obtain d2 where d2: "map_of (c_tables c2) t = Some d2"
    "''token_hash'' \<notin> fst ` set (d_columns d1)"
    "d_rows d2 = map (\<lambda>(i, r). r @ [(''token_hash'', DText [])]) (enumerate 0 (d_rows d1))"
    by (auto simp: column_def default_value_def split: if_splits)
  have "list_all (\<lambda>r. ''token_hash'' \<notin> fst ` set r) (d_rows d1)"
    using dropped_cells [OF assms(1)] d2(2) unfolding d1(2,3) by simp
  with assms(3) have "\<not> keys_unique [Col ''token_hash''] (d_rows d2)"
    unfolding d2(3) by (intro same_hash) (simp_all add: d1(3))
  with on_table_row [OF c3 [unfolded add_constraint_def] d2(1)] show False by (simp split: if_splits)
qed

lemma upgrade_0007_refuses:
  assumes "wf_catalogue c" "t \<in> {''pending_invitations'', ''guest_tokens''}" "map_of (c_tables c) t = Some d"
    "2 \<le> length (d_rows d)"
  shows "run_ddl (upgrade_0007 E) c = None"
proof (cases "t = ''pending_invitations''")
  case True
  then show ?thesis
    using hashed_token_refuses [OF wf_lookup [OF assms(1,3)] assms(3,4)] by (simp add: upgrade_0007_def run_ddl_append)
next
  case False
  with assms(2) have t: "t = ''guest_tokens''" by simp
  have "run_ddl (hashed_token E t uq other) c' = None" if "map_of (c_tables c') t = Some d" for c' uq other
    by (rule hashed_token_refuses [OF wf_lookup [OF assms(1,3)] that assms(4)])
  moreover have "map_of (c_tables c') t = Some d"
    if "run_ddl (hashed_token E ''pending_invitations'' uq other) c = Some c'" for c' uq other
    using hashed_token_other [OF that] assms(3) by (simp add: t)
  ultimately show ?thesis
    by (auto simp: upgrade_0007_def run_ddl_append plain_index_def t create_index_tables split: option.splits)
qed

text \<open>
  C20. Revision 0007 refuses a database in use. Where two invitations or two guest links exist, the
  hash that each of them gets is the same empty text under a new unique constraint: the upgrade
  fails in any environment, and the transaction leaves schema, rows and version as they were.
\<close>

theorem token_hashes_refuse_rows:
  assumes "wf_catalogue c" "t \<in> {''pending_invitations'', ''guest_tokens''}" "map_of (c_tables c) t = Some d"
    "2 \<le> length (d_rows d)"
  shows "upgrade_head E (Some ''0006'', c) = (Some ''0006'', c)"
proof -
  have "run_ddl (upgrade_0007 E) c = None" by (rule upgrade_0007_refuses [OF assms])
  then show ?thesis by (simp add: upgrade_head_def next_revision_def revisions_def)
qed

definition two_links :: catalogue where
  "two_links = \<lparr>c_tables = [(''guest_tokens'', \<lparr>d_columns = [(''token'', text_column)], d_constraints = [], d_rls = False,
     d_forced = False, d_policies = [], d_rows = [[(''token'', DText ''a'')], [(''token'', DText ''b'')]]\<rparr>)],
     c_indexes = [], c_roles = []\<rparr>"

theorem token_hashes_refuse_rows_witness:
  "upgrade_head quiet_env (Some ''0006'', two_links) = (Some ''0006'', two_links)"
proof (rule token_hashes_refuse_rows)
  show "wf_catalogue two_links" by (simp add: two_links_def wf_catalogue_def wf_table_def columns_of_def)
  show "map_of (c_tables two_links) ''guest_tokens'' = Some (snd (hd (c_tables two_links)))" by (simp add: two_links_def)
  show "2 \<le> length (d_rows (snd (hd (c_tables two_links))))" by (simp add: two_links_def)
qed simp

end
