(* ===== verification/PageMeta.thy ===== *)
theory PageMeta
  imports Images Urls
begin

text \<open>
  The extraction of tags from a product page in \<^verbatim>\<open>app/services/image_sourcer.py\<close>: a matcher for the
  regular expressions it uses, with the order in which Python's backtracking tries them, the
  patterns, and the page context they give. Texts are ASCII.
\<close>

section \<open>Patterns\<close>

text \<open>
  A pattern is a sequence of items, some captured: a literal in any case, one character of a
  class, and repetitions of a class, which try the longest text first.
\<close>

datatype item = Lit string | One "char \<Rightarrow> bool" | Many "char \<Rightarrow> bool" | AtLeastOne "char \<Rightarrow> bool" | UpTo nat "char \<Rightarrow> bool"

definition prefixes :: "nat \<Rightarrow> nat \<Rightarrow> string \<Rightarrow> (string \<times> string) list" where
  "prefixes lo hi s = map (\<lambda>n. (take n s, drop n s)) (rev [lo..<Suc hi])"

fun choices :: "item \<Rightarrow> string \<Rightarrow> (string \<times> string) list" where
  "choices (Lit w) s = (if lower (take (length w) s) = lower w then [(take (length w) s, drop (length w) s)] else [])"
| "choices (One P) s = (case s of [] \<Rightarrow> [] | c # cs \<Rightarrow> if P c then [([c], cs)] else [])"
| "choices (Many P) s = prefixes 0 (length (takeWhile P s)) s"
| "choices (AtLeastOne P) s = prefixes 1 (length (takeWhile P s)) s"
| "choices (UpTo n P) s = prefixes 1 (min n (length (takeWhile P s))) s"

type_synonym pattern = "(bool \<times> item) list"

fun first_some :: "('a \<Rightarrow> 'b option) \<Rightarrow> 'a list \<Rightarrow> 'b option" where
  "first_some f [] = None"
| "first_some f (x # xs) = (case f x of Some y \<Rightarrow> Some y | None \<Rightarrow> first_some f xs)"

lemma first_some_SomeD: "first_some f xs = Some y \<Longrightarrow> \<exists>x\<in>set xs. f x = Some y"
  by (induction xs) (auto split: option.splits)

lemma first_some_None: "first_some f xs = None \<longleftrightarrow> (\<forall>x\<in>set xs. f x = None)"
  by (induction xs) (auto split: option.splits)

text \<open>The captured texts of the first match at the start of a text, and of the first that starts anywhere.\<close>

primrec match_here :: "pattern \<Rightarrow> string \<Rightarrow> string list option" where
  "match_here [] s = Some []"
| "match_here (x # p) s =
     first_some (\<lambda>(a, rest). map_option (\<lambda>caps. if fst x then a # caps else caps) (match_here p rest)) (choices (snd x) s)"

fun search :: "pattern \<Rightarrow> string \<Rightarrow> string list option" where
  "search p [] = match_here p []"
| "search p (c # s) = (case match_here p (c # s) of Some caps \<Rightarrow> Some caps | None \<Rightarrow> search p s)"

section \<open>The tags\<close>

definition quote :: "char \<Rightarrow> bool" where
  "quote c \<longleftrightarrow> c = CHR ''\"'' \<or> c = CHR 0x27"

definition in_tag :: "bool \<times> item" where
  "in_tag = (False, AtLeastOne (\<lambda>c. c \<noteq> CHR ''>''))"

definition unquoted :: "char \<Rightarrow> bool" where
  "unquoted c \<longleftrightarrow> \<not> quote c"

text \<open>\<open>attribute=["'](text)["']\<close>\<close>

definition attr :: "string \<Rightarrow> bool \<times> item \<Rightarrow> pattern" where
  "attr name x = [(False, Lit (name @ ''='')), (False, One quote), x, (False, One quote)]"

definition meta_first :: "string \<Rightarrow> string \<Rightarrow> pattern" where
  "meta_first kind name = [(False, Lit ''<meta''), in_tag] @ attr kind (True, Lit name) @ [in_tag]
     @ attr ''content'' (True, Many unquoted)"

definition meta_content_first :: "string \<Rightarrow> pattern" where
  "meta_content_first name = [(False, Lit ''<meta''), in_tag] @ attr ''content'' (True, Many unquoted) @ [in_tag]
     @ attr ''property'' (True, Lit name)"

definition extract_meta :: "string \<Rightarrow> string \<Rightarrow> string" where
  "extract_meta html name =
     (case search (meta_first ''property'' name) html of
        Some caps \<Rightarrow> strip (caps ! 1)
      | None \<Rightarrow>
          (case search (meta_content_first name) html of
             Some caps \<Rightarrow> strip (caps ! 0)
           | None \<Rightarrow>
               (case search (meta_first ''name'' name) html of
                  Some caps \<Rightarrow> strip (caps ! 1)
                | None \<Rightarrow> [])))"

definition og_image_patterns :: "pattern list" where
  "og_image_patterns =
     [[(False, Lit ''<meta''), in_tag] @ attr ''property'' (False, Lit ''og:image'') @ [in_tag]
        @ attr ''content'' (True, AtLeastOne unquoted),
      [(False, Lit ''<meta''), in_tag] @ attr ''content'' (True, AtLeastOne unquoted) @ [in_tag]
        @ attr ''property'' (False, Lit ''og:image'')]"

definition og_image_of :: "string \<Rightarrow> string option" where
  "og_image_of html =
     map_option (\<lambda>caps. strip (caps ! 0)) (first_some (\<lambda>p. search p html) og_image_patterns)"

definition title_pattern :: pattern where
  "title_pattern = [(False, Lit ''<title''), (False, Many (\<lambda>c. c \<noteq> CHR ''>'')), (False, Lit ''>''),
     (True, UpTo 200 (\<lambda>c. c \<noteq> CHR ''<'')), (False, Lit ''</title>'')]"

definition tags_of :: "string \<Rightarrow> page_context" where
  "tags_of html = \<lparr>pc_og_image = [], pc_og_title = extract_meta html ''og:title'',
     pc_og_description = extract_meta html ''og:description'', pc_meta_description = extract_meta html ''description'',
     pc_page_title = (case search title_pattern html of None \<Rightarrow> [] | Some caps \<Rightarrow> strip (caps ! 0))\<rparr>"

text \<open>A network whose URLs are split by \<open>urlparse\<close> and whose pages are read by these patterns.\<close>

definition reading_network :: "(string \<Rightarrow> bool) \<Rightarrow> network \<Rightarrow> network" where
  "reading_network ip_ok N = N\<lparr>nw_tags := tags_of, nw_og_image := og_image_of,
     nw_parse := (\<lambda>url. case urlsplit ip_ok url of
        Inl _ \<Rightarrow> None | Inr u \<Rightarrow> Some \<lparr>up_scheme = us_scheme u, up_hostname = hostname u\<rparr>)\<rparr>"

section \<open>What a match is\<close>

fun fits :: "item \<Rightarrow> string \<Rightarrow> bool" where
  "fits (Lit w) a \<longleftrightarrow> lower a = lower w"
| "fits (One P) a \<longleftrightarrow> (\<exists>c. a = [c] \<and> P c)"
| "fits (Many P) a \<longleftrightarrow> list_all P a"
| "fits (AtLeastOne P) a \<longleftrightarrow> a \<noteq> [] \<and> list_all P a"
| "fits (UpTo n P) a \<longleftrightarrow> a \<noteq> [] \<and> length a \<le> n \<and> list_all P a"

definition captured :: "pattern \<Rightarrow> string list \<Rightarrow> string list" where
  "captured p pieces = map snd (filter (\<lambda>xa. fst (fst xa)) (zip p pieces))"

abbreviation fit_all :: "pattern \<Rightarrow> string list \<Rightarrow> bool" where
  "fit_all \<equiv> list_all2 (\<lambda>x a. fits (snd x) a)"

lemma prefixes_iff: "(a, rest) \<in> set (prefixes lo hi s) \<longleftrightarrow> (\<exists>n. lo \<le> n \<and> n \<le> hi \<and> a = take n s \<and> rest = drop n s)"
  by (auto simp: prefixes_def)

lemma take_takeWhile: "n \<le> length (takeWhile P s) \<Longrightarrow> list_all P (take n s)"
  by (metis list_all_iff set_take_subset subset_code(1) take_all_iff takeWhile_eq_take set_takeWhileD take_take min.absorb_iff1 in_set_takeD)

lemma length_takeWhile_append: "list_all P a \<Longrightarrow> length a \<le> length (takeWhile P (a @ rest))"
  by (induction a) auto

lemma choices_iff: "(a, rest) \<in> set (choices x s) \<longleftrightarrow> s = a @ rest \<and> fits x a"
proof (cases x)
  case (Lit w)
  have len: "length a = length w" if "lower a = lower w"
    using that by (metis length_lower)
  then show ?thesis by (auto simp: Lit)
next
  case (One P) then show ?thesis by (cases s) auto
next
  case (Many P)
  then show ?thesis
    by (auto simp: prefixes_iff take_takeWhile intro: exI [of _ "length a"] length_takeWhile_append)
next
  case (AtLeastOne P)
  then show ?thesis
    by (auto simp: prefixes_iff take_takeWhile Suc_le_eq intro!: exI [of _ "length a"] length_takeWhile_append)
next
  case (UpTo n P)
  then show ?thesis
    by (auto simp: prefixes_iff take_takeWhile Suc_le_eq intro!: exI [of _ "length a"] length_takeWhile_append)
qed

lemma match_here_sound:
  "match_here p s = Some caps \<Longrightarrow> \<exists>pieces rest. s = concat pieces @ rest \<and> fit_all p pieces \<and> caps = captured p pieces"
proof (induction p arbitrary: s caps)
  case Nil then show ?case by (auto simp: captured_def)
next
  case (Cons x p)
  from first_some_SomeD [OF Cons.prems [unfolded match_here.simps]] obtain a rest caps' where a: "(a, rest) \<in> set (choices (snd x) s)" "match_here p rest = Some caps'"
    "caps = (if fst x then a # caps' else caps')"
    by auto
  from Cons.IH [OF a(2)] obtain pieces r where r: "rest = concat pieces @ r" "fit_all p pieces" "caps' = captured p pieces"
    by blast
  have "s = concat (a # pieces) @ r \<and> fit_all (x # p) (a # pieces) \<and> caps = captured (x # p) (a # pieces)"
    using a r by (simp add: choices_iff captured_def)
  then show ?case by blast
qed

lemma match_here_complete: "fit_all p pieces \<Longrightarrow> match_here p (concat pieces @ rest) \<noteq> None"
proof (induction p pieces rule: list_all2_induct)
  case Nil then show ?case by simp
next
  case (Cons x p a pieces)
  have "(a, concat pieces @ rest) \<in> set (choices (snd x) (concat (a # pieces) @ rest))"
    using Cons.hyps by (simp add: choices_iff)
  with Cons.IH show ?case unfolding match_here.simps
    by (auto simp: first_some_None intro!: bexI [of _ "(a, concat pieces @ rest)"])
qed

lemma search_sound:
  "search p s = Some caps \<Longrightarrow>
   \<exists>pre pieces rest. s = pre @ concat pieces @ rest \<and> fit_all p pieces \<and> caps = captured p pieces"
proof (induction p s rule: search.induct)
  case (1 p) then show ?case using match_here_sound [of p "[]" caps] by fastforce
next
  case (2 p c s)
  show ?case
  proof (cases "match_here p (c # s)")
    case None
    with 2 obtain pre pieces rest where "s = pre @ concat pieces @ rest" "fit_all p pieces" "caps = captured p pieces"
      by auto
    then show ?thesis by (metis append_Cons)
  next
    case (Some caps')
    with 2 match_here_sound [of p "c # s" caps'] show ?thesis by (metis append_Nil option.inject search.simps(2) option.simps(5))
  qed
qed

lemma search_complete: "fit_all p pieces \<Longrightarrow> search p (pre @ concat pieces @ rest) \<noteq> None"
proof (induction pre)
  case Nil
  then have "match_here p (concat pieces @ rest) \<noteq> None" by (rule match_here_complete)
  then show ?case
    by (cases "concat pieces @ rest") (simp_all only: search.simps append_Nil, auto)
qed (auto split: option.split)

section \<open>The texts of a page\<close>

text \<open>A text that a page has as the value of a \<open>content\<close> attribute, between quotes and without any.\<close>

definition content_of_page :: "string \<Rightarrow> string \<Rightarrow> bool" where
  "content_of_page html raw \<longleftrightarrow>
     (\<exists>pre key q q' post. html = pre @ key @ q # raw @ q' # post \<and> lower key = ''content='' \<and> quote q \<and> quote q'
        \<and> list_all unquoted raw)"

lemma lower_content: "lower (''content'' @ ''='') = ''content=''"
  by (simp add: lower_def lower_char_def)

lemma meta_first_content:
  assumes "search (meta_first kind name) html = Some caps"
  shows "content_of_page html (caps ! 1)"
proof -
  from search_sound [OF assms] obtain pre pieces post where html: "html = pre @ concat pieces @ post"
    and fit: "fit_all (meta_first kind name) pieces" and caps: "caps = captured (meta_first kind name) pieces" by blast
  from fit obtain m t k q n q' t' k' r v r' where
    pieces: "pieces = [m, t, k, [q], n, [q'], t', k', [r], v, [r']]"
    and v: "lower k' = lower (''content'' @ ''='')" "quote r" "quote r'" "list_all unquoted v"
    by (auto simp: meta_first_def attr_def in_tag_def list_all2_Cons1)
  have "html = (pre @ m @ t @ k @ [q] @ n @ [q'] @ t') @ k' @ r # v @ r' # post" by (simp add: html pieces)
  moreover have "caps ! 1 = v" by (simp add: caps pieces captured_def meta_first_def attr_def in_tag_def)
  ultimately show ?thesis using v unfolding content_of_page_def lower_content by blast
qed

lemma meta_content_first_content:
  assumes "search (meta_content_first name) html = Some caps"
  shows "content_of_page html (caps ! 0)"
proof -
  from search_sound [OF assms] obtain pre pieces post where html: "html = pre @ concat pieces @ post"
    and fit: "fit_all (meta_content_first name) pieces" and caps: "caps = captured (meta_content_first name) pieces" by blast
  from fit obtain m t k' r v r' t' k q n q' where
    pieces: "pieces = [m, t, k', [r], v, [r'], t', k, [q], n, [q']]"
    and v: "lower k' = lower (''content'' @ ''='')" "quote r" "quote r'" "list_all unquoted v"
    by (auto simp: meta_content_first_def attr_def in_tag_def list_all2_Cons1)
  have "html = (pre @ m @ t) @ k' @ r # v @ r' # (t' @ k @ [q] @ n @ [q'] @ post)" by (simp add: html pieces)
  moreover have "caps ! 0 = v" by (simp add: caps pieces captured_def meta_content_first_def attr_def in_tag_def)
  ultimately show ?thesis using v unfolding content_of_page_def lower_content by blast
qed

text \<open>
  What is read from a page stands in it: a title or description that is found is the value of a
  \<open>content\<close> attribute, complete between its quotes and without a quote of either kind inside. None
  is read only from a page without a tag of any of the three forms.
\<close>

theorem extracted_from_page:
  "(extract_meta html name = [] \<or> (\<exists>raw. content_of_page html raw \<and> extract_meta html name = strip raw))
    \<and> (\<forall>pre pieces post. html = pre @ concat pieces @ post \<and> fit_all (meta_first ''property'' name) pieces
         \<longrightarrow> (\<exists>caps. search (meta_first ''property'' name) html = Some caps
               \<and> extract_meta html name = strip (caps ! 1) \<and> content_of_page html (caps ! 1)))"
proof
  show "extract_meta html name = [] \<or> (\<exists>raw. content_of_page html raw \<and> extract_meta html name = strip raw)"
    unfolding extract_meta_def by (auto split: option.split dest: meta_first_content meta_content_first_content)
  show "\<forall>pre pieces post. html = pre @ concat pieces @ post \<and> fit_all (meta_first ''property'' name) pieces
         \<longrightarrow> (\<exists>caps. search (meta_first ''property'' name) html = Some caps
               \<and> extract_meta html name = strip (caps ! 1) \<and> content_of_page html (caps ! 1))"
  proof (intro allI impI)
    fix pre pieces post
    assume "html = pre @ concat pieces @ post \<and> fit_all (meta_first ''property'' name) pieces"
    then have "search (meta_first ''property'' name) html \<noteq> None" by (simp add: search_complete)
    then obtain caps where "search (meta_first ''property'' name) html = Some caps" by auto
    then show "\<exists>caps. search (meta_first ''property'' name) html = Some caps
               \<and> extract_meta html name = strip (caps ! 1) \<and> content_of_page html (caps ! 1)"
      using meta_first_content by (auto simp: extract_meta_def)
  qed
qed

text \<open>An apostrophe in a quoted value ends it: the title of the page is cut short.\<close>

definition joes_page :: string where
  "joes_page = ''<meta property='' @ [CHR 0x22] @ ''og:title'' @ [CHR 0x22] @ '' content='' @ [CHR 0x22] @ ''Joe'' @ [CHR 0x27]
     @ ''s Blend'' @ [CHR 0x22] @ ''>''"

theorem apostrophe_cuts_title: "pc_og_title (tags_of joes_page) = ''Joe''"
  unfolding tags_of_def page_context.simps by code_simp

theorem extracted_from_page_witness:
  "\<exists>caps. search (meta_first ''property'' ''og:title'') joes_page = Some caps
     \<and> extract_meta joes_page ''og:title'' = strip (caps ! 1) \<and> content_of_page joes_page (caps ! 1)"
proof -
  let ?pieces = "[''<meta'', '' '', ''property='', [CHR 0x22], ''og:title'', [CHR 0x22], '' '', ''content='', [CHR 0x22], ''Joe'', [CHR 0x27]]"
  have "joes_page = [] @ concat ?pieces @ (''s Blend'' @ [CHR 0x22] @ ''>'')" by (simp add: joes_page_def)
  moreover have "fit_all (meta_first ''property'' ''og:title'') ?pieces"
    by (simp add: meta_first_def attr_def in_tag_def quote_def unquoted_def)
  ultimately show ?thesis using extracted_from_page [of joes_page "''og:title''"] by blast
qed

section \<open>Addresses\<close>

text \<open>
  A host of this machine is refused however the URL dresses it up: with a user before it and a port
  after it, in capitals, or after leading space.
\<close>

theorem local_hosts_refused:
  "map (is_safe_url (reading_network ip_ok N))
     [''https://shop.com@localhost:80/'', ''HTTP://LOCALHOST'', '' http://127.0.0.1?u=a@b'', ''//shop.com/''] = replicate 4 False"
proof -
  have "map lower [''http'', ''https'', ''HTTP'', ''localhost'', ''LOCALHOST'', ''127.0.0.1'', ''shop.com'']
      = [''http'', ''https'', ''http'', ''localhost'', ''localhost'', ''127.0.0.1'', ''shop.com'']"
    by code_simp
  then show ?thesis
    by (simp add: is_safe_url_def reading_network_def urlsplit_def clean_url_def split_scheme_def cut_at_def cut_at_last_def
        split_netloc_def starts_with_def netloc_valid_def hostname_def scheme_char_def is_letter_def is_digit_def
        ends_with_def Let_def eval_nat_numeral)
qed

end
