(* ===== verification/LlmClients.thy ===== *)
theory LlmClients
  imports Inference Importer
begin

text \<open>
  The HTTP clients of the language models in \<^verbatim>\<open>app/services/inference.py\<close> and their choice in
  \<^verbatim>\<open>app/deps.py\<close>. The network answers each attempt of a request: with a status and a body, which
  is JSON or not, or not at all. A client returns its result together with what it did.
\<close>

section \<open>Requests and answers\<close>

record http_request =
  rq_url :: string
  rq_query :: "(string \<times> string) list"
  rq_headers :: "(string \<times> string) list"
  rq_body :: json

datatype http_answer = Response nat "json option" | RequestError

type_synonym exchange = "nat \<Rightarrow> http_request \<Rightarrow> http_answer"

datatype llm_event = Posted http_request | Slept nat

text \<open>\<open>raise_for_status\<close> raises for every status outside the 200s.\<close>

definition is_success :: "nat \<Rightarrow> bool" where
  "is_success c \<longleftrightarrow> 200 \<le> c \<and> c \<le> 299"

section \<open>Reading the answer\<close>

text \<open>Subscripts of decoded JSON: a key of an object, or a position in a list or a text.\<close>

datatype subscript = Key string | Pos nat

fun get_item :: "subscript \<Rightarrow> json \<Rightarrow> json res" where
  "get_item (Key k) (JObject kvs) = (case map_of kvs k of None \<Rightarrow> Inl KeyError | Some v \<Rightarrow> Inr v)"
| "get_item (Key k) v = Inl TypeError"
| "get_item (Pos i) (JArray vs) = (if i < length vs then Inr (vs ! i) else Inl IndexError)"
| "get_item (Pos i) (JString t) = (if i < length t then Inr (JString [t ! i]) else Inl IndexError)"
| "get_item (Pos i) (JObject kvs) = Inl KeyError"
| "get_item (Pos i) v = Inl TypeError"

fun subscripts :: "subscript list \<Rightarrow> json \<Rightarrow> json res" where
  "subscripts [] v = Inr v"
| "subscripts (x # xs) v = (case get_item x v of Inl e \<Rightarrow> Inl e | Inr w \<Rightarrow> subscripts xs w)"

definition stripped :: "json \<Rightarrow> string res" where
  "stripped v = (case v of JString t \<Rightarrow> Inr (strip t) | _ \<Rightarrow> Inl AttributeError)"

text \<open>A missing field and a body that is not JSON become an \<open>LLMError\<close>, other exceptions do not.\<close>

definition answer_text :: "subscript list \<Rightarrow> json option \<Rightarrow> string res" where
  "answer_text path body =
     (case (case body of
              None \<Rightarrow> Inl ValueError
            | Some v \<Rightarrow> (case subscripts path v of Inl e \<Rightarrow> Inl e | Inr w \<Rightarrow> stripped w)) of
        Inl e \<Rightarrow> Inl (if e = KeyError \<or> e = IndexError \<or> e = ValueError then LLMError else e)
      | Inr t \<Rightarrow> Inr t)"

section \<open>Gemini\<close>

definition gemini_request :: "string \<Rightarrow> string \<Rightarrow> nat \<Rightarrow> http_request" where
  "gemini_request key prompt max_tokens =
     \<lparr>rq_url = ''https://generativelanguage.googleapis.com/v1beta/models/gemini-2.5-flash:generateContent'',
      rq_query = [(''key'', key)], rq_headers = [],
      rq_body = JObject
        [(''contents'', JArray [JObject [(''parts'', JArray [JObject [(''text'', JString prompt)]])]]),
         (''generationConfig'', JObject [(''maxOutputTokens'', JNumber (nat_str max_tokens))])]\<rparr>"

text \<open>The attempts of the loop; the first one that is rate-limited waits for the second.\<close>

fun gemini_attempts ::
  "exchange \<Rightarrow> http_request \<Rightarrow> nat list \<Rightarrow> json option \<Rightarrow> json option res \<times> llm_event list" where
  "gemini_attempts ex rq [] kept = (Inr kept, [])"
| "gemini_attempts ex rq (n # ns) kept =
     (case ex n rq of
        RequestError \<Rightarrow> (Inl LLMError, [Posted rq])
      | Response c body \<Rightarrow>
          if c = 429 \<and> n = 0
          then (case gemini_attempts ex rq ns body of (r, es) \<Rightarrow> (r, Posted rq # Slept 5 # es))
          else if \<not> is_success c then (Inl LLMError, [Posted rq])
          else (Inr body, [Posted rq]))"

definition gemini_path :: "subscript list" where
  "gemini_path = [Key ''candidates'', Pos 0, Key ''content'', Key ''parts'', Pos 0, Key ''text'']"

definition gemini_complete ::
  "exchange \<Rightarrow> string \<Rightarrow> string \<Rightarrow> nat \<Rightarrow> string res \<times> llm_event list" where
  "gemini_complete ex key prompt max_tokens =
     (case gemini_attempts ex (gemini_request key prompt max_tokens) [0..<2] None of
        (Inl e, es) \<Rightarrow> (Inl e, es)
      | (Inr body, es) \<Rightarrow> (answer_text gemini_path body, es))"

section \<open>Anthropic\<close>

definition anthropic_request :: "string \<Rightarrow> string \<Rightarrow> nat \<Rightarrow> http_request" where
  "anthropic_request key prompt max_tokens =
     \<lparr>rq_url = ''https://api.anthropic.com/v1/messages'', rq_query = [],
      rq_headers = [(''x-api-key'', key), (''anthropic-version'', ''2023-06-01''), (''content-type'', ''application/json'')],
      rq_body = JObject
        [(''model'', JString ''claude-haiku-4-5''), (''max_tokens'', JNumber (nat_str max_tokens)),
         (''messages'', JArray [JObject [(''role'', JString ''user''), (''content'', JString prompt)]])]\<rparr>"

definition anthropic_path :: "subscript list" where
  "anthropic_path = [Key ''content'', Pos 0, Key ''text'']"

definition anthropic_complete ::
  "exchange \<Rightarrow> string \<Rightarrow> string \<Rightarrow> nat \<Rightarrow> string res \<times> llm_event list" where
  "anthropic_complete ex key prompt max_tokens =
     (let rq = anthropic_request key prompt max_tokens
      in case ex 0 rq of
           RequestError \<Rightarrow> (Inl LLMError, [Posted rq])
         | Response c body \<Rightarrow>
             if \<not> is_success c then (Inl LLMError, [Posted rq])
             else (answer_text anthropic_path body, [Posted rq]))"

section \<open>The client of a request\<close>

definition hermetic_feedback :: string where
  "hermetic_feedback = ''SPEC039 fake AI feedback '' @ em_dash @ '' local E2E only.''"

definition hermetic_client :: llm_client where
  "hermetic_client prompt = Inr hermetic_feedback"

text \<open>The networks of the two providers, with the 512 tokens that every caller leaves as default.\<close>

definition configured_client :: "exchange \<Rightarrow> exchange \<Rightarrow> string option \<Rightarrow> string option \<Rightarrow> llm_client" where
  "configured_client anthropic gemini =
     get_llm_client (\<lambda>key prompt. fst (anthropic_complete anthropic key prompt 512))
       (\<lambda>key prompt. fst (gemini_complete gemini key prompt 512))"

definition permitted_e2e_envs :: "string list" where
  "permitted_e2e_envs = [''test'', ''local'']"

definition request_llm_client ::
  "bool \<Rightarrow> string option \<Rightarrow> exchange \<Rightarrow> exchange \<Rightarrow> string option \<Rightarrow> string option \<Rightarrow> llm_client" where
  "request_llm_client bypass env_name anthropic gemini anthropic_key gemini_key =
     (if bypass \<and> (case env_name of None \<Rightarrow> False | Some v \<Rightarrow> v \<in> set permitted_e2e_envs)
      then hermetic_client else configured_client anthropic gemini anthropic_key gemini_key)"

section \<open>What the clients answer\<close>

text \<open>The reading of one answer: the text of a success, otherwise an error.\<close>

definition provider_answer :: "subscript list \<Rightarrow> http_answer \<Rightarrow> string res" where
  "provider_answer path a =
     (case a of
        RequestError \<Rightarrow> Inl LLMError
      | Response c body \<Rightarrow> if is_success c then answer_text path body else Inl LLMError)"

definition rate_limited :: "http_answer \<Rightarrow> bool" where
  "rate_limited a \<longleftrightarrow> (case a of Response c body \<Rightarrow> c = 429 | RequestError \<Rightarrow> False)"

lemma gemini_answer:
  "gemini_complete ex key prompt n =
     (let rq = gemini_request key prompt n
      in if rate_limited (ex 0 rq)
         then (provider_answer gemini_path (ex 1 rq), [Posted rq, Slept 5, Posted rq])
         else (provider_answer gemini_path (ex 0 rq), [Posted rq]))"
proof -
  have "[0..<2] = [0, 1::nat]" by (simp add: upt_rec)
  then show ?thesis
    by (auto simp: gemini_complete_def provider_answer_def rate_limited_def is_success_def Let_def
        split: http_answer.splits)
qed

lemma anthropic_answer:
  "anthropic_complete ex key prompt n =
     (let rq = anthropic_request key prompt n in (provider_answer anthropic_path (ex 0 rq), [Posted rq]))"
  by (simp add: anthropic_complete_def provider_answer_def Let_def split: http_answer.split)

text \<open>A text that a success carries at the path, without surrounding space.\<close>

definition delivers :: "subscript list \<Rightarrow> http_answer \<Rightarrow> string \<Rightarrow> bool" where
  "delivers path a t =
     (case a of
        Response c (Some v) \<Rightarrow>
          is_success c \<and> (case subscripts path v of Inr (JString u) \<Rightarrow> t = strip u | _ \<Rightarrow> False)
      | _ \<Rightarrow> False)"

lemma provider_answer_Inr: "provider_answer path a = Inr t \<longleftrightarrow> delivers path a t"
  by (auto simp: provider_answer_def delivers_def answer_text_def stripped_def
      split: http_answer.splits option.splits sum.splits json.splits)

lemma get_item_errors: "get_item x v = Inl e \<Longrightarrow> e = KeyError \<or> e = IndexError \<or> e = TypeError"
  by (induction x v rule: get_item.induct) (auto split: option.splits if_splits)

lemma subscripts_errors: "subscripts path v = Inl e \<Longrightarrow> e = KeyError \<or> e = IndexError \<or> e = TypeError"
  by (induction path v rule: subscripts.induct) (auto dest: get_item_errors split: sum.splits)

lemma provider_answer_errors:
  "provider_answer path a = Inl e \<Longrightarrow> e = LLMError \<or> e = TypeError \<or> e = AttributeError"
  by (auto simp: provider_answer_def answer_text_def stripped_def dest!: subscripts_errors
      split: http_answer.splits option.splits sum.splits json.splits if_splits)

text \<open>
  C33. With keys of both providers the text of a completion is always one that a provider delivered:
  Anthropic's, or Gemini's first answer, or its second where the first was a rate limit and where
  Anthropic failed with an \<open>LLMError\<close>. Gemini is posted to at most twice.
\<close>

theorem completion_source:
  assumes "key_a \<noteq> []" "key_g \<noteq> []"
  shows "(configured_client A G (Some key_a) (Some key_g) prompt = Inr t \<longleftrightarrow>
    (let ra = anthropic_request key_a prompt 512; rg = gemini_request key_g prompt 512;
         last = (if rate_limited (G 0 rg) then G 1 rg else G 0 rg)
     in delivers anthropic_path (A 0 ra) t
        \<or> (provider_answer anthropic_path (A 0 ra) = Inl LLMError \<and> delivers gemini_path last t)))
    \<and> length (filter (\<lambda>e. e \<noteq> Slept 5) (snd (gemini_complete G key_g prompt 512))) \<le> 2"
proof -
  have client: "configured_client A G (Some key_a) (Some key_g) prompt =
      (case provider_answer anthropic_path (A 0 (anthropic_request key_a prompt 512)) of
         Inl LLMError \<Rightarrow> fst (gemini_complete G key_g prompt 512) | r \<Rightarrow> r)"
    using assms by (simp add: configured_client_def truthy_def get_llm_client_def fallback_client_def anthropic_answer Let_def)
  show ?thesis
    unfolding client gemini_answer
    by (auto simp: Let_def provider_answer_Inr [symmetric] split: sum.split err.split)
qed

text \<open>
  A success of another shape is no \<open>LLMError\<close>: the other provider is not asked, and the feedback of a
  shot raises also where it should answer with an apology.
\<close>

theorem unexpected_shape_raises:
  assumes "key \<noteq> []" "A 0 (anthropic_request key p 512) = Response 200 (Some (JObject [(''content'', JNull)]))"
  shows "complete_feedback B (configured_client A G (Some key) key_g) False shot_id (Inr p) s = (Inl TypeError, s)"
proof -
  have "configured_client A G (Some key) key_g p = Inl TypeError"
    using assms by (simp add: configured_client_def truthy_def get_llm_client_def fallback_client_def anthropic_answer Let_def
        provider_answer_def is_success_def answer_text_def anthropic_path_def)
  then show ?thesis by (simp add: complete_feedback_def)
qed

text \<open>Anthropic is overloaded, Gemini rate-limited once.\<close>

definition gemini_says :: "string \<Rightarrow> json" where
  "gemini_says t = JObject [(''candidates'', JArray [JObject [(''content'', JObject [(''parts'', JArray [JObject [(''text'', JString t)]])])]])]"

theorem completion_source_witness:
  "configured_client (\<lambda>n rq. Response 529 None) (\<lambda>n rq. if n = 0 then Response 429 None else Response 200 (Some (gemini_says '' grind finer '')))
     (Some ''a'') (Some ''g'') ''p'' = Inr ''grind finer''"
proof -
  have "strip '' grind finer '' = ''grind finer''" by (simp add: strip_def lstrip_def py_space_def)
  then show ?thesis
    using completion_source [of "''a''" "''g''" "\<lambda>n rq. Response 529 None"
        "\<lambda>n rq. if n = 0 then Response 429 None else Response 200 (Some (gemini_says '' grind finer ''))" "''p''" "''grind finer''"]
    by (simp add: Let_def delivers_def provider_answer_def is_success_def rate_limited_def gemini_path_def gemini_says_def)
qed

theorem unexpected_shape_raises_witness:
  "complete_feedback B (configured_client (\<lambda>n rq. Response 200 (Some (JObject [(''content'', JNull)]))) G (Some ''a'') (Some ''g''))
     False ''s'' (Inr ''p'') s = (Inl TypeError, s)"
  by (rule unexpected_shape_raises) simp_all

end
