(* ===== verification/Wiring.thy ===== *)
theory Wiring
  imports Urls AppStart LlmClients
begin

text \<open>
  The process around the requests: the engine, its sessions and the Cloud SQL connector of
  \<^verbatim>\<open>app/models/base.py\<close>, the guard of the test bypass and the singletons of \<^verbatim>\<open>app/deps.py\<close>, and
  start and stop of the application in \<^verbatim>\<open>app/main.py\<close>.
\<close>

section \<open>The database engine\<close>

text \<open>An engine over a URL, or over the connector with instance, user, password and database.\<close>

datatype engine = UrlEngine string | ConnectorEngine string string string string

record process =
  pr_engine :: "engine option"
  pr_factory :: "engine option"
  pr_connector :: bool
  pr_closed :: bool
  pr_setup_required :: bool

definition fresh_process :: process where
  "fresh_process = \<lparr>pr_engine = None, pr_factory = None, pr_connector = False, pr_closed = False, pr_setup_required = False\<rparr>"

text \<open>
  The settings, and the answers of the libraries: whether the connector can be created, whether an
  engine can be made for a URL, whether the content of brackets is an address.
\<close>

record wiring =
  wr_use_postgres :: bool
  wr_database_url :: "string option"
  wr_connector :: "unit res"
  wr_engine :: "string \<Rightarrow> unit res"
  wr_ip :: "string \<Rightarrow> bool"

definition is_cloud_sql_url :: "wiring \<Rightarrow> string \<Rightarrow> bool res" where
  "is_cloud_sql_url W url =
     (case urlsplit (wr_ip W) url of
        Inl e \<Rightarrow> Inl e
      | Inr u \<Rightarrow> Inr (starts_with ''/cloudsql/'' (first_field ''host'' (us_query u))))"

definition remove_prefix :: "string \<Rightarrow> string \<Rightarrow> string" where
  "remove_prefix p s = (if starts_with p s then drop (length p) s else s)"

definition text_or_empty :: "string option \<Rightarrow> string" where
  "text_or_empty v = (case v of None \<Rightarrow> [] | Some t \<Rightarrow> t)"

definition parse_cloud_sql_url :: "wiring \<Rightarrow> string \<Rightarrow> (string \<times> string \<times> string \<times> string) res" where
  "parse_cloud_sql_url W url =
     (case urlsplit (wr_ip W) url of
        Inl e \<Rightarrow> Inl e
      | Inr u \<Rightarrow> Inr (remove_prefix ''/cloudsql/'' (first_field ''host'' (us_query u)),
                      text_or_empty (fst (userinfo u)), text_or_empty (snd (userinfo u)),
                      dropWhile (\<lambda>c. c = CHR ''/'') (us_path u)))"

definition init_async_engine :: "wiring \<Rightarrow> string \<Rightarrow> process \<Rightarrow> unit res \<times> process" where
  "init_async_engine W url p =
     (if pr_engine p \<noteq> None then (Inr (), p)
      else
        (case parse_cloud_sql_url W url of
           Inl e \<Rightarrow> (Inl e, p)
         | Inr (instance_name, user, password, database) \<Rightarrow>
             (case wr_connector W of
                Inl e \<Rightarrow> (Inl e, p)
              | Inr _ \<Rightarrow> (Inr (), p\<lparr>pr_connector := True,
                                    pr_engine := Some (ConnectorEngine instance_name user password database)\<rparr>))))"

definition build_engine :: "wiring \<Rightarrow> string \<Rightarrow> engine res" where
  "build_engine W url = (case wr_engine W url of Inl e \<Rightarrow> Inl e | Inr _ \<Rightarrow> Inr (UrlEngine url))"

definition get_engine :: "wiring \<Rightarrow> process \<Rightarrow> engine res \<times> process" where
  "get_engine W p =
     (case pr_engine p of
        Some e \<Rightarrow> (Inr e, p)
      | None \<Rightarrow>
          if \<not> truthy (wr_database_url W) then (Inl RuntimeError, p)
          else
            (case is_cloud_sql_url W (the (wr_database_url W)) of
               Inl x \<Rightarrow> (Inl x, p)
             | Inr True \<Rightarrow> (Inl RuntimeError, p)
             | Inr False \<Rightarrow>
                 (case build_engine W (the (wr_database_url W)) of
                    Inl x \<Rightarrow> (Inl x, p)
                  | Inr e \<Rightarrow> (Inr e, p\<lparr>pr_engine := Some e\<rparr>))))"

definition close_engine :: "process \<Rightarrow> process" where
  "close_engine p = p\<lparr>pr_closed := (pr_closed p \<or> pr_connector p)\<rparr>"

definition get_session_factory :: "wiring \<Rightarrow> process \<Rightarrow> engine res \<times> process" where
  "get_session_factory W p =
     (case pr_factory p of
        Some e \<Rightarrow> (Inr e, p)
      | None \<Rightarrow> (case get_engine W p of
                   (Inl x, p) \<Rightarrow> (Inl x, p)
                 | (Inr e, p) \<Rightarrow> (Inr e, p\<lparr>pr_factory := Some e\<rparr>)))"

text \<open>The engine of a request's session, or no session.\<close>

definition get_db :: "wiring \<Rightarrow> process \<Rightarrow> engine option res \<times> process" where
  "get_db W p =
     (if \<not> wr_use_postgres W then (Inr None, p)
      else (case get_session_factory W p of (Inl x, p) \<Rightarrow> (Inl x, p) | (Inr e, p) \<Rightarrow> (Inr (Some e), p)))"

section \<open>Start and stop\<close>

text \<open>
  The database as the first session sees it is given; the backfill logs its exceptions and changes
  only the database.
\<close>

definition lifespan_start :: "wiring \<Rightarrow> database \<Rightarrow> process \<Rightarrow> unit res \<times> process" where
  "lifespan_start W d p =
     (if wr_use_postgres W \<and> truthy (wr_database_url W)
      then
        (let url = the (wr_database_url W)
         in case is_cloud_sql_url W url of
              Inl x \<Rightarrow> (Inl x, p)
            | Inr cloud \<Rightarrow>
                andthen (if cloud then init_async_engine W url p else (Inr (), p))
                  (\<lambda>_ p. andthen (get_session_factory W p)
                     (\<lambda>_ p. (Inr (), p\<lparr>pr_setup_required := check_and_set_setup_required d\<rparr>))))
      else (Inr (), p\<lparr>pr_setup_required := False\<rparr>))"

definition lifespan_stop :: "wiring \<Rightarrow> process \<Rightarrow> process" where
  "lifespan_stop W p = (if wr_use_postgres W then close_engine p else p)"

section \<open>The test bypass\<close>

text \<open>Importing \<open>app.deps\<close> with the bypass outside of tests raises, so the process does not start.\<close>

definition load_deps :: "bool \<Rightarrow> string option \<Rightarrow> bool res" where
  "load_deps bypass env_name =
     (if bypass \<and> text_or_empty env_name \<notin> set permitted_e2e_envs then Inl RuntimeError else Inr bypass)"

datatype sheets_kind = FakeSheets | RealSheets string

definition make_sheets_client :: "bool \<Rightarrow> string \<Rightarrow> sheets_kind" where
  "make_sheets_client bypass spreadsheet_id = (if bypass then FakeSheets else RealSheets spreadsheet_id)"

section \<open>The sheets client: a double-checked lock\<close>

text \<open>
  Where a thread is in \<open>get_sheets_client\<close>: before the first test, waiting for the lock, inside it
  before the second test, about to assign, about to release, about to return, returned. The lock and
  the variable are shared; clients are numbered as they are made.
\<close>

datatype at = Begin | Waiting | Holding | Assigning | Releasing | Returning | Returned nat

record threads =
  th_client :: "nat option"
  th_lock :: "nat option"
  th_made :: nat
  th_at :: "nat \<Rightarrow> at"

definition goto :: "nat \<Rightarrow> at \<Rightarrow> threads \<Rightarrow> threads" where
  "goto t l s = s\<lparr>th_at := (th_at s)(t := l)\<rparr>"

inductive sheets_step :: "nat \<Rightarrow> threads \<Rightarrow> threads \<Rightarrow> bool" where
  first_test: "th_at s t = Begin \<Longrightarrow>
     sheets_step t s (goto t (if th_client s = None then Waiting else Returning) s)"
| acquire: "th_at s t = Waiting \<Longrightarrow> th_lock s = None \<Longrightarrow>
     sheets_step t s (goto t Holding (s\<lparr>th_lock := Some t\<rparr>))"
| second_test: "th_at s t = Holding \<Longrightarrow>
     sheets_step t s (goto t (if th_client s = None then Assigning else Releasing) s)"
| assign: "th_at s t = Assigning \<Longrightarrow>
     sheets_step t s (goto t Releasing (s\<lparr>th_client := Some (th_made s), th_made := th_made s + 1\<rparr>))"
| release: "th_at s t = Releasing \<Longrightarrow>
     sheets_step t s (goto t Returning (s\<lparr>th_lock := None\<rparr>))"
| give_back: "th_at s t = Returning \<Longrightarrow> th_client s = Some c \<Longrightarrow>
     sheets_step t s (goto t (Returned c) s)"

code_pred (modes: i \<Rightarrow> i \<Rightarrow> o \<Rightarrow> bool as next_of) sheets_step .

definition no_client :: threads where
  "no_client = \<lparr>th_client = None, th_lock = None, th_made = 0, th_at = \<lambda>t. Begin\<rparr>"

inductive sheets_reachable :: "threads \<Rightarrow> bool" where
  sheets_initial: "sheets_reachable no_client"
| sheets_next: "sheets_reachable s \<Longrightarrow> sheets_step t s s' \<Longrightarrow> sheets_reachable s'"

section \<open>One client, and every call returns\<close>

fun in_lock :: "at \<Rightarrow> bool" where
  "in_lock Holding = True" | "in_lock Assigning = True" | "in_lock Releasing = True" | "in_lock l = False"

definition lock_held :: "threads \<Rightarrow> bool" where
  "lock_held s \<longleftrightarrow> (\<forall>t. th_lock s = Some t \<longleftrightarrow> in_lock (th_at s t))"

lemma lock_holder: "lock_held s \<Longrightarrow> in_lock (th_at s t) \<Longrightarrow> th_lock s = Some t"
  by (simp add: lock_held_def)

lemma lock_holder_only: "lock_held s \<Longrightarrow> in_lock (th_at s t) \<Longrightarrow> u \<noteq> t \<Longrightarrow> \<not> in_lock (th_at s u)"
  using lock_holder [of s t] lock_holder [of s u] by auto

lemma lock_free: "lock_held s \<Longrightarrow> th_lock s = None \<Longrightarrow> \<not> in_lock (th_at s u)"
  using lock_holder [of s u] by auto

definition one_made :: "threads \<Rightarrow> bool" where
  "one_made s \<longleftrightarrow>
     (if th_client s = None
      then th_made s = 0 \<and> (\<forall>t. th_at s t \<in> {Begin, Waiting, Holding, Assigning})
      else th_client s = Some 0 \<and> th_made s = 1
         \<and> (\<forall>t. th_at s t \<in> {Begin, Waiting, Holding, Releasing, Returning, Returned 0}))"

lemma goto_simps [simp]:
  "th_client (goto t l s) = th_client s" "th_lock (goto t l s) = th_lock s" "th_made (goto t l s) = th_made s"
  "th_at (goto t l s) = (th_at s)(t := l)"
  by (simp_all add: goto_def)

lemma lock_held_step:
  assumes "sheets_step t s s'" "lock_held s"
  shows "lock_held s'"
  using assms
proof (induction rule: sheets_step.induct)
  case (release s t)
  then have "\<not> in_lock (th_at s u)" if "u \<noteq> t" for u
    using lock_holder_only [of s t u] that by simp
  then show ?case by (simp add: lock_held_def)
next
  case (acquire s t)
  then show ?case using lock_free [of s] by (auto simp: lock_held_def)
qed (auto simp: lock_held_def)

lemma one_madeD:
  "one_made s \<Longrightarrow> th_client s = None \<Longrightarrow> th_made s = 0 \<and> th_at s t \<in> {Begin, Waiting, Holding, Assigning}"
  "one_made s \<Longrightarrow> th_client s \<noteq> None
   \<Longrightarrow> th_client s = Some 0 \<and> th_made s = 1 \<and> th_at s t \<in> {Begin, Waiting, Holding, Releasing, Returning, Returned 0}"
  by (simp_all add: one_made_def)

lemma one_made_client:
  assumes "one_made s" "th_at s t \<notin> {Begin, Waiting, Holding, Assigning}"
  shows "th_client s = Some 0"
proof (cases "th_client s")
  case None with one_madeD(1) [OF assms(1), of t] assms(2) show ?thesis by simp
next
  case (Some c) with one_madeD(2) [OF assms(1), of t] show ?thesis by simp
qed

lemma one_made_step:
  assumes "sheets_step t s s'" "lock_held s" "one_made s"
  shows "one_made s'"
  using assms
proof (induction rule: sheets_step.induct)
  case (assign s t)
  have none: "th_client s = None"
    using assign.hyps one_madeD(2) [OF assign.prems(2), of t] by (cases "th_client s") auto
  have "th_at s u \<in> {Begin, Waiting, Holding}" if "u \<noteq> t" for u
    using lock_holder_only [OF assign.prems(1) _ that] assign.hyps one_madeD(1) [OF assign.prems(2) none, of u] by auto
  with one_madeD(1) [OF assign.prems(2) none, of t] show ?case by (auto simp: one_made_def)
next
  case (release s t)
  then have "th_client s = Some 0" using one_made_client [of s t] by simp
  with release show ?case by (simp add: one_made_def)
qed (auto simp: one_made_def split: if_splits)

lemma reachable_invariant: "sheets_reachable s \<Longrightarrow> lock_held s \<and> one_made s"
proof (induction rule: sheets_reachable.induct)
  case sheets_initial then show ?case by (simp add: lock_held_def one_made_def no_client_def)
next
  case (sheets_next s t s') then show ?case using lock_held_step one_made_step by blast
qed

lemma no_deadlock_among:
  assumes "lock_held s" "one_made s" "\<And>u. u \<notin> T \<Longrightarrow> th_at s u = Begin"
    and stuck: "\<And>u s'. u \<in> T \<Longrightarrow> \<not> sheets_step u s s'" and t: "t \<in> T"
  shows "th_at s t = Returned 0"
proof (cases "th_at s t")
  case Begin with stuck [OF t] show ?thesis by (blast intro: first_test)
next
  case Waiting
  show ?thesis
  proof (cases "th_lock s")
    case None with Waiting stuck [OF t] show ?thesis by (blast intro: acquire)
  next
    case (Some u)
    then have u: "in_lock (th_at s u)" using assms(1) unfolding lock_held_def by blast
    then have "u \<in> T" using assms(3) [of u] by (cases "u \<in> T") auto
    with stuck [of u] u show ?thesis by (cases "th_at s u") (auto intro: second_test assign release)
  qed
next
  case Returning
  then have "th_client s = Some 0" using one_made_client [OF assms(2), of t] by simp
  with Returning stuck [OF t] show ?thesis by (blast intro: give_back)
next
  case (Returned c)
  then have "th_client s = Some 0" using one_made_client [OF assms(2), of t] by simp
  with one_madeD(2) [OF assms(2), of t] Returned show ?thesis by simp
qed (use stuck [OF t] in \<open>blast intro: second_test assign release\<close>)+

text \<open>The steps that a thread has left.\<close>

fun steps_left :: "at \<Rightarrow> nat" where
  "steps_left Begin = 6" | "steps_left Waiting = 5" | "steps_left Holding = 4" | "steps_left Assigning = 3"
| "steps_left Releasing = 2" | "steps_left Returning = 1" | "steps_left (Returned c) = 0"

lemma step_left: "sheets_step t s s' \<Longrightarrow>
  steps_left (th_at s' t) < steps_left (th_at s t) \<and> (\<forall>u. u \<noteq> t \<longrightarrow> th_at s' u = th_at s u)"
  by (induction rule: sheets_step.induct) auto

text \<open>A schedule of the threads: whose step comes when.\<close>

inductive sheets_run :: "nat list \<Rightarrow> threads \<Rightarrow> threads \<Rightarrow> bool" where
  run_nil: "sheets_run [] s s"
| run_cons: "sheets_step t s s1 \<Longrightarrow> sheets_run ts s1 s2 \<Longrightarrow> sheets_run (t # ts) s s2"

lemma run_invariant: "sheets_run ts s s' \<Longrightarrow> sheets_reachable s \<Longrightarrow> sheets_reachable s'"
  by (induction rule: sheets_run.induct) (blast intro: sheets_next)+

lemma run_length:
  "sheets_run ts s s' \<Longrightarrow> finite T \<Longrightarrow> set ts \<subseteq> T
   \<Longrightarrow> length ts + (\<Sum>t\<in>T. steps_left (th_at s' t)) \<le> (\<Sum>t\<in>T. steps_left (th_at s t))"
proof (induction rule: sheets_run.induct)
  case (run_cons t s s1 ts s2)
  from step_left [OF run_cons.hyps(1)] run_cons.prems
  have "(\<Sum>u\<in>T. steps_left (th_at s1 u)) < (\<Sum>u\<in>T. steps_left (th_at s u))"
    by (intro sum_strict_mono_ex1 ballI bexI [of _ t]) (simp_all, metis less_imp_le order_refl)
  with run_cons show ?case by simp
qed simp

lemma run_others: "sheets_run ts s s' \<Longrightarrow> u \<notin> set ts \<Longrightarrow> th_at s' u = th_at s u"
  by (induction rule: sheets_run.induct) (auto dest: step_left)

text \<open>
  C31. Every call of \<open>get_sheets_client\<close> returns, and all of them the same client. However the steps of
  a finite number of threads are interleaved, a schedule has at most six steps of each; there is no
  deadlock: where no thread can go on, all have returned client 0, the only one that was made.
\<close>

theorem sheets_calls_return:
  assumes "finite T" "sheets_run ts no_client s" "set ts \<subseteq> T"
  shows "length ts \<le> 6 * card T
    \<and> ((\<forall>t\<in>T. \<forall>s'. \<not> sheets_step t s s') \<longrightarrow> (\<forall>t\<in>T. th_at s t = Returned 0) \<and> (T \<noteq> {} \<longrightarrow> th_made s = 1))"
proof (intro conjI impI)
  have "(\<Sum>t\<in>T. steps_left (th_at no_client t)) = 6 * card T" by (simp add: no_client_def)
  with run_length [OF assms(2,1,3)] show "length ts \<le> 6 * card T" by simp
  have inv: "lock_held s" "one_made s"
    using reachable_invariant [OF run_invariant [OF assms(2) sheets_initial]] by simp_all
  assume stuck: "\<forall>t\<in>T. \<forall>s'. \<not> sheets_step t s s'"
  have outside: "th_at s u = Begin" if "u \<notin> T" for u
    using run_others [OF assms(2), of u] that assms(3) by (auto simp: no_client_def)
  have "\<not> sheets_step u s s'" if "u \<in> T" for u s' using stuck that by simp
  from no_deadlock_among [OF inv outside this] show all: "\<forall>t\<in>T. th_at s t = Returned 0" by simp
  assume "T \<noteq> {}"
  then obtain t where "t \<in> T" by blast
  with all one_made_client [OF inv(2), of t] one_madeD(2) [OF inv(2), of t] show "th_made s = 1" by simp
qed

text \<open>The steps as a function, and a schedule of two threads: the second finds the client of the first.\<close>

definition next_state :: "nat \<Rightarrow> threads \<Rightarrow> threads option" where
  "next_state t s =
     (case th_at s t of
        Begin \<Rightarrow> Some (goto t (if th_client s = None then Waiting else Returning) s)
      | Waiting \<Rightarrow> if th_lock s = None then Some (goto t Holding (s\<lparr>th_lock := Some t\<rparr>)) else None
      | Holding \<Rightarrow> Some (goto t (if th_client s = None then Assigning else Releasing) s)
      | Assigning \<Rightarrow> Some (goto t Releasing (s\<lparr>th_client := Some (th_made s), th_made := th_made s + 1\<rparr>))
      | Releasing \<Rightarrow> Some (goto t Returning (s\<lparr>th_lock := None\<rparr>))
      | Returning \<Rightarrow> map_option (\<lambda>c. goto t (Returned c) s) (th_client s)
      | Returned c \<Rightarrow> None)"

lemma step_iff_next: "sheets_step t s s' \<longleftrightarrow> next_state t s = Some s'"
proof
  assume "sheets_step t s s'" then show "next_state t s = Some s'"
    by (induction rule: sheets_step.induct) (simp_all add: next_state_def)
next
  assume n: "next_state t s = Some s'"
  show "sheets_step t s s'"
    using n sheets_step.intros [of s t] by (cases "th_at s t") (auto simp: next_state_def split: if_splits)
qed

fun run_next :: "nat list \<Rightarrow> threads \<Rightarrow> threads option" where
  "run_next [] s = Some s"
| "run_next (t # ts) s = (case next_state t s of None \<Rightarrow> None | Some s' \<Rightarrow> run_next ts s')"

lemma run_next_run: "run_next ts s = Some s' \<Longrightarrow> sheets_run ts s s'"
  by (induction ts arbitrary: s) (auto simp: step_iff_next intro: sheets_run.intros split: option.splits)

theorem sheets_calls_return_witness:
  "map_option (\<lambda>s. (th_at s 0, th_at s 1, th_made s)) (run_next [0, 1, 0, 0, 0, 0, 1, 1, 1, 1, 0] no_client)
     = Some (Returned 0, Returned 0, 1)"
proof -
  obtain s where s: "run_next [0, 1, 0, 0, 0, 0, 1, 1, 1, 1, 0] no_client = Some s" "next_state 0 s = None" "next_state 1 s = None"
    by (simp add: next_state_def no_client_def)
  from s(2,3) have "\<forall>t\<in>{0, 1}. \<forall>s'. \<not> sheets_step t s s'" by (simp add: step_iff_next)
  with sheets_calls_return [OF _ run_next_run [OF s(1)], of "{0, 1}"] s(1) show ?thesis by simp
qed

section \<open>Connecting\<close>

text \<open>A URL of the form that production uses, and characters that leave its parts as they are.\<close>

definition cloud_url :: "string \<Rightarrow> string \<Rightarrow> string \<Rightarrow> string \<Rightarrow> string" where
  "cloud_url instance_name user password database =
     ''postgresql+asyncpg://'' @ user @ '':'' @ password @ ''@/'' @ database @ ''?host=/cloudsql/'' @ instance_name"

definition plain_in :: "string \<Rightarrow> string \<Rightarrow> bool" where
  "plain_in special t \<longleftrightarrow> list_all (\<lambda>c. (of_char c :: nat) > 32 \<and> c \<notin> set special) t"

lemma plain_not: "plain_in special t \<Longrightarrow> c \<in> set special \<Longrightarrow> c \<notin> set t"
  by (auto simp: plain_in_def list_all_iff)

lemma plain_controls:
  "plain_in special t \<Longrightarrow> filter (\<lambda>c. c \<noteq> CHR 0x09 \<and> c \<noteq> CHR 0x0A \<and> c \<noteq> CHR 0x0D) t = t"
  unfolding plain_in_def by (induction t) auto

lemma stop_at: "list_all P a \<Longrightarrow> \<not> P x \<Longrightarrow> takeWhile P (a @ x # b) = a \<and> dropWhile P (a @ x # b) = x # b"
  by (induction a) simp_all

definition url_special :: string where
  "url_special = ''/?#[]@''"

lemma urlsplit_cloud_url:
  assumes "plain_in (url_special @ '':'') user" "plain_in url_special password" "plain_in ''?#/'' database"
    and "plain_in ''#&+%'' instance_name"
  shows "urlsplit ip_ok (cloud_url instance_name user password database) =
    Inr \<lparr>us_scheme = ''postgresql+asyncpg'', us_netloc = user @ '':'' @ password @ ''@'', us_path = CHR ''/'' # database,
         us_query = ''host=/cloudsql/'' @ instance_name, us_fragment = []\<rparr>"
proof -
  let ?rest = "''//'' @ user @ '':'' @ password @ ''@/'' @ database @ ''?host=/cloudsql/'' @ instance_name"
  let ?net = "user @ '':'' @ password @ ''@''"
  let ?tail = "''/'' @ database @ ''?host=/cloudsql/'' @ instance_name"
  have clean: "clean_url (cloud_url instance_name user password database) = ''postgresql+asyncpg:'' @ ?rest"
    unfolding clean_url_def cloud_url_def by (simp add: assms [THEN plain_controls])
  have scheme: "split_scheme (''postgresql+asyncpg:'' @ ?rest) = (''postgresql+asyncpg'', ?rest)"
    using cut_at_first [of "CHR '':''" "''postgresql+asyncpg''" ?rest]
    by (simp add: split_scheme_def scheme_char_def is_letter_def is_digit_def lower_def lower_char_def)
  have net: "split_netloc ?rest = (?net, ?tail)"
  proof -
    let ?go = "\<lambda>c. \<not> c \<in> {CHR ''/'', CHR ''?'', CHR ''#''}"
    have "list_all ?go user" "list_all ?go password"
      using assms(1,2) unfolding plain_in_def url_special_def by (auto elim!: list.pred_mono_strong)
    then have "list_all ?go ?net" by simp
    from stop_at [OF this, of "CHR ''/''" "database @ ''?host=/cloudsql/'' @ instance_name"]
    show ?thesis by (simp add: split_netloc_def starts_with_def)
  qed
  have valid: "netloc_valid ip_ok ?net"
    using plain_not [OF assms(1)] plain_not [OF assms(2)] by (simp add: netloc_valid_def url_special_def)
  have frag: "cut_at CHR ''#'' ?tail = (?tail, None)"
    using plain_not [OF assms(3)] plain_not [OF assms(4)] by (intro cut_at_none) simp
  have query: "cut_at CHR ''?'' ?tail = (CHR ''/'' # database, Some (''host=/cloudsql/'' @ instance_name))"
    using cut_at_first [of "CHR ''?''" "CHR ''/'' # database" "''host=/cloudsql/'' @ instance_name"] plain_not [OF assms(3)] by simp
  show ?thesis unfolding urlsplit_def clean scheme net split prod.case using valid frag query by simp
qed

lemma cloud_host:
  assumes "plain_in ''#&+%'' instance_name"
  shows "first_field ''host'' (''host=/cloudsql/'' @ instance_name) = ''/cloudsql/'' @ instance_name"
proof -
  have "split_on CHR ''&'' (''host=/cloudsql/'' @ instance_name) = [''host=/cloudsql/'' @ instance_name]"
    using plain_not [OF assms] by (intro split_on_none) simp
  moreover have "cut_at CHR ''='' (''host=/cloudsql/'' @ instance_name) = (''host'', Some (''/cloudsql/'' @ instance_name))"
    using cut_at_first [of "CHR ''=''" "''host''" "''/cloudsql/'' @ instance_name"] by simp
  moreover have "decode_field (''/cloudsql/'' @ instance_name) = ''/cloudsql/'' @ instance_name"
    using plain_not [OF assms] by (intro decode_plain) simp_all
  moreover have "decode_field ''host'' = ''host''" by (intro decode_plain) simp_all
  ultimately show ?thesis by (simp add: first_field_def parse_qsl_def map_filter_simps)
qed

lemma parse_cloud_url:
  assumes "plain_in (url_special @ '':'') user" "plain_in url_special password" "plain_in ''?#/'' database"
    and "plain_in ''#&+%'' instance_name"
  shows "is_cloud_sql_url W (cloud_url instance_name user password database) = Inr True"
    "parse_cloud_sql_url W (cloud_url instance_name user password database) = Inr (instance_name, user, password, database)"
proof -
  note split = urlsplit_cloud_url [OF assms, of "wr_ip W"]
  show "is_cloud_sql_url W (cloud_url instance_name user password database) = Inr True"
    unfolding is_cloud_sql_url_def split using cloud_host [OF assms(4)] by (simp add: starts_with_def)
  have user: "userinfo \<lparr>us_scheme = a, us_netloc = user @ '':'' @ password @ ''@'', us_path = b, us_query = q, us_fragment = f\<rparr>
      = (Some user, Some password)" for a b q f
    using cut_at_last_here [of "CHR ''@''" "[]" "user @ '':'' @ password"] cut_at_first [of "CHR '':''" user password]
      plain_not [OF assms(1)] by (simp add: userinfo_def)
  have "dropWhile (\<lambda>c. c = CHR ''/'') (CHR ''/'' # database) = database"
    using plain_not [OF assms(3), of "CHR ''/''"] by (cases database) auto
  then show "parse_cloud_sql_url W (cloud_url instance_name user password database) = Inr (instance_name, user, password, database)"
    unfolding parse_cloud_sql_url_def split using cloud_host [OF assms(4)] user
    by (simp add: remove_prefix_def starts_with_def text_or_empty_def)
qed

text \<open>
  C32. With the URL that production uses, the start of the application connects every later request
  to the instance, as the user, with the password and to the database that the URL names; a request
  before the start fails. The password reaches the connector as it is written, also where it is
  percent-encoded.
\<close>

theorem cloud_sql_connects:
  assumes "plain_in (url_special @ '':'') user" "plain_in url_special password" "plain_in ''?#/'' database"
    and "plain_in ''#&+%'' instance_name"
    and "wr_use_postgres W" "wr_database_url W = Some (cloud_url instance_name user password database)" "wr_connector W = Inr ()"
  shows "fst (get_db W fresh_process) = Inl RuntimeError
    \<and> (\<exists>p. lifespan_start W d fresh_process = (Inr (), p)
        \<and> pr_setup_required p = check_and_set_setup_required d
        \<and> get_db W p = (Inr (Some (ConnectorEngine instance_name user password database)), p))"
proof -
  note parsed = parse_cloud_url [OF assms(1-4), of W]
  have url: "truthy (Some (cloud_url instance_name user password database))" by (simp add: truthy_def cloud_url_def)
  have "fst (get_db W fresh_process) = Inl RuntimeError"
    using url by (simp add: get_db_def get_session_factory_def get_engine_def fresh_process_def assms(5,6) parsed)
  moreover have "init_async_engine W (cloud_url instance_name user password database) fresh_process
      = (Inr (), fresh_process\<lparr>pr_connector := True, pr_engine := Some (ConnectorEngine instance_name user password database)\<rparr>)"
    by (simp add: init_async_engine_def fresh_process_def parsed assms(7))
  moreover have "pr_factory fresh_process = None" by (simp add: fresh_process_def)
  ultimately show ?thesis
    using url by (simp add: lifespan_start_def assms(5,6) parsed get_session_factory_def get_engine_def get_db_def)
qed

theorem cloud_sql_connects_witness:
  "fst (get_db \<lparr>wr_use_postgres = True, wr_database_url = Some (cloud_url ''p:r:i'' ''app'' ''a%40b'' ''logs''),
      wr_connector = Inr (), wr_engine = (\<lambda>u. Inr ()), wr_ip = (\<lambda>h. False)\<rparr> fresh_process) = Inl RuntimeError"
  by (rule cloud_sql_connects [THEN conjunct1]) (simp_all add: plain_in_def url_special_def)

end
