(* ===== verification/Shell.thy ===== *)
theory Shell
  imports Wiring
begin

text \<open>
  What surrounds every request in \<^verbatim>\<open>app/main.py\<close> and \<^verbatim>\<open>routers/health.py\<close>: redaction of keys in the
  log, the middleware with its order, the page for refused requests, and the probes; and the smoke
  test of \<^verbatim>\<open>scripts/smoke_test_postgres.py\<close>. Texts are ASCII.
\<close>

section \<open>The log\<close>

text \<open>The pattern \<open>((?:\?|&)key=)[^&\s"']+\<close>, replaced by its group and \<open>REDACTED\<close>.\<close>

definition value_char :: "char \<Rightarrow> bool" where
  "value_char c \<longleftrightarrow> c \<noteq> CHR ''&'' \<and> c \<noteq> CHR 0x22 \<and> c \<noteq> CHR 0x27 \<and> \<not> py_space c"

definition key_at :: "string \<Rightarrow> bool" where
  "key_at t \<longleftrightarrow> starts_with ''?key='' t \<or> starts_with ''&key='' t"

function redact :: "string \<Rightarrow> string" where
  "redact [] = []"
| "redact (c # s) =
     (if key_at (c # s) \<and> takeWhile value_char (drop 4 s) \<noteq> []
      then c # ''key=REDACTED'' @ redact (dropWhile value_char (drop 4 s))
      else c # redact s)"
  by pat_completeness auto
termination
proof (relation "measure length")
  fix c s assume "key_at (c # s) \<and> takeWhile value_char (drop 4 s) \<noteq> []"
  have "length (dropWhile value_char (drop 4 s)) \<le> length s" by (metis dropWhile_length le_trans length_drop diff_le_self)
  then show "(dropWhile value_char (drop 4 s), c # s) \<in> measure length" by simp
qed simp_all

declare redact.simps(2) [simp del]

record log_record =
  lr_msg :: string
  lr_args :: "string list"

definition redact_filter :: "log_record \<Rightarrow> bool \<times> log_record" where
  "redact_filter r = (True, r\<lparr>lr_msg := redact (lr_msg r)\<rparr>)"

text \<open>\<open>msg % args\<close> for \<open>%s\<close> and \<open>%d\<close> with the texts of the arguments; \<open>None\<close> where it raises.\<close>

fun percent_format :: "string \<Rightarrow> string list \<Rightarrow> string option" where
  "percent_format [] args = (if args = [] then Some [] else None)"
| "percent_format [c] args = (if c = CHR ''%'' \<or> args \<noteq> [] then None else Some [c])"
| "percent_format (c # d # s) args =
     (if c \<noteq> CHR ''%'' then map_option (\<lambda>t. c # t) (percent_format (d # s) args)
      else if d = CHR ''%'' then map_option (\<lambda>t. CHR ''%'' # t) (percent_format s args)
      else if d = CHR ''s'' \<or> d = CHR ''d''
      then (case args of [] \<Rightarrow> None | a # as \<Rightarrow> map_option (\<lambda>t. a @ t) (percent_format s as))
      else None)"

definition get_message :: "log_record \<Rightarrow> string option" where
  "get_message r = (if lr_args r = [] then Some (lr_msg r) else percent_format (lr_msg r) (lr_args r))"

section \<open>Answers\<close>

text \<open>The body of an answer: of the application, a detail, or the page for refused requests.\<close>

datatype 'a body = Content 'a | Detail string | AccessDeniedPage | SetupBody

record 'a response =
  rs_status :: nat
  rs_body :: "'a body"
  rs_headers :: "(string \<times> string) list"

text \<open>Exceptions of a handler: the 403 handler answers with a page, the others keep the detail.\<close>

definition forbidden_handler :: "'a response" where
  "forbidden_handler = \<lparr>rs_status = 403, rs_body = AccessDeniedPage, rs_headers = []\<rparr>"

text \<open>An exception that is no \<open>HTTPException\<close> is raised through the middleware.\<close>

datatype 'a outcome = Sent "'a response" | Raised

definition handled :: "nat \<Rightarrow> 'a res \<Rightarrow> 'a outcome" where
  "handled ok r =
     (case r of
        Inr x \<Rightarrow> Sent \<lparr>rs_status = ok, rs_body = Content x, rs_headers = []\<rparr>
      | Inl (HTTPException c d) \<Rightarrow>
          Sent (if c = 403 then forbidden_handler else \<lparr>rs_status = c, rs_body = Detail d, rs_headers = []\<rparr>)
      | Inl _ \<Rightarrow> Raised)"

definition set_header :: "string \<Rightarrow> string \<Rightarrow> 'a response \<Rightarrow> 'a response" where
  "set_header k v r = r\<lparr>rs_headers := filter (\<lambda>(n, w). n \<noteq> k) (rs_headers r) @ [(k, v)]\<rparr>"

definition security_headers_middleware :: "'a response \<Rightarrow> 'a response" where
  "security_headers_middleware r =
     set_header ''X-XSS-Protection'' ''0''
       (set_header ''Referrer-Policy'' ''strict-origin-when-cross-origin''
         (set_header ''X-Frame-Options'' ''SAMEORIGIN''
           (set_header ''X-Content-Type-Options'' ''nosniff'' r)))"

text \<open>
  The setup guard was added last and comes first, then the security headers. Outside of production
  the CORS middleware of Starlette stands between them. What is raised ends in a plain 500.
\<close>

definition through :: "('a response \<Rightarrow> 'a response) \<Rightarrow> 'a outcome \<Rightarrow> 'a outcome" where
  "through f out = (case out of Sent r \<Rightarrow> Sent (f r) | Raised \<Rightarrow> Raised)"

definition server_error :: "'a outcome \<Rightarrow> 'a response" where
  "server_error out =
     (case out of Sent r \<Rightarrow> r | Raised \<Rightarrow> \<lparr>rs_status = 500, rs_body = Detail ''Internal Server Error'', rs_headers = []\<rparr>)"

definition serve ::
  "nat \<Rightarrow> string \<Rightarrow> string \<Rightarrow> (bool \<times> session \<Rightarrow> 'a res \<times> bool \<times> session) \<Rightarrow> bool \<times> session \<Rightarrow> 'a response \<times> bool \<times> session" where
  "serve ok verb path app fs =
     (case setup_guard_middleware verb path
             (\<lambda>fs. case app fs of (r, fs) \<Rightarrow> (through security_headers_middleware (handled ok r), fs)) fs of
        (SetupRequired, fs) \<Rightarrow> (\<lparr>rs_status = 503, rs_body = SetupBody, rs_headers = []\<rparr>, fs)
      | (Answer out, fs) \<Rightarrow> (server_error out, fs))"

definition livez :: "string response" where
  "livez = \<lparr>rs_status = 200, rs_body = Content ''ok'', rs_headers = []\<rparr>"

definition readyz :: "string response" where
  "readyz = \<lparr>rs_status = 200, rs_body = Content ''ok'', rs_headers = []\<rparr>"

definition health :: "string response" where
  "health = \<lparr>rs_status = 200, rs_body = Content ''ok'', rs_headers = []\<rparr>"

section \<open>Redaction\<close>

text \<open>Every key parameter of a text is empty or redacted.\<close>

fun keys_hidden :: "string \<Rightarrow> bool" where
  "keys_hidden [] = True"
| "keys_hidden (c # s) \<longleftrightarrow>
     (key_at (c # s) \<longrightarrow> takeWhile value_char (drop 4 s) \<in> {[], ''REDACTED''}) \<and> keys_hidden s"

lemma key_at_Cons: "key_at (c # s) \<longleftrightarrow> (c = CHR ''?'' \<or> c = CHR ''&'') \<and> starts_with ''key='' s"
  by (auto simp: key_at_def starts_with_def)

lemma redact_head: "redact s = [] \<and> s = [] \<or> redact s \<noteq> [] \<and> s \<noteq> [] \<and> hd (redact s) = hd s"
  by (cases s) (simp_all add: redact.simps(2))

lemma redact_takeWhile_Nil: "takeWhile value_char (redact s) = [] \<longleftrightarrow> takeWhile value_char s = []"
  using redact_head [of s] by (cases s; cases "redact s") auto

lemma redact_literal:
  "c \<noteq> CHR ''?'' \<Longrightarrow> c \<noteq> CHR ''&'' \<Longrightarrow> redact (c # s) = c # redact s"
  by (simp add: key_at_Cons redact.simps(2))

lemma redact_prefix:
  "list_all (\<lambda>c. c \<noteq> CHR ''?'' \<and> c \<noteq> CHR ''&'') w \<Longrightarrow> redact (w @ s) = w @ redact s"
  by (induction w) (simp_all add: redact_literal)

lemma redact_reveals_prefix:
  "list_all (\<lambda>c. c \<noteq> CHR ''?'' \<and> c \<noteq> CHR ''&'') w \<Longrightarrow> starts_with w (redact s) \<Longrightarrow> starts_with w s"
proof (induction w arbitrary: s)
  case (Cons c w)
  from Cons.prems(2) have "redact s \<noteq> []" "hd (redact s) = c"
    by (cases "redact s"; simp add: starts_with_def)+
  with redact_head [of s] obtain s' where s: "s = c # s'" by (metis list.collapse)
  with Cons.prems(1) have "redact s = c # redact s'" by (simp add: s redact_literal)
  with Cons show ?case by (simp add: starts_with_def s)
qed (simp add: starts_with_def)

lemma starts_with_drop: "starts_with w s \<Longrightarrow> s = w @ drop (length w) s"
  unfolding starts_with_def by (metis append_take_drop_id)

lemma value_redacted: "list_all value_char ''REDACTED''"
  by (simp add: value_char_def py_space_def)

lemma takeWhile_redacted:
  "takeWhile value_char (''REDACTED'' @ redact (dropWhile value_char s)) = ''REDACTED''"
proof -
  have "takeWhile value_char (redact (dropWhile value_char s)) = []"
    unfolding redact_takeWhile_Nil by (induction s) auto
  moreover have "takeWhile value_char (''REDACTED'' @ r) = ''REDACTED'' @ takeWhile value_char r" for r
    by (rule takeWhile_append2) (use value_redacted [unfolded list_all_iff] in blast)
  ultimately show ?thesis by simp
qed

lemma keys_hidden_literal:
  "list_all (\<lambda>c. c \<noteq> CHR ''?'' \<and> c \<noteq> CHR ''&'') w \<Longrightarrow> keys_hidden (w @ s) = keys_hidden s"
  by (induction w) (simp_all add: key_at_Cons)

text \<open>
  C34. No key passes through a message text: after the filter every \<open>key\<close> parameter in it is empty or
  the word \<open>REDACTED\<close>, and a text without any is left as it is.
\<close>

theorem redact_hides_keys: "keys_hidden (redact t) \<and> (keys_hidden t \<longrightarrow> redact t = t)"
proof
  show "keys_hidden (redact t)"
  proof (induction t rule: redact.induct)
    case 1 then show ?case by simp
  next
    case (2 c s)
    show ?case
    proof (cases "key_at (c # s) \<and> takeWhile value_char (drop 4 s) \<noteq> []")
      case True
      let ?rest = "redact (dropWhile value_char (drop 4 s))"
      have "keys_hidden (''key=REDACTED'' @ ?rest)"
        using "2.IH"(1) [OF True] keys_hidden_literal [of "''key=REDACTED''" ?rest] by simp
      moreover have "takeWhile value_char (drop 4 (''key=REDACTED'' @ ?rest)) = ''REDACTED''"
        using takeWhile_redacted [of "drop 4 s"] by simp
      ultimately show ?thesis unfolding redact.simps if_P [OF True] keys_hidden.simps by simp
    next
      case False
      have "takeWhile value_char (drop 4 (redact s)) = []" if "key_at (c # redact s)"
      proof -
        have k: "starts_with ''key='' s"
          by (rule redact_reveals_prefix) (use that in \<open>simp_all add: key_at_Cons\<close>)
        with that False have none: "takeWhile value_char (drop 4 s) = []" by (simp add: key_at_Cons)
        have "redact s = redact (''key='' @ drop (length ''key='') s)" by (rule arg_cong [OF starts_with_drop [OF k]])
        also have "\<dots> = ''key='' @ redact (drop (length ''key='') s)" by (rule redact_prefix) simp
        finally have "drop 4 (redact s) = redact (drop 4 s)" by (simp add: numeral_eq_Suc)
        with none show ?thesis by (simp add: redact_takeWhile_Nil)
      qed
      then show ?thesis using "2.IH"(2) [OF False] unfolding redact.simps if_not_P [OF False] by simp
    qed
  qed
  show "keys_hidden t \<longrightarrow> redact t = t"
  proof (induction t rule: redact.induct)
    case 1 then show ?case by simp
  next
    case (2 c s)
    show ?case
    proof (cases "key_at (c # s) \<and> takeWhile value_char (drop 4 s) \<noteq> []")
      case True
      show ?thesis
      proof
        assume hidden: "keys_hidden (c # s)"
        then have v: "takeWhile value_char (drop 4 s) = ''REDACTED''" using True by simp
        have k: "starts_with ''key='' s" using True by (simp add: key_at_Cons)
        have s: "s = ''key=REDACTED'' @ dropWhile value_char (drop 4 s)"
          using starts_with_drop [OF k] v takeWhile_dropWhile_id [of value_char "drop 4 s"]
          by (simp add: numeral_eq_Suc)
        have "keys_hidden s" using hidden by simp
        also have "keys_hidden s = keys_hidden (''key=REDACTED'' @ dropWhile value_char (drop 4 s))" by (rule arg_cong [OF s])
        also have "\<dots> = keys_hidden (dropWhile value_char (drop 4 s))" by (rule keys_hidden_literal) simp
        finally have "keys_hidden (dropWhile value_char (drop 4 s))" .
        then have "redact (dropWhile value_char (drop 4 s)) = dropWhile value_char (drop 4 s)" using "2.IH"(1) [OF True] by simp
        then show "redact (c # s) = c # s" unfolding redact.simps if_P [OF True] using s by simp
      qed
    next
      case False
      then show ?thesis using "2.IH"(2) [OF False] unfolding redact.simps if_not_P [OF False] by simp
    qed
  qed
qed

theorem redact_hides_keys_witness:
  "redact ''/m?key=REDACTED&x=1'' = ''/m?key=REDACTED&x=1'' \<and> keys_hidden (redact ''/m?key=abc&key=d e'')"
proof -
  have "keys_hidden ''/m?key=REDACTED&x=1''"
    by (simp add: key_at_Cons starts_with_def value_char_def py_space_def)
  with redact_hides_keys [of "''/m?key=REDACTED&x=1''"] redact_hides_keys [of "''/m?key=abc&key=d e''"]
  show ?thesis by blast
qed

text \<open>
  The key of the language model is logged all the same: the HTTP client passes the URL as an
  argument of its message, which the filter does not look at.
\<close>

definition http_log :: "string \<Rightarrow> log_record" where
  "http_log url = \<lparr>lr_msg = ''HTTP Request: %s %s'', lr_args = [''POST'', url]\<rparr>"

theorem key_is_logged:
  "get_message (snd (redact_filter (http_log (url @ ''?key='' @ key)))) = Some (''HTTP Request: POST '' @ url @ ''?key='' @ key)"
  by (simp add: redact_filter_def http_log_def get_message_def redact.simps(2) key_at_Cons starts_with_def)

section \<open>Headers and refusals\<close>

lemma map_of_set_header: "map_of (rs_headers (set_header k v r)) n = (if n = k then Some v else map_of (rs_headers r) n)"
proof -
  have "map_of (filter (\<lambda>(m, w). m \<noteq> k) hs) n = (if n = k then None else map_of hs n)" for hs :: "(string \<times> string) list"
    by (induction hs) auto
  then show ?thesis by (simp add: set_header_def map_add_def split: option.split)
qed

lemma body_kept: "rs_status (security_headers_middleware r) = rs_status r \<and> rs_body (security_headers_middleware r) = rs_body r"
  by (simp add: security_headers_middleware_def set_header_def)

text \<open>
  Every answer that a handler gives, also to an \<open>HTTPException\<close>, carries the four headers; the answer
  of the setup guard and a plain 500 do not. A refusal is always the page, whatever its detail.
\<close>

theorem headers_of_answers:
  "map (map_of (rs_headers (fst (serve ok verb path app fs))))
     [''X-Content-Type-Options'', ''X-Frame-Options'', ''Referrer-Policy'', ''X-XSS-Protection''] =
   (if (fst fs \<and> \<not> setup_whitelisted verb path) \<or> handled ok (fst (app fs)) = Raised then [None, None, None, None]
    else [Some ''nosniff'', Some ''SAMEORIGIN'', Some ''strict-origin-when-cross-origin'', Some ''0''])"
proof -
  obtain r fs' where app: "app fs = (r, fs')" by (cases "app fs")
  show ?thesis
    by (cases "handled ok r")
      (simp_all add: serve_def setup_guard_middleware_def through_def server_error_def app security_headers_middleware_def
        map_of_set_header)
qed

theorem refusals_are_a_page:
  assumes "ok \<noteq> 403" "\<not> fst fs" "fst (app fs) = Inl (HTTPException c detail)"
  shows "rs_status (fst (serve ok verb path app fs)) = c
    \<and> rs_body (fst (serve ok verb path app fs)) = (if c = 403 then AccessDeniedPage else Detail detail)"
proof -
  obtain r fs' where app: "app fs = (r, fs')" by (cases "app fs")
  with assms show ?thesis
    by (simp add: serve_def setup_guard_middleware_def through_def server_error_def handled_def forbidden_handler_def body_kept)
qed

section \<open>The smoke test\<close>

text \<open>The exit code, and what is printed: the five repositories with the number of rows they list.\<close>

definition smoke_lists :: "conversions \<Rightarrow> session \<Rightarrow> (string \<times> dict list) list" where
  "smoke_lists C s = [(''SqlBrewLogRepo'', brew_list C s), (''SqlCatalogRepo'', catalog_list s),
     (''SqlInventoryRepo'', inventory_list (Some ''Active'') s), (''SqlHardwareRepo'', hardware_list None s),
     (''SqlMaintenanceRepo'', maintenance_list C None s)]"

definition smoke_test :: "conversions \<Rightarrow> string option \<Rightarrow> database \<Rightarrow> nat \<times> (string \<times> nat) list" where
  "smoke_test C database_url d =
     (if \<not> truthy database_url then (2, [])
      else (0, map (\<lambda>(name, rows). (name, length rows)) (smoke_lists C (open_session d))))"

text \<open>Without a household the policy shows no row: the test passes on every database with five zeros.\<close>

theorem smoke_test_sees_nothing:
  "snd (smoke_test C database_url d) = (if truthy database_url then map (\<lambda>(name, rows). (name, 0)) (smoke_lists C (open_session d)) else [])"
  by (simp add: smoke_test_def smoke_lists_def brew_list_def catalog_list_def inventory_list_def hardware_list_def
      maintenance_list_def visible_catalog_def visible_inventory_def visible_hardware_def visible_maintenance_def
      current_household_id_def rls_pass_def open_session_def)

end
