(* ===== verification/Spec2Isabelle.thy ===== *)
theory Spec2Isabelle
  imports HouseholdAccess BrewViews CatalogProps AppStart ImportProps GoogleAuth Config SheetsClient Validation
    ImportWizard Reconcile TestSupport SchemaModels SchemaRuns PageMeta Shell
begin

text \<open>
  A verification library for the backend of espresso-logs, the Python application under
  \<^verbatim>\<open>src/app\<close> and its scripts under \<^verbatim>\<open>src/scripts\<close>. Households share a log of espresso shots with
  the catalog of beans, the bags in stock, the hardware and its maintenance. Users belong to
  households as admins or members, guests read one household by a link. The rows live in Postgres
  under row-level security; a Google spreadsheet is the former store, now an archive that is read
  when Postgres is switched off, and the source of imports and of a migration.

  \<^bold>\<open>Parts and theories.\<close> Each theory models the files named, with one definition per function of
  the source, composed as the source composes them.

  \<^item> Foundations. \<open>Prelude\<close>: values, errors as sums, the parts of Python strings and of SQL idioms
    that the sources use. \<open>Models\<close>: a record per ORM class of \<^verbatim>\<open>app/models\<close>, the database as a
    record of tables, sessions with commit, rollback and the transaction-local household setting,
    and the policy of migration 0014 as \<open>rls_pass\<close>. \<open>ImportState\<close>: the rows and the state of an import,
    which the table of import sessions keeps. \<open>Ids\<close>: \<^verbatim>\<open>services/ids.py\<close>. \<open>Interfaces\<close>: the
    contracts as locales: a system of requests with an invariant, a generator of fresh
    identifiers, a simulation.
  \<^item> Accounts. \<open>UserRepo\<close>, \<open>RefreshTokens\<close>: \<^verbatim>\<open>repos/sql/user.py\<close>, \<^verbatim>\<open>refresh_tokens.py\<close>.
    \<open>AuthService\<close>: \<^verbatim>\<open>services/auth.py\<close>, \<^verbatim>\<open>core/link_tokens.py\<close>. \<open>ApiAuth\<close>: \<^verbatim>\<open>routers/api_auth.py\<close>.
    \<open>GoogleAuth\<close>: \<^verbatim>\<open>app/auth.py\<close>. \<open>AuthInv\<close>, \<open>AuthProps\<close>: invariants over all sequences of requests
    and the behaviour of each.
  \<^item> Households. \<open>HouseholdRepo\<close>: \<^verbatim>\<open>repos/sql/household.py\<close>. \<open>Deps\<close>: users, memberships and guests of a
    request (\<^verbatim>\<open>app/deps.py\<close>). \<open>ApiHouseholds\<close>: \<^verbatim>\<open>routers/api_households.py\<close>. \<open>HouseholdLemmas\<close>,
    \<open>HouseholdInv\<close>, \<open>HouseholdProps\<close>, \<open>HouseholdAccess\<close>: their lemmas, invariants and properties.
  \<^item> Tenant data. \<open>BrewLogRepo\<close>, \<open>TenantRepos\<close>: \<^verbatim>\<open>repos/sql/*.py\<close>. \<open>Caches\<close>: the cache of
    \<^verbatim>\<open>repos/base.py\<close> and \<^verbatim>\<open>services/idempotency_store.py\<close>. \<open>DualWrite\<close>: the wrappers of
    \<^verbatim>\<open>app/deps.py\<close> that choose between Postgres and the sheet. \<open>BrewStore\<close>: the brew-log repository
    as a refinement of a map. \<open>Slices\<close>: sorted and paged lists.
  \<^item> Tenant endpoints. \<open>ApiBrewLog\<close>, \<open>BrewCreate\<close>, \<open>BrewViews\<close>: \<^verbatim>\<open>routers/api_brew_log.py\<close>.
    \<open>Inference\<close>, \<open>LlmClients\<close>: \<^verbatim>\<open>services/inference.py\<close>. \<open>ApiEquipment\<close>: hardware, maintenance and inventory.
    \<open>ApiCatalog\<close>, \<open>Images\<close>, \<open>PageMeta\<close>, \<open>CatalogProps\<close>: the catalog with its pictures and the
    product pages they come from. \<open>Defaults\<close>, \<open>ApiGuest\<close>: defaults, dashboard and guest view. \<open>Isolation\<close>, \<open>WriteIsolation\<close>: reads and writes of all of
    them stay in the household of the request (the theorems stand in \<open>CatalogProps\<close>).
  \<^item> Spreadsheet. \<open>SheetsClient\<close>: \<^verbatim>\<open>repos/sheets_client.py\<close>, \<^verbatim>\<open>testing/fake_sheets.py\<close> and the writes
    of \<^verbatim>\<open>repos/*.py\<close>. \<open>Importer\<close>, \<open>ImportProps\<close>: \<^verbatim>\<open>services/importer.py\<close>. \<open>ImportWizard\<close>:
    \<^verbatim>\<open>routers/import_wizard.py\<close>. \<open>SheetsMapping\<close>, \<open>Migration\<close>, \<open>Validation\<close>, \<open>Reconcile\<close>: the scripts.
  \<^item> Schema. \<open>Schema\<close>: a catalogue of tables with rows and the statements that migrations use.
    \<open>Revisions\<close>: \<^verbatim>\<open>alembic/versions\<close> and the runs of \<^verbatim>\<open>alembic/env.py\<close>. \<open>SchemaProps\<close>,
    \<open>SchemaModels\<close>, \<open>SchemaRuns\<close>: the schema they end in, that its keys and references are the checks
    and cascades of the models, what is taken back exactly and what rows refuse.
  \<^item> Operation. \<open>Config\<close>: \<^verbatim>\<open>app/config.py\<close>. \<open>AppStart\<close>: \<^verbatim>\<open>app/main.py\<close> and \<^verbatim>\<open>setup_guard.py\<close>.
    \<open>TestSupport\<close>: \<^verbatim>\<open>routers/api_e2e.py\<close>. \<open>Urls\<close>, \<open>Wiring\<close>: engine and sessions of
    \<^verbatim>\<open>models/base.py\<close>, start and stop, the singletons of \<^verbatim>\<open>app/deps.py\<close>. \<open>Shell\<close>: log redaction,
    middleware, error pages, probes, the smoke test.

  \<^bold>\<open>State and operations.\<close> A request is a function from a session to a result and a session; what
  it leaves is \<open>after_request\<close>, the committed database. An exception is a value of \<open>err\<close>, and an
  exception that leaves a handler discards the open work. \<open>app_step\<close> and the other step functions
  run requests one after the other on the committed database, so interleavings are sequences of
  whole requests. Policy, unique columns and foreign keys are checked where a statement can
  violate them; the \<open>CHECK\<close> constraints on roles and statuses hold by the
  types of the models. The Sheets client works on an abstract spreadsheet together with a list of
  answers, which may refuse a call or lose its answer after it took effect.

  \<^bold>\<open>What the lemmas show.\<close>

  \<^item> Isolation: reads depend on, and writes change, rows of the own household only.
  \<^item> Invariants of all reachable states: constraints of the schema, an admin in every household,
    at most ten members, single use of refresh tokens, invitations and sign-in states.
  \<^item> Behaviour: what each writing request commits, or that it commits nothing; refinement of the
    brew log to a map; pages that make up the whole log.
  \<^item> Round trips: display tokens over a key rotation, the sections of an exported CSV file, saved
    states of the wizard.
  \<^item> The migration moves every accepted row, can be repeated, and is recognised by its validation
    where the rows can be seen. The schema migrations end in the unique keys, the references and the
    policy that the models check and carry out, and revisions that only add are taken back exactly. The retry loop ends, and an
    appended row is written at most once.
  \<^item> The process: one spreadsheet client for all threads and no deadlock, sessions over the engine that
    the URL names, a text of the providers in every completion, no key in a message text.
  \<^item> Defects that follow from the model are theorems as well, among them: the startup backfill and
    the reconciliation have no effect under row-level security, and a shot of another household
    can block creations.

  \<^bold>\<open>Bounds and loops.\<close> One run has fuel, up the chain of revisions, and their number bounds it. Loops
  over lists are structural; the search for a free identifier, \<open>LIKE\<close> and the log filter terminate by
  a measure; the retry loops count their attempts; schedules of threads are shown to be bounded.
  Widths matter in one place, the integer columns of the brew log, whose range \<open>fit_int\<close> checks.

  \<^bold>\<open>Parameters.\<close> Code outside the repository is an argument: hashing, signing and encryption
  (\<open>externals\<close>), number, date and uuid conversions (\<open>conversions\<close>, \<open>mapping_conversions\<close>,
  \<open>coercions\<close>), the JSON parser, network and language models, the exchange with Google, the
  spreadsheet service, the object store, clocks, and the uuids and random texts that are drawn.
  Hypotheses about them are documented behaviour, such as a verification that accepts what was
  hashed; the witnesses instantiate them with concrete functions.

  \<^bold>\<open>Conventions.\<close> Texts are their UTF-8 bytes, and case conversion and stripping act on ASCII.
  Instants count microseconds. Rows without an explicit order are read in the order of insertion.

  \<^bold>\<open>Not modelled.\<close> Rate limits of slowapi but for their reset; the format of log lines, static
  files, CORS of development and mounting of routers; files on the local disk beyond their names;
  the offline mode of the schema migrations; interleaving of statements of concurrent requests; an
  exception in the constructor of the sheets client, which only stores the identifier and makes locks; the
  locks of the tabs in the sheets client; the frontend.
\<close>

end
